(* ===== verification/Rust_Prelude.thy ===== *)
theory Rust_Prelude
  imports Main "HOL-Library.Word"
begin

text \<open>
  The prelude of the development: the machine integers and the checked arithmetic of the Rust
  sources, the execution type of fallible stateful code, and the two proof calculi (success
  inversion and step relations) that every component shares.

  Unsigned Rust integers are words of their width. The node and its Wasm runtime are built with
  the release profile of \<open>Cargo.toml\<close>, which leaves overflow checks off, so a plain \<open>+\<close>, \<open>-\<close> or
  \<open>*\<close> of the source is the wrapping word operation; \<open>checked_*\<close> and \<open>saturating_*\<close> are written out.
\<close>

section \<open>Machine integers\<close>

type_synonym u8 = "8 word"
type_synonym u32 = "32 word"
type_synonym u64 = "64 word"
type_synonym u128 = "128 word"
type_synonym u160 = "160 word"
type_synonym u256 = "256 word"

named_theorems checked_arith \<open>inversion of the checked operations into facts about unat\<close>

definition checked_add :: "'a::len word \<Rightarrow> 'a word \<Rightarrow> 'a word option" where
  "checked_add a b = (if unat a + unat b < 2 ^ LENGTH('a) then Some (a + b) else None)"

definition checked_sub :: "'a::len word \<Rightarrow> 'a word \<Rightarrow> 'a word option" where
  "checked_sub a b = (if b \<le> a then Some (a - b) else None)"

definition checked_mul :: "'a::len word \<Rightarrow> 'a word \<Rightarrow> 'a word option" where
  "checked_mul a b = (if unat a * unat b < 2 ^ LENGTH('a) then Some (a * b) else None)"

definition checked_div :: "'a::len word \<Rightarrow> 'a word \<Rightarrow> 'a word option" where
  "checked_div a b = (if b = 0 then None else Some (a div b))"

definition saturating_add :: "'a::len word \<Rightarrow> 'a word \<Rightarrow> 'a word" where
  "saturating_add a b = (if unat a + unat b < 2 ^ LENGTH('a) then a + b else - 1)"

definition saturating_sub :: "'a::len word \<Rightarrow> 'a word \<Rightarrow> 'a word" where
  "saturating_sub a b = (if b \<le> a then a - b else 0)"

text \<open>\<open>try_into\<close> between unsigned types: fails when the number does not fit.\<close>

definition try_into :: "'a::len word \<Rightarrow> 'b::len word option" where
  "try_into x = (if unat x < 2 ^ LENGTH('b) then Some (ucast x) else None)"

lemma unat_eq_bound: "unat c = n \<Longrightarrow> n < 2 ^ LENGTH('a)" for c :: "'a::len word"
  by (metis unsigned_less)

lemma unat_word_of_nat: "n < 2 ^ LENGTH('a) \<Longrightarrow> unat (word_of_nat n :: 'a::len word) = n"
  by (simp add: unsigned_of_nat take_bit_nat_eq_self)

lemma unat_eq_ucast: "unat a = unat b \<Longrightarrow> a = ucast b" for a :: "'a::len word" and b :: "'b::len word"
  by (metis ucast_eq word_of_int_uint uint_nat)

lemma unat_Suc_below: "i < r \<Longrightarrow> unat (i + 1) = unat i + 1" for i r :: "'a::len word"
proof -
  assume "i < r"
  then have "unat i + 1 \<le> unat r" by (simp add: word_less_nat_alt)
  also have "unat r < 2 ^ LENGTH('a)" by (rule unsigned_less)
  finally have "unat i + 1 < 2 ^ LENGTH('a)" .
  then show ?thesis by (simp add: unat_word_ariths)
qed

lemma checked_add_Some [checked_arith]:
  "checked_add a b = Some c \<longleftrightarrow> unat c = unat a + unat b" for a b c :: "'a::len word"
proof -
  have "unat a + unat b < 2 ^ LENGTH('a) \<Longrightarrow> unat (a + b) = unat a + unat b"
    by (simp add: unat_word_ariths)
  then show ?thesis
    by (auto simp: checked_add_def word_unat_eq_iff dest: unat_eq_bound)
qed

lemma checked_add_None: "checked_add a b = None \<longleftrightarrow> 2 ^ LENGTH('a) \<le> unat a + unat b"
  for a b :: "'a::len word"
  by (auto simp: checked_add_def)

lemma checked_sub_Some [checked_arith]:
  "checked_sub a b = Some c \<longleftrightarrow> unat a = unat b + unat c" for a b c :: "'a::len word"
proof
  assume "checked_sub a b = Some c"
  then have "b \<le> a" and "c = a - b" by (auto simp: checked_sub_def split: if_splits)
  then show "unat a = unat b + unat c" by (simp add: unat_sub word_le_nat_alt)
next
  assume eq: "unat a = unat b + unat c"
  then have "b \<le> a" by (simp add: word_le_nat_alt)
  moreover from this eq have "unat (a - b) = unat c" by (simp add: unat_sub)
  ultimately show "checked_sub a b = Some c"
    by (auto simp: checked_sub_def intro: unsigned_word_eqI)
qed

lemma checked_sub_None: "checked_sub a b = None \<longleftrightarrow> unat a < unat b"
  by (auto simp: checked_sub_def word_le_nat_alt)

lemma checked_mul_Some [checked_arith]:
  "checked_mul a b = Some c \<longleftrightarrow> unat c = unat a * unat b" for a b c :: "'a::len word"
proof -
  have "unat a * unat b < 2 ^ LENGTH('a) \<Longrightarrow> unat (a * b) = unat a * unat b"
    by (simp add: unat_word_ariths)
  then show ?thesis
    by (auto simp: checked_mul_def word_unat_eq_iff dest: unat_eq_bound)
qed

lemma checked_mul_None: "checked_mul a b = None \<longleftrightarrow> 2 ^ LENGTH('a) \<le> unat a * unat b"
  for a b :: "'a::len word"
  by (auto simp: checked_mul_def)

lemma checked_div_Some [checked_arith]:
  "checked_div a b = Some c \<longleftrightarrow> b \<noteq> 0 \<and> unat c = unat a div unat b"
  by (auto simp: checked_div_def unat_div word_unat_eq_iff)

lemma checked_div_None: "checked_div a b = None \<longleftrightarrow> b = 0"
  by (simp add: checked_div_def)

lemma try_into_Some [checked_arith]:
  "(try_into a :: 'b::len word option) = Some c \<longleftrightarrow> unat c = unat a"
proof -
  have "unat a < 2 ^ LENGTH('b) \<Longrightarrow> unat (ucast a :: 'b word) = unat a"
    by (simp add: unsigned_ucast_eq take_bit_nat_eq_self)
  then show ?thesis
    by (auto simp: try_into_def word_unat_eq_iff dest: unat_eq_bound)
qed

lemma try_into_None: "(try_into a :: 'b::len word option) = None \<longleftrightarrow> 2 ^ LENGTH('b) \<le> unat a"
  by (auto simp: try_into_def)

lemma try_into_widen: "LENGTH('a) \<le> LENGTH('b) \<Longrightarrow> try_into (a :: 'a::len word) = Some (ucast a :: 'b::len word)"
proof -
  assume "LENGTH('a) \<le> LENGTH('b)"
  then have "(2::nat) ^ LENGTH('a) \<le> 2 ^ LENGTH('b)" by simp
  then have "unat a < 2 ^ LENGTH('b)" by (rule less_le_trans [OF unsigned_less])
  then show ?thesis by (simp add: try_into_def)
qed

lemma unat_saturating_sub: "unat (saturating_sub a b) = unat a - unat b"
  by (auto simp: saturating_sub_def unat_sub word_le_nat_alt)

lemma unat_saturating_add:
  "unat (saturating_add a b) = min (unat a + unat b) (2 ^ LENGTH('a) - 1)" for a b :: "'a::len word"
  by (auto simp: saturating_add_def unat_word_ariths unsigned_minus_1_eq_mask mask_eq_exp_minus_1)

text \<open>All of them at once: the word of a natural number that fits the width.\<close>

definition nat_word :: "nat \<Rightarrow> 'a::len word" where
  "nat_word n = word_of_nat n"

lemma unat_nat_word [simp]: "n < 2 ^ LENGTH('a) \<Longrightarrow> unat (nat_word n :: 'a::len word) = n"
  by (simp add: nat_word_def unat_word_of_nat)

lemma nat_word_unat [simp]: "nat_word (unat w) = w"
  by (simp add: nat_word_def)

definition fit :: "nat \<Rightarrow> 'a::len word option" where
  "fit n = (if n < 2 ^ LENGTH('a) then Some (nat_word n) else None)"

named_theorems as_fit \<open>the checked operations as \<open>fit\<close> of natural numbers\<close>

lemma fit_Some: "fit n = Some c \<longleftrightarrow> unat c = n" for c :: "'a::len word"
  by (auto simp: fit_def dest: unat_eq_bound)

lemma fit_None: "(fit n :: 'a::len word option) = None \<longleftrightarrow> 2 ^ LENGTH('a) \<le> n"
  by (auto simp: fit_def)

lemma fit_bind:
  "Option.bind (fit n :: 'a::len word option) f = (if n < 2 ^ LENGTH('a) then f (nat_word n) else None)"
  by (simp add: fit_def)

lemma try_into_fit [as_fit]: "try_into a = fit (unat a)"
  by (simp add: try_into_def fit_def nat_word_def)

lemma checked_add_fit [as_fit]: "checked_add a b = fit (unat a + unat b)"
  by (simp add: checked_add_def fit_def nat_word_def)

lemma checked_mul_fit [as_fit]: "checked_mul a b = fit (unat a * unat b)"
  by (simp add: checked_mul_def fit_def nat_word_def)

lemma checked_sub_fit [as_fit]: "checked_sub a b = (if unat b \<le> unat a then fit (unat a - unat b) else None)"
proof (cases "unat b \<le> unat a")
  case True
  then have "b \<le> a" by (simp add: word_le_nat_alt)
  then have "checked_sub a b = Some (a - b)" "unat (a - b) = unat a - unat b"
    by (simp_all add: checked_sub_def unat_sub)
  with True show ?thesis by (metis fit_Some)
qed (simp add: checked_sub_None)

lemma checked_div_fit [as_fit]: "checked_div a b = (if unat b = 0 then None else fit (unat a div unat b))"
proof (cases "b = 0")
  case False
  then have "checked_div a b = Some (a div b)" "unat (a div b) = unat a div unat b"
    by (simp_all add: checked_div_def unat_div)
  with False show ?thesis by (metis fit_Some unat_eq_0)
qed (simp add: checked_div_def)

section \<open>Fallible stateful code\<close>

text \<open>
  A Rust function that reads and writes storage and returns \<open>Result<A, E>\<close> is a function from the
  state to its result (\<open>Inl\<close> the error, \<open>Inr\<close> the answer) and the new state. The state also comes
  back with an error: writes made before a \<open>?\<close> returns early stay, unless a storage transaction
  undoes them.
\<close>

type_synonym ('e, 's, 'a) exec = "'s \<Rightarrow> ('e + 'a) \<times> 's"

definition ret :: "'a \<Rightarrow> ('e, 's, 'a) exec" where
  "ret x s = (Inr x, s)"

definition throw :: "'e \<Rightarrow> ('e, 's, 'a) exec" where
  "throw e s = (Inl e, s)"

text \<open>\<open>let x = m?; f(x)\<close>\<close>

definition bindE :: "('e, 's, 'a) exec \<Rightarrow> ('a \<Rightarrow> ('e, 's, 'b) exec) \<Rightarrow> ('e, 's, 'b) exec" where
  "bindE m f s = (case m s of (Inl e, t) \<Rightarrow> (Inl e, t) | (Inr x, t) \<Rightarrow> f x t)"

text \<open>\<open>m?; k\<close>\<close>

definition thenE :: "('e, 's, 'a) exec \<Rightarrow> ('e, 's, 'b) exec \<Rightarrow> ('e, 's, 'b) exec" where
  "thenE m k = bindE m (\<lambda>_. k)"

text \<open>A block of statements, each ending in \<open>?\<close>, that ends in \<open>Ok(())\<close>.\<close>

fun block :: "('e, 's, unit) exec list \<Rightarrow> ('e, 's, unit) exec" where
  "block [] = ret ()"
| "block (m # ms) = thenE m (block ms)"

text \<open>\<open>ensure!(b, e)\<close>\<close>

definition ensure :: "bool \<Rightarrow> 'e \<Rightarrow> ('e, 's, unit) exec" where
  "ensure b e = (if b then ret () else throw e)"

definition ok_or :: "'a option \<Rightarrow> 'e \<Rightarrow> ('e, 's, 'a) exec" where
  "ok_or x e = (case x of Some a \<Rightarrow> ret a | None \<Rightarrow> throw e)"

definition gets :: "('s \<Rightarrow> 'a) \<Rightarrow> ('e, 's, 'a) exec" where
  "gets f s = (Inr (f s), s)"

definition modify :: "('s \<Rightarrow> 's) \<Rightarrow> ('e, 's, unit) exec" where
  "modify f s = (Inr (), f s)"

text \<open>
  A storage layer: \<open>#[transactional]\<close>, and the layer FRAME puts around the body of every
  dispatchable of a \<open>#[pallet::call]\<close> block. An error undoes every write of the body.
\<close>

definition transactional :: "('e, 's, 'a) exec \<Rightarrow> ('e, 's, 'a) exec" where
  "transactional m s = (case m s of (Inl e, _) \<Rightarrow> (Inl e, s) | (Inr x, t) \<Rightarrow> (Inr x, t))"

text \<open>\<open>let _ = m;\<close>: the result is dropped, the writes stay.\<close>

definition attempt :: "('e, 's, 'a) exec \<Rightarrow> ('e, 's, unit) exec" where
  "attempt m s = (Inr (), snd (m s))"

lemmas exec_defs = ret_def throw_def bindE_def thenE_def ensure_def ok_or_def gets_def modify_def
  transactional_def attempt_def

subsection \<open>Inversion of successful runs\<close>

text \<open>
  Rewriting with the collection \<open>exec_ok\<close> turns \<open>m s = (Inr x, t)\<close> for a composed \<open>m\<close> into the
  facts of its parts, so that \<open>auto\<close> reads off every guard that must have held.
\<close>

named_theorems exec_ok \<open>inversion of successful runs\<close>

lemma ret_ok [exec_ok]: "ret x s = (Inr y, t) \<longleftrightarrow> y = x \<and> t = s"
  by (auto simp: ret_def)

lemma throw_ok [exec_ok]: "throw e s = (Inr y, t) \<longleftrightarrow> False"
  by (simp add: throw_def)

lemma bindE_ok [exec_ok]:
  "bindE m f s = (Inr y, t) \<longleftrightarrow> (\<exists>x u. m s = (Inr x, u) \<and> f x u = (Inr y, t))"
  by (auto simp: bindE_def split: prod.splits sum.splits)

lemma thenE_ok [exec_ok]:
  "thenE m k s = (Inr y, t) \<longleftrightarrow> (\<exists>x u. m s = (Inr x, u) \<and> k u = (Inr y, t))"
  by (auto simp: thenE_def exec_ok)

lemma ensure_ok [exec_ok]: "ensure b e s = (Inr y, t) \<longleftrightarrow> b \<and> t = s"
  by (auto simp: ensure_def exec_ok)

lemma ok_or_ok [exec_ok]: "ok_or x e s = (Inr y, t) \<longleftrightarrow> x = Some y \<and> t = s"
  by (auto simp: ok_or_def exec_ok split: option.splits)

lemma gets_ok [exec_ok]: "gets f s = (Inr y, t) \<longleftrightarrow> y = f s \<and> t = s"
  by (auto simp: gets_def)

lemma modify_ok [exec_ok]: "modify f s = (Inr y, t) \<longleftrightarrow> t = f s"
  by (auto simp: modify_def)

lemma transactional_ok [exec_ok]: "transactional m s = (Inr y, t) \<longleftrightarrow> m s = (Inr y, t)"
  by (auto simp: transactional_def split: prod.splits sum.splits)

lemma attempt_ok [exec_ok]: "attempt m s = (Inr y, t) \<longleftrightarrow> t = snd (m s)"
  by (auto simp: attempt_def)

lemma transactional_err:
  "transactional m s = (Inl e, t) \<longleftrightarrow> t = s \<and> fst (m s) = Inl e"
  by (auto simp: transactional_def split: prod.splits sum.splits)

lemma fst_transactional [simp]: "fst (transactional m s) = fst (m s)"
  by (auto simp: transactional_def split: prod.splits sum.splits)

text \<open>
  Evaluation of a run step by step: the equations of \<open>exec_eval\<close> bring a block into the form
  "first primitive, then the rest" and run the primitive, so that \<open>simp\<close> turns the run of an
  operation into the tree of its branches.
\<close>

named_theorems exec_eval \<open>stepwise evaluation of runs\<close>

lemma primitives_eval [exec_eval]:
  "ret x s = (Inr x, s)"
  "throw e s = (Inl e, s)"
  "ensure b e s = (if b then (Inr (), s) else (Inl e, s))"
  "ok_or v e s = (case v of Some a \<Rightarrow> (Inr a, s) | None \<Rightarrow> (Inl e, s))"
  "gets f s = (Inr (f s), s)"
  "modify g s = (Inr (), g s)"
  "attempt m s = (Inr (), snd (m s))"
  by (simp_all add: exec_defs split: option.split)

lemma bindE_eval [exec_eval]:
  "bindE (ret x) f s = f x s"
  "bindE (throw e) f s = (Inl e, s)"
  "bindE (gets g) f s = f (g s) s"
  "bindE (ok_or v e) f s = (case v of Some a \<Rightarrow> f a s | None \<Rightarrow> (Inl e, s))"
  "bindE (bindE m f) h s = bindE m (\<lambda>x. bindE (f x) h) s"
  "bindE (thenE n k) f s = thenE n (bindE k f) s"
  "bindE (if b then m else m') f s = (if b then bindE m f s else bindE m' f s)"
  by (simp_all add: exec_defs split: option.split prod.split sum.split)

lemma thenE_eval [exec_eval]:
  "thenE (ret x) k s = k s"
  "thenE (throw e) k s = (Inl e, s)"
  "thenE (ensure b e) k s = (if b then k s else (Inl e, s))"
  "thenE (modify g) k s = k (g s)"
  "thenE (attempt m) k s = k (snd (m s))"
  "thenE (thenE m j) k s = thenE m (thenE j k) s"
  "thenE (bindE m f) k s = bindE m (\<lambda>x. thenE (f x) k) s"
  "thenE (block []) k s = k s"
  "thenE (block (m' # ms)) k s = thenE m' (thenE (block ms) k) s"
  "thenE (if b then n else n') k s = (if b then thenE n k s else thenE n' k s)"
  by (simp_all add: exec_defs split: prod.split sum.split)

text \<open>The run of a composed operation from the runs of its parts.\<close>

lemma bindE_run: "bindE m f s = (case m s of (Inl e, t) \<Rightarrow> (Inl e, t) | (Inr x, t) \<Rightarrow> f x t)"
  by (rule bindE_def)

lemma thenE_run: "thenE m k s = (case m s of (Inl e, t) \<Rightarrow> (Inl e, t) | (Inr x, t) \<Rightarrow> k t)"
  by (simp add: thenE_def bindE_def)

lemma transactional_run:
  "transactional m s = (case m s of (Inl e, _) \<Rightarrow> (Inl e, s) | (Inr x, t) \<Rightarrow> (Inr x, t))"
  by (rule transactional_def)

subsection \<open>Runs that move along a relation\<close>

text \<open>
  \<open>within R m\<close>: every run of \<open>m\<close>, failed or not, leads from a state to an \<open>R\<close>-related one. For a
  reflexive and transitive \<open>R\<close> this composes along the code, so a frame condition, a monotone
  quantity or (with \<open>R s t\<close> as \<open>P s \<longrightarrow> P t\<close>) an invariant is proved operation by operation.
\<close>

definition within :: "('s \<Rightarrow> 's \<Rightarrow> bool) \<Rightarrow> ('e, 's, 'a) exec \<Rightarrow> bool" where
  "within R m \<longleftrightarrow> (\<forall>s. R s (snd (m s)))"

abbreviation preserves :: "('s \<Rightarrow> bool) \<Rightarrow> ('e, 's, 'a) exec \<Rightarrow> bool" where
  "preserves P \<equiv> within (\<lambda>s t. P s \<longrightarrow> P t)"

definition preorder_rel :: "('s \<Rightarrow> 's \<Rightarrow> bool) \<Rightarrow> bool" where
  "preorder_rel R \<longleftrightarrow> (\<forall>s. R s s) \<and> (\<forall>s t u. R s t \<longrightarrow> R t u \<longrightarrow> R s u)"

lemma preorder_relI:
  "(\<And>s. R s s) \<Longrightarrow> (\<And>s t u. R s t \<Longrightarrow> R t u \<Longrightarrow> R s u) \<Longrightarrow> preorder_rel R"
  by (auto simp: preorder_rel_def)

lemma preorder_preserves [simp, intro]: "preorder_rel (\<lambda>s t. P s \<longrightarrow> P t)"
  by (auto simp: preorder_rel_def)

lemma withinD: "within R m \<Longrightarrow> m s = (r, t) \<Longrightarrow> R s t"
  by (metis within_def snd_conv)

lemma withinI: "(\<And>s r t. m s = (r, t) \<Longrightarrow> R s t) \<Longrightarrow> within R m"
  unfolding within_def by (metis surjective_pairing)

named_theorems within_intro \<open>rules for runs that move along a preorder\<close>

lemma within_ret [within_intro]: "preorder_rel R \<Longrightarrow> within R (ret x)"
  by (simp add: within_def ret_def preorder_rel_def)

lemma within_throw [within_intro]: "preorder_rel R \<Longrightarrow> within R (throw e)"
  by (simp add: within_def throw_def preorder_rel_def)

lemma within_ensure [within_intro]: "preorder_rel R \<Longrightarrow> within R (ensure b e)"
  by (simp add: ensure_def within_ret within_throw)

lemma within_ok_or [within_intro]: "preorder_rel R \<Longrightarrow> within R (ok_or x e)"
  by (simp add: ok_or_def within_ret within_throw split: option.split)

lemma within_gets [within_intro]: "preorder_rel R \<Longrightarrow> within R (gets f)"
  by (simp add: within_def gets_def preorder_rel_def)

lemma within_bindE [within_intro]:
  assumes "preorder_rel R" and m: "within R m" and f: "\<And>x. within R (f x)"
  shows "within R (bindE m f)"
proof (rule withinI)
  fix s r u assume run: "bindE m f s = (r, u)"
  obtain q t where mt: "m s = (q, t)" by fastforce
  with m have st: "R s t" by (rule withinD)
  show "R s u"
  proof (cases q)
    case (Inl e)
    with run mt st show ?thesis by (simp add: bindE_def)
  next
    case (Inr x)
    with run mt have "f x t = (r, u)" by (simp add: bindE_def)
    then have "R t u" by (rule withinD [OF f])
    with st assms(1) show ?thesis by (auto simp: preorder_rel_def)
  qed
qed

lemma within_thenE [within_intro]:
  "preorder_rel R \<Longrightarrow> within R m \<Longrightarrow> within R k \<Longrightarrow> within R (thenE m k)"
  by (simp add: thenE_def within_bindE)

lemma within_block [within_intro]:
  "preorder_rel R \<Longrightarrow> (\<And>m. m \<in> set ms \<Longrightarrow> within R m) \<Longrightarrow> within R (block ms)"
  by (induction ms) (auto intro: within_ret within_thenE)

lemma within_transactional [within_intro]:
  "preorder_rel R \<Longrightarrow> within R m \<Longrightarrow> within R (transactional m)"
  unfolding within_def transactional_def preorder_rel_def
  by (auto split: prod.splits sum.splits) (metis snd_conv)

lemma within_attempt [within_intro]: "within R m \<Longrightarrow> within R (attempt m)"
  by (simp add: within_def attempt_def)

lemma within_modify: "within R (modify f) \<longleftrightarrow> (\<forall>s. R s (f s))"
  by (simp add: within_def modify_def)

lemma within_if [within_intro]:
  "(b \<Longrightarrow> within R m) \<Longrightarrow> (\<not> b \<Longrightarrow> within R k) \<Longrightarrow> within R (if b then m else k)"
  by simp

lemma within_case_option [within_intro]:
  "within R n \<Longrightarrow> (\<And>x. v = Some x \<Longrightarrow> within R (f x)) \<Longrightarrow>
   within R (case v of None \<Rightarrow> n | Some x \<Rightarrow> f x)"
  by (simp split: option.split)

end
