(* ===== verification/Frame_Support.thy ===== *)
theory Frame_Support
  imports Rust_Prelude
begin

text \<open>
  The part of FRAME the pallets are written in: accounts and origins, dispatch errors, the world a
  pallet runs in (block number, event log, its own storage, and everything else behind
  \<open>ledger\<close>), and the storage and event primitives. The pallets \<open>pallet_balances\<close> and
  \<open>pallet_assets\<close> are third-party code: they enter as records of operations that every definition
  takes as an argument, with what their documentation promises stated as the predicate
  \<open>token_laws\<close>. \<open>zoom\<close> runs an operation of one pallet inside a bigger world; the locale \<open>lens\<close>
  holds the laws that make this sound.
\<close>

section \<open>Types of the runtime\<close>

type_synonym account_id = u256  \<comment> \<open>\<open>AccountId32\<close>\<close>
type_synonym h160 = u160
type_synonym balance = u128
type_synonym asset_id = u128
type_synonym bytes = "u8 list"

datatype arithmetic_error = Underflow | Overflow | DivisionByZero

text \<open>
  \<open>DispatchError\<close>: a pallet's own error is its index in \<open>construct_runtime!\<close> and the position of
  the variant in the pallet's \<open>Error\<close> enum; \<open>External\<close> stands for the errors of third-party pallets.
\<close>

datatype dispatch_error =
    BadOrigin
  | Arithmetic arithmetic_error
  | ModuleError nat nat
  | External nat

datatype origin = Root | Signed account_id | EthereumTransaction h160 | Unsigned

section \<open>The world of a pallet\<close>

record ('e, 'l, 's) frame =
  block_number :: u32
  events :: "'e list"
  ledger :: 'l
  store :: 's

type_synonym ('e, 'l, 's, 'a) pallet = "(dispatch_error, ('e, 'l, 's) frame, 'a) exec"

definition ensure_signed :: "origin \<Rightarrow> (dispatch_error, 'w, account_id) exec" where
  "ensure_signed o' = (case o' of Signed who \<Rightarrow> ret who | _ \<Rightarrow> throw BadOrigin)"

text \<open>\<open>EnsureOrigin::ensure_origin\<close> for a configured origin check.\<close>

definition ensure_origin :: "(origin \<Rightarrow> bool) \<Rightarrow> origin \<Rightarrow> (dispatch_error, 'w, unit) exec" where
  "ensure_origin allowed o' = ensure (allowed o') BadOrigin"

definition ensure_root :: "origin \<Rightarrow> bool" where
  "ensure_root o' \<longleftrightarrow> o' = Root"

definition now :: "('e, 'l, 's, u32) pallet" where
  "now = gets block_number"

definition read_store :: "('s \<Rightarrow> 'a) \<Rightarrow> ('e, 'l, 's, 'a) pallet" where
  "read_store f = gets (\<lambda>w. f (store w))"

definition write_store :: "('s \<Rightarrow> 's) \<Rightarrow> ('e, 'l, 's, unit) pallet" where
  "write_store g = modify (\<lambda>w. w\<lparr>store := g (store w)\<rparr>)"

definition deposit_event :: "'e \<Rightarrow> ('e, 'l, 's, unit) pallet" where
  "deposit_event ev = modify (\<lambda>w. w\<lparr>events := events w @ [ev]\<rparr>)"

text \<open>A call into third-party code, which sees and changes only its own part of the state.\<close>

definition on_ledger :: "(dispatch_error, 'l, 'a) exec \<Rightarrow> ('e, 'l, 's, 'a) pallet" where
  "on_ledger op w = (case op (ledger w) of (r, l) \<Rightarrow> (r, w\<lparr>ledger := l\<rparr>))"

lemma ensure_signed_ok [exec_ok]: "ensure_signed o' s = (Inr who, t) \<longleftrightarrow> o' = Signed who \<and> t = s"
  by (auto simp: ensure_signed_def exec_ok split: origin.splits)

lemma ensure_origin_ok [exec_ok]: "ensure_origin P o' s = (Inr u, t) \<longleftrightarrow> P o' \<and> t = s"
  by (auto simp: ensure_origin_def exec_ok)

lemma now_ok [exec_ok]: "now s = (Inr n, t) \<longleftrightarrow> n = block_number s \<and> t = s"
  by (auto simp: now_def exec_ok)

lemma read_store_ok [exec_ok]: "read_store f s = (Inr x, t) \<longleftrightarrow> x = f (store s) \<and> t = s"
  by (auto simp: read_store_def exec_ok)

lemma write_store_ok [exec_ok]:
  "write_store g s = (Inr u, t) \<longleftrightarrow> t = s\<lparr>store := g (store s)\<rparr>"
  by (auto simp: write_store_def exec_ok)

lemma deposit_event_ok [exec_ok]:
  "deposit_event ev s = (Inr u, t) \<longleftrightarrow> t = s\<lparr>events := events s @ [ev]\<rparr>"
  by (auto simp: deposit_event_def exec_ok)

lemma on_ledger_ok [exec_ok]:
  "on_ledger op s = (Inr x, t) \<longleftrightarrow> (\<exists>l. op (ledger s) = (Inr x, l) \<and> t = s\<lparr>ledger := l\<rparr>)"
  by (auto simp: on_ledger_def split: prod.splits)

lemma frame_primitives_eval [exec_eval]:
  "ensure_signed o' s = (case o' of Signed who \<Rightarrow> (Inr who, s) | _ \<Rightarrow> (Inl BadOrigin, s))"
  "ensure_origin P o' s = (if P o' then (Inr (), s) else (Inl BadOrigin, s))"
  "now w = (Inr (block_number w), w)"
  "read_store f w = (Inr (f (store w)), w)"
  "write_store g w = (Inr (), w\<lparr>store := g (store w)\<rparr>)"
  "deposit_event ev w = (Inr (), w\<lparr>events := events w @ [ev]\<rparr>)"
  by (simp_all add: ensure_signed_def ensure_origin_def now_def read_store_def write_store_def
      deposit_event_def exec_eval split: origin.split)

lemma frame_bind_eval [exec_eval]:
  "bindE (ensure_signed o') f s = (case o' of Signed who \<Rightarrow> f who s | _ \<Rightarrow> (Inl BadOrigin, s))"
  "bindE now g w = g (block_number w) w"
  "bindE (read_store r) h w = h (r (store w)) w"
  "thenE (ensure_origin P o') k s = (if P o' then k s else (Inl BadOrigin, s))"
  "thenE (write_store u) j w = j (w\<lparr>store := u (store w)\<rparr>)"
  "thenE (deposit_event ev) m w = m (w\<lparr>events := events w @ [ev]\<rparr>)"
  by (simp_all add: ensure_signed_def ensure_origin_def now_def read_store_def write_store_def
      deposit_event_def exec_eval split: origin.split)

lemma within_ensure_signed [within_intro]: "preorder_rel R \<Longrightarrow> within R (ensure_signed o')"
  by (auto simp: ensure_signed_def intro: within_ret within_throw split: origin.split)

lemma within_ensure_origin [within_intro]: "preorder_rel R \<Longrightarrow> within R (ensure_origin P o')"
  by (auto simp: ensure_origin_def intro: within_ensure)

lemma within_now [within_intro]: "preorder_rel R \<Longrightarrow> within R now"
  by (auto simp: now_def intro: within_gets)

lemma within_read_store [within_intro]: "preorder_rel R \<Longrightarrow> within R (read_store f)"
  by (auto simp: read_store_def intro: within_gets)

text \<open>Relations that look at the storage only.\<close>

definition store_rel :: "('s \<Rightarrow> 's \<Rightarrow> bool) \<Rightarrow> ('e, 'l, 's) frame \<Rightarrow> ('e, 'l, 's) frame \<Rightarrow> bool" where
  "store_rel R w v \<longleftrightarrow> R (store w) (store v)"

lemma preorder_store_rel [simp, intro]: "preorder_rel R \<Longrightarrow> preorder_rel (store_rel R)"
  by (auto simp: preorder_rel_def store_rel_def)

lemma within_write_store: "within (store_rel R) (write_store g) \<longleftrightarrow> (\<forall>b. R b (g b))"
  unfolding within_def write_store_def modify_def store_rel_def
  by (metis frame.select_convs(4) frame.surjective frame.update_convs(4) snd_conv)

lemma within_deposit_event [within_intro]:
  "preorder_rel R \<Longrightarrow> within (store_rel R) (deposit_event ev)"
  by (auto simp: within_def deposit_event_def modify_def store_rel_def preorder_rel_def)

lemma within_on_ledger [within_intro]: "preorder_rel R \<Longrightarrow> within (store_rel R) (on_ledger op)"
  by (auto simp: within_def on_ledger_def store_rel_def preorder_rel_def split: prod.split)

section \<open>Weights\<close>

text \<open>What a call or a hook reports to cost, with the saturating sum of \<open>sp_weights\<close>.\<close>

record weight =
  ref_time :: u64
  proof_size :: u64

definition zero_weight :: weight where
  "zero_weight = \<lparr>ref_time = 0, proof_size = 0\<rparr>"

definition weight_add :: "weight \<Rightarrow> weight \<Rightarrow> weight" where
  "weight_add v w = \<lparr>ref_time = saturating_add (ref_time v) (ref_time w),
     proof_size = saturating_add (proof_size v) (proof_size w)\<rparr>"

section \<open>Views of a bigger world\<close>

definition zoom :: "('w \<Rightarrow> 'v) \<Rightarrow> ('v \<Rightarrow> 'w \<Rightarrow> 'w) \<Rightarrow> ('e, 'v, 'a) exec \<Rightarrow> ('e, 'w, 'a) exec" where
  "zoom get put m w = (case m (get w) of (r, v) \<Rightarrow> (r, put v w))"

locale lens =
  fixes get :: "'w \<Rightarrow> 'v" and put :: "'v \<Rightarrow> 'w \<Rightarrow> 'w"
  assumes get_put: "get (put v w) = v"
    and put_get: "put (get w) w = w"
    and put_put: "put u (put v w) = put u w"
begin

lemma zoom_ok: "zoom get put m w = (Inr x, w') \<longleftrightarrow> (\<exists>v. m (get w) = (Inr x, v) \<and> w' = put v w)"
  by (auto simp: zoom_def split: prod.splits)

lemma zoom_err: "zoom get put m w = (Inl e, w') \<longleftrightarrow> (\<exists>v. m (get w) = (Inl e, v) \<and> w' = put v w)"
  by (auto simp: zoom_def split: prod.splits)

lemma zoom_ret: "zoom get put (ret x) = ret x"
  by (rule ext) (simp add: zoom_def ret_def put_get)

lemma zoom_bindE:
  "zoom get put (bindE m f) = bindE (zoom get put m) (\<lambda>x. zoom get put (f x))"
  by (rule ext) (simp add: zoom_def bindE_def get_put put_put split: prod.split sum.split)

lemma zoom_thenE: "zoom get put (thenE m k) = thenE (zoom get put m) (zoom get put k)"
  by (simp add: thenE_def zoom_bindE)

lemma zoom_transactional: "zoom get put (transactional m) = transactional (zoom get put m)"
  by (rule ext) (simp add: zoom_def transactional_def put_get split: prod.split sum.split)

lemma within_zoom: "within R m \<Longrightarrow> within (\<lambda>w w'. R (get w) (get w')) (zoom get put m)"
  by (simp add: within_def zoom_def get_put split: prod.split) (metis snd_conv)

text \<open>Whatever the view does not show is left alone by a zoomed operation.\<close>

lemma zoom_frame:
  assumes "\<And>v w. f (put v w) = f w" shows "within (\<lambda>w w'. f w' = f w) (zoom get put m)"
  by (simp add: within_def zoom_def assms split: prod.split)

end

text \<open>The two halves of a pair of storages, each seen as the storage of its own pallet.\<close>

definition get_fst :: "('e, 'l, 'a \<times> 'b) frame \<Rightarrow> ('e, 'l, 'a) frame" where
  "get_fst w = \<lparr>block_number = block_number w, events = events w, ledger = ledger w,
     store = fst (store w)\<rparr>"

definition put_fst :: "('e, 'l, 'a) frame \<Rightarrow> ('e, 'l, 'a \<times> 'b) frame \<Rightarrow> ('e, 'l, 'a \<times> 'b) frame" where
  "put_fst v w = \<lparr>block_number = block_number v, events = events v, ledger = ledger v,
     store = (store v, snd (store w))\<rparr>"

definition get_snd :: "('e, 'l, 'a \<times> 'b) frame \<Rightarrow> ('e, 'l, 'b) frame" where
  "get_snd w = \<lparr>block_number = block_number w, events = events w, ledger = ledger w,
     store = snd (store w)\<rparr>"

definition put_snd :: "('e, 'l, 'b) frame \<Rightarrow> ('e, 'l, 'a \<times> 'b) frame \<Rightarrow> ('e, 'l, 'a \<times> 'b) frame" where
  "put_snd v w = \<lparr>block_number = block_number v, events = events v, ledger = ledger v,
     store = (fst (store w), store v)\<rparr>"

interpretation fst_lens: lens get_fst put_fst
  by unfold_locales (auto simp: get_fst_def put_fst_def)

interpretation snd_lens: lens get_snd put_snd
  by unfold_locales (auto simp: get_snd_def put_snd_def)

lemmas pair_lens_defs = get_fst_def put_fst_def get_snd_def put_snd_def

section \<open>Third-party tokens\<close>

text \<open>
  One token of the ledger as the pallets use it: \<open>pallet_balances\<close> through the traits \<open>Currency\<close>
  and \<open>fungible::{Inspect, Mutate}\<close>, or one asset of \<open>pallet_assets\<close> through
  \<open>fungibles::{Inspect, Mutate}\<close>. \<open>burn_from\<close> is with \<open>Precision::Exact\<close> and \<open>Fortitude::Polite\<close>,
  \<open>transfer\<close> with \<open>Preservation::Expendable\<close>, the only uses of the sources.
\<close>

record 'l token_ops =
  tk_balance :: "'l \<Rightarrow> account_id \<Rightarrow> u128"
  tk_issuance :: "'l \<Rightarrow> u128"
  tk_mint_into :: "account_id \<Rightarrow> u128 \<Rightarrow> (dispatch_error, 'l, u128) exec"
  tk_burn_from :: "account_id \<Rightarrow> u128 \<Rightarrow> (dispatch_error, 'l, u128) exec"
  tk_transfer :: "account_id \<Rightarrow> account_id \<Rightarrow> u128 \<Rightarrow> (dispatch_error, 'l, u128) exec"

record 'l tokens =
  native_token :: "'l token_ops"
  asset_token :: "asset_id \<Rightarrow> 'l token_ops"

text \<open>Native balances are addressed by \<open>None\<close>, an asset by its id, as in \<open>AssetInfo.asset\<close>.\<close>

definition token :: "'l tokens \<Rightarrow> asset_id option \<Rightarrow> 'l token_ops" where
  "token t a = (case a of None \<Rightarrow> native_token t | Some i \<Rightarrow> asset_token t i)"

text \<open>
  What the trait documentation promises of a successful call: exactly the amount asked for moves,
  every other account keeps its balance, and the issuance follows.
\<close>

definition mint_law :: "'l token_ops \<Rightarrow> bool" where
  "mint_law t \<longleftrightarrow> (\<forall>who amt l x l'. tk_mint_into t who amt l = (Inr x, l') \<longrightarrow>
     x = amt \<and> unat (tk_balance t l' who) = unat (tk_balance t l who) + unat amt \<and>
     (\<forall>a. a \<noteq> who \<longrightarrow> tk_balance t l' a = tk_balance t l a) \<and>
     unat (tk_issuance t l') = unat (tk_issuance t l) + unat amt)"

definition burn_law :: "'l token_ops \<Rightarrow> bool" where
  "burn_law t \<longleftrightarrow> (\<forall>who amt l x l'. tk_burn_from t who amt l = (Inr x, l') \<longrightarrow>
     x = amt \<and> unat (tk_balance t l who) = unat (tk_balance t l' who) + unat amt \<and>
     (\<forall>a. a \<noteq> who \<longrightarrow> tk_balance t l' a = tk_balance t l a) \<and>
     unat (tk_issuance t l) = unat (tk_issuance t l') + unat amt)"

definition transfer_law :: "'l token_ops \<Rightarrow> bool" where
  "transfer_law t \<longleftrightarrow> (\<forall>src dst amt l x l'. tk_transfer t src dst amt l = (Inr x, l') \<longrightarrow>
     tk_issuance t l' = tk_issuance t l \<and>
     (\<forall>a. a \<noteq> src \<longrightarrow> a \<noteq> dst \<longrightarrow> tk_balance t l' a = tk_balance t l a) \<and>
     (if src = dst then tk_balance t l' src = tk_balance t l src
      else unat (tk_balance t l src) = unat (tk_balance t l' src) + unat amt \<and>
           unat (tk_balance t l' dst) = unat (tk_balance t l dst) + unat amt))"

text \<open>Calls on one token do not touch the balances of another.\<close>

definition separate_law :: "'l tokens \<Rightarrow> bool" where
  "separate_law t \<longleftrightarrow> (\<forall>a b who src dst amt l. a \<noteq> b \<longrightarrow>
     tk_balance (token t b) (snd (tk_mint_into (token t a) who amt l)) = tk_balance (token t b) l \<and>
     tk_balance (token t b) (snd (tk_burn_from (token t a) who amt l)) = tk_balance (token t b) l \<and>
     tk_balance (token t b) (snd (tk_transfer (token t a) src dst amt l)) = tk_balance (token t b) l)"

definition token_laws :: "'l tokens \<Rightarrow> bool" where
  "token_laws t \<longleftrightarrow> separate_law t \<and>
     (\<forall>a. mint_law (token t a) \<and> burn_law (token t a) \<and> transfer_law (token t a))"

lemma mint_lawD:
  assumes "token_laws t" and "tk_mint_into (token t a) who amt l = (Inr x, l')"
  shows "x = amt" and "unat (tk_balance (token t a) l' who) = unat (tk_balance (token t a) l who) + unat amt"
    and "\<And>b. b \<noteq> who \<Longrightarrow> tk_balance (token t a) l' b = tk_balance (token t a) l b"
    and "unat (tk_issuance (token t a) l') = unat (tk_issuance (token t a) l) + unat amt"
  using assms unfolding token_laws_def mint_law_def by blast+

lemma burn_lawD:
  assumes "token_laws t" and "tk_burn_from (token t a) who amt l = (Inr x, l')"
  shows "x = amt" and "unat (tk_balance (token t a) l who) = unat (tk_balance (token t a) l' who) + unat amt"
    and "\<And>b. b \<noteq> who \<Longrightarrow> tk_balance (token t a) l' b = tk_balance (token t a) l b"
    and "unat (tk_issuance (token t a) l) = unat (tk_issuance (token t a) l') + unat amt"
  using assms unfolding token_laws_def burn_law_def by blast+

lemma transfer_lawD:
  assumes "token_laws t" and "tk_transfer (token t a) src dst amt l = (Inr x, l')"
  shows "\<And>b. b \<noteq> src \<Longrightarrow> b \<noteq> dst \<Longrightarrow> tk_balance (token t a) l' b = tk_balance (token t a) l b"
    and "src \<noteq> dst \<Longrightarrow> unat (tk_balance (token t a) l src) = unat (tk_balance (token t a) l' src) + unat amt"
    and "src \<noteq> dst \<Longrightarrow> unat (tk_balance (token t a) l' dst) = unat (tk_balance (token t a) l dst) + unat amt"
    and "src = dst \<Longrightarrow> tk_balance (token t a) l' src = tk_balance (token t a) l src"
    and "tk_issuance (token t a) l' = tk_issuance (token t a) l"
  using assms unfolding token_laws_def transfer_law_def by (metis (full_types))+

lemma separate_lawD:
  assumes "token_laws t" and "a \<noteq> b"
  shows "tk_mint_into (token t a) who amt l = (r, l') \<Longrightarrow> tk_balance (token t b) l' = tk_balance (token t b) l"
    and "tk_burn_from (token t a) who amt l = (r, l') \<Longrightarrow> tk_balance (token t b) l' = tk_balance (token t b) l"
    and "tk_transfer (token t a) src dst amt l = (r, l') \<Longrightarrow> tk_balance (token t b) l' = tk_balance (token t b) l"
  using assms unfolding token_laws_def separate_law_def by (metis snd_conv)+

subsection \<open>A book of accounts\<close>

text \<open>
  A ledger that keeps the laws, so that theorems resting on them can be applied at concrete
  inputs: balances per token and account, and the issuance per token.
\<close>

type_synonym book = "(asset_id option \<Rightarrow> account_id \<Rightarrow> u128) \<times> (asset_id option \<Rightarrow> u128)"

definition book_balance :: "asset_id option \<Rightarrow> book \<Rightarrow> account_id \<Rightarrow> u128" where
  "book_balance a l who = fst l a who"

definition book_set :: "asset_id option \<Rightarrow> account_id \<Rightarrow> u128 \<Rightarrow> book \<Rightarrow> book" where
  "book_set a who v l = ((fst l)(a := (fst l a)(who := v)), snd l)"

definition book_mint :: "asset_id option \<Rightarrow> account_id \<Rightarrow> u128 \<Rightarrow> (dispatch_error, book, u128) exec" where
  "book_mint a who amt l =
     (case (checked_add (snd l a) amt, checked_add (fst l a who) amt) of
        (Some t, Some b) \<Rightarrow> (Inr amt, (fst (book_set a who b l), (snd l)(a := t)))
      | _ \<Rightarrow> (Inl (Arithmetic Overflow), l))"

definition book_burn :: "asset_id option \<Rightarrow> account_id \<Rightarrow> u128 \<Rightarrow> (dispatch_error, book, u128) exec" where
  "book_burn a who amt l =
     (case (checked_sub (snd l a) amt, checked_sub (fst l a who) amt) of
        (Some t, Some b) \<Rightarrow> (Inr amt, (fst (book_set a who b l), (snd l)(a := t)))
      | _ \<Rightarrow> (Inl (External 0), l))"

definition book_transfer ::
  "asset_id option \<Rightarrow> account_id \<Rightarrow> account_id \<Rightarrow> u128 \<Rightarrow> (dispatch_error, book, u128) exec" where
  "book_transfer a src dst amt l =
     (case checked_sub (fst l a src) amt of
        None \<Rightarrow> (Inl (External 0), l)
      | Some s \<Rightarrow> if src = dst then (Inr amt, l)
          else (case checked_add (fst l a dst) amt of
                  None \<Rightarrow> (Inl (Arithmetic Overflow), l)
                | Some d \<Rightarrow> (Inr amt, book_set a dst d (book_set a src s l))))"

definition book_token :: "asset_id option \<Rightarrow> book token_ops" where
  "book_token a = \<lparr>tk_balance = book_balance a, tk_issuance = (\<lambda>l. snd l a),
     tk_mint_into = book_mint a, tk_burn_from = book_burn a, tk_transfer = book_transfer a\<rparr>"

definition book_tokens :: "book tokens" where
  "book_tokens = \<lparr>native_token = book_token None, asset_token = (\<lambda>i. book_token (Some i))\<rparr>"

definition empty_book :: book where
  "empty_book = (\<lambda>_ _. 0, \<lambda>_. 0)"

lemma token_book_tokens [simp]: "token book_tokens a = book_token a"
  by (simp add: token_def book_tokens_def split: option.split)

lemmas book_defs = book_balance_def book_set_def book_mint_def book_burn_def book_transfer_def
  book_token_def

lemma book_token_laws: "token_laws book_tokens"
  unfolding token_laws_def
proof (intro conjI allI)
  show "separate_law book_tokens"
    by (auto simp: separate_law_def book_defs fun_eq_iff split: option.splits)
  fix a
  show "mint_law (token book_tokens a)"
    by (auto simp: mint_law_def book_defs checked_arith split: option.splits)
  show "burn_law (token book_tokens a)"
    by (auto simp: burn_law_def book_defs checked_arith split: option.splits)
  show "transfer_law (token book_tokens a)"
    by (auto simp: transfer_law_def book_defs checked_arith split: option.splits if_splits)
qed

end
