(* ===== verification/Evm_Support.thy ===== *)
theory Evm_Support
  imports Frame_Support
begin

text \<open>
  What the precompiles of \<open>precompiles/*\<close> and \<open>runtime/src/precompiles.rs\<close> use of the EVM: the
  context of a call, gas, logs, and the dispatch of runtime calls. \<open>PrecompileHandle\<close> (of
  \<open>fp_evm\<close>) and \<open>RuntimeHelper\<close> (of \<open>precompile_utils\<close>) are third-party code: they enter as a record
  of operations on an opaque handle, with what their documentation promises as \<open>host_laws\<close>.
\<close>

section \<open>Failures and logs\<close>

text \<open>
  \<open>PrecompileFailure\<close>: a revert with its reason and the fields it was found in (\<open>in_field\<close>), or
  any other failure of the host, such as running out of gas.
\<close>

datatype revert_reason = ValueIsTooLarge string | CustomReason string

datatype evm_failure = Revert "string list" revert_reason | HostFailure nat

text \<open>
  A log: the address it comes from, its topics and its data. The hash of an event signature stays
  symbolic, and so does the ABI encoding of the data.
\<close>

datatype log_topic = Selector string | AddressTopic h160

datatype log_data = UintData u256

record evm_log =
  log_address :: h160
  log_topics :: "log_topic list"
  log_data :: log_data

section \<open>The host\<close>

record ('h, 'c, 'w) evm_host =
  caller_of :: "'h \<Rightarrow> h160"  \<comment> \<open>\<open>handle.context().caller\<close>\<close>
  address_of :: "'h \<Rightarrow> h160"  \<comment> \<open>\<open>handle.context().address\<close>\<close>
  host_db_read :: "nat \<Rightarrow> (evm_failure, 'h, unit) exec"
  host_log_costs :: "nat \<Rightarrow> nat \<Rightarrow> (evm_failure, 'h, unit) exec"
  host_log :: "evm_log \<Rightarrow> (evm_failure, 'h, unit) exec"
  host_dispatch :: "origin \<Rightarrow> 'c \<Rightarrow> (evm_failure, 'h \<times> 'w, unit) exec"
  into_account_id :: "h160 \<Rightarrow> account_id"  \<comment> \<open>\<open>Runtime::AddressMapping\<close>\<close>

type_synonym ('h, 'w, 'a) precompile = "(evm_failure, 'h \<times> 'w, 'a) exec"

definition on_handle :: "(evm_failure, 'h, 'a) exec \<Rightarrow> ('h, 'w, 'a) precompile" where
  "on_handle m = zoom fst (\<lambda>h p. (h, snd p)) m"

definition record_db_read :: "('h, 'c, 'w) evm_host \<Rightarrow> nat \<Rightarrow> ('h, 'w, unit) precompile" where
  "record_db_read host n = on_handle (host_db_read host n)"

definition record_log_costs :: "('h, 'c, 'w) evm_host \<Rightarrow> nat \<Rightarrow> nat \<Rightarrow> ('h, 'w, unit) precompile" where
  "record_log_costs host topics len = on_handle (host_log_costs host topics len)"

definition record_log :: "('h, 'c, 'w) evm_host \<Rightarrow> evm_log \<Rightarrow> ('h, 'w, unit) precompile" where
  "record_log host l = on_handle (host_log host l)"

definition try_dispatch :: "('h, 'c, 'w) evm_host \<Rightarrow> account_id \<Rightarrow> 'c \<Rightarrow> ('h, 'w, unit) precompile" where
  "try_dispatch host who c = host_dispatch host (Signed who) c"

definition caller :: "('h, 'c, 'w) evm_host \<Rightarrow> ('h, 'w, h160) precompile" where
  "caller host = gets (\<lambda>p. caller_of host (fst p))"

definition own_address :: "('h, 'c, 'w) evm_host \<Rightarrow> ('h, 'w, h160) precompile" where
  "own_address host = gets (\<lambda>p. address_of host (fst p))"

definition read_chain :: "('w \<Rightarrow> 'a) \<Rightarrow> ('h, 'w, 'a) precompile" where
  "read_chain f = gets (\<lambda>p. f (snd p))"

text \<open>\<open>v.try_into().map_err(|_| RevertReason::value_is_too_large(what))\<close>\<close>

definition fits_or_revert :: "u256 \<Rightarrow> string \<Rightarrow> ('h, 'w, 'a::len word) precompile" where
  "fits_or_revert v what = ok_or (try_into v) (Revert [] (ValueIsTooLarge what))"

definition in_field :: "string \<Rightarrow> ('h, 'w, 'a) precompile \<Rightarrow> ('h, 'w, 'a) precompile" where
  "in_field f m p = (case m p of
     (Inl (Revert fs r), q) \<Rightarrow> (Inl (Revert (fs @ [f]) r), q)
   | x \<Rightarrow> x)"

section \<open>What the host promises\<close>

text \<open>
  The context of a call does not change, gas and logs do not touch the chain (by their type), and a
  dispatch that is answered with success has run the call, and nothing else, on the chain.
\<close>

definition keeps_context :: "('h, 'c, 'w) evm_host \<Rightarrow> 'h \<Rightarrow> 'h \<Rightarrow> bool" where
  "keeps_context host h h' \<longleftrightarrow> caller_of host h' = caller_of host h \<and> address_of host h' = address_of host h"

definition host_laws ::
  "('h, 'c, 'w) evm_host \<Rightarrow> ('c \<Rightarrow> origin \<Rightarrow> (dispatch_error, 'w, unit) exec) \<Rightarrow> bool" where
  "host_laws host run \<longleftrightarrow>
     (\<forall>n. within (keeps_context host) (host_db_read host n)) \<and>
     (\<forall>n m. within (keeps_context host) (host_log_costs host n m)) \<and>
     (\<forall>l. within (keeps_context host) (host_log host l)) \<and>
     (\<forall>o' c h w u h' w'. host_dispatch host o' c (h, w) = (Inr u, (h', w')) \<longrightarrow>
        keeps_context host h h' \<and> run c o' w = (Inr (), w'))"

lemma host_lawsD:
  assumes "host_laws host run"
  shows "within (keeps_context host) (host_db_read host n)"
    and "within (keeps_context host) (host_log_costs host n m)"
    and "within (keeps_context host) (host_log host l)"
    and "host_dispatch host o' c (h, w) = (Inr u, (h', w')) \<Longrightarrow> keeps_context host h h' \<and> run c o' w = (Inr (), w')"
  using assms unfolding host_laws_def by blast+

section \<open>Successful runs\<close>

text \<open>
  Under the laws, every primitive that succeeds leaves the context alone, and all but a dispatch
  leave the chain alone.
\<close>

definition step_ok :: "('h, 'c, 'w) evm_host \<Rightarrow> ('h, 'w, 'a) precompile \<Rightarrow> bool" where
  "step_ok host m \<longleftrightarrow> (\<forall>p x q. m p = (Inr x, q) \<longrightarrow> snd q = snd p \<and> keeps_context host (fst p) (fst q))"

lemma on_handle_step_ok: "within (keeps_context host) m \<Longrightarrow> step_ok host (on_handle m)"
  by (auto simp: step_ok_def on_handle_def zoom_def within_def split: prod.splits) (metis snd_conv)

lemma host_steps_ok:
  assumes "host_laws host run"
  shows "step_ok host (record_db_read host n)" "step_ok host (record_log_costs host n m)" "step_ok host (record_log host l)"
  by (simp_all add: record_db_read_def record_log_costs_def record_log_def on_handle_step_ok host_lawsD [OF assms])

lemma step_okD: "step_ok host m \<Longrightarrow> m p = (Inr x, q) \<Longrightarrow> snd q = snd p \<and> keeps_context host (fst p) (fst q)"
  unfolding step_ok_def by blast

lemma try_dispatchD:
  assumes "host_laws host run" "try_dispatch host who c p = (Inr u, q)"
  shows "keeps_context host (fst p) (fst q)" "run c (Signed who) (snd p) = (Inr (), snd q)"
  using assms host_lawsD(4) [OF assms(1), of "Signed who" c "fst p" "snd p" u "fst q" "snd q"]
  by (simp_all add: try_dispatch_def)

lemma keeps_context_trans: "keeps_context host a b \<Longrightarrow> keeps_context host b c \<Longrightarrow> keeps_context host a c"
  by (simp add: keeps_context_def)

lemma caller_ok [exec_ok]: "caller host p = (Inr a, q) \<longleftrightarrow> a = caller_of host (fst p) \<and> q = p"
  by (auto simp: caller_def exec_ok)

lemma own_address_ok [exec_ok]: "own_address host p = (Inr a, q) \<longleftrightarrow> a = address_of host (fst p) \<and> q = p"
  by (auto simp: own_address_def exec_ok)

lemma read_chain_ok [exec_ok]: "read_chain f p = (Inr a, q) \<longleftrightarrow> a = f (snd p) \<and> q = p"
  by (auto simp: read_chain_def exec_ok)

lemma fits_or_revert_ok [exec_ok]: "fits_or_revert v what p = (Inr a, q) \<longleftrightarrow> unat a = unat v \<and> q = p"
  by (auto simp: fits_or_revert_def exec_ok try_into_Some)

lemma in_field_ok [exec_ok]: "in_field f m p = (Inr a, q) \<longleftrightarrow> m p = (Inr a, q)"
  by (auto simp: in_field_def split: prod.splits sum.splits evm_failure.splits)

lemma evm_eval [exec_eval]:
  "caller host p = (Inr (caller_of host (fst p)), p)"
  "own_address host p = (Inr (address_of host (fst p)), p)"
  "read_chain f p = (Inr (f (snd p)), p)"
  "bindE (caller host) k p = k (caller_of host (fst p)) p"
  "bindE (own_address host) k p = k (address_of host (fst p)) p"
  "bindE (read_chain f) j p = j (f (snd p)) p"
  by (simp_all add: caller_def own_address_def read_chain_def exec_eval)

lemma fits_or_revert_eval:
  "bindE (fits_or_revert v what :: ('h, 'w, 'a::len word) precompile) k p =
     (if unat v < 2 ^ LENGTH('a) then k (ucast v) p else (Inl (Revert [] (ValueIsTooLarge what)), p))"
  by (simp add: fits_or_revert_def exec_eval try_into_def)

section \<open>A host to evaluate\<close>

text \<open>
  A host with a gas counter and a list of logs: every recorded cost takes one unit, and a dispatch
  runs the call in the chain and fails when the call fails.
\<close>

record sample_handle =
  sh_caller :: h160
  sh_address :: h160
  sh_gas :: nat
  sh_logs :: "evm_log list"

definition spend :: "(evm_failure, sample_handle, unit) exec" where
  "spend h = (case sh_gas h of 0 \<Rightarrow> (Inl (HostFailure 0), h) | Suc n \<Rightarrow> (Inr (), h\<lparr>sh_gas := n\<rparr>))"

definition sample_host ::
  "('c \<Rightarrow> origin \<Rightarrow> (dispatch_error, 'w, unit) exec) \<Rightarrow> (sample_handle, 'c, 'w) evm_host" where
  "sample_host run = \<lparr>caller_of = sh_caller, address_of = sh_address, host_db_read = (\<lambda>_. spend),
     host_log_costs = (\<lambda>_ _. spend), host_log = (\<lambda>l. modify (\<lambda>h. h\<lparr>sh_logs := sh_logs h @ [l]\<rparr>)),
     host_dispatch = (\<lambda>o' c (h, w). case run c o' w of
        (Inl e, _) \<Rightarrow> (Inl (HostFailure 1), (h, w)) | (Inr x, w') \<Rightarrow> (Inr (), (h, w'))),
     into_account_id = ucast\<rparr>"

lemma sample_host_laws: "host_laws (sample_host run) run"
  by (auto simp: host_laws_def sample_host_def within_def keeps_context_def spend_def modify_def
      split: nat.splits prod.splits sum.splits)

definition sample_handle :: sample_handle where
  "sample_handle = \<lparr>sh_caller = 5, sh_address = 20481, sh_gas = 10, sh_logs = []\<rparr>"

end
