(* ===== verification/Erc20_Precompile.thy ===== *)
theory Erc20_Precompile
  imports Evm_Support
begin

text \<open>
  \<open>precompiles/assets-erc20/src/lib.rs\<close>: every asset of \<open>pallet_assets\<close> as an ERC20 contract at an
  address of its own. \<open>pallet_assets\<close> is third-party code: what the precompile reads of it and the
  calls it dispatches are a record of operations. The trait \<open>AddressToAssetId\<close> is a locale; the
  runtime's implementation is interpreted in \<open>Runtime_Config\<close>.
\<close>

section \<open>Assets and their addresses\<close>

datatype assets_call =
    CancelApproval asset_id account_id
  | ApproveTransfer asset_id account_id balance
  | TransferAsset asset_id account_id balance
  | TransferApproved asset_id account_id account_id balance
  | MintAsset asset_id account_id balance
  | BurnAsset asset_id account_id balance

record ('c, 'w) assets_runtime =
  address_to_asset :: "h160 \<Rightarrow> asset_id option"
  db_read_gas_cost :: u64
  maybe_total_supply :: "'w \<Rightarrow> asset_id \<Rightarrow> balance option"
  asset_issuance :: "'w \<Rightarrow> asset_id \<Rightarrow> balance"
  asset_balance :: "'w \<Rightarrow> asset_id \<Rightarrow> account_id \<Rightarrow> balance"
  asset_allowance :: "'w \<Rightarrow> asset_id \<Rightarrow> account_id \<Rightarrow> account_id \<Rightarrow> balance"
  asset_name :: "'w \<Rightarrow> asset_id \<Rightarrow> bytes"
  asset_symbol :: "'w \<Rightarrow> asset_id \<Rightarrow> bytes"
  asset_decimals :: "'w \<Rightarrow> asset_id \<Rightarrow> u8"
  asset_minimum_balance :: "'w \<Rightarrow> asset_id \<Rightarrow> balance"
  extra_max_encoded_len :: nat
  assets_string_limit :: u32
  assets_into_call :: "assets_call \<Rightarrow> 'c"

locale asset_addresses =
  fixes to_asset_id :: "h160 \<Rightarrow> asset_id option" and to_address :: "asset_id \<Rightarrow> h160"
  assumes to_asset_id_to_address: "to_asset_id (to_address a) = Some a"
    and to_address_to_asset_id: "to_asset_id x = Some a \<Longrightarrow> to_address a = x"
begin

lemma to_asset_id_iff: "to_asset_id x = Some a \<longleftrightarrow> x = to_address a"
  using to_asset_id_to_address to_address_to_asset_id by blast

lemma to_address_inject: "to_address a = to_address b \<longleftrightarrow> a = b"
  using to_asset_id_to_address by (metis option.inject)

lemma to_asset_id_None: "to_asset_id x = None \<longleftrightarrow> x \<notin> range to_address"
  by (cases "to_asset_id x") (auto simp: to_asset_id_iff to_asset_id_to_address)

end

section \<open>Routing\<close>

datatype discriminant_result = DiscriminantSome asset_id u64 | DiscriminantNone u64 | DiscriminantOutOfGas

definition discriminant :: "('c, 'w) assets_runtime \<Rightarrow> 'w \<Rightarrow> h160 \<Rightarrow> u64 \<Rightarrow> discriminant_result" where
  "discriminant rt w address gas =
     (let extra_cost = db_read_gas_cost rt in
      if gas < extra_cost then DiscriminantOutOfGas
      else case address_to_asset rt address of
          None \<Rightarrow> DiscriminantNone extra_cost
        | Some i \<Rightarrow>
            if maybe_total_supply rt w i \<noteq> None then DiscriminantSome i extra_cost
            else DiscriminantNone extra_cost)"

section \<open>Views\<close>

definition total_supply ::
  "('h, 'c, 'w) evm_host \<Rightarrow> ('c, 'w) assets_runtime \<Rightarrow> asset_id \<Rightarrow> ('h, 'w, u256) precompile" where
  "total_supply host rt i =
     thenE (record_db_read host 223)
     (bindE (read_chain (\<lambda>w. asset_issuance rt w i)) (\<lambda>v. ret (ucast v)))"

definition balance_of ::
  "('h, 'c, 'w) evm_host \<Rightarrow> ('c, 'w) assets_runtime \<Rightarrow> asset_id \<Rightarrow> h160 \<Rightarrow> ('h, 'w, u256) precompile" where
  "balance_of host rt i who =
     thenE (record_db_read host (99 + extra_max_encoded_len rt))
     (let who' = into_account_id host who in
      bindE (read_chain (\<lambda>w. asset_balance rt w i who')) (\<lambda>v. ret (ucast v)))"

definition allowance ::
  "('h, 'c, 'w) evm_host \<Rightarrow> ('c, 'w) assets_runtime \<Rightarrow> asset_id \<Rightarrow> h160 \<Rightarrow> h160 \<Rightarrow> ('h, 'w, u256) precompile" where
  "allowance host rt i owner spender =
     thenE (record_db_read host 148)
     (let owner' = into_account_id host owner; spender' = into_account_id host spender in
      bindE (read_chain (\<lambda>w. asset_allowance rt w i owner' spender')) (\<lambda>v. ret (ucast v)))"

text \<open>\<open>(2 * StringLimit::get()) as usize\<close>: the product is taken in 32 bits.\<close>

definition metadata_size :: "('c, 'w) assets_runtime \<Rightarrow> nat" where
  "metadata_size rt = 50 + unat (2 * assets_string_limit rt)"

definition name_of ::
  "('h, 'c, 'w) evm_host \<Rightarrow> ('c, 'w) assets_runtime \<Rightarrow> asset_id \<Rightarrow> ('h, 'w, bytes) precompile" where
  "name_of host rt i = thenE (record_db_read host (metadata_size rt)) (read_chain (\<lambda>w. asset_name rt w i))"

definition symbol_of ::
  "('h, 'c, 'w) evm_host \<Rightarrow> ('c, 'w) assets_runtime \<Rightarrow> asset_id \<Rightarrow> ('h, 'w, bytes) precompile" where
  "symbol_of host rt i = thenE (record_db_read host (metadata_size rt)) (read_chain (\<lambda>w. asset_symbol rt w i))"

definition decimals_of ::
  "('h, 'c, 'w) evm_host \<Rightarrow> ('c, 'w) assets_runtime \<Rightarrow> asset_id \<Rightarrow> ('h, 'w, u8) precompile" where
  "decimals_of host rt i = thenE (record_db_read host (metadata_size rt)) (read_chain (\<lambda>w. asset_decimals rt w i))"

definition minimum_balance ::
  "('h, 'c, 'w) evm_host \<Rightarrow> ('c, 'w) assets_runtime \<Rightarrow> asset_id \<Rightarrow> ('h, 'w, u256) precompile" where
  "minimum_balance host rt i =
     thenE (record_db_read host 207)
     (bindE (read_chain (\<lambda>w. asset_minimum_balance rt w i)) (\<lambda>v. ret (ucast v)))"

section \<open>Functions\<close>

definition selector_log_transfer :: log_topic where
  "selector_log_transfer = Selector ''Transfer(address,address,uint256)''"

definition selector_log_approval :: log_topic where
  "selector_log_approval = Selector ''Approval(address,address,uint256)''"

definition log3 :: "h160 \<Rightarrow> log_topic \<Rightarrow> h160 \<Rightarrow> h160 \<Rightarrow> u256 \<Rightarrow> evm_log" where
  "log3 a t x y v = \<lparr>log_address = a, log_topics = [t, AddressTopic x, AddressTopic y], log_data = UintData v\<rparr>"

definition u256_to_amount :: "u256 \<Rightarrow> ('h, 'w, balance) precompile" where
  "u256_to_amount v = fits_or_revert v ''balance type''"

text \<open>\<open>value.try_into().unwrap_or_else(|_| Bounded::max_value())\<close>\<close>

definition saturated_amount :: "u256 \<Rightarrow> balance" where
  "saturated_amount v = (case (try_into v :: balance option) of Some a \<Rightarrow> a | None \<Rightarrow> - 1)"

definition approve_inner ::
  "('h, 'c, 'w) evm_host \<Rightarrow> ('c, 'w) assets_runtime \<Rightarrow> asset_id \<Rightarrow> h160 \<Rightarrow> h160 \<Rightarrow> u256 \<Rightarrow> ('h, 'w, unit) precompile" where
  "approve_inner host rt i owner spender v =
     (let owner' = into_account_id host owner; spender' = into_account_id host spender; amt = saturated_amount v in
      thenE (record_db_read host 148)
      (bindE (read_chain (\<lambda>w. asset_allowance rt w i owner' spender')) (\<lambda>old.
       thenE (if old \<noteq> 0 then try_dispatch host owner' (assets_into_call rt (CancelApproval i spender')) else ret ())
       (try_dispatch host owner' (assets_into_call rt (ApproveTransfer i spender' amt))))))"

definition approve ::
  "('h, 'c, 'w) evm_host \<Rightarrow> ('c, 'w) assets_runtime \<Rightarrow> asset_id \<Rightarrow> h160 \<Rightarrow> u256 \<Rightarrow> ('h, 'w, bool) precompile" where
  "approve host rt i spender v =
     thenE (record_log_costs host 3 32)
     (bindE (caller host) (\<lambda>c.
      thenE (approve_inner host rt i c spender v)
      (bindE (own_address host) (\<lambda>a.
       bindE (caller host) (\<lambda>c'.
       thenE (record_log host (log3 a selector_log_approval c' spender v))
       (ret True))))))"

definition transfer_erc20 ::
  "('h, 'c, 'w) evm_host \<Rightarrow> ('c, 'w) assets_runtime \<Rightarrow> asset_id \<Rightarrow> h160 \<Rightarrow> u256 \<Rightarrow> ('h, 'w, bool) precompile" where
  "transfer_erc20 host rt i to v =
     thenE (record_log_costs host 3 32)
     (bindE (in_field ''value'' (u256_to_amount v)) (\<lambda>amt.
      bindE (caller host) (\<lambda>c.
      thenE (try_dispatch host (into_account_id host c) (assets_into_call rt (TransferAsset i (into_account_id host to) amt)))
      (bindE (own_address host) (\<lambda>a.
       bindE (caller host) (\<lambda>c'.
       thenE (record_log host (log3 a selector_log_transfer c' to (ucast amt)))
       (ret True)))))))"

definition transfer_from ::
  "('h, 'c, 'w) evm_host \<Rightarrow> ('c, 'w) assets_runtime \<Rightarrow> asset_id \<Rightarrow> h160 \<Rightarrow> h160 \<Rightarrow> u256 \<Rightarrow> ('h, 'w, bool) precompile" where
  "transfer_from host rt i src to v =
     thenE (record_log_costs host 3 32)
     (bindE (in_field ''value'' (u256_to_amount v)) (\<lambda>amt.
      bindE (caller host) (\<lambda>c.
      let caller' = into_account_id host c; src' = into_account_id host src; to' = into_account_id host to in
      thenE (if caller' \<noteq> src'
             then try_dispatch host caller' (assets_into_call rt (TransferApproved i src' to' amt))
             else try_dispatch host src' (assets_into_call rt (TransferAsset i to' amt)))
      (bindE (own_address host) (\<lambda>a.
       thenE (record_log host (log3 a selector_log_transfer src to (ucast amt)))
       (ret True))))))"

definition mint ::
  "('h, 'c, 'w) evm_host \<Rightarrow> ('c, 'w) assets_runtime \<Rightarrow> asset_id \<Rightarrow> h160 \<Rightarrow> u256 \<Rightarrow> ('h, 'w, bool) precompile" where
  "mint host rt i to v =
     thenE (record_log_costs host 3 32)
     (bindE (in_field ''value'' (u256_to_amount v)) (\<lambda>amt.
      bindE (caller host) (\<lambda>c.
      thenE (try_dispatch host (into_account_id host c) (assets_into_call rt (MintAsset i (into_account_id host to) amt)))
      (bindE (own_address host) (\<lambda>a.
       thenE (record_log host (log3 a selector_log_transfer 0 to (ucast amt)))
       (ret True))))))"

definition burn ::
  "('h, 'c, 'w) evm_host \<Rightarrow> ('c, 'w) assets_runtime \<Rightarrow> asset_id \<Rightarrow> h160 \<Rightarrow> u256 \<Rightarrow> ('h, 'w, bool) precompile" where
  "burn host rt i src v =
     thenE (record_log_costs host 3 32)
     (bindE (in_field ''value'' (u256_to_amount v)) (\<lambda>amt.
      bindE (caller host) (\<lambda>c.
      thenE (try_dispatch host (into_account_id host c) (assets_into_call rt (BurnAsset i (into_account_id host src) amt)))
      (bindE (own_address host) (\<lambda>a.
       thenE (record_log host (log3 a selector_log_transfer src 0 (ucast amt)))
       (ret True))))))"

text \<open>The functions that move tokens, by their Solidity signatures.\<close>

datatype erc20_fn = FnTransfer h160 u256 | FnTransferFrom h160 h160 u256 | FnMint h160 u256 | FnBurn h160 u256

fun run_erc20_fn ::
  "('h, 'c, 'w) evm_host \<Rightarrow> ('c, 'w) assets_runtime \<Rightarrow> asset_id \<Rightarrow> erc20_fn \<Rightarrow> ('h, 'w, bool) precompile" where
  "run_erc20_fn host rt i (FnTransfer to v) = transfer_erc20 host rt i to v"
| "run_erc20_fn host rt i (FnTransferFrom src to v) = transfer_from host rt i src to v"
| "run_erc20_fn host rt i (FnMint to v) = mint host rt i to v"
| "run_erc20_fn host rt i (FnBurn src v) = burn host rt i src v"

end
