(* ===== verification/Staking_Info.thy ===== *)
theory Staking_Info
  imports Frame_Support "HOL-Library.Monad_Syntax"
begin

text \<open>
  The arithmetic core of \<open>pallets/stable-staking/src/lib.rs\<close>: staking positions with their weighted
  average of effective times, and pool settings with their epochs. Block numbers are \<open>u32\<close> and
  balances \<open>u128\<close>, as in the runtime; the source converts all of them to \<open>u128\<close> first.

  The methods of \<open>StakingInfo\<close> take \<open>&mut self\<close> and answer \<open>None\<close> on failure; every caller drops the
  value they were called on in that case, so a method is a function to an optional new value.
\<close>

section \<open>Positions\<close>

record staking_info =
  effective_time :: u32
  amount :: balance
  last_add_time :: u32

definition new_position :: "u32 \<Rightarrow> balance \<Rightarrow> staking_info" where
  "new_position t a = \<lparr>effective_time = t, amount = a, last_add_time = t\<rparr>"

definition add_position :: "staking_info \<Rightarrow> u32 \<Rightarrow> balance \<Rightarrow> staking_info option" where
  "add_position si t a =
     do {
       e \<leftarrow> (try_into t :: u128 option);
       s \<leftarrow> (try_into a :: u128 option);
       oe \<leftarrow> (try_into (effective_time si) :: u128 option);
       os \<leftarrow> (try_into (amount si) :: u128 option);
       new_amount \<leftarrow> checked_add os s;
       oes \<leftarrow> checked_mul oe os;
       es \<leftarrow> checked_mul e s;
       total \<leftarrow> checked_add oes es;
       avg \<leftarrow> checked_div total new_amount;
       amt \<leftarrow> (try_into new_amount :: balance option);
       eff \<leftarrow> (try_into avg :: u32 option);
       Some \<lparr>effective_time = eff, amount = amt, last_add_time = max (last_add_time si) t\<rparr>
     }"

definition weight_force :: "staking_info \<Rightarrow> u32 \<Rightarrow> u128 option" where
  "weight_force si n =
     do {
       d \<leftarrow> checked_sub n (effective_time si);
       e \<leftarrow> (try_into d :: u128 option);
       s \<leftarrow> (try_into (amount si) :: u128 option);
       checked_mul e s
     }"

definition weight_of :: "staking_info \<Rightarrow> u32 \<Rightarrow> u128 option" where
  "weight_of si n = (if last_add_time si > n then None else weight_force si n)"

definition claim :: "staking_info \<Rightarrow> u32 \<Rightarrow> (u128 \<times> staking_info) option" where
  "claim si n =
     do {
       weight \<leftarrow> weight_of si n;
       Some (weight, si\<lparr>effective_time := n\<rparr>)
     }"

definition claim_based_on_weight :: "staking_info \<Rightarrow> u128 \<Rightarrow> (u32 \<times> staking_info) option" where
  "claim_based_on_weight si weight =
     do {
       oe \<leftarrow> (try_into (effective_time si) :: u128 option);
       os \<leftarrow> (try_into (amount si) :: u128 option);
       delta_e \<leftarrow> checked_div weight os;
       eff \<leftarrow> (try_into (oe + delta_e) :: u32 option);
       Some (eff, si\<lparr>effective_time := eff\<rparr>)
     }"

definition withdraw_position :: "staking_info \<Rightarrow> balance \<Rightarrow> (balance \<times> staking_info) option" where
  "withdraw_position si v =
     do {
       rest \<leftarrow> checked_sub (amount si) v;
       Some (rest, si\<lparr>amount := rest\<rparr>)
     }"

section \<open>Pools and epochs\<close>

record pool_setting =
  start_time :: u32
  epoch :: u128
  epoch_range :: u32
  setup_time :: u32
  pool_cap :: balance

definition end_time :: "pool_setting \<Rightarrow> u32 option" where
  "end_time ps =
     do {
       er \<leftarrow> (try_into (epoch_range ps) :: u128 option);
       st \<leftarrow> (try_into (start_time ps) :: u128 option);
       len \<leftarrow> checked_mul er (epoch ps);
       result \<leftarrow> checked_add st len;
       (try_into result :: u32 option)
     }"

section \<open>Characterisations\<close>

text \<open>Each method as a condition and a result over natural numbers.\<close>

lemmas position_defs = add_position_def weight_force_def claim_based_on_weight_def
  withdraw_position_def end_time_def

lemma u32_less: "unat (n :: u32) < 2 ^ 32"
proof -
  have "unat n < 2 ^ LENGTH(32)" by (rule unsigned_less)
  then show ?thesis by simp
qed

lemma u128_less: "unat (n :: u128) < 2 ^ 128"
proof -
  have "unat n < 2 ^ LENGTH(128)" by (rule unsigned_less)
  then show ?thesis by simp
qed

lemma u32_less_128 [simp]: "unat (n :: u32) < 340282366920938463463374607431768211456"
  using u32_less [of n] by simp

lemma u128_less' [simp]: "unat (n :: u128) < 340282366920938463463374607431768211456"
  using u128_less [of n] by simp

lemma add_position_eq:
  "add_position si t a =
    (let s = unat (amount si) + unat a;
         w = unat (effective_time si) * unat (amount si) + unat t * unat a
     in if s < 2 ^ 128 \<and> w < 2 ^ 128 \<and> s \<noteq> 0 \<and> w div s < 2 ^ 32
        then Some \<lparr>effective_time = nat_word (w div s), amount = nat_word s,
               last_add_time = max (last_add_time si) t\<rparr>
        else None)"
  by (auto simp: add_position_def as_fit fit_bind fit_None Let_def)

lemma weight_force_eq:
  "weight_force si n =
    (if unat (effective_time si) \<le> unat n
     then fit ((unat n - unat (effective_time si)) * unat (amount si)) else None)"
  using u32_less [of n] by (auto simp: weight_force_def as_fit fit_bind)

lemma weight_of_eq:
  "weight_of si n =
    (if last_add_time si \<le> n \<and> unat (effective_time si) \<le> unat n
     then fit ((unat n - unat (effective_time si)) * unat (amount si)) else None)"
  by (auto simp: weight_of_def weight_force_eq not_less)

lemma end_time_eq:
  "end_time ps =
    (let len = unat (epoch_range ps) * unat (epoch ps) in
     if len < 2 ^ 128 \<and> unat (start_time ps) + len < 2 ^ 128 then fit (unat (start_time ps) + len) else None)"
  by (auto simp: end_time_def as_fit fit_bind Let_def)

lemma withdraw_position_eq:
  "withdraw_position si v =
    (if v \<le> amount si then Some (amount si - v, si\<lparr>amount := amount si - v\<rparr>) else None)"
  by (auto simp: withdraw_position_def checked_sub_def)


lemma claim_eq:
  "claim si n =
    (case weight_of si n of None \<Rightarrow> None | Some w \<Rightarrow> Some (w, si\<lparr>effective_time := n\<rparr>))"
  by (simp add: claim_def split: option.split)

lemma claim_based_on_weight_eq:
  "claim_based_on_weight si w =
    (if amount si = 0 then None
     else let e = (unat (effective_time si) + unat w div unat (amount si)) mod 2 ^ 128 in
       if e < 2 ^ 32 then Some (nat_word e, si\<lparr>effective_time := nat_word e\<rparr>) else None)"
proof -
  have d: "unat w div unat (amount si) < 2 ^ 128"
    by (rule le_less_trans [OF div_le_dividend u128_less])
  then show ?thesis
    by (simp add: claim_based_on_weight_def as_fit fit_bind unat_eq_0 Let_def unat_word_ariths)
qed

section \<open>Properties of positions\<close>

text \<open>The invariant of a position that has been filled: something is staked, and added in time.\<close>

definition position_ok :: "staking_info \<Rightarrow> bool" where
  "position_ok si \<longleftrightarrow> amount si \<noteq> 0 \<and> effective_time si \<le> last_add_time si"

lemma average_between:
  fixes a b s t :: nat
  assumes "a \<le> b" "0 < s + t"
  shows "a \<le> (a * s + b * t) div (s + t)" "(a * s + b * t) div (s + t) \<le> b"
    "a \<le> (b * s + a * t) div (s + t)" "(b * s + a * t) div (s + t) \<le> b"
proof -
  have "a * (s + t) \<le> a * s + b * t" "a * s + b * t \<le> b * (s + t)"
    "a * (s + t) \<le> b * s + a * t" "b * s + a * t \<le> b * (s + t)"
    using assms(1) by (simp_all add: algebra_simps)
  then show "a \<le> (a * s + b * t) div (s + t)" "(a * s + b * t) div (s + t) \<le> b"
    "a \<le> (b * s + a * t) div (s + t)" "(b * s + a * t) div (s + t) \<le> b"
    using assms(2) by (simp_all add: less_eq_div_iff_mult_less_eq div_le_mono [THEN order_trans])
qed


lemma add_position_facts:
  assumes "add_position si t a = Some si'"
  shows "unat (amount si') = unat (amount si) + unat a" "amount si' \<noteq> 0"
    "last_add_time si' = max (last_add_time si) t"
    "unat (effective_time si') = (unat (effective_time si) * unat (amount si) + unat t * unat a) div
       (unat (amount si) + unat a)"
proof -
  from assms have "unat (amount si') = unat (amount si) + unat a \<and> unat (amount si) + unat a \<noteq> 0 \<and>
    last_add_time si' = max (last_add_time si) t \<and>
    unat (effective_time si') = (unat (effective_time si) * unat (amount si) + unat t * unat a) div
       (unat (amount si) + unat a)"
    by (auto simp: add_position_eq Let_def split: if_splits)
  then show "unat (amount si') = unat (amount si) + unat a" "amount si' \<noteq> 0"
    "last_add_time si' = max (last_add_time si) t"
    "unat (effective_time si') = (unat (effective_time si) * unat (amount si) + unat t * unat a) div
       (unat (amount si) + unat a)"
    by (auto simp flip: unat_eq_0)
qed

lemma add_position_between:
  assumes "add_position si t a = Some si'"
  shows "min (effective_time si) t \<le> effective_time si'" "effective_time si' \<le> max (effective_time si) t"
proof -
  have pos: "0 < unat (amount si) + unat a"
    using add_position_facts(1,2) [OF assms] by (metis not_gr0 unat_eq_0)
  note e = add_position_facts(4) [OF assms]
  have "min (effective_time si) t \<le> effective_time si' \<and> effective_time si' \<le> max (effective_time si) t"
    using average_between [OF _ pos, of "unat (effective_time si)" "unat t"]
      average_between [OF _ pos, of "unat t" "unat (effective_time si)"]
    unfolding min_def max_def word_le_nat_alt e by auto
  then show "min (effective_time si) t \<le> effective_time si'" "effective_time si' \<le> max (effective_time si) t"
    by simp_all
qed

lemma add_position_ok:
  assumes "add_position si t a = Some si'" "effective_time si \<le> last_add_time si"
  shows "position_ok si'"
  using add_position_facts(2,3) [OF assms(1)] add_position_between(2) [OF assms(1)] assms(2)
  by (auto simp: position_ok_def max_def split: if_splits)

text \<open>With less than \<open>2 ^ 96\<close> tokens in play, only an empty position can make \<open>add\<close> fail.\<close>

lemma add_position_total:
  assumes "unat (amount si) + unat a < 2 ^ 96" "amount si \<noteq> 0 \<or> a \<noteq> 0"
  shows "\<exists>si'. add_position si t a = Some si'"
proof -
  let ?s = "unat (amount si) + unat a"
  let ?w = "unat (effective_time si) * unat (amount si) + unat t * unat a"
  have pos: "0 < ?s" using assms(2) by (auto simp: unat_gt_0)
  have "?w \<le> (2 ^ 32 - 1) * unat (amount si) + (2 ^ 32 - 1) * unat a"
    using u32_less [of "effective_time si"] u32_less [of t] by (intro add_mono mult_le_mono1) simp_all
  also have "\<dots> = (2 ^ 32 - 1) * ?s" by (simp add: distrib_left)
  finally have w: "?w \<le> (2 ^ 32 - 1) * ?s" .
  also have "\<dots> < (2 ^ 32 - 1) * 2 ^ 96" using assms(1) by simp
  finally have w128: "?w < 2 ^ 128" by simp
  have "?w div ?s \<le> (2 ^ 32 - 1) * ?s div ?s" by (rule div_le_mono [OF w])
  also have "\<dots> = 2 ^ 32 - 1" by (rule div_mult_self_is_m [OF pos])
  finally have "?w div ?s \<le> 2 ^ 32 - 1" .
  then show ?thesis
    using assms(1) pos w128 by (simp add: add_position_eq Let_def)
qed

text \<open>
  Claiming by weight gives up the claimed weight and no more: what is left is short of the exact
  difference by nothing, and above it by less than one block of the staked amount.
\<close>

lemma claim_based_on_weight_conserves:
  assumes "weight_force si n = Some W" "w \<le> W" "amount si \<noteq> 0"
  shows "\<exists>e si' W'. claim_based_on_weight si w = Some (e, si') \<and> amount si' = amount si \<and>
    last_add_time si' = last_add_time si \<and> effective_time si \<le> e \<and> e \<le> n \<and> effective_time si' = e \<and>
    weight_force si' n = Some W' \<and>
    unat W \<le> unat W' + unat w \<and> unat W' + unat w < unat W + unat (amount si)"
proof -
  let ?e = "unat (effective_time si)" and ?s = "unat (amount si)"
  let ?d = "unat w div ?s"
  have s: "0 < ?s" using assms(3) by (simp add: unat_gt_0)
  have W: "?e \<le> unat n" "unat W = (unat n - ?e) * ?s"
    using assms(1) by (auto simp: weight_force_eq fit_Some split: if_splits)
  have w: "unat w = ?d * ?s + unat w mod ?s" "unat w mod ?s < ?s"
    using s by simp_all
  have "?d \<le> (unat n - ?e) * ?s div ?s"
    using assms(2) W(2) by (intro div_le_mono) (simp add: word_le_nat_alt)
  also have "\<dots> = unat n - ?e" by (rule div_mult_self_is_m [OF s])
  finally have d: "?d \<le> unat n - ?e" .
  then have le: "?e + ?d \<le> unat n" using W(1) by simp
  then have fits: "?e + ?d < 2 ^ 32" using u32_less [of n] by linarith
  let ?f = "nat_word (?e + ?d) :: u32" let ?si = "si\<lparr>effective_time := ?f\<rparr>"
  have f: "unat ?f = ?e + ?d" using fits by simp
  have c: "claim_based_on_weight si w = Some (?f, ?si)"
    using fits s assms(3) by (simp add: claim_based_on_weight_eq Let_def)
  have "(unat n - (?e + ?d)) * ?s \<le> unat W"
    unfolding W(2) by (intro mult_le_mono1) simp
  then have "(unat n - (?e + ?d)) * ?s < 2 ^ 128"
    using u128_less [of W] by (rule le_less_trans)
  then have W': "weight_force ?si n = Some (nat_word ((unat n - (?e + ?d)) * ?s))"
    "unat (nat_word ((unat n - (?e + ?d)) * ?s) :: u128) = (unat n - (?e + ?d)) * ?s"
    using le f by (simp_all add: weight_force_eq fit_def)
  have "(unat n - (?e + ?d)) + ?d = unat n - ?e" using d by simp
  then have "(unat n - (?e + ?d)) * ?s + ?d * ?s = unat W"
    unfolding W(2) by (simp only: flip: distrib_right)
  then have "unat W \<le> (unat n - (?e + ?d)) * ?s + unat w" "(unat n - (?e + ?d)) * ?s + unat w < unat W + ?s"
    using w by linarith+
  moreover have "effective_time si \<le> ?f" "?f \<le> n"
    using f le by (simp_all add: word_le_nat_alt)
  ultimately have "claim_based_on_weight si w = Some (?f, ?si) \<and> amount ?si = amount si \<and>
    last_add_time ?si = last_add_time si \<and> effective_time si \<le> ?f \<and> ?f \<le> n \<and> effective_time ?si = ?f \<and>
    weight_force ?si n = Some (nat_word ((unat n - (?e + ?d)) * ?s)) \<and>
    unat W \<le> unat (nat_word ((unat n - (?e + ?d)) * ?s) :: u128) + unat w \<and>
    unat (nat_word ((unat n - (?e + ?d)) * ?s) :: u128) + unat w < unat W + ?s"
    unfolding W'(2) using c W'(1) by simp
  then show ?thesis by blast
qed

end
