(* ===== verification/Stable_Staking.thy ===== *)
theory Stable_Staking
  imports Staking_Info
begin

text \<open>
  \<open>pallets/stable-staking/src/lib.rs\<close>: pools of staked stable tokens. A stake waits in a queue
  until its first full epoch begins, then counts towards its pool; rewards in the stable token are
  shared per pool, rewards in the native token over all pools, both by staked amount and time. This
  theory holds the storage and every operation, in the order of the source.
\<close>

section \<open>Storage, events, errors and configuration\<close>

type_synonym pool_id = u128

record pending_stake =  \<comment> \<open>\<open>StakingInfoWithOwner\<close>\<close>
  staker :: account_id
  target_pool :: pool_id
  position :: staking_info

record pool_metadata =
  pool_name :: bytes
  pool_description :: bytes

text \<open>A \<open>ValueQuery\<close> map without an entry reads as the default value 0.\<close>

record staking_storage =
  staking_pool_metadata :: "pool_id \<rightharpoonup> pool_metadata"
  staking_pool_setting :: "pool_id \<rightharpoonup> pool_setting"
  pool_reward :: "pool_id \<Rightarrow> balance"
  pool_epoch_reward :: "pool_id \<times> u128 \<rightharpoonup> balance"
  pool_checkpoint :: "pool_id \<rightharpoonup> staking_info"
  user_pool_checkpoint :: "account_id \<times> pool_id \<rightharpoonup> staking_info"
  native_checkpoint :: "staking_info option"
  user_native_checkpoint :: "account_id \<rightharpoonup> staking_info"
  pending_setup :: "pending_stake list"
  pending_amount :: "pool_id \<Rightarrow> balance"
  aiusd_asset_id :: "asset_id option"

definition empty_staking_storage :: staking_storage where
  "empty_staking_storage = \<lparr>staking_pool_metadata = Map.empty, staking_pool_setting = Map.empty,
     pool_reward = (\<lambda>_. 0), pool_epoch_reward = Map.empty, pool_checkpoint = Map.empty,
     user_pool_checkpoint = Map.empty, native_checkpoint = None, user_native_checkpoint = Map.empty,
     pending_setup = [], pending_amount = (\<lambda>_. 0), aiusd_asset_id = None\<rparr>"

datatype staking_event =
    StakingPoolCreated pool_id u32 u128 u32 u32 balance
  | MetadataSet pool_id bytes bytes
  | MetadataRemoved pool_id
  | RewardUpdated pool_id u128 balance
  | PendingStakingSolved account_id pool_id u32 balance
  | Staked account_id pool_id u32 balance
  | NativeRewardClaimed account_id u32 balance
  | StableRewardClaimed account_id pool_id u32 balance
  | Withdrawn account_id pool_id u32 balance
  | AIUSDRegisted asset_id

datatype staking_error =
    RewardAlreadyExisted | PoolAlreadyStarted | PoolAlreadyEnded | PoolAlreadyExisted | PoolCapLimit
  | PoolNotEnded | PoolNotExisted | PoolNotStarted | BadMetadata | CannotClaimFuture
  | EpochAlreadyEnded | EpochNotExisted | NoAssetId | TypeIncompatibleOrArithmeticError

primrec staking_error_index :: "staking_error \<Rightarrow> nat" where
  "staking_error_index RewardAlreadyExisted = 0"
| "staking_error_index PoolAlreadyStarted = 1"
| "staking_error_index PoolAlreadyEnded = 2"
| "staking_error_index PoolAlreadyExisted = 3"
| "staking_error_index PoolCapLimit = 4"
| "staking_error_index PoolNotEnded = 5"
| "staking_error_index PoolNotExisted = 6"
| "staking_error_index PoolNotStarted = 7"
| "staking_error_index BadMetadata = 8"
| "staking_error_index CannotClaimFuture = 9"
| "staking_error_index EpochAlreadyEnded = 10"
| "staking_error_index EpochNotExisted = 11"
| "staking_error_index NoAssetId = 12"
| "staking_error_index TypeIncompatibleOrArithmeticError = 13"

text \<open>\<open>StableStaking: pallet_stable_staking = 17\<close>.\<close>

definition staking_err :: "staking_error \<Rightarrow> dispatch_error" where
  "staking_err e = ModuleError 17 (staking_error_index e)"

text \<open>
  \<open>Perquintill\<close> is third-party code: \<open>from_rational\<close> makes a proportion of two weights and
  \<open>proportion_of\<close> is its product with a balance.
\<close>

record ('e, 'l) staking_config =
  staking_committee_origin :: "origin \<Rightarrow> bool"
  staking_tokens :: "'l tokens"
  stable_beneficiary :: account_id
  native_beneficiary :: account_id
  pool_string_limit :: u32
  from_rational :: "u128 \<Rightarrow> u128 \<Rightarrow> u64"
  proportion_of :: "u64 \<Rightarrow> u128 \<Rightarrow> u128"
  staking_into_event :: "staking_event \<Rightarrow> 'e"

type_synonym ('e, 'l, 'a) staking = "('e, 'l, staking_storage, 'a) pallet"

definition staking_deposit_event :: "('e, 'l) staking_config \<Rightarrow> staking_event \<Rightarrow> ('e, 'l, unit) staking" where
  "staking_deposit_event cfg ev = deposit_event (staking_into_event cfg ev)"

abbreviation arith_or :: "'a option \<Rightarrow> ('e, 'l, 'a) staking" where
  "arith_or x \<equiv> ok_or x (staking_err TypeIncompatibleOrArithmeticError)"

section \<open>Epochs\<close>

text \<open>\<open>saturating_sub\<close> makes every time before the start fall into epoch 0.\<close>

definition epoch_index_in :: "pool_setting \<Rightarrow> u32 \<Rightarrow> dispatch_error + u128" where
  "epoch_index_in ps time =
     (case checked_div (saturating_sub time (start_time ps)) (epoch_range ps) of
        None \<Rightarrow> Inl (Arithmetic DivisionByZero)
      | Some index_bn \<Rightarrow>
          (case (try_into index_bn :: u128 option) of
             None \<Rightarrow> Inl (staking_err TypeIncompatibleOrArithmeticError)
           | Some index \<Rightarrow> Inr (if epoch ps \<le> index then epoch ps else index)))"

definition epoch_begin_in :: "pool_setting \<Rightarrow> u128 \<Rightarrow> dispatch_error + u32" where
  "epoch_begin_in ps ep =
     (if epoch ps \<le> ep
      then (case end_time ps of
              None \<Rightarrow> Inl (staking_err TypeIncompatibleOrArithmeticError) | Some t \<Rightarrow> Inr t)
      else case (try_into ep :: u32 option) of
             None \<Rightarrow> Inl (staking_err TypeIncompatibleOrArithmeticError)
           | Some epoch_bn \<Rightarrow>
               (case checked_mul (epoch_range ps) epoch_bn of
                  None \<Rightarrow> Inl (Arithmetic Overflow)
                | Some d \<Rightarrow>
                    (case checked_add (start_time ps) d of
                       None \<Rightarrow> Inl (Arithmetic Overflow) | Some t \<Rightarrow> Inr t)))"

definition lift_result :: "'e + 'a \<Rightarrow> ('e, 's, 'a) exec" where
  "lift_result r s = (r, s)"

definition pool_setting_of :: "pool_id \<Rightarrow> ('e, 'l, pool_setting) staking" where
  "pool_setting_of p =
     bindE (read_store (\<lambda>s. staking_pool_setting s p)) (\<lambda>ps. ok_or ps (staking_err PoolNotExisted))"

definition get_epoch_index :: "pool_id \<Rightarrow> u32 \<Rightarrow> ('e, 'l, u128) staking" where
  "get_epoch_index p time = bindE (pool_setting_of p) (\<lambda>ps. lift_result (epoch_index_in ps time))"

definition get_epoch_begin_time :: "pool_id \<Rightarrow> u128 \<Rightarrow> ('e, 'l, u32) staking" where
  "get_epoch_begin_time p ep = bindE (pool_setting_of p) (\<lambda>ps. lift_result (epoch_begin_in ps ep))"

section \<open>Checkpoints\<close>

text \<open>The closure of the four \<open>try_mutate\<close> calls: add to the checkpoint, or open it.\<close>

definition add_or_open :: "staking_info option \<Rightarrow> u32 \<Rightarrow> balance \<Rightarrow> staking_info option" where
  "add_or_open checkpoint t a =
     (case checkpoint of Some si \<Rightarrow> add_position si t a | None \<Rightarrow> Some (new_position t a))"

definition do_native_add :: "account_id \<Rightarrow> balance \<Rightarrow> u32 \<Rightarrow> ('e, 'l, unit) staking" where
  "do_native_add who a t =
     bindE (read_store native_checkpoint) (\<lambda>cp.
     bindE (arith_or (add_or_open cp t a)) (\<lambda>cp'.
     thenE (write_store (\<lambda>s. s\<lparr>native_checkpoint := Some cp'\<rparr>))
     (bindE (read_store (\<lambda>s. user_native_checkpoint s who)) (\<lambda>ucp.
      bindE (arith_or (add_or_open ucp t a)) (\<lambda>ucp'.
      write_store (\<lambda>s. s\<lparr>user_native_checkpoint := (user_native_checkpoint s)(who \<mapsto> ucp')\<rparr>))))))"

definition do_stable_add :: "account_id \<Rightarrow> pool_id \<Rightarrow> balance \<Rightarrow> u32 \<Rightarrow> ('e, 'l, unit) staking" where
  "do_stable_add who p a t =
     bindE (read_store (\<lambda>s. pool_checkpoint s p)) (\<lambda>cp.
     bindE (arith_or (add_or_open cp t a)) (\<lambda>cp'.
     thenE (write_store (\<lambda>s. s\<lparr>pool_checkpoint := (pool_checkpoint s)(p \<mapsto> cp')\<rparr>))
     (bindE (read_store (\<lambda>s. user_pool_checkpoint s (who, p))) (\<lambda>ucp.
      bindE (arith_or (add_or_open ucp t a)) (\<lambda>ucp'.
      write_store (\<lambda>s. s\<lparr>user_pool_checkpoint := (user_pool_checkpoint s)((who, p) \<mapsto> ucp')\<rparr>))))))"

section \<open>The pending queue\<close>

fun solve_loop :: "('e, 'l) staking_config \<Rightarrow> u32 \<Rightarrow> pending_stake list \<Rightarrow> ('e, 'l, pending_stake list) staking" where
  "solve_loop cfg n [] = ret []"
| "solve_loop cfg n (x # xs) =
     (if effective_time (position x) \<le> n then
        thenE (do_stable_add (staker x) (target_pool x) (amount (position x)) n)
        (thenE (staking_deposit_event cfg (PendingStakingSolved (staker x) (target_pool x) n (amount (position x))))
        (bindE (read_store (\<lambda>s. pending_amount s (target_pool x))) (\<lambda>pending.
         bindE (ok_or (checked_sub pending (amount (position x))) (Arithmetic Underflow)) (\<lambda>rest.
         thenE (write_store (\<lambda>s. s\<lparr>pending_amount := (pending_amount s)(target_pool x := rest)\<rparr>))
         (solve_loop cfg n xs)))))
      else ret (x # xs))"

text \<open>\<open>PendingSetup::take()\<close> empties the stored queue; what is left is put back at the very end.\<close>

definition solve_pending :: "('e, 'l) staking_config \<Rightarrow> u32 \<Rightarrow> ('e, 'l, unit) staking" where
  "solve_pending cfg n =
     bindE (read_store pending_setup) (\<lambda>queue.
     thenE (write_store (\<lambda>s. s\<lparr>pending_setup := []\<rparr>))
     (bindE (solve_loop cfg n queue) (\<lambda>rest.
      write_store (\<lambda>s. s\<lparr>pending_setup := rest\<rparr>))))"

definition begin_block :: "('e, 'l) staking_config \<Rightarrow> u32 \<Rightarrow> ('e, 'l, weight) staking" where
  "begin_block cfg n =
     thenE
      (bindE (read_store pending_setup) (\<lambda>queue.
       case queue of
         [] \<Rightarrow> ret ()
       | latest # _ \<Rightarrow>
           (if effective_time (position latest) \<le> n then attempt (solve_pending cfg n) else ret ())))
      (ret zero_weight)"

definition staking_on_initialize :: "('e, 'l) staking_config \<Rightarrow> u32 \<Rightarrow> ('e, 'l, weight) staking" where
  "staking_on_initialize cfg n = begin_block cfg n"

section \<open>Claims and withdrawal\<close>

definition do_native_claim :: "('e, 'l) staking_config \<Rightarrow> account_id \<Rightarrow> u32 \<Rightarrow> ('e, 'l, unit) staking" where
  "do_native_claim cfg who until_time =
     bindE now (\<lambda>current_block.
     thenE (ensure (until_time \<le> current_block) (staking_err CannotClaimFuture))
     (bindE (gets (\<lambda>w. tk_balance (native_token (staking_tokens cfg)) (ledger w) (native_beneficiary cfg))) (\<lambda>reward_pool.
      bindE (read_store native_checkpoint) (\<lambda>cp.
      bindE (read_store (\<lambda>s. user_native_checkpoint s who)) (\<lambda>ucp.
      case (cp, ucp) of
        (Some ncp, Some user_ncp) \<Rightarrow>
          bindE (arith_or (claim user_ncp until_time)) (\<lambda>(user_claimed_weight, user_ncp').
          bindE (arith_or (weight_force ncp until_time)) (\<lambda>total_weight.
          bindE (arith_or (claim_based_on_weight ncp user_claimed_weight)) (\<lambda>(_, ncp').
          let distributed_reward = proportion_of cfg (from_rational cfg user_claimed_weight total_weight) reward_pool in
          bindE (on_ledger (tk_transfer (native_token (staking_tokens cfg)) (native_beneficiary cfg) who distributed_reward)) (\<lambda>_.
          block
           [write_store (\<lambda>s. s\<lparr>native_checkpoint := Some ncp'\<rparr>),
            write_store (\<lambda>s. s\<lparr>user_native_checkpoint := (user_native_checkpoint s)(who \<mapsto> user_ncp')\<rparr>),
            staking_deposit_event cfg (NativeRewardClaimed who until_time distributed_reward)]))))
      | _ \<Rightarrow> ret ())))))"

definition do_stable_claim :: "('e, 'l) staking_config \<Rightarrow> account_id \<Rightarrow> pool_id \<Rightarrow> u32 \<Rightarrow> ('e, 'l, unit) staking" where
  "do_stable_claim cfg who p until_time =
     bindE now (\<lambda>current_block.
     thenE (ensure (until_time \<le> current_block) (staking_err CannotClaimFuture))
     (bindE (read_store (\<lambda>s. pool_reward s p)) (\<lambda>reward_pool.
      bindE (bindE (read_store aiusd_asset_id) (\<lambda>a. ok_or a (staking_err NoAssetId))) (\<lambda>asset_id.
      bindE (read_store (\<lambda>s. pool_checkpoint s p)) (\<lambda>cp.
      bindE (read_store (\<lambda>s. user_pool_checkpoint s (who, p))) (\<lambda>ucp.
      case (cp, ucp) of
        (Some scp, Some user_scp) \<Rightarrow>
          bindE (arith_or (claim user_scp until_time)) (\<lambda>(user_claimed_weight, user_scp').
          bindE (arith_or (weight_force scp until_time)) (\<lambda>total_weight.
          bindE (arith_or (claim_based_on_weight scp user_claimed_weight)) (\<lambda>(_, scp').
          let distributed_reward = proportion_of cfg (from_rational cfg user_claimed_weight total_weight) reward_pool in
          bindE (on_ledger (tk_transfer (asset_token (staking_tokens cfg) asset_id) (stable_beneficiary cfg) who distributed_reward)) (\<lambda>_.
          block
           [write_store (\<lambda>s. s\<lparr>pool_reward := (pool_reward s)(p := reward_pool - distributed_reward)\<rparr>),
            write_store (\<lambda>s. s\<lparr>pool_checkpoint := (pool_checkpoint s)(p \<mapsto> scp')\<rparr>),
            write_store (\<lambda>s. s\<lparr>user_pool_checkpoint := (user_pool_checkpoint s)((who, p) \<mapsto> user_scp')\<rparr>),
            staking_deposit_event cfg (StableRewardClaimed who p until_time distributed_reward)]))))
      | _ \<Rightarrow> ret ()))))))"


text \<open>The two parts of \<open>do_withdraw\<close> that correct the native checkpoints.\<close>

definition shrink_native :: "balance \<Rightarrow> ('e, 'l, unit) staking" where
  "shrink_native a =
     bindE (read_store native_checkpoint) (\<lambda>checkpoint.
     case checkpoint of
       None \<Rightarrow> ret ()
     | Some ncp \<Rightarrow>
         bindE (ok_or (withdraw_position ncp a) (Arithmetic Underflow)) (\<lambda>(_, ncp').
         write_store (\<lambda>s. s\<lparr>native_checkpoint := Some ncp'\<rparr>)))"

definition shrink_user_native :: "account_id \<Rightarrow> balance \<Rightarrow> ('e, 'l, unit) staking" where
  "shrink_user_native who a =
     bindE (read_store (\<lambda>s. user_native_checkpoint s who)) (\<lambda>checkpoint.
     case checkpoint of
       None \<Rightarrow> ret ()
     | Some user_ncp \<Rightarrow>
         if amount user_ncp = a
         then write_store (\<lambda>s. s\<lparr>user_native_checkpoint := (user_native_checkpoint s)(who := None)\<rparr>)
         else bindE (ok_or (withdraw_position user_ncp a) (Arithmetic Underflow)) (\<lambda>(_, user_ncp').
              write_store (\<lambda>s. s\<lparr>user_native_checkpoint := (user_native_checkpoint s)(who \<mapsto> user_ncp')\<rparr>)))"

definition do_withdraw :: "('e, 'l) staking_config \<Rightarrow> account_id \<Rightarrow> pool_id \<Rightarrow> ('e, 'l, unit) staking" where
  "do_withdraw cfg who p =
     bindE now (\<lambda>current_block.
     bindE (bindE (read_store aiusd_asset_id) (\<lambda>a. ok_or a (staking_err NoAssetId))) (\<lambda>asset_id.
     bindE (read_store (\<lambda>s. pool_checkpoint s p)) (\<lambda>cp.
     bindE (read_store (\<lambda>s. user_pool_checkpoint s (who, p))) (\<lambda>ucp.
     case (cp, ucp) of
       (Some scp, Some user_scp) \<Rightarrow>
         bindE (on_ledger (tk_transfer (asset_token (staking_tokens cfg) asset_id) (stable_beneficiary cfg) who (amount user_scp))) (\<lambda>_.
         bindE (ok_or (withdraw_position scp (amount user_scp)) (Arithmetic Underflow)) (\<lambda>(_, scp').
         block
          [write_store (\<lambda>s. s\<lparr>pool_checkpoint := (pool_checkpoint s)(p \<mapsto> scp')\<rparr>),
           shrink_native (amount user_scp),
           write_store (\<lambda>s. s\<lparr>user_pool_checkpoint := (user_pool_checkpoint s)((who, p) := None)\<rparr>),
           shrink_user_native who (amount user_scp),
           staking_deposit_event cfg (Withdrawn who p current_block (amount user_scp))]))
     | _ \<Rightarrow> ret ()))))"

section \<open>Dispatchables\<close>

definition create_staking_pool ::
  "('e, 'l) staking_config \<Rightarrow> origin \<Rightarrow> pool_id \<Rightarrow> pool_setting \<Rightarrow> ('e, 'l, unit) staking" where
  "create_staking_pool cfg o' p setting =
     transactional
      (thenE (ensure_origin (staking_committee_origin cfg) o')
      (bindE now (\<lambda>n.
       thenE (ensure (n \<le> start_time setting) (staking_err PoolAlreadyStarted))
      (bindE (read_store (\<lambda>s. staking_pool_setting s p)) (\<lambda>old.
       block
        [ensure (old = None) (staking_err PoolAlreadyExisted),
         write_store (\<lambda>s. s\<lparr>staking_pool_setting := (staking_pool_setting s)(p \<mapsto> setting)\<rparr>),
         staking_deposit_event cfg (StakingPoolCreated p (start_time setting) (epoch setting)
           (epoch_range setting) (setup_time setting) (pool_cap setting))])))))"

text \<open>\<open>try_into\<close> a \<open>BoundedVec\<close> fails beyond the configured length.\<close>

definition bounded :: "('e, 'l) staking_config \<Rightarrow> bytes \<Rightarrow> bool" where
  "bounded cfg xs \<longleftrightarrow> length xs \<le> unat (pool_string_limit cfg)"

definition update_metadata ::
  "('e, 'l) staking_config \<Rightarrow> origin \<Rightarrow> pool_id \<Rightarrow> bytes option \<Rightarrow> bytes \<Rightarrow> ('e, 'l, unit) staking" where
  "update_metadata cfg o' p nm description =
     transactional
      (thenE (ensure_origin (staking_committee_origin cfg) o')
      (bindE (read_store (\<lambda>s. staking_pool_setting s p)) (\<lambda>setting.
       thenE (ensure (setting \<noteq> None) (staking_err PoolNotExisted))
       (case nm of
          Some name_inner \<Rightarrow>
            block
             [ensure (bounded cfg name_inner) (staking_err BadMetadata),
              ensure (bounded cfg description) (staking_err BadMetadata),
              write_store (\<lambda>s. s\<lparr>staking_pool_metadata := (staking_pool_metadata s)(p \<mapsto>
                \<lparr>pool_name = name_inner, pool_description = description\<rparr>)\<rparr>),
              staking_deposit_event cfg (MetadataSet p name_inner description)]
        | None \<Rightarrow>
            block
             [write_store (\<lambda>s. s\<lparr>staking_pool_metadata := (staking_pool_metadata s)(p := None)\<rparr>),
              staking_deposit_event cfg (MetadataRemoved p)]))))"

definition update_reward ::
  "('e, 'l) staking_config \<Rightarrow> origin \<Rightarrow> pool_id \<Rightarrow> u128 \<Rightarrow> balance \<Rightarrow> ('e, 'l, unit) staking" where
  "update_reward cfg o' p ep reward =
     transactional (transactional
      (thenE (ensure_origin (staking_committee_origin cfg) o')
      (bindE now (\<lambda>current_block.
       bindE (get_epoch_index p current_block) (\<lambda>current_epoch.
       bindE (pool_setting_of p) (\<lambda>setting.
       thenE (ensure (epoch setting \<ge> ep) (staking_err EpochNotExisted))
      (thenE (ensure (current_epoch \<le> ep) (staking_err EpochAlreadyEnded))
      (bindE (bindE (read_store aiusd_asset_id) (\<lambda>a. ok_or a (staking_err NoAssetId))) (\<lambda>asset_id.
       bindE (on_ledger (tk_mint_into (asset_token (staking_tokens cfg) asset_id) (stable_beneficiary cfg) reward)) (\<lambda>actual_reward.
       bindE (read_store (\<lambda>s. pool_epoch_reward s (p, ep))) (\<lambda>maybe_reward.
       thenE (ensure (maybe_reward = None) (staking_err RewardAlreadyExisted))
      (thenE (staking_deposit_event cfg (RewardUpdated p ep actual_reward))
      (thenE (write_store (\<lambda>s. s\<lparr>pool_epoch_reward := (pool_epoch_reward s)((p, ep) \<mapsto> actual_reward)\<rparr>))
      (bindE (read_store (\<lambda>s. pool_reward s p)) (\<lambda>old.
       bindE (ok_or (checked_add old actual_reward) (Arithmetic Overflow)) (\<lambda>new.
       write_store (\<lambda>s. s\<lparr>pool_reward := (pool_reward s)(p := new)\<rparr>)))))))))))))))))"

text \<open>What the cap leaves over the staked and the pending amount; both subtractions are checked.\<close>

definition available_pool_cap :: "pool_setting \<Rightarrow> staking_info option \<Rightarrow> balance \<Rightarrow> balance option" where
  "available_pool_cap setting cp pending =
     (case cp of
        Some scp \<Rightarrow> Option.bind (checked_sub (pool_cap setting) (amount scp)) (\<lambda>left. checked_sub left pending)
      | None \<Rightarrow> checked_sub (pool_cap setting) pending)"

definition stake ::
  "('e, 'l) staking_config \<Rightarrow> origin \<Rightarrow> pool_id \<Rightarrow> balance \<Rightarrow> ('e, 'l, unit) staking" where
  "stake cfg o' p a =
     transactional (transactional
      (bindE (ensure_signed o') (\<lambda>source.
       bindE now (\<lambda>current_block.
       bindE (pool_setting_of p) (\<lambda>setting.
       bindE (arith_or (end_time setting)) (\<lambda>end.
       thenE (ensure (start_time setting < current_block) (staking_err PoolNotStarted))
      (bindE (read_store (\<lambda>s. pending_amount s p)) (\<lambda>pending.
       bindE (read_store (\<lambda>s. pool_checkpoint s p)) (\<lambda>cp.
       bindE (ok_or (available_pool_cap setting cp pending) (Arithmetic Underflow)) (\<lambda>available.
       thenE (ensure (available \<ge> a) (staking_err PoolCapLimit))
      (bindE (ok_or (checked_add current_block (setup_time setting)) (Arithmetic Overflow)) (\<lambda>ready.
       bindE (get_epoch_index p ready) (\<lambda>ready_epoch.
       bindE (ok_or (checked_add ready_epoch 1) (Arithmetic Overflow)) (\<lambda>effective_epoch.
       bindE (get_epoch_begin_time p effective_epoch) (\<lambda>eff.
       thenE (ensure (end > eff) (staking_err PoolAlreadyEnded))
      (thenE (write_store (\<lambda>s. s\<lparr>pending_setup := sort_key (\<lambda>x. effective_time (position x))
          (pending_setup s @ [\<lparr>staker = source, target_pool = p, position = new_position eff a\<rparr>])\<rparr>))
      (bindE (ok_or (checked_add pending a) (Arithmetic Overflow)) (\<lambda>pending'.
       thenE (write_store (\<lambda>s. s\<lparr>pending_amount := (pending_amount s)(p := pending')\<rparr>))
      (thenE (do_native_add source a current_block)
      (bindE (bindE (read_store aiusd_asset_id) (\<lambda>i. ok_or i (staking_err NoAssetId))) (\<lambda>asset_id.
       bindE (on_ledger (tk_transfer (asset_token (staking_tokens cfg) asset_id) source (stable_beneficiary cfg) a)) (\<lambda>_.
       staking_deposit_event cfg (Staked source p eff a)))))))))))))))))))))))"

definition solve_pending_stake :: "('e, 'l) staking_config \<Rightarrow> origin \<Rightarrow> ('e, 'l, unit) staking" where
  "solve_pending_stake cfg o' =
     transactional (transactional
      (bindE (ensure_signed o') (\<lambda>_. bindE now (\<lambda>current_block. solve_pending cfg current_block))))"

definition claim_native :: "('e, 'l) staking_config \<Rightarrow> origin \<Rightarrow> u32 \<Rightarrow> ('e, 'l, unit) staking" where
  "claim_native cfg o' until_time =
     transactional (transactional
      (bindE (ensure_signed o') (\<lambda>source. do_native_claim cfg source until_time)))"

definition claim_stable :: "('e, 'l) staking_config \<Rightarrow> origin \<Rightarrow> pool_id \<Rightarrow> u32 \<Rightarrow> ('e, 'l, unit) staking" where
  "claim_stable cfg o' p until_time =
     transactional (transactional
      (bindE (ensure_signed o') (\<lambda>source. do_stable_claim cfg source p until_time)))"

definition withdraw :: "('e, 'l) staking_config \<Rightarrow> origin \<Rightarrow> pool_id \<Rightarrow> ('e, 'l, unit) staking" where
  "withdraw cfg o' p =
     transactional (transactional
      (bindE (ensure_signed o') (\<lambda>source.
       bindE (pool_setting_of p) (\<lambda>setting.
       bindE now (\<lambda>current_block.
       bindE (arith_or (end_time setting)) (\<lambda>end.
       block
        [ensure (end < current_block) (staking_err PoolNotEnded),
         do_native_claim cfg source current_block,
         do_stable_claim cfg source p current_block,
         do_withdraw cfg source p]))))))"

definition regist_aiusd :: "('e, 'l) staking_config \<Rightarrow> origin \<Rightarrow> asset_id \<Rightarrow> ('e, 'l, unit) staking" where
  "regist_aiusd cfg o' i =
     transactional (transactional (block
      [ensure_origin (staking_committee_origin cfg) o',
       write_store (\<lambda>s. s\<lparr>aiusd_asset_id := Some i\<rparr>),
       staking_deposit_event cfg (AIUSDRegisted i)]))"

datatype staking_call =
    CreateStakingPool pool_id pool_setting
  | UpdateMetadata pool_id "bytes option" bytes
  | UpdateReward pool_id u128 balance
  | Stake pool_id balance
  | SolvePendingStake
  | ClaimNative u32
  | ClaimStable pool_id u32
  | Withdraw pool_id
  | RegistAiusd asset_id

fun run_staking_call ::
  "('e, 'l) staking_config \<Rightarrow> staking_call \<Rightarrow> origin \<Rightarrow> ('e, 'l, unit) staking" where
  "run_staking_call cfg (CreateStakingPool p s) o' = create_staking_pool cfg o' p s"
| "run_staking_call cfg (UpdateMetadata p n d) o' = update_metadata cfg o' p n d"
| "run_staking_call cfg (UpdateReward p e r) o' = update_reward cfg o' p e r"
| "run_staking_call cfg (Stake p a) o' = stake cfg o' p a"
| "run_staking_call cfg SolvePendingStake o' = solve_pending_stake cfg o'"
| "run_staking_call cfg (ClaimNative t) o' = claim_native cfg o' t"
| "run_staking_call cfg (ClaimStable p t) o' = claim_stable cfg o' p t"
| "run_staking_call cfg (Withdraw p) o' = withdraw cfg o' p"
| "run_staking_call cfg (RegistAiusd i) o' = regist_aiusd cfg o' i"

end
