(* ===== verification/Staking_Runs.thy ===== *)
theory Staking_Runs
  imports Stable_Staking "HOL-Library.Multiset"
begin

text \<open>
  The runs of the staking operations, what each does to the books (staked, pending and reward
  amounts per pool), and the invariant under which the pending queue can always be processed.
\<close>

section \<open>Sums over every finite set\<close>

text \<open>
  \<open>covers f b\<close>: the amounts \<open>f\<close> of any finite set of pools (or users) add up to at most \<open>b\<close>. A
  deposit or withdrawal at one of them moves both sides alike.
\<close>

definition covers :: "('a \<Rightarrow> nat) \<Rightarrow> nat \<Rightarrow> bool" where
  "covers f b \<longleftrightarrow> (\<forall>P. finite P \<longrightarrow> sum f P \<le> b)"

lemma covers_zero: "(\<And>x. f x = 0) \<Longrightarrow> covers f b"
  by (simp add: covers_def)

lemma covers_member: "covers f b \<Longrightarrow> f x \<le> b"
  unfolding covers_def by (drule spec [of _ "{x}"]) simp

lemma covers_mono: "covers f b \<Longrightarrow> b \<le> c \<Longrightarrow> covers f c"
  unfolding covers_def by (meson order_trans)

lemma sum_upd:
  fixes f :: "'a \<Rightarrow> nat"
  assumes "finite P" "x \<in> P" shows "sum (f(x := v)) P + f x = sum f P + v"
proof -
  have "sum (f(x := v)) P = v + sum f (P - {x})" "sum f P = f x + sum f (P - {x})"
    using assms by (simp_all add: sum.remove)
  then show ?thesis by simp
qed

lemma covers_add:
  assumes "covers f b" shows "covers (f(x := f x + d)) (b + d)"
  unfolding covers_def
proof (intro allI impI)
  fix P :: "'a set" assume P: "finite P"
  then have le: "sum f P \<le> b" using assms by (simp add: covers_def)
  show "sum (f(x := f x + d)) P \<le> b + d"
  proof (cases "x \<in> P")
    case True
    with sum_upd [OF P True, of f "f x + d"] le show ?thesis by simp
  next
    case False
    then have "sum (f(x := f x + d)) P = sum f P" by (intro sum.cong) auto
    with le show ?thesis by simp
  qed
qed

lemma covers_sub:
  assumes "covers f b" "d \<le> f x" shows "covers (f(x := f x - d)) (b - d)"
  unfolding covers_def
proof (intro allI impI)
  fix P :: "'a set" assume P: "finite P"
  then have le: "sum f (insert x P) \<le> b" using assms by (simp add: covers_def)
  have "sum (f(x := f x - d)) (insert x P) + f x = sum f (insert x P) + (f x - d)"
    using P by (intro sum_upd) auto
  moreover have "sum (f(x := f x - d)) P \<le> sum (f(x := f x - d)) (insert x P)"
    using P by (intro sum_mono2) auto
  ultimately show "sum (f(x := f x - d)) P \<le> b - d" using le assms(2) by linarith
qed

section \<open>The books\<close>

definition si_amount :: "staking_info option \<Rightarrow> nat" where
  "si_amount cp = (case cp of None \<Rightarrow> 0 | Some si \<Rightarrow> unat (amount si))"

lemma si_amount_simps [simp]: "si_amount None = 0" "si_amount (Some si) = unat (amount si)"
  by (simp_all add: si_amount_def)

definition staked :: "staking_storage \<Rightarrow> pool_id \<Rightarrow> nat" where
  "staked s p = si_amount (pool_checkpoint s p)"

definition user_staked :: "staking_storage \<Rightarrow> pool_id \<Rightarrow> account_id \<Rightarrow> nat" where
  "user_staked s p u = si_amount (user_pool_checkpoint s (u, p))"

definition liability :: "staking_storage \<Rightarrow> pool_id \<Rightarrow> nat" where
  "liability s p = unat (pool_reward s p) + staked s p + unat (pending_amount s p)"

definition queued :: "pool_id \<Rightarrow> pending_stake list \<Rightarrow> nat" where
  "queued p xs = (\<Sum>x \<leftarrow> xs. if target_pool x = p then unat (amount (position x)) else 0)"

lemma queued_simps [simp]:
  "queued p [] = 0"
  "queued p (x # xs) = (if target_pool x = p then unat (amount (position x)) else 0) + queued p xs"
  "queued p (xs @ ys) = queued p xs + queued p ys"
  by (simp_all add: queued_def)

lemma queued_sort [simp]: "queued p (sort_key f xs) = queued p xs"
  unfolding queued_def by (simp flip: sum_mset_sum_list)

text \<open>
  The invariant, for the queue \<open>xs\<close>: a pool takes in no more than its cap, its users' stakes are
  covered by its checkpoint, its pending amount is what the queue holds for it, and the queue holds
  no empty stakes and is sorted by effective time.
\<close>

definition within_cap :: "pool_setting option \<Rightarrow> nat \<Rightarrow> bool" where
  "within_cap ps m = (case ps of
     None \<Rightarrow> m = 0 | Some ps \<Rightarrow> m \<le> unat (pool_cap ps) \<and> unat (pool_cap ps) < 2 ^ 96)"

definition books_ok :: "staking_storage \<Rightarrow> pending_stake list \<Rightarrow> bool" where
  "books_ok s xs \<longleftrightarrow>
     (\<forall>p. within_cap (staking_pool_setting s p) (staked s p + unat (pending_amount s p))) \<and>
     (\<forall>p. covers (user_staked s p) (staked s p)) \<and>
     (\<forall>p. unat (pending_amount s p) = queued p xs) \<and>
     (\<forall>x \<in> set xs. amount (position x) \<noteq> 0) \<and>
     sorted (map (\<lambda>x. effective_time (position x)) xs)"

definition staking_inv :: "staking_storage \<Rightarrow> bool" where
  "staking_inv s \<longleftrightarrow> books_ok s (pending_setup s)"

lemma books_okI:
  assumes "\<And>p. within_cap (staking_pool_setting s p) (staked s p + unat (pending_amount s p))"
    and "\<And>p. covers (user_staked s p) (staked s p)"
    and "\<And>p. unat (pending_amount s p) = queued p xs"
    and "\<And>x. x \<in> set xs \<Longrightarrow> amount (position x) \<noteq> 0"
    and "sorted (map (\<lambda>x. effective_time (position x)) xs)"
  shows "books_ok s xs"
  using assms unfolding books_ok_def by blast

lemma books_okD:
  assumes "books_ok s xs"
  shows "within_cap (staking_pool_setting s p) (staked s p + unat (pending_amount s p))"
    and "covers (user_staked s p) (staked s p)" and "unat (pending_amount s p) = queued p xs"
    and "x \<in> set xs \<Longrightarrow> amount (position x) \<noteq> 0"
    and "sorted (map (\<lambda>x. effective_time (position x)) xs)"
  using assms unfolding books_ok_def by blast+

lemma books_ok_bound:
  assumes "books_ok s xs" shows "staked s p + unat (pending_amount s p) < 2 ^ 96"
  using books_okD(1) [OF assms, of p] by (cases "staking_pool_setting s p") (auto simp: within_cap_def)

section \<open>Basic runs\<close>

lemma staking_err_eq [simp]: "staking_err e = staking_err e' \<longleftrightarrow> e = e'"
  by (cases e; cases e') (simp_all add: staking_err_def)

lemma lift_result_ok [exec_ok]: "lift_result r s = (Inr x, t) \<longleftrightarrow> r = Inr x \<and> t = s"
  by (auto simp: lift_result_def)

lemma pool_setting_of_ok [exec_ok]:
  "pool_setting_of p w = (Inr ps, t) \<longleftrightarrow> staking_pool_setting (store w) p = Some ps \<and> t = w"
  by (auto simp: pool_setting_of_def exec_ok)

lemma get_epoch_index_ok [exec_ok]:
  "get_epoch_index p n w = (Inr i, t) \<longleftrightarrow>
    (\<exists>ps. staking_pool_setting (store w) p = Some ps \<and> epoch_index_in ps n = Inr i) \<and> t = w"
  by (auto simp: get_epoch_index_def exec_ok)

lemma get_epoch_begin_time_ok [exec_ok]:
  "get_epoch_begin_time p e w = (Inr i, t) \<longleftrightarrow>
    (\<exists>ps. staking_pool_setting (store w) p = Some ps \<and> epoch_begin_in ps e = Inr i) \<and> t = w"
  by (auto simp: get_epoch_begin_time_def exec_ok)

lemma staking_deposit_event_ok [exec_ok]:
  "staking_deposit_event cfg ev w = (Inr u, t) \<longleftrightarrow> t = w\<lparr>events := events w @ [staking_into_event cfg ev]\<rparr>"
  by (auto simp: staking_deposit_event_def exec_ok)

text \<open>Every dispatchable runs in a storage layer: a failed call leaves the world as it was.\<close>

lemma staking_call_atomic:
  assumes "run_staking_call cfg c o' w = (Inl e, w')" shows "w' = w"
  using assms
  by (cases c)
     (auto simp: transactional_err create_staking_pool_def update_metadata_def update_reward_def stake_def
       solve_pending_stake_def claim_native_def claim_stable_def withdraw_def regist_aiusd_def)

lemma add_or_open_amount:
  "add_or_open cp t a = Some cp' \<Longrightarrow> unat (amount cp') = si_amount cp + unat a"
  by (auto simp: add_or_open_def new_position_def add_position_facts(1) split: option.splits)

lemma add_or_open_total:
  assumes "si_amount cp + unat a < 2 ^ 96" "a \<noteq> 0"
  shows "\<exists>cp'. add_or_open cp t a = Some cp'"
  using assms add_position_total [of _ a t] by (cases cp) (auto simp: add_or_open_def)

lemma do_native_add_ok:
  "do_native_add who a t w = (Inr u, w') \<longleftrightarrow>
    (\<exists>cp ucp. add_or_open (native_checkpoint (store w)) t a = Some cp \<and>
       add_or_open (user_native_checkpoint (store w) who) t a = Some ucp \<and>
       w' = w\<lparr>store := (store w)\<lparr>native_checkpoint := Some cp,
         user_native_checkpoint := (user_native_checkpoint (store w))(who \<mapsto> ucp)\<rparr>\<rparr>)"
  by (auto simp: do_native_add_def exec_ok)

lemma do_stable_add_run:
  "do_stable_add who p a t w =
    (case add_or_open (pool_checkpoint (store w) p) t a of
       None \<Rightarrow> (Inl (staking_err TypeIncompatibleOrArithmeticError), w)
     | Some cp \<Rightarrow>
         let w1 = w\<lparr>store := (store w)\<lparr>pool_checkpoint := (pool_checkpoint (store w))(p \<mapsto> cp)\<rparr>\<rparr> in
         (case add_or_open (user_pool_checkpoint (store w) (who, p)) t a of
            None \<Rightarrow> (Inl (staking_err TypeIncompatibleOrArithmeticError), w1)
          | Some ucp \<Rightarrow> (Inr (), w1\<lparr>store := (store w1)\<lparr>user_pool_checkpoint :=
              (user_pool_checkpoint (store w))((who, p) \<mapsto> ucp)\<rparr>\<rparr>)))"
  by (simp add: do_stable_add_def exec_eval Let_def split: option.split)


section \<open>Processing the queue\<close>

text \<open>The storage after the entry \<open>x\<close> was moved from the queue to its checkpoints.\<close>

definition moved :: "staking_storage \<Rightarrow> pending_stake \<Rightarrow> staking_info \<Rightarrow> staking_info \<Rightarrow> staking_storage" where
  "moved s x cp ucp = s\<lparr>
     pool_checkpoint := (pool_checkpoint s)(target_pool x \<mapsto> cp),
     user_pool_checkpoint := (user_pool_checkpoint s)((staker x, target_pool x) \<mapsto> ucp),
     pending_amount := (pending_amount s)(target_pool x := pending_amount s (target_pool x) - amount (position x))\<rparr>"

lemma solve_loop_step:
  assumes "effective_time (position x) \<le> n"
    and "add_or_open (pool_checkpoint (store w) (target_pool x)) n (amount (position x)) = Some cp"
    and "add_or_open (user_pool_checkpoint (store w) (staker x, target_pool x)) n (amount (position x)) = Some ucp"
    and "amount (position x) \<le> pending_amount (store w) (target_pool x)"
  shows "solve_loop cfg n (x # xs) w = solve_loop cfg n xs (w\<lparr>
    events := events w @ [staking_into_event cfg (PendingStakingSolved (staker x) (target_pool x) n (amount (position x)))],
    store := moved (store w) x cp ucp\<rparr>)"
  using assms
  by (simp add: thenE_run [of "do_stable_add _ _ _ _"] do_stable_add_run Let_def exec_eval
      staking_deposit_event_def checked_sub_def moved_def)

lemma staked_moved:
  assumes "unat (amount cp) = si_amount (pool_checkpoint s (target_pool x)) + unat (amount (position x))"
  shows "staked (moved s x cp ucp) p = staked s p + (if p = target_pool x then unat (amount (position x)) else 0)"
  using assms by (simp add: staked_def moved_def)

lemma user_staked_moved:
  assumes "unat (amount ucp) = si_amount (user_pool_checkpoint s (staker x, target_pool x)) + unat (amount (position x))"
  shows "user_staked (moved s x cp ucp) p = (if p = target_pool x
    then (user_staked s p)(staker x := user_staked s p (staker x) + unat (amount (position x))) else user_staked s p)"
  using assms by (auto simp: user_staked_def moved_def fun_eq_iff)

lemma pending_moved:
  assumes "amount (position x) \<le> pending_amount s (target_pool x)"
  shows "unat (pending_amount (moved s x cp ucp) p) + (if p = target_pool x then unat (amount (position x)) else 0) =
    unat (pending_amount s p)"
  using assms by (simp add: moved_def unat_sub word_le_nat_alt)

lemma books_ok_moved:
  assumes ok: "books_ok s (x # xs)"
    and cp: "unat (amount cp) = si_amount (pool_checkpoint s (target_pool x)) + unat (amount (position x))"
    and ucp: "unat (amount ucp) = si_amount (user_pool_checkpoint s (staker x, target_pool x)) + unat (amount (position x))"
    and le: "amount (position x) \<le> pending_amount s (target_pool x)"
  shows "books_ok (moved s x cp ucp) xs" and "liability (moved s x cp ucp) p = liability s p"
proof -
  note sm = staked_moved [OF cp] and um = user_staked_moved [OF ucp] and pm = pending_moved [OF le]
  have sum: "staked (moved s x cp ucp) q + unat (pending_amount (moved s x cp ucp) q) =
      staked s q + unat (pending_amount s q)" for q
    using sm [of ucp q] pm [of cp ucp q] by (simp split: if_splits)
  have set: "staking_pool_setting (moved s x cp ucp) = staking_pool_setting s"
    and rew: "pool_reward (moved s x cp ucp) = pool_reward s"
    by (simp_all add: moved_def)
  have q: "unat (pending_amount (moved s x cp ucp) q) = queued q xs" for q
    using books_okD(3) [OF ok, of q] pm [of cp ucp q] by (simp split: if_splits)
  have "covers (user_staked (moved s x cp ucp) q) (staked (moved s x cp ucp) q)" for q
    using books_okD(2) [OF ok, of q]
      covers_add [of "user_staked s q" "staked s q" "staker x" "unat (amount (position x))"]
    by (cases "q = target_pool x") (simp_all add: um sm)
  moreover have "within_cap (staking_pool_setting (moved s x cp ucp) r)
      (staked (moved s x cp ucp) r + unat (pending_amount (moved s x cp ucp) r))" for r
    unfolding set sum by (rule books_okD(1) [OF ok])
  moreover have "sorted (map (\<lambda>x. effective_time (position x)) xs)" using books_okD(5) [OF ok] by simp
  moreover have "amount (position y) \<noteq> 0" if "y \<in> set xs" for y using books_okD(4) [OF ok] that by simp
  ultimately show "books_ok (moved s x cp ucp) xs" using q by (intro books_okI)
  show "liability (moved s x cp ucp) p = liability s p"
    using sum [of p] by (simp add: liability_def rew)
qed

lemma solve_loop_total:
  assumes "books_ok (store w) xs"
  shows "\<exists>cps ucps pas es.
    let s' = (store w)\<lparr>pool_checkpoint := cps, user_pool_checkpoint := ucps, pending_amount := pas\<rparr>;
        rest = dropWhile (\<lambda>x. effective_time (position x) \<le> n) xs in
    solve_loop cfg n xs w = (Inr rest, w\<lparr>store := s', events := es\<rparr>) \<and> books_ok s' rest \<and>
    (\<forall>p. liability s' p = liability (store w) p)"
  using assms
proof (induction xs arbitrary: w)
  case Nil
  then show ?case
    by (intro exI [of _ "pool_checkpoint (store w)"] exI [of _ "user_pool_checkpoint (store w)"]
        exI [of _ "pending_amount (store w)"] exI [of _ "events w"]) (simp add: ret_def)
next
  case (Cons x xs)
  show ?case
  proof (cases "effective_time (position x) \<le> n")
    case False
    with Cons.prems show ?thesis
      by (intro exI [of _ "pool_checkpoint (store w)"] exI [of _ "user_pool_checkpoint (store w)"]
          exI [of _ "pending_amount (store w)"] exI [of _ "events w"]) (simp add: ret_def)
  next
    case True
    let ?p = "target_pool x" and ?a = "amount (position x)" and ?s = "store w"
    have a0: "?a \<noteq> 0" and qa: "unat (pending_amount ?s ?p) = unat ?a + queued ?p xs"
      and cov: "covers (user_staked ?s ?p) (staked ?s ?p)"
      using books_okD(2-4) [OF Cons.prems] by auto
    have le: "?a \<le> pending_amount ?s ?p" using qa by (simp add: word_le_nat_alt)
    have lt: "staked ?s ?p + unat ?a < 2 ^ 96"
      using books_ok_bound [OF Cons.prems, of ?p] qa by simp
    have ult: "si_amount (user_pool_checkpoint ?s (staker x, ?p)) + unat ?a < 2 ^ 96"
      using covers_member [OF cov, of "staker x"] lt by (simp add: user_staked_def)
    obtain cp where cp: "add_or_open (pool_checkpoint ?s ?p) n ?a = Some cp"
      using add_or_open_total lt a0 unfolding staked_def by blast
    obtain ucp where ucp: "add_or_open (user_pool_checkpoint ?s (staker x, ?p)) n ?a = Some ucp"
      using add_or_open_total ult a0 by blast
    note am = add_or_open_amount [OF cp] add_or_open_amount [OF ucp]
    let ?w = "w\<lparr>events := events w @ [staking_into_event cfg (PendingStakingSolved (staker x) ?p n ?a)],
      store := moved ?s x cp ucp\<rparr>"
    have run: "solve_loop cfg n (x # xs) w = solve_loop cfg n xs ?w"
      by (rule solve_loop_step [OF True cp ucp le])
    have ok: "books_ok (store ?w) xs" and li: "\<And>p. liability (store ?w) p = liability ?s p"
      using books_ok_moved [OF Cons.prems am le] by simp_all
    from Cons.IH [OF ok] obtain cps ucps pas es where IH:
      "solve_loop cfg n xs ?w = (Inr (dropWhile (\<lambda>x. effective_time (position x) \<le> n) xs),
         ?w\<lparr>store := (store ?w)\<lparr>pool_checkpoint := cps, user_pool_checkpoint := ucps, pending_amount := pas\<rparr>, events := es\<rparr>)"
      "books_ok ((store ?w)\<lparr>pool_checkpoint := cps, user_pool_checkpoint := ucps, pending_amount := pas\<rparr>)
         (dropWhile (\<lambda>x. effective_time (position x) \<le> n) xs)"
      "\<forall>p. liability ((store ?w)\<lparr>pool_checkpoint := cps, user_pool_checkpoint := ucps, pending_amount := pas\<rparr>) p =
         liability (store ?w) p"
      by (auto simp: Let_def)
    then show ?thesis
      using li run True
      by (intro exI [of _ cps] exI [of _ ucps] exI [of _ pas] exI [of _ es]) (simp add: moved_def)
  qed
qed

end
