(* ===== verification/Staking_Invariant.thy ===== *)
theory Staking_Invariant
  imports Staking_Runs
begin

text \<open>
  The two invariants of the running staking pallet: the books of its storage, and its solvency
  (the pallet account holds at least what the pools owe). Both are proved call by call from the
  inversions of the successful runs.
\<close>

section \<open>Successful runs\<close>

lemma solve_pending_total:
  assumes "staking_inv (store w)"
  shows "\<exists>cps ucps pas es.
    let s' = (store w)\<lparr>pool_checkpoint := cps, user_pool_checkpoint := ucps, pending_amount := pas,
          pending_setup := dropWhile (\<lambda>x. effective_time (position x) \<le> n) (pending_setup (store w))\<rparr> in
    solve_pending cfg n w = (Inr (), w\<lparr>store := s', events := es\<rparr>) \<and> staking_inv s' \<and>
    (\<forall>p. liability s' p = liability (store w) p)"
proof -
  let ?w = "w\<lparr>store := (store w)\<lparr>pending_setup := []\<rparr>\<rparr>"
  let ?rest = "dropWhile (\<lambda>x. effective_time (position x) \<le> n) (pending_setup (store w))"
  have acc: "staked (s\<lparr>pending_setup := q\<rparr>) = staked s" "user_staked (s\<lparr>pending_setup := q\<rparr>) = user_staked s"
    "liability (s\<lparr>pending_setup := q\<rparr>) = liability s" for s q
    by (simp_all add: staked_def user_staked_def liability_def fun_eq_iff)
  have ok: "books_ok (s\<lparr>pending_setup := q\<rparr>) xs \<longleftrightarrow> books_ok s xs" for s q xs
    by (simp add: books_ok_def acc)
  have "books_ok (store ?w) (pending_setup (store w))"
    using assms by (simp add: staking_inv_def ok)
  from solve_loop_total [OF this, of n cfg] obtain cps ucps pas es where r:
    "solve_loop cfg n (pending_setup (store w)) ?w = (Inr ?rest,
       ?w\<lparr>store := (store ?w)\<lparr>pool_checkpoint := cps, user_pool_checkpoint := ucps, pending_amount := pas\<rparr>, events := es\<rparr>)"
    "books_ok ((store ?w)\<lparr>pool_checkpoint := cps, user_pool_checkpoint := ucps, pending_amount := pas\<rparr>) ?rest"
    "\<forall>p. liability ((store ?w)\<lparr>pool_checkpoint := cps, user_pool_checkpoint := ucps, pending_amount := pas\<rparr>) p =
       liability (store ?w) p"
    by (auto simp: Let_def)
  let ?s = "(store w)\<lparr>pool_checkpoint := cps, user_pool_checkpoint := ucps, pending_amount := pas\<rparr>"
  have eq: "(store ?w)\<lparr>pool_checkpoint := cps, user_pool_checkpoint := ucps, pending_amount := pas\<rparr> = ?s\<lparr>pending_setup := []\<rparr>"
    by simp
  have run: "solve_pending cfg n w = (Inr (), w\<lparr>store := ?s\<lparr>pending_setup := ?rest\<rparr>, events := es\<rparr>)"
    using r(1) by (simp add: solve_pending_def exec_eval bindE_run)
  have "staking_inv (?s\<lparr>pending_setup := ?rest\<rparr>)"
    using r(2) unfolding eq staking_inv_def ok by (simp add: ok)
  moreover have "\<forall>p. liability (?s\<lparr>pending_setup := ?rest\<rparr>) p = liability (store w) p"
    using r(3) unfolding eq acc by (simp add: acc)
  ultimately show ?thesis
    using run by (intro exI [of _ cps] exI [of _ ucps] exI [of _ pas] exI [of _ es]) (simp add: Let_def)
qed

lemma do_stable_claim_ok:
  "do_stable_claim cfg who p t w = (Inr u, w') \<Longrightarrow>
    w' = w \<or>
    (\<exists>i scp ucp wgt total e scp' y l.
       let d = proportion_of cfg (from_rational cfg wgt total) (pool_reward (store w) p) in
       aiusd_asset_id (store w) = Some i \<and> pool_checkpoint (store w) p = Some scp \<and>
       user_pool_checkpoint (store w) (who, p) = Some ucp \<and> t \<le> block_number w \<and>
       weight_of ucp t = Some wgt \<and> weight_force scp t = Some total \<and>
       claim_based_on_weight scp wgt = Some (e, scp') \<and>
       tk_transfer (asset_token (staking_tokens cfg) i) (stable_beneficiary cfg) who d (ledger w) = (Inr y, l) \<and>
       w' = w\<lparr>ledger := l, store := (store w)\<lparr>pool_reward := (pool_reward (store w))(p := pool_reward (store w) p - d),
           pool_checkpoint := (pool_checkpoint (store w))(p \<mapsto> scp'),
           user_pool_checkpoint := (user_pool_checkpoint (store w))((who, p) \<mapsto> ucp\<lparr>effective_time := t\<rparr>)\<rparr>,
         events := events w @ [staking_into_event cfg (StableRewardClaimed who p t d)]\<rparr>)"
  unfolding Let_def
  by (cases "pool_checkpoint (store w) p"; cases "user_pool_checkpoint (store w) (who, p)")
     (auto simp: do_stable_claim_def exec_ok claim_eq Let_def split: option.splits)

lemma do_native_claim_ok:
  "do_native_claim cfg who t w = (Inr u, w') \<Longrightarrow>
    w' = w \<or>
    (\<exists>ncp ucp wgt total e ncp' y l.
       let d = proportion_of cfg (from_rational cfg wgt total)
         (tk_balance (native_token (staking_tokens cfg)) (ledger w) (native_beneficiary cfg)) in
       native_checkpoint (store w) = Some ncp \<and> user_native_checkpoint (store w) who = Some ucp \<and>
       t \<le> block_number w \<and> weight_of ucp t = Some wgt \<and> weight_force ncp t = Some total \<and>
       claim_based_on_weight ncp wgt = Some (e, ncp') \<and>
       tk_transfer (native_token (staking_tokens cfg)) (native_beneficiary cfg) who d (ledger w) = (Inr y, l) \<and>
       w' = w\<lparr>ledger := l, store := (store w)\<lparr>native_checkpoint := Some ncp',
           user_native_checkpoint := (user_native_checkpoint (store w))(who \<mapsto> ucp\<lparr>effective_time := t\<rparr>)\<rparr>,
         events := events w @ [staking_into_event cfg (NativeRewardClaimed who t d)]\<rparr>)"
  unfolding Let_def
  by (cases "native_checkpoint (store w)"; cases "user_native_checkpoint (store w) who")
     (auto simp: do_native_claim_def exec_ok claim_eq Let_def split: option.splits)

lemma shrink_native_ok:
  "shrink_native a w = (Inr u, w') \<Longrightarrow> \<exists>ncp. w' = w\<lparr>store := (store w)\<lparr>native_checkpoint := ncp\<rparr>\<rparr>"
  by (auto simp: shrink_native_def exec_ok split: option.splits prod.splits)
     (rule exI [of _ "native_checkpoint (store w)"], simp)

lemma shrink_user_native_ok:
  "shrink_user_native who a w = (Inr u, w') \<Longrightarrow>
    \<exists>uncp. w' = w\<lparr>store := (store w)\<lparr>user_native_checkpoint := uncp\<rparr>\<rparr>"
  by (auto simp: shrink_user_native_def exec_ok split: option.splits prod.splits if_splits)
     (rule exI [of _ "user_native_checkpoint (store w)"], simp)

lemma do_withdraw_ok:
  "do_withdraw cfg who p w = (Inr u, w') \<Longrightarrow>
    w' = w \<or>
    (\<exists>i scp ucp y l ncp uncp.
       aiusd_asset_id (store w) = Some i \<and> pool_checkpoint (store w) p = Some scp \<and>
       user_pool_checkpoint (store w) (who, p) = Some ucp \<and> amount ucp \<le> amount scp \<and>
       tk_transfer (asset_token (staking_tokens cfg) i) (stable_beneficiary cfg) who (amount ucp) (ledger w) = (Inr y, l) \<and>
       w' = w\<lparr>ledger := l, store := (store w)\<lparr>pool_checkpoint := (pool_checkpoint (store w))(p \<mapsto> scp\<lparr>amount := amount scp - amount ucp\<rparr>),
           native_checkpoint := ncp, user_pool_checkpoint := (user_pool_checkpoint (store w))((who, p) := None),
           user_native_checkpoint := uncp\<rparr>,
         events := events w @ [staking_into_event cfg (Withdrawn who p (block_number w) (amount ucp))]\<rparr>)"
  by (cases "pool_checkpoint (store w) p"; cases "user_pool_checkpoint (store w) (who, p)";
      auto simp: do_withdraw_def exec_ok withdraw_position_eq split: if_splits
        dest!: shrink_native_ok shrink_user_native_ok; blast)


lemma update_reward_ok:
  "update_reward cfg o' p ep r w = (Inr u, w') \<Longrightarrow>
    (\<exists>i ps cur actual l.
       staking_committee_origin cfg o' \<and> staking_pool_setting (store w) p = Some ps \<and>
       epoch_index_in ps (block_number w) = Inr cur \<and> cur \<le> ep \<and> ep \<le> epoch ps \<and>
       aiusd_asset_id (store w) = Some i \<and> pool_epoch_reward (store w) (p, ep) = None \<and>
       tk_mint_into (asset_token (staking_tokens cfg) i) (stable_beneficiary cfg) r (ledger w) = (Inr actual, l) \<and>
       unat (pool_reward (store w) p) + unat actual < 2 ^ 128 \<and>
       w' = w\<lparr>ledger := l, events := events w @ [staking_into_event cfg (RewardUpdated p ep actual)],
         store := (store w)\<lparr>pool_epoch_reward := (pool_epoch_reward (store w))((p, ep) \<mapsto> actual),
           pool_reward := (pool_reward (store w))(p := pool_reward (store w) p + actual)\<rparr>\<rparr>)"
  by (auto simp: update_reward_def exec_ok checked_add_def split: if_splits)

lemma available_pool_cap_ok:
  "available_pool_cap ps cp pending = Some av \<longleftrightarrow>
    unat (pool_cap ps) = si_amount cp + unat pending + unat av"
proof (cases cp)
  case (Some si)
  have "(\<exists>l :: u128. unat (pool_cap ps) = unat (amount si) + unat l \<and> unat l = unat pending + unat av) \<longleftrightarrow>
      unat (pool_cap ps) = unat (amount si) + unat pending + unat av"
  proof
    assume eq: "unat (pool_cap ps) = unat (amount si) + unat pending + unat av"
    then have "unat pending + unat av < 2 ^ LENGTH(128)" using u128_less [of "pool_cap ps"] by simp
    then obtain l :: u128 where "unat l = unat pending + unat av" by (metis unat_nat_word)
    with eq show "\<exists>l :: u128. unat (pool_cap ps) = unat (amount si) + unat l \<and> unat l = unat pending + unat av"
      by (intro exI [of _ l]) simp
  qed auto
  then show ?thesis
    by (simp add: available_pool_cap_def Some bind_eq_Some_conv checked_arith)
qed (simp add: available_pool_cap_def checked_arith)

lemma stake_ok:
  "stake cfg o' p a w = (Inr u, w') \<Longrightarrow>
    (\<exists>who i ps end_t av ready idx ep eff pend cp ucp y l.
       o' = Signed who \<and> staking_pool_setting (store w) p = Some ps \<and> end_time ps = Some end_t \<and>
       start_time ps < block_number w \<and> aiusd_asset_id (store w) = Some i \<and>
       unat (pool_cap ps) = staked (store w) p + unat (pending_amount (store w) p) + unat av \<and> a \<le> av \<and>
       unat ready = unat (block_number w) + unat (setup_time ps) \<and> epoch_index_in ps ready = Inr idx \<and>
       unat ep = unat idx + 1 \<and> epoch_begin_in ps ep = Inr eff \<and> eff < end_t \<and>
       unat pend = unat (pending_amount (store w) p) + unat a \<and>
       add_or_open (native_checkpoint (store w)) (block_number w) a = Some cp \<and>
       add_or_open (user_native_checkpoint (store w) who) (block_number w) a = Some ucp \<and>
       tk_transfer (asset_token (staking_tokens cfg) i) who (stable_beneficiary cfg) a (ledger w) = (Inr y, l) \<and>
       w' = w\<lparr>store := (store w)\<lparr>
           pending_setup := sort_key (\<lambda>x. effective_time (position x))
             (pending_setup (store w) @ [\<lparr>staker = who, target_pool = p, position = new_position eff a\<rparr>]),
           pending_amount := (pending_amount (store w))(p := pend),
           native_checkpoint := Some cp,
           user_native_checkpoint := (user_native_checkpoint (store w))(who \<mapsto> ucp)\<rparr>,
         ledger := l, events := events w @ [staking_into_event cfg (Staked who p eff a)]\<rparr>)"
  by (clarsimp simp: stake_def exec_ok available_pool_cap_ok checked_arith do_native_add_ok staked_def) blast

lemma stake_run:
  assumes "staking_pool_setting (store w) p = Some ps" "end_time ps = Some end_t"
       "start_time ps < block_number w" "aiusd_asset_id (store w) = Some i"
       "unat (pool_cap ps) = staked (store w) p + unat (pending_amount (store w) p) + unat av" "a \<le> av"
       "unat ready = unat (block_number w) + unat (setup_time ps)" "epoch_index_in ps ready = Inr idx"
       "unat ep = unat idx + 1" "epoch_begin_in ps ep = Inr eff" "eff < end_t"
       "unat pend = unat (pending_amount (store w) p) + unat a"
       "add_or_open (native_checkpoint (store w)) (block_number w) a = Some cp"
       "add_or_open (user_native_checkpoint (store w) who) (block_number w) a = Some ucp"
       "tk_transfer (asset_token (staking_tokens cfg) i) who (stable_beneficiary cfg) a (ledger w) = (Inr y, l)"
  shows "stake cfg (Signed who) p a w = (Inr (), w\<lparr>store := (store w)\<lparr>
           pending_setup := sort_key (\<lambda>x. effective_time (position x))
             (pending_setup (store w) @ [\<lparr>staker = who, target_pool = p, position = new_position eff a\<rparr>]),
           pending_amount := (pending_amount (store w))(p := pend),
           native_checkpoint := Some cp,
           user_native_checkpoint := (user_native_checkpoint (store w))(who \<mapsto> ucp)\<rparr>,
         ledger := l, events := events w @ [staking_into_event cfg (Staked who p eff a)]\<rparr>)"
  using assms unfolding stake_def
  by (fastforce simp: exec_ok available_pool_cap_ok checked_arith do_native_add_ok staked_def)

section \<open>The books\<close>

lemma books_same:
  assumes "staking_pool_setting s' = staking_pool_setting s" "\<And>p. staked s' p = staked s p"
    and "\<And>p. user_staked s' p = user_staked s p" "pending_amount s' = pending_amount s"
    and "pending_setup s' = pending_setup s"
  shows "staking_inv s \<Longrightarrow> staking_inv s'"
  unfolding staking_inv_def books_ok_def assms .

lemma claim_based_on_weight_amount:
  "claim_based_on_weight si wgt = Some (e, si') \<Longrightarrow> amount si' = amount si"
  by (auto simp: claim_based_on_weight_eq Let_def split: if_splits)

lemma stable_claim_inv:
  assumes "do_stable_claim cfg who p t w = (Inr u, w')" "staking_inv (store w)"
  shows "staking_inv (store w')"
  using do_stable_claim_ok [OF assms(1)] assms(2)
  by (auto simp: Let_def staked_def user_staked_def fun_eq_iff claim_based_on_weight_amount
      elim!: books_same [rotated -1])

lemma native_claim_inv:
  assumes "do_native_claim cfg who t w = (Inr u, w')" "staking_inv (store w)"
  shows "staking_inv (store w')"
  using do_native_claim_ok [OF assms(1)] assms(2)
  by (auto simp: Let_def staked_def user_staked_def elim!: books_same [rotated -1])

lemma withdraw_inv:
  assumes "do_withdraw cfg who p w = (Inr u, w')" "staking_inv (store w)"
  shows "staking_inv (store w')"
proof (cases "w' = w")
  case False
  with do_withdraw_ok [OF assms(1)] obtain scp ucp ncp uncp where
    cp: "pool_checkpoint (store w) p = Some scp" "user_pool_checkpoint (store w) (who, p) = Some ucp"
    and le: "amount ucp \<le> amount scp"
    and w': "store w' = (store w)\<lparr>pool_checkpoint := (pool_checkpoint (store w))(p \<mapsto> scp\<lparr>amount := amount scp - amount ucp\<rparr>),
      native_checkpoint := ncp, user_pool_checkpoint := (user_pool_checkpoint (store w))((who, p) := None),
      user_native_checkpoint := uncp\<rparr>"
    by auto
  let ?s = "store w" and ?s' = "store w'" and ?a = "unat (amount ucp)"
  have st: "staked ?s' q = (if q = p then staked ?s p - ?a else staked ?s q)" for q
    using cp le by (simp add: staked_def w' unat_sub)
  have us: "user_staked ?s' q = (if q = p then (user_staked ?s p)(who := user_staked ?s p who - ?a) else user_staked ?s q)" for q
    using cp by (auto simp: user_staked_def w' fun_eq_iff)
  note ok = books_okD [OF assms(2) [unfolded staking_inv_def]]
  have keep: "staking_pool_setting ?s' = staking_pool_setting ?s" "pending_amount ?s' = pending_amount ?s"
    "pending_setup ?s' = pending_setup ?s"
    by (simp_all add: w')
  have u: "user_staked ?s p who = ?a" using cp by (simp add: user_staked_def)
  show ?thesis
    unfolding staking_inv_def
  proof (rule books_okI, unfold keep)
    show "within_cap (staking_pool_setting ?s q) (staked ?s' q + unat (pending_amount ?s q))" for q
      using ok(1) [of q] by (cases "staking_pool_setting ?s q") (auto simp: within_cap_def st)
    show "covers (user_staked ?s' q) (staked ?s' q)" for q
      using ok(2) [of q] covers_sub [OF ok(2) [of p], of ?a who] by (simp add: st us u)
  qed (fact ok(3) ok(4) ok(5))+
qed (use assms in simp)

lemma stake_inv:
  assumes "stake cfg o' p a w = (Inr u, w')" "staking_inv (store w)" "a \<noteq> 0"
  shows "staking_inv (store w')"
proof -
  from stake_ok [OF assms(1)] obtain who ps av eff pend cp ucp where
    ps: "staking_pool_setting (store w) p = Some ps"
      "unat (pool_cap ps) = staked (store w) p + unat (pending_amount (store w) p) + unat av" "a \<le> av"
    and pend: "unat pend = unat (pending_amount (store w) p) + unat a"
    and w': "store w' = (store w)\<lparr>
           pending_setup := sort_key (\<lambda>x. effective_time (position x))
             (pending_setup (store w) @ [\<lparr>staker = who, target_pool = p, position = new_position eff a\<rparr>]),
           pending_amount := (pending_amount (store w))(p := pend),
           native_checkpoint := Some cp,
           user_native_checkpoint := (user_native_checkpoint (store w))(who \<mapsto> ucp)\<rparr>"
    by auto
  let ?s = "store w" and ?s' = "store w'"
  note ok = books_okD [OF assms(2) [unfolded staking_inv_def]]
  have keep: "staking_pool_setting ?s' = staking_pool_setting ?s" "staked ?s' = staked ?s"
    "user_staked ?s' = user_staked ?s"
    by (simp_all add: w' staked_def user_staked_def fun_eq_iff)
  have pa: "unat (pending_amount ?s' q) = unat (pending_amount ?s q) + (if q = p then unat a else 0)" for q
    by (simp add: w' pend)
  show ?thesis
    unfolding staking_inv_def
  proof (rule books_okI, unfold keep)
    show "within_cap (staking_pool_setting ?s q) (staked ?s q + unat (pending_amount ?s' q))" for q
      using ok(1) [of q] ps by (cases "q = p") (auto simp: within_cap_def pa word_le_nat_alt)
    show "covers (user_staked ?s q) (staked ?s q)" for q by (rule ok(2))
    show "unat (pending_amount ?s' q) = queued q (pending_setup ?s')" for q
    proof -
      have "queued q (pending_setup ?s') = queued q (pending_setup ?s) + (if q = p then unat a else 0)"
        by (simp add: w' new_position_def)
      then show ?thesis using ok(3) [of q] by (simp only: pa)
    qed
    show "amount (position x) \<noteq> 0" if "x \<in> set (pending_setup ?s')" for x
      using that ok(4) assms(3) by (auto simp: w' new_position_def)
    show "sorted (map (\<lambda>x. effective_time (position x)) (pending_setup ?s'))"
      by (simp add: w')
  qed
qed


lemma solve_pending_inv:
  assumes "solve_pending cfg n w = (Inr u, w')" "staking_inv (store w)"
  shows "staking_inv (store w')" "liability (store w') p = liability (store w) p"
    "aiusd_asset_id (store w') = aiusd_asset_id (store w)" "ledger w' = ledger w"
  using solve_pending_total [OF assms(2), where n = n and cfg = cfg] assms(1) by (auto simp: Let_def)

lemma create_pool_ok:
  "create_staking_pool cfg o' p ps w = (Inr u, w') \<Longrightarrow>
    staking_committee_origin cfg o' \<and> block_number w \<le> start_time ps \<and> staking_pool_setting (store w) p = None \<and>
    store w' = (store w)\<lparr>staking_pool_setting := (staking_pool_setting (store w))(p \<mapsto> ps)\<rparr> \<and> ledger w' = ledger w"
  by (auto simp: create_staking_pool_def exec_ok)

lemma update_metadata_ok:
  "update_metadata cfg o' p nm d w = (Inr u, w') \<Longrightarrow>
    staking_committee_origin cfg o' \<and> staking_pool_setting (store w) p \<noteq> None \<and>
    (\<exists>m. store w' = (store w)\<lparr>staking_pool_metadata := m\<rparr>) \<and> ledger w' = ledger w"
  by (cases nm) (auto simp: update_metadata_def exec_ok)

lemma regist_aiusd_ok:
  "regist_aiusd cfg o' i w = (Inr u, w') \<Longrightarrow>
    staking_committee_origin cfg o' \<and> store w' = (store w)\<lparr>aiusd_asset_id := Some i\<rparr> \<and> ledger w' = ledger w"
  by (auto simp: regist_aiusd_def exec_ok)

lemma withdraw_ok:
  "withdraw cfg o' p w = (Inr u, w') \<Longrightarrow>
    (\<exists>who ps end_t v v'. o' = Signed who \<and> staking_pool_setting (store w) p = Some ps \<and> end_time ps = Some end_t \<and>
       end_t < block_number w \<and> do_native_claim cfg who (block_number w) w = (Inr (), v) \<and>
       do_stable_claim cfg who p (block_number w) v = (Inr (), v') \<and> do_withdraw cfg who p v' = (Inr (), w'))"
  by (auto simp: withdraw_def exec_ok)

text \<open>
  Calls that a careful committee and ordinary users make: caps below \<open>2 ^ 96\<close>, stakes of something.
  Without the second condition the queue can be brought to a standstill (see \<open>Staking_Theorems\<close>).
\<close>

fun admissible_call :: "staking_call \<Rightarrow> bool" where
  "admissible_call (CreateStakingPool p ps) = (unat (pool_cap ps) < 2 ^ 96)"
| "admissible_call (Stake p a) = (a \<noteq> 0)"
| "admissible_call _ = True"

lemma staking_call_success_inv:
  assumes "run_staking_call cfg c o' w = (Inr u, w')" "admissible_call c" "staking_inv (store w)"
  shows "staking_inv (store w')"
proof (cases c)
  case (CreateStakingPool p ps)
  with assms create_pool_ok [of cfg o' p ps w u w'] have
    new: "staking_pool_setting (store w) p = None"
    and w': "store w' = (store w)\<lparr>staking_pool_setting := (staking_pool_setting (store w))(p \<mapsto> ps)\<rparr>"
    and cap: "unat (pool_cap ps) < 2 ^ 96" by auto
  note ok = books_okD [OF assms(3) [unfolded staking_inv_def]]
  have acc: "staked (store w') = staked (store w)" "user_staked (store w') = user_staked (store w)"
    "pending_amount (store w') = pending_amount (store w)" "pending_setup (store w') = pending_setup (store w)"
    by (simp_all add: w' staked_def user_staked_def fun_eq_iff)
  show ?thesis
    unfolding staking_inv_def
  proof (rule books_okI, unfold acc)
    show "within_cap (staking_pool_setting (store w') q) (staked (store w) q + unat (pending_amount (store w) q))" for q
      using ok(1) [of q] new cap by (cases "q = p") (auto simp: w' within_cap_def)
  qed (fact ok(2) ok(3) ok(4) ok(5))+
next
  case (UpdateMetadata p nm d)
  with assms(1) update_metadata_ok [of cfg o' p nm d w u w'] obtain m where
    "store w' = (store w)\<lparr>staking_pool_metadata := m\<rparr>" by auto
  then show ?thesis using assms(3) by (auto simp: staked_def user_staked_def elim!: books_same [rotated -1])
next
  case (UpdateReward p ep r)
  with assms(1) update_reward_ok [of cfg o' p ep r w u w'] show ?thesis
    using assms(3) by (auto simp: staked_def user_staked_def elim!: books_same [rotated -1])
next
  case (Stake p a)
  with assms stake_inv [of cfg o' p a w u w'] show ?thesis by simp
next
  case SolvePendingStake
  then have "solve_pending cfg (block_number w) w = (Inr (), w')"
    using assms(1) by (auto simp: solve_pending_stake_def exec_ok)
  then show ?thesis by (rule solve_pending_inv(1) [OF _ assms(3)])
next
  case (ClaimNative t)
  then show ?thesis using assms(1,3) by (auto simp: claim_native_def exec_ok intro: native_claim_inv)
next
  case (ClaimStable p t)
  then show ?thesis using assms(1,3) by (auto simp: claim_stable_def exec_ok intro: stable_claim_inv)
next
  case (Withdraw p)
  with assms(1) withdraw_ok [of cfg o' p w u w'] obtain who v v' where
    n: "do_native_claim cfg who (block_number w) w = (Inr (), v)" and
    c: "do_stable_claim cfg who p (block_number w) v = (Inr (), v')" and
    d: "do_withdraw cfg who p v' = (Inr (), w')" by auto
  show ?thesis
    by (rule withdraw_inv [OF d stable_claim_inv [OF c native_claim_inv [OF n assms(3)]]])
next
  case (RegistAiusd i)
  with assms(1) regist_aiusd_ok [of cfg o' i w u w'] show ?thesis
    using assms(3) by (auto simp: staked_def user_staked_def elim!: books_same [rotated -1])
qed

lemma staking_call_inv:
  assumes "run_staking_call cfg c o' w = (r, w')" "admissible_call c" "staking_inv (store w)"
  shows "staking_inv (store w')"
  using assms staking_call_atomic [of cfg c o' w _ w'] staking_call_success_inv [of cfg c o' w _ w']
  by (cases r) auto

lemma begin_block_run:
  assumes "staking_inv (store w)"
  shows "\<exists>cps ucps pas es.
    let s' = (store w)\<lparr>pool_checkpoint := cps, user_pool_checkpoint := ucps, pending_amount := pas,
          pending_setup := dropWhile (\<lambda>x. effective_time (position x) \<le> n) (pending_setup (store w))\<rparr> in
    begin_block cfg n w = (Inr zero_weight, w\<lparr>store := s', events := es\<rparr>) \<and> staking_inv s' \<and>
    (\<forall>p. liability s' p = liability (store w) p)"
proof (cases "pending_setup (store w)")
  case Nil
  let ?s = "store w"
  have eq: "?s\<lparr>pending_setup := []\<rparr> = ?s"
    using Nil by (cases ?s) simp
  show ?thesis
    using Nil assms
    by (intro exI [of _ "pool_checkpoint ?s"] exI [of _ "user_pool_checkpoint ?s"]
        exI [of _ "pending_amount ?s"] exI [of _ "events w"]) (simp add: begin_block_def exec_eval Let_def eq)
next
  case (Cons x xs)
  let ?s = "store w"
  show ?thesis
  proof (cases "effective_time (position x) \<le> n")
    case True
    then have "begin_block cfg n w = (Inr zero_weight, snd (solve_pending cfg n w))"
      using Cons by (simp add: begin_block_def exec_eval thenE_run attempt_def ret_def)
    moreover obtain cps ucps pas es where "let s' = ?s\<lparr>pool_checkpoint := cps, user_pool_checkpoint := ucps,
          pending_amount := pas, pending_setup := dropWhile (\<lambda>x. effective_time (position x) \<le> n) (pending_setup ?s)\<rparr> in
        solve_pending cfg n w = (Inr (), w\<lparr>store := s', events := es\<rparr>) \<and> staking_inv s' \<and>
        (\<forall>p. liability s' p = liability ?s p)"
      using solve_pending_total [OF assms, where n = n and cfg = cfg] by blast
    ultimately show ?thesis
      by (intro exI [of _ cps] exI [of _ ucps] exI [of _ pas] exI [of _ es]) (simp add: Let_def)
  next
    case False
    have eq: "?s\<lparr>pending_setup := x # xs\<rparr> = ?s"
      using Cons by (cases ?s) simp
    show ?thesis
      using False Cons assms
      by (intro exI [of _ "pool_checkpoint ?s"] exI [of _ "user_pool_checkpoint ?s"]
          exI [of _ "pending_amount ?s"] exI [of _ "events w"]) (simp add: begin_block_def exec_eval Let_def eq)
  qed
qed


section \<open>Solvency\<close>

text \<open>
  What the pallet account holds of the staked token, against what the pools owe: rewards, stakes
  and pending stakes. Before the token is registered nothing is owed.
\<close>

definition aiusd_held :: "('e, 'l) staking_config \<Rightarrow> asset_id \<Rightarrow> 'l \<Rightarrow> nat" where
  "aiusd_held cfg i l = unat (tk_balance (token (staking_tokens cfg) (Some i)) l (stable_beneficiary cfg))"

definition solvent :: "('e, 'l) staking_config \<Rightarrow> ('e, 'l, staking_storage) frame \<Rightarrow> bool" where
  "solvent cfg w \<longleftrightarrow>
     (case aiusd_asset_id (store w) of
        None \<Rightarrow> (\<forall>p. liability (store w) p = 0)
      | Some i \<Rightarrow> covers (liability (store w)) (aiusd_held cfg i (ledger w)))"

text \<open>A \<open>Perquintill\<close> is at most one, so its product with a balance is at most the balance.\<close>

definition proportion_law :: "('e, 'l) staking_config \<Rightarrow> bool" where
  "proportion_law cfg \<longleftrightarrow> (\<forall>a b x. proportion_of cfg (from_rational cfg a b) x \<le> x)"

lemma asset_token_Some: "asset_token t i = token t (Some i)" and native_token_None: "native_token t = token t None"
  by (simp_all add: token_def)

lemma transfer_from_held:
  assumes "token_laws (staking_tokens cfg)"
    and "tk_transfer (asset_token (staking_tokens cfg) i) (stable_beneficiary cfg) who d l = (Inr y, l')"
    and "who \<noteq> stable_beneficiary cfg"
  shows "aiusd_held cfg i l = aiusd_held cfg i l' + unat d"
  using transfer_lawD(2) [OF assms(1) assms(2) [unfolded asset_token_Some]] assms(3)
  by (simp add: aiusd_held_def)

lemma transfer_to_held:
  assumes "token_laws (staking_tokens cfg)"
    and "tk_transfer (asset_token (staking_tokens cfg) i) who (stable_beneficiary cfg) d l = (Inr y, l')"
    and "who \<noteq> stable_beneficiary cfg"
  shows "aiusd_held cfg i l' = aiusd_held cfg i l + unat d"
  using transfer_lawD(3) [OF assms(1) assms(2) [unfolded asset_token_Some]] assms(3)
  by (simp add: aiusd_held_def)

lemma native_transfer_held:
  assumes "token_laws (staking_tokens cfg)"
    and "tk_transfer (native_token (staking_tokens cfg)) src dst d l = (Inr y, l')"
  shows "aiusd_held cfg i l' = aiusd_held cfg i l"
  using separate_lawD(3) [OF assms(1) _ assms(2) [unfolded native_token_None], of "Some i"]
  by (simp add: aiusd_held_def)

lemma mint_held:
  assumes "token_laws (staking_tokens cfg)"
    and "tk_mint_into (asset_token (staking_tokens cfg) i) (stable_beneficiary cfg) d l = (Inr x, l')"
  shows "aiusd_held cfg i l' = aiusd_held cfg i l + unat x"
  using mint_lawD(1,2) [OF assms(1) assms(2) [unfolded asset_token_Some]]
  by (simp add: aiusd_held_def)

lemma solvent_same:
  assumes "\<And>p. liability (store w') p = liability (store w) p" "aiusd_asset_id (store w') = aiusd_asset_id (store w)"
    and "\<And>i. aiusd_held cfg i (ledger w') = aiusd_held cfg i (ledger w)"
  shows "solvent cfg w \<Longrightarrow> solvent cfg w'"
proof -
  have "liability (store w') = liability (store w)" using assms(1) by (rule ext)
  then show "solvent cfg w \<Longrightarrow> solvent cfg w'" by (simp add: solvent_def assms(2,3) split: option.splits)
qed

lemma solvent_add:
  assumes "liability (store w') = (liability (store w))(p := liability (store w) p + d)"
    and "aiusd_asset_id (store w) = Some i" "aiusd_asset_id (store w') = Some i"
    and "aiusd_held cfg i (ledger w') = aiusd_held cfg i (ledger w) + d" and "solvent cfg w"
  shows "solvent cfg w'"
  using assms(5) covers_add [of "liability (store w)" "aiusd_held cfg i (ledger w)" p d]
  by (simp add: solvent_def assms(1-4))

lemma solvent_sub:
  assumes "liability (store w') = (liability (store w))(p := liability (store w) p - d)" "d \<le> liability (store w) p"
    and "aiusd_asset_id (store w) = Some i" "aiusd_asset_id (store w') = Some i"
    and "aiusd_held cfg i (ledger w) = aiusd_held cfg i (ledger w') + d" and "solvent cfg w"
  shows "solvent cfg w'"
  using assms(6) covers_sub [of "liability (store w)" "aiusd_held cfg i (ledger w)" d p]
  by (simp add: solvent_def assms(1-5))

lemma stable_claim_solvent:
  assumes laws: "token_laws (staking_tokens cfg)" "proportion_law cfg"
    and run: "do_stable_claim cfg who p t w = (Inr u, w')" and who: "who \<noteq> stable_beneficiary cfg"
    and s: "solvent cfg w"
  shows "solvent cfg w'"
proof (cases "w' = w")
  case False
  with do_stable_claim_ok [OF run] obtain i scp ucp wgt total e scp' y l where
    a: "aiusd_asset_id (store w) = Some i" "pool_checkpoint (store w) p = Some scp"
      "claim_based_on_weight scp wgt = Some (e, scp')" and
    tr: "tk_transfer (asset_token (staking_tokens cfg) i) (stable_beneficiary cfg) who
      (proportion_of cfg (from_rational cfg wgt total) (pool_reward (store w) p)) (ledger w) = (Inr y, l)" and
    w': "ledger w' = l" "store w' = (store w)\<lparr>pool_reward := (pool_reward (store w))(p := pool_reward (store w) p -
        proportion_of cfg (from_rational cfg wgt total) (pool_reward (store w) p)),
      pool_checkpoint := (pool_checkpoint (store w))(p \<mapsto> scp'),
      user_pool_checkpoint := (user_pool_checkpoint (store w))((who, p) \<mapsto> ucp\<lparr>effective_time := t\<rparr>)\<rparr>"
    by (auto simp: Let_def)
  let ?d = "proportion_of cfg (from_rational cfg wgt total) (pool_reward (store w) p)"
  have d: "?d \<le> pool_reward (store w) p" using laws(2) by (simp add: proportion_law_def)
  have "liability (store w') = (liability (store w))(p := liability (store w) p - unat ?d)"
    using d a by (auto simp: liability_def staked_def w' fun_eq_iff claim_based_on_weight_amount unat_sub word_le_nat_alt)
  moreover have "unat ?d \<le> liability (store w) p"
    using d by (simp add: liability_def word_le_nat_alt)
  ultimately show ?thesis
    using transfer_from_held [OF laws(1) tr who] a(1) s by (intro solvent_sub [of w' w p _ i]) (simp_all add: w')
qed (use s in simp)


lemma native_claim_solvent:
  assumes laws: "token_laws (staking_tokens cfg)"
    and run: "do_native_claim cfg who t w = (Inr u, w')" and s: "solvent cfg w"
  shows "solvent cfg w'"
  using do_native_claim_ok [OF run] s
  by (auto simp: Let_def liability_def staked_def native_transfer_held [OF laws] elim!: solvent_same [rotated -1])

lemma withdraw_solvent:
  assumes laws: "token_laws (staking_tokens cfg)"
    and run: "do_withdraw cfg who p w = (Inr u, w')" and who: "who \<noteq> stable_beneficiary cfg"
    and s: "solvent cfg w"
  shows "solvent cfg w'"
proof (cases "w' = w")
  case False
  with do_withdraw_ok [OF run] obtain i scp ucp y l ncp uncp where
    a: "aiusd_asset_id (store w) = Some i" "pool_checkpoint (store w) p = Some scp" "amount ucp \<le> amount scp"
      "user_pool_checkpoint (store w) (who, p) = Some ucp" and
    tr: "tk_transfer (asset_token (staking_tokens cfg) i) (stable_beneficiary cfg) who (amount ucp) (ledger w) = (Inr y, l)" and
    w': "ledger w' = l" "store w' = (store w)\<lparr>pool_checkpoint := (pool_checkpoint (store w))(p \<mapsto> scp\<lparr>amount := amount scp - amount ucp\<rparr>),
      native_checkpoint := ncp, user_pool_checkpoint := (user_pool_checkpoint (store w))((who, p) := None),
      user_native_checkpoint := uncp\<rparr>"
    by auto
  have "liability (store w') = (liability (store w))(p := liability (store w) p - unat (amount ucp))"
    using a by (auto simp: liability_def staked_def w' fun_eq_iff unat_sub word_le_nat_alt)
  moreover have "unat (amount ucp) \<le> liability (store w) p"
    using a by (simp add: liability_def staked_def word_le_nat_alt)
  ultimately show ?thesis
    using transfer_from_held [OF laws tr who] a(1) s by (intro solvent_sub [of w' w p _ i]) (simp_all add: w')
qed (use s in simp)

lemma stake_solvent:
  assumes laws: "token_laws (staking_tokens cfg)"
    and run: "stake cfg o' p a w = (Inr u, w')" and who: "o' \<noteq> Signed (stable_beneficiary cfg)"
    and s: "solvent cfg w"
  shows "solvent cfg w'"
proof -
  from stake_ok [OF run] obtain src i eff pend cp ucp y l where
    a: "o' = Signed src" "aiusd_asset_id (store w) = Some i" "unat pend = unat (pending_amount (store w) p) + unat a" and
    tr: "tk_transfer (asset_token (staking_tokens cfg) i) src (stable_beneficiary cfg) a (ledger w) = (Inr y, l)" and
    w': "ledger w' = l" "store w' = (store w)\<lparr>
           pending_setup := sort_key (\<lambda>x. effective_time (position x))
             (pending_setup (store w) @ [\<lparr>staker = src, target_pool = p, position = new_position eff a\<rparr>]),
           pending_amount := (pending_amount (store w))(p := pend),
           native_checkpoint := Some cp,
           user_native_checkpoint := (user_native_checkpoint (store w))(src \<mapsto> ucp)\<rparr>"
    by auto
  have "liability (store w') = (liability (store w))(p := liability (store w) p + unat a)"
    using a(3) by (auto simp: liability_def staked_def w' fun_eq_iff)
  moreover have "src \<noteq> stable_beneficiary cfg" using who a(1) by simp
  ultimately show ?thesis
    using transfer_to_held [OF laws tr] a(2) s by (intro solvent_add [of w' w p _ i]) (simp_all add: w')
qed

lemma update_reward_solvent:
  assumes laws: "token_laws (staking_tokens cfg)"
    and run: "update_reward cfg o' p ep r w = (Inr u, w')" and s: "solvent cfg w"
  shows "solvent cfg w'"
proof -
  from update_reward_ok [OF run] obtain i actual l where
    a: "aiusd_asset_id (store w) = Some i" "unat (pool_reward (store w) p) + unat actual < 2 ^ 128" and
    mint: "tk_mint_into (asset_token (staking_tokens cfg) i) (stable_beneficiary cfg) r (ledger w) = (Inr actual, l)" and
    w': "ledger w' = l" "store w' = (store w)\<lparr>pool_epoch_reward := (pool_epoch_reward (store w))((p, ep) \<mapsto> actual),
      pool_reward := (pool_reward (store w))(p := pool_reward (store w) p + actual)\<rparr>"
    by auto
  have "unat (pool_reward (store w) p + actual) = unat (pool_reward (store w) p) + unat actual"
    using a(2) by (simp add: unat_word_ariths)
  then have "liability (store w') = (liability (store w))(p := liability (store w) p + unat actual)"
    by (auto simp: liability_def staked_def w' fun_eq_iff)
  then show ?thesis
    using mint_held [OF laws mint] a(1) s by (intro solvent_add [of w' w p _ i]) (simp_all add: w')
qed

lemma staking_call_solvent:
  assumes laws: "token_laws (staking_tokens cfg)" "proportion_law cfg"
    and run: "run_staking_call cfg c o' w = (Inr u, w')" and who: "o' \<noteq> Signed (stable_beneficiary cfg)"
    and once: "\<And>i. c = RegistAiusd i \<Longrightarrow> aiusd_asset_id (store w) \<in> {None, Some i}"
    and inv: "staking_inv (store w)" and s: "solvent cfg w"
  shows "solvent cfg w'"
proof (cases c)
  case (CreateStakingPool p ps)
  with run create_pool_ok [of cfg o' p ps w u w'] show ?thesis
    using s by (auto simp: liability_def staked_def elim!: solvent_same [rotated -1])
next
  case (UpdateMetadata p nm d)
  with run update_metadata_ok [of cfg o' p nm d w u w'] obtain m where
    "store w' = (store w)\<lparr>staking_pool_metadata := m\<rparr>" "ledger w' = ledger w" by auto
  then show ?thesis using s by (auto simp: liability_def staked_def elim!: solvent_same [rotated -1])
next
  case (UpdateReward p ep r)
  then show ?thesis using run by (auto intro: update_reward_solvent [OF laws(1) _ s])
next
  case (Stake p a)
  then show ?thesis using run by (auto intro: stake_solvent [OF laws(1) _ who s])
next
  case SolvePendingStake
  then have "solve_pending cfg (block_number w) w = (Inr (), w')"
    using run by (auto simp: solve_pending_stake_def exec_ok)
  from solve_pending_inv(2-4) [OF this inv] show ?thesis
    by (intro solvent_same [OF _ _ _ s]) auto
next
  case (ClaimNative t)
  then show ?thesis using run by (auto simp: claim_native_def exec_ok intro: native_claim_solvent [OF laws(1) _ s])
next
  case (ClaimStable p t)
  then show ?thesis
    using run who by (auto simp: claim_stable_def exec_ok intro: stable_claim_solvent [OF laws _ _ s])
next
  case (Withdraw p)
  with run withdraw_ok [of cfg o' p w u w'] obtain src v v' where
    o': "o' = Signed src" and
    n: "do_native_claim cfg src (block_number w) w = (Inr (), v)" and
    c: "do_stable_claim cfg src p (block_number w) v = (Inr (), v')" and
    d: "do_withdraw cfg src p v' = (Inr (), w')" by auto
  have src: "src \<noteq> stable_beneficiary cfg" using who o' by simp
  show ?thesis
    by (rule withdraw_solvent [OF laws(1) d src])
       (rule stable_claim_solvent [OF laws c src], rule native_claim_solvent [OF laws(1) n s])
next
  case (RegistAiusd i)
  with run regist_aiusd_ok [of cfg o' i w u w'] have
    w': "store w' = (store w)\<lparr>aiusd_asset_id := Some i\<rparr>" "ledger w' = ledger w" by auto
  have li: "liability (s\<lparr>aiusd_asset_id := a\<rparr>) = liability s" for s a
    by (auto simp: liability_def staked_def fun_eq_iff)
  from once [OF RegistAiusd] s show ?thesis
    by (auto simp: solvent_def w' li intro: covers_zero)
qed

section \<open>The running pallet\<close>

text \<open>
  A step: an admissible call by anyone but the pallet account, with the staked token registered at
  most once, the start of a later block, or a change elsewhere that takes nothing from the pallet
  account.
\<close>

inductive staking_step ::
  "('e, 'l) staking_config \<Rightarrow> ('e, 'l, staking_storage) frame \<Rightarrow> ('e, 'l, staking_storage) frame \<Rightarrow> bool"
  for cfg where
  call: "run_staking_call cfg c o' w = (r, w') \<Longrightarrow> admissible_call c \<Longrightarrow> o' \<noteq> Signed (stable_beneficiary cfg) \<Longrightarrow>
    (\<And>i. c = RegistAiusd i \<Longrightarrow> aiusd_asset_id (store w) \<in> {None, Some i}) \<Longrightarrow> staking_step cfg w w'"
| block: "block_number w < n \<Longrightarrow> staking_on_initialize cfg n (w\<lparr>block_number := n\<rparr>) = (r, w') \<Longrightarrow> staking_step cfg w w'"
| elsewhere: "(\<And>i. aiusd_held cfg i (ledger w) \<le> aiusd_held cfg i l) \<Longrightarrow>
    staking_step cfg w (w\<lparr>events := es, ledger := l\<rparr>)"

abbreviation staking_steps ::
  "('e, 'l) staking_config \<Rightarrow> ('e, 'l, staking_storage) frame \<Rightarrow> ('e, 'l, staking_storage) frame \<Rightarrow> bool" where
  "staking_steps cfg \<equiv> (staking_step cfg)\<^sup>*\<^sup>*"

lemma staking_block_inv:
  assumes "staking_on_initialize cfg n w = (r, w')" "staking_inv (store w)"
  shows "staking_inv (store w') \<and> (solvent cfg w \<longrightarrow> solvent cfg w') \<and>
    pending_setup (store w') = dropWhile (\<lambda>x. effective_time (position x) \<le> n) (pending_setup (store w))"
  using begin_block_run [OF assms(2), where n = n and cfg = cfg] assms(1)
  by (auto simp: staking_on_initialize_def Let_def intro: solvent_same [rotated -1])

lemma staking_step_inv:
  assumes laws: "token_laws (staking_tokens cfg)" "proportion_law cfg"
    and step: "staking_step cfg w w'" and inv: "staking_inv (store w) \<and> solvent cfg w"
  shows "staking_inv (store w') \<and> solvent cfg w'"
  using step
proof (cases rule: staking_step.cases)
  case (call c o' r)
  have "staking_inv (store w')" using call staking_call_inv inv by blast
  moreover have "solvent cfg w'"
  proof (cases r)
    case (Inl e)
    with call staking_call_atomic inv show ?thesis by blast
  next
    case (Inr u)
    with call(1) have run: "run_staking_call cfg c o' w = (Inr u, w')" by simp
    show ?thesis by (rule staking_call_solvent [OF laws run call(3)]) (use call(4) inv in auto)
  qed
  ultimately show ?thesis ..
next
  case (block n r)
  have "solvent cfg (w\<lparr>block_number := n\<rparr>)" using inv by (auto elim!: solvent_same [rotated -1])
  with staking_block_inv [OF block(2)] inv show ?thesis by simp
next
  case (elsewhere l es)
  have "solvent cfg w'"
    using inv elsewhere by (auto simp: solvent_def split: option.splits intro: covers_mono)
  with inv elsewhere show ?thesis by simp
qed

end
