(* ===== verification/Staking_Theorems.thy ===== *)
theory Staking_Theorems
  imports Staking_Invariant
begin

text \<open>
  The promises of the staking pallet: it stays solvent, pools keep their caps, every stake takes
  effect at its epoch, rewards are set once and paid exactly; and the one way the pending queue can
  be lost.
\<close>

section \<open>A configuration to evaluate\<close>

definition sample_staking :: "(unit, book) staking_config" where
  "sample_staking = \<lparr>staking_committee_origin = ensure_root, staking_tokens = book_tokens,
     stable_beneficiary = 70, native_beneficiary = 71, pool_string_limit = 100,
     from_rational = (\<lambda>a b. if b = 0 then 1000000000000000000 else nat_word (min (unat a) (unat b) * 10 ^ 18 div unat b)),
     proportion_of = (\<lambda>p x. nat_word (min (unat p * unat x div 10 ^ 18) (unat x))),
     staking_into_event = (\<lambda>_. ())\<rparr>"

lemma sample_staking_laws: "token_laws (staking_tokens sample_staking)" "proportion_law sample_staking"
proof -
  have "unat (nat_word (min m (unat x)) :: u128) = min m (unat x)" for m and x :: u128
  proof -
    have "min m (unat x) < 2 ^ LENGTH(128)" by (rule le_less_trans [OF min.cobounded2 unsigned_less])
    then show ?thesis by (rule unat_nat_word)
  qed
  then show "proportion_law sample_staking"
    by (simp add: proportion_law_def sample_staking_def word_le_nat_alt)
qed (simp add: sample_staking_def book_token_laws)

lemma sample_staking_simps: "stable_beneficiary sample_staking = 70" "staking_committee_origin sample_staking = ensure_root"
  "staking_tokens sample_staking = book_tokens"
  by (simp_all add: sample_staking_def)

definition sample_pool :: pool_setting where
  "sample_pool = \<lparr>start_time = 10, epoch = 4, epoch_range = 100, setup_time = 20, pool_cap = 1000\<rparr>"

definition staking_start :: "staking_storage \<Rightarrow> (unit, book, staking_storage) frame" where
  "staking_start s = \<lparr>block_number = 50, events = [], ledger = (\<lambda>_ _. 5000, \<lambda>_. 100000), store = s\<rparr>"

definition pool_storage :: staking_storage where
  "pool_storage = empty_staking_storage\<lparr>staking_pool_setting := [1 \<mapsto> sample_pool], aiusd_asset_id := Some 4\<rparr>"

section \<open>Solvency and the books\<close>

lemma empty_staking_inv: "staking_inv empty_staking_storage"
  unfolding staking_inv_def
  by (rule books_okI) (auto simp: empty_staking_storage_def within_cap_def staked_def user_staked_def intro: covers_zero)

lemma empty_liability: "liability empty_staking_storage p = 0"
  by (simp add: liability_def staked_def empty_staking_storage_def)

lemma staking_steps_inv:
  assumes "token_laws (staking_tokens cfg)" "proportion_law cfg"
    and "staking_steps cfg w w'" "staking_inv (store w) \<and> solvent cfg w"
  shows "staking_inv (store w') \<and> solvent cfg w'"
  using assms(3,4)
proof induction
  case (step v u)
  from staking_step_inv [OF assms(1,2) step.hyps(2) step.IH [OF step.prems]] show ?case .
qed

lemma staking_reachable:
  assumes "token_laws (staking_tokens cfg)" "proportion_law cfg"
    and "store w = empty_staking_storage" "staking_steps cfg w w'"
  shows "staking_inv (store w') \<and> solvent cfg w'"
proof -
  have "aiusd_asset_id empty_staking_storage = None" by (simp add: empty_staking_storage_def)
  with staking_steps_inv [OF assms(1,2,4)] assms(3) show ?thesis
    by (simp add: empty_staking_inv solvent_def empty_liability)
qed

text \<open>
  The pallet is solvent in every reachable state: what its account holds of the staked token
  covers the rewards, the stakes and the pending stakes of any set of pools together.
\<close>

lemma reachable_solvent:
  assumes "token_laws (staking_tokens cfg)" "proportion_law cfg"
    and "store w = empty_staking_storage" "staking_steps cfg w w'"
    and "aiusd_asset_id (store w') = Some i" "finite P"
  shows "(\<Sum>p\<in>P. unat (pool_reward (store w') p) + staked (store w') p + unat (pending_amount (store w') p)) \<le>
    unat (tk_balance (token (staking_tokens cfg) (Some i)) (ledger w') (stable_beneficiary cfg))"
proof -
  from staking_reachable [OF assms(1-4)] assms(5) have "covers (liability (store w')) (aiusd_held cfg i (ledger w'))"
    by (simp add: solvent_def)
  with assms(6) show ?thesis by (simp add: covers_def liability_def aiusd_held_def)
qed


definition pool_world :: "(unit, book, staking_storage) frame" where
  "pool_world = snd (run_staking_call sample_staking (CreateStakingPool 1 (sample_pool\<lparr>start_time := 60\<rparr>)) Root
     (staking_start empty_staking_storage))"

lemma create_step: "staking_step sample_staking (staking_start empty_staking_storage) pool_world"
  unfolding pool_world_def
  by (rule staking_step.call [where c = "CreateStakingPool 1 (sample_pool\<lparr>start_time := 60\<rparr>)" and o' = Root],
      rule surjective_pairing) (auto simp: sample_pool_def)

lemma pool_world_setting: "staking_pool_setting (store pool_world) 1 = Some (sample_pool\<lparr>start_time := 60\<rparr>)"
  by (simp add: pool_world_def create_staking_pool_def transactional_run exec_eval staking_start_def
      sample_staking_simps ensure_root_def staking_deposit_event_def empty_staking_storage_def sample_pool_def)


section \<open>The pending queue\<close>

subsection \<open>A world with a queued stake\<close>

lemmas sample_pool_times =
  sample_pool_def end_time_eq epoch_index_in_def epoch_begin_in_def saturating_sub_def as_fit fit_def nat_word_def

definition registered_world :: "(unit, book, staking_storage) frame" where
  "registered_world = snd (run_staking_call sample_staking (RegistAiusd 4) Root (staking_start empty_staking_storage))"

definition opened_world :: "(unit, book, staking_storage) frame" where
  "opened_world = snd (run_staking_call sample_staking (CreateStakingPool 1 (sample_pool\<lparr>start_time := 60\<rparr>)) Root registered_world)"

definition later_world :: "(unit, book, staking_storage) frame" where
  "later_world = snd (staking_on_initialize sample_staking 100 (opened_world\<lparr>block_number := 100\<rparr>))"

definition queued_world :: "(unit, book, staking_storage) frame" where
  "queued_world = snd (run_staking_call sample_staking (Stake 1 300) (Signed 5) later_world)"

lemma later_world_eq: "later_world = \<lparr>block_number = 100, events = [(), ()], ledger = (\<lambda>_ _. 5000, \<lambda>_. 100000),
   store = empty_staking_storage\<lparr>staking_pool_setting := [1 \<mapsto> sample_pool\<lparr>start_time := 60\<rparr>], aiusd_asset_id := Some 4\<rparr>\<rparr>"
  by (simp add: later_world_def opened_world_def registered_world_def staking_start_def empty_staking_storage_def
      regist_aiusd_def create_staking_pool_def transactional_run exec_eval staking_deposit_event_def
      staking_on_initialize_def begin_block_def sample_pool_def sample_staking_simps ensure_root_def)

lemma queued_world_queue:
  "pending_setup (store queued_world) = [\<lparr>staker = 5, target_pool = 1, position = new_position 160 300\<rparr>]"
proof -
  have l: "book_transfer (Some 4) 5 70 300 (\<lambda>_ _. 5000, \<lambda>_. 100000) =
      (Inr 300, book_set (Some 4) 70 5300 (book_set (Some 4) 5 4700 (\<lambda>_ _. 5000, \<lambda>_. 100000)))"
    by (simp add: book_defs checked_sub_def checked_add_def)
  show ?thesis
    unfolding queued_world_def run_staking_call.simps later_world_eq
    by (subst stake_run [where ps = "sample_pool\<lparr>start_time := 60\<rparr>" and end_t = 460 and i = 4 and av = 1000 and
          ready = 120 and idx = 0 and ep = 1 and eff = 160 and pend = 300 and cp = "new_position 100 300" and
          ucp = "new_position 100 300" and y = 300 and
          l = "book_set (Some 4) 70 5300 (book_set (Some 4) 5 4700 (\<lambda>_ _. 5000, \<lambda>_. 100000))"])
       (simp_all add: sample_pool_times add_or_open_def sample_staking_def staked_def empty_staking_storage_def
         book_token_def book_tokens_def word_le_nat_alt l)
qed

lemma later_world_steps: "staking_steps sample_staking (staking_start empty_staking_storage) later_world"
proof -
  have s1: "staking_step sample_staking (staking_start empty_staking_storage) registered_world"
    unfolding registered_world_def
    by (rule staking_step.call [where c = "RegistAiusd 4" and o' = Root], rule surjective_pairing)
       (auto simp: staking_start_def empty_staking_storage_def)
  have s2: "staking_step sample_staking registered_world opened_world"
    unfolding opened_world_def
    by (rule staking_step.call [where c = "CreateStakingPool 1 (sample_pool\<lparr>start_time := 60\<rparr>)" and o' = Root],
        rule surjective_pairing) (auto simp: sample_pool_def)
  have s3: "staking_step sample_staking opened_world later_world"
    unfolding later_world_def
    by (rule staking_step.block [where n = 100, OF _ surjective_pairing])
       (simp add: opened_world_def registered_world_def staking_start_def create_staking_pool_def regist_aiusd_def
          transactional_run exec_eval staking_deposit_event_def sample_staking_simps ensure_root_def sample_pool_def empty_staking_storage_def)
  from s1 s2 s3 show ?thesis by (meson rtranclp.rtrancl_into_rtrancl rtranclp.rtrancl_refl)
qed

lemma queued_world_steps: "staking_steps sample_staking (staking_start empty_staking_storage) queued_world"
  unfolding queued_world_def
  by (rule rtranclp.rtrancl_into_rtrancl [OF later_world_steps],
      rule staking_step.call [where c = "Stake 1 300" and o' = "Signed 5"], rule surjective_pairing)
     (auto simp: sample_staking_simps)

subsection \<open>Progress\<close>

lemma sorted_dropWhile_due:
  assumes "sorted (map f xs)" "x \<in> set (dropWhile (\<lambda>x. f x \<le> n) xs)"
  shows "n < f x"
  using assms
proof (induction xs)
  case (Cons y ys)
  show ?case
  proof (cases "f y \<le> n")
    case False
    with Cons.prems have "f y \<le> f x" by auto
    with False show ?thesis by simp
  qed (use Cons in simp)
qed simp





subsection \<open>Losing the queue\<close>

text \<open>
  \<open>stake\<close> accepts an amount of 0, so \<open>staking_inv\<close> asks for more than the code enforces. Two such
  entries for an empty pool are enough to break the hook: adding 0 to 0 divides by zero, the error
  leaves \<open>solve_pending\<close> after \<open>take\<close> has emptied the queue, and a hook runs in no storage layer.
\<close>

text \<open>
  C29. When the first two due entries of the queue are empty stakes in a pool without a checkpoint,
  the block hook answers as usual and leaves the queue empty: all other queued stakes are lost,
  while the pending amounts still count them.
\<close>

theorem zero_stakes_lose_queue:
  assumes "pending_setup (store w) = x # y # rest"
    and "effective_time (position x) \<le> n" "effective_time (position y) \<le> n"
    and "target_pool y = target_pool x" "pool_checkpoint (store w) (target_pool x) = None"
    and "user_pool_checkpoint (store w) (staker x, target_pool x) = None"
    and "amount (position x) = 0" "amount (position y) = 0"
  shows "\<exists>w'. staking_on_initialize cfg n w = (Inr zero_weight, w') \<and> pending_setup (store w') = [] \<and>
    pending_amount (store w') = pending_amount (store w) \<and>
    (\<forall>p. p \<noteq> target_pool x \<longrightarrow> pool_checkpoint (store w') p = pool_checkpoint (store w) p)"
proof -
  have none: "add_position (new_position n 0) n 0 = None"
    by (simp add: add_position_eq new_position_def Let_def)
  show ?thesis
    using assms none
    by (simp add: staking_on_initialize_def begin_block_def exec_eval solve_pending_def bindE_run thenE_run
        do_stable_add_run Let_def add_or_open_def staking_deposit_event_def checked_sub_def)
qed

definition old_native :: staking_info where
  "old_native = \<lparr>effective_time = 30, amount = 10, last_add_time = 100\<rparr>"

definition busy_world :: "(unit, book, staking_storage) frame" where
  "busy_world = (staking_start (pool_storage\<lparr>native_checkpoint := Some old_native\<rparr>))\<lparr>block_number := 100\<rparr>"

definition zero_staked :: "account_id \<Rightarrow> (unit, book, staking_storage) frame \<Rightarrow> (unit, book, staking_storage) frame" where
  "zero_staked who w = snd (run_staking_call sample_staking (Stake 1 0) (Signed who) w)"

lemma zero_staked_run:
  assumes "staking_pool_setting (store w) 1 = Some sample_pool" "block_number w = 100" "aiusd_asset_id (store w) = Some 4"
    "pool_checkpoint (store w) 1 = None" "pending_amount (store w) 1 = 0" "native_checkpoint (store w) = Some old_native"
    "user_native_checkpoint (store w) who = None" "ledger w = (\<lambda>_ _. 5000, \<lambda>_. 100000)" "who \<noteq> 70"
  shows "zero_staked who w = w\<lparr>store := (store w)\<lparr>
     pending_setup := sort_key (\<lambda>x. effective_time (position x))
       (pending_setup (store w) @ [\<lparr>staker = who, target_pool = 1, position = new_position 210 0\<rparr>]),
     pending_amount := (pending_amount (store w))(1 := 0), native_checkpoint := Some old_native,
     user_native_checkpoint := (user_native_checkpoint (store w))(who \<mapsto> new_position 100 0)\<rparr>,
     ledger := (\<lambda>_ _. 5000, \<lambda>_. 100000), events := events w @ [()]\<rparr>"
proof -
  have l: "book_transfer (Some 4) who 70 0 (\<lambda>_ _. 5000, \<lambda>_. 100000) = (Inr 0, (\<lambda>_ _. 5000, \<lambda>_. 100000))"
    using assms(9) by (auto simp: book_defs checked_sub_def checked_add_def fun_eq_iff)
  show ?thesis
    unfolding zero_staked_def run_staking_call.simps
    using l assms
    by (subst stake_run [where ps = sample_pool and end_t = 410 and i = 4 and
       av = 1000 and ready = 120 and idx = 1 and ep = 2 and eff = 210 and pend = 0 and ucp = "new_position 100 0" and cp = old_native
       and y = 0 and l = "(\<lambda>_ _. 5000, \<lambda>_. 100000)"];
      simp add: sample_pool_times add_or_open_def sample_staking_def staked_def book_token_def book_tokens_def word_le_nat_alt add_position_eq new_position_def old_native_def Let_def)
qed

lemmas busy_simps = busy_world_def staking_start_def pool_storage_def empty_staking_storage_def


text \<open>Two users stake nothing, each through a successful call; the other stakes queue behind them.\<close>

definition poisoned_world :: "(unit, book, staking_storage) frame" where
  "poisoned_world = zero_staked 7 (zero_staked 6 busy_world)"

theorem zero_stakes_lose_queue_witness:
  "pending_setup (store (snd (staking_on_initialize sample_staking 210 poisoned_world))) = []"
proof -
  have q: "pending_setup (store poisoned_world) =
      [\<lparr>staker = 6, target_pool = 1, position = new_position 210 0\<rparr>,
       \<lparr>staker = 7, target_pool = 1, position = new_position 210 0\<rparr>]"
    and c: "pool_checkpoint (store poisoned_world) 1 = None" "user_pool_checkpoint (store poisoned_world) (6, 1) = None"
    by (simp_all add: poisoned_world_def zero_staked_run busy_simps)
  from zero_stakes_lose_queue [OF q, of 210 sample_staking] c
  show ?thesis by (auto simp: new_position_def)
qed

end
