(* ===== verification/Staking_Payouts.thy ===== *)
theory Staking_Payouts
  imports Staking_Theorems
begin

text \<open>
  What a staker gets and when: merged positions weigh what their parts weighed, a stake takes effect
  at the first epoch after its setup time, an epoch's reward is set once, claims and withdrawals pay
  exactly what they book; and the claim of weight zero that takes the whole native reward.
\<close>

section \<open>Worlds to evaluate\<close>

definition stake_world :: "(unit, book, staking_storage) frame" where
  "stake_world = (staking_start pool_storage)\<lparr>block_number := 100\<rparr>"

definition staked_world :: "(unit, book, staking_storage) frame" where
  "staked_world = snd (stake sample_staking (Signed 5) 1 300 stake_world)"

lemma stake_world_run: "stake sample_staking (Signed 5) 1 300 stake_world = (Inr (), staked_world)"
  and staked_world_eq: "staked_world = stake_world\<lparr>
     store := (store stake_world)\<lparr>pending_setup := [\<lparr>staker = 5, target_pool = 1, position = new_position 210 300\<rparr>],
       pending_amount := (\<lambda>_. 0)(1 := 300), native_checkpoint := Some (new_position 100 300),
       user_native_checkpoint := [5 \<mapsto> new_position 100 300]\<rparr>,
     ledger := book_set (Some 4) 70 5300 (book_set (Some 4) 5 4700 (\<lambda>_ _. 5000, \<lambda>_. 100000)), events := [()]\<rparr>"
proof -
  let ?l = "book_set (Some 4) 70 5300 (book_set (Some 4) 5 4700 (\<lambda>_ _. 5000, \<lambda>_. 100000))"
  have l: "book_transfer (Some 4) 5 70 300 (\<lambda>_ _. 5000, \<lambda>_. 100000) = (Inr 300, ?l)"
    by (simp add: book_defs checked_sub_def checked_add_def)
  note run = stake_run [where w = stake_world and p = 1 and a = 300 and who = 5 and cfg = sample_staking and
     ps = sample_pool and end_t = 410 and i = 4 and av = 1000 and ready = 120 and idx = 1 and ep = 2 and
     eff = 210 and pend = 300 and cp = "new_position 100 300" and ucp = "new_position 100 300" and y = 300 and l = ?l]
  show eq: "staked_world = stake_world\<lparr>
     store := (store stake_world)\<lparr>pending_setup := [\<lparr>staker = 5, target_pool = 1, position = new_position 210 300\<rparr>],
       pending_amount := (\<lambda>_. 0)(1 := 300), native_checkpoint := Some (new_position 100 300),
       user_native_checkpoint := [5 \<mapsto> new_position 100 300]\<rparr>, ledger := ?l, events := [()]\<rparr>"
    unfolding staked_world_def
    by (subst run) (simp_all add: stake_world_def pool_storage_def staking_start_def sample_pool_times
       add_or_open_def sample_staking_def staked_def empty_staking_storage_def book_token_def book_tokens_def word_le_nat_alt l)
  show "stake sample_staking (Signed 5) 1 300 stake_world = (Inr (), staked_world)"
    unfolding eq
    by (subst run) (simp_all add: stake_world_def pool_storage_def staking_start_def sample_pool_times
       add_or_open_def sample_staking_def staked_def empty_staking_storage_def book_token_def book_tokens_def word_le_nat_alt l)
qed

definition rich_world :: "u32 \<Rightarrow> (unit, book, staking_storage) frame" where
  "rich_world n = (staking_start (pool_storage\<lparr>pool_reward := (\<lambda>_. 0)(1 := 900),
     pool_checkpoint := [1 \<mapsto> \<lparr>effective_time = 110, amount = 300, last_add_time = 110\<rparr>],
     user_pool_checkpoint := [(5, 1) \<mapsto> \<lparr>effective_time = 110, amount = 100, last_add_time = 110\<rparr>],
     native_checkpoint := Some \<lparr>effective_time = 60, amount = 300, last_add_time = 90\<rparr>,
     user_native_checkpoint := [5 \<mapsto> \<lparr>effective_time = 60, amount = 100, last_add_time = 60\<rparr>]\<rparr>))\<lparr>block_number := n\<rparr>"

section \<open>Positions and epochs\<close>

text \<open>
  C30. Merging stakes is equivalent to keeping them apart, up to rounding: at any time from then on the
  merged position weighs at least what the old position and the new stake weigh separately, and less
  than one block of the merged amount more.
\<close>

theorem merged_weight:
  assumes "add_position si t a = Some si'"
    and "effective_time si \<le> n" "t \<le> n" 
  shows "(unat n - unat (effective_time si)) * unat (amount si) + (unat n - unat t) * unat a \<le>
      (unat n - unat (effective_time si')) * unat (amount si') \<and>
    (unat n - unat (effective_time si')) * unat (amount si') <
      (unat n - unat (effective_time si)) * unat (amount si) + (unat n - unat t) * unat a + unat (amount si')"
proof -
  note f = add_position_facts [OF assms(1)]
  let ?e = "unat (effective_time si)" and ?s = "unat (amount si)" and ?n = "unat n" and ?t = "unat t" and ?a = "unat a"
  let ?S = "?s + ?a" and ?W = "?e * ?s + ?t * ?a"
  have S: "0 < ?S" using f(1,2) by (metis not_gr0 unat_eq_0)
  have le: "?e \<le> ?n" "?t \<le> ?n" using assms(2,3) by (simp_all add: word_le_nat_alt)
  have "(?n - ?e) * ?s + ?e * ?s = ?n * ?s" "(?n - ?t) * ?a + ?t * ?a = ?n * ?a"
    using le by (simp_all flip: distrib_right)
  then have lots: "(?n - ?e) * ?s + (?n - ?t) * ?a + ?W = ?n * ?S" by (simp add: algebra_simps)
  have "effective_time si' \<le> n"
    using add_position_between(2) [OF assms(1)] assms(2,3) by (simp add: max_def split: if_splits)
  then have "(?n - ?W div ?S) * ?S + ?W div ?S * ?S = ?n * ?S"
    using f(4) by (simp add: word_le_nat_alt flip: distrib_right)
  moreover have "?W div ?S * ?S + ?W mod ?S = ?W" by (rule div_mult_mod_eq)
  moreover have "?W mod ?S < ?S" using S by (rule mod_less_divisor)
  ultimately show ?thesis using lots by (simp add: f(1,4))
qed

theorem merged_weight_witness:
  "(unat (100::u32) - unat (10::u32)) * unat (30::u128) + (unat (100::u32) - unat (50::u32)) * unat (10::u128) \<le>
   (100 - 20) * 40"
proof -
  have "add_position (new_position 10 30) 50 10 = Some \<lparr>effective_time = 20, amount = 40, last_add_time = 50\<rparr>"
    by (simp add: add_position_eq new_position_def Let_def nat_word_def max_def)
  from merged_weight [OF this, of 100] show ?thesis by (simp add: new_position_def)
qed

lemma epoch_index_value:
  assumes "epoch_index_in ps u = Inr idx"
  shows "unat idx = min (unat (epoch ps)) ((unat u - unat (start_time ps)) div unat (epoch_range ps)) \<and> epoch_range ps \<noteq> 0"
proof -
  let ?r = "unat (epoch_range ps)" and ?d = "unat u - unat (start_time ps)"
  have fits: "?d div ?r < 2 ^ 32"
    by (rule le_less_trans [OF div_le_dividend le_less_trans [OF diff_le_self u32_less]])
  show ?thesis
    using assms fits
    by (auto simp: epoch_index_in_def as_fit fit_def unat_saturating_sub unat_eq_0 min_def word_le_nat_alt split: if_splits)
qed

lemma epoch_begin_value:
  assumes "epoch_begin_in ps ep = Inr t"
  shows "unat t = unat (start_time ps) + unat (epoch_range ps) * min (unat ep) (unat (epoch ps))"
  using assms
  by (auto simp: epoch_begin_in_def end_time_eq checked_arith fit_Some Let_def min_def word_le_nat_alt
      split: option.splits if_splits)

lemma epoch_index_total: "epoch_range ps \<noteq> 0 \<Longrightarrow> \<exists>idx. epoch_index_in ps u = Inr idx"
proof -
  assume "epoch_range ps \<noteq> 0"
  moreover have "(unat u - unat (start_time ps)) div unat (epoch_range ps) < 2 ^ 32"
    by (rule le_less_trans [OF div_le_dividend le_less_trans [OF diff_le_self u32_less]])
  ultimately show ?thesis
    by (auto simp: epoch_index_in_def as_fit fit_def unat_saturating_sub unat_eq_0)
qed

text \<open>
  C31. The epoch functions are inverse to each other: every time from the begin of epoch \<open>ep\<close> until
  the begin of the next one lies in epoch \<open>ep\<close>, and all times after the end lie in the last.
\<close>

theorem epoch_round_trip:
  assumes "epoch_range ps \<noteq> 0" "ep \<le> epoch ps" "epoch_begin_in ps ep = Inr t"
    and "t \<le> u" "ep < epoch ps \<longrightarrow> unat u < unat t + unat (epoch_range ps)"
  shows "epoch_index_in ps u = Inr ep"
proof -
  let ?r = "unat (epoch_range ps)" and ?s = "unat (start_time ps)" and ?e = "unat ep"
  let ?d = "unat u - ?s"
  from epoch_index_total [OF assms(1)] obtain idx where idx: "epoch_index_in ps u = Inr idx" by blast
  have r: "0 < ?r" using assms(1) by (simp add: unat_gt_0)
  have m: "min ?e (unat (epoch ps)) = ?e" using assms(2) by (simp add: min_def word_le_nat_alt)
  have t: "unat t = ?s + ?r * ?e" using epoch_begin_value [OF assms(3)] unfolding m .
  then have su: "?s \<le> unat u" and ge: "?e * ?r \<le> ?d"
    using assms(4) by (simp_all add: word_le_nat_alt mult.commute)
  from ge have le: "?e \<le> ?d div ?r" using r by (simp add: less_eq_div_iff_mult_less_eq)
  have "min (unat (epoch ps)) (?d div ?r) = ?e"
  proof (cases "ep < epoch ps")
    case True
    then have "?d < (?e + 1) * ?r" using assms(5) t su by (simp add: algebra_simps less_diff_conv2)
    then have "?d div ?r < ?e + 1" using r by (simp add: div_less_iff_less_mult)
    with le m show ?thesis by simp
  next
    case False
    with assms(2) have "epoch ps = ep" by simp
    with le show ?thesis by simp
  qed
  then have "idx = ep" using epoch_index_value [OF idx] by (simp add: word_unat_eq_iff)
  with idx show ?thesis by simp
qed

theorem epoch_round_trip_witness: "epoch_index_in sample_pool 250 = Inr 2"
proof -
  have "epoch_begin_in sample_pool 2 = Inr 210" by (simp add: sample_pool_times)
  from epoch_round_trip [OF _ _ this, of 250] show ?thesis by (simp add: sample_pool_def)
qed



section \<open>Epoch rewards\<close>

text \<open>The tables that only the committee writes; users and the hook leave them alone.\<close>

definition tables ::
  "staking_storage \<Rightarrow> (pool_id \<times> u128 \<rightharpoonup> balance) \<times> (pool_id \<rightharpoonup> pool_metadata) \<times> (pool_id \<rightharpoonup> pool_setting)" where
  "tables s = (pool_epoch_reward s, staking_pool_metadata s, staking_pool_setting s)"

lemma tables_update [simp]:
  "tables (s\<lparr>pool_checkpoint := a\<rparr>) = tables s" "tables (s\<lparr>user_pool_checkpoint := b\<rparr>) = tables s"
  "tables (s\<lparr>native_checkpoint := c\<rparr>) = tables s" "tables (s\<lparr>user_native_checkpoint := d\<rparr>) = tables s"
  "tables (s\<lparr>pending_amount := e\<rparr>) = tables s" "tables (s\<lparr>pending_setup := f\<rparr>) = tables s"
  "tables (s\<lparr>pool_reward := g\<rparr>) = tables s"
  by (simp_all add: tables_def)

abbreviation keeps_tables :: "('e, 'l, staking_storage, 'a) pallet \<Rightarrow> bool" where
  "keeps_tables \<equiv> within (store_rel (\<lambda>s s'. tables s' = tables s))"

lemma preorder_tables: "preorder_rel (store_rel (\<lambda>s s'. tables s' = tables s))"
  by (intro preorder_store_rel preorder_relI) simp_all

lemma keeps_tables_write: "(\<And>s. tables (g s) = tables s) \<Longrightarrow> keeps_tables (write_store g)"
  by (simp add: within_write_store)

lemma keeps_tables_event: "keeps_tables (deposit_event ev)"
  by (rule within_deposit_event) (auto intro: preorder_relI)

lemmas keeps_tables_intro = keeps_tables_event within_bindE [OF preorder_tables] within_thenE [OF preorder_tables]
  within_ret [OF preorder_tables] within_ok_or [OF preorder_tables] within_read_store [OF preorder_tables]
  within_attempt keeps_tables_write within_if

lemma do_stable_add_tables: "keeps_tables (do_stable_add who p a t)"
  unfolding do_stable_add_def by (intro keeps_tables_intro) simp_all

lemma solve_loop_tables: "keeps_tables (solve_loop cfg n xs)"
  by (induction xs)
     (auto simp: staking_deposit_event_def intro!: keeps_tables_intro do_stable_add_tables)

lemma begin_block_tables: "keeps_tables (staking_on_initialize cfg n)"
  unfolding staking_on_initialize_def begin_block_def solve_pending_def
  by (auto intro!: keeps_tables_intro solve_loop_tables split: list.split)

lemma claim_tables:
  "do_native_claim cfg who t w = (Inr u, w') \<Longrightarrow> tables (store w') = tables (store w)"
  "do_stable_claim cfg who p t w = (Inr u, w') \<Longrightarrow> tables (store w') = tables (store w)"
  "do_withdraw cfg who p w = (Inr u, w') \<Longrightarrow> tables (store w') = tables (store w)"
  "solve_pending cfg n w = (Inr u, w') \<Longrightarrow> tables (store w') = tables (store w)"
proof -
  show "do_native_claim cfg who t w = (Inr u, w') \<Longrightarrow> tables (store w') = tables (store w)"
    by (drule do_native_claim_ok) (auto simp: Let_def tables_def)
  show "do_stable_claim cfg who p t w = (Inr u, w') \<Longrightarrow> tables (store w') = tables (store w)"
    by (drule do_stable_claim_ok) (auto simp: Let_def tables_def)
  show "do_withdraw cfg who p w = (Inr u, w') \<Longrightarrow> tables (store w') = tables (store w)"
    by (drule do_withdraw_ok) (auto simp: tables_def)
  have "keeps_tables (solve_pending cfg n)"
    unfolding solve_pending_def by (intro keeps_tables_intro solve_loop_tables) simp_all
  then show "solve_pending cfg n w = (Inr u, w') \<Longrightarrow> tables (store w') = tables (store w)"
    by (auto simp: store_rel_def dest: withinD)
qed

lemma call_keeps_reward:
  assumes "run_staking_call cfg c o' w = (r, w')" "pool_epoch_reward (store w) k = Some v"
  shows "pool_epoch_reward (store w') k = Some v"
proof (cases r)
  case (Inl e)
  with assms staking_call_atomic show ?thesis by blast
next
  case (Inr u)
  show ?thesis
  proof (cases c)
    case (CreateStakingPool p ps)
    with assms Inr show ?thesis by (auto dest: create_pool_ok)
  next
    case (UpdateMetadata p nm d)
    with assms Inr show ?thesis by (auto dest: update_metadata_ok)
  next
    case (UpdateReward p ep x)
    with assms Inr show ?thesis by (auto dest!: update_reward_ok)
  next
    case (Stake p a)
    with assms Inr show ?thesis by (auto dest!: stake_ok)
  next
    case SolvePendingStake
    with assms Inr show ?thesis by (auto simp: solve_pending_stake_def exec_ok tables_def dest: claim_tables)
  next
    case (ClaimNative t)
    with assms Inr show ?thesis by (auto simp: claim_native_def exec_ok tables_def dest: claim_tables)
  next
    case (ClaimStable p t)
    with assms Inr show ?thesis by (auto simp: claim_stable_def exec_ok tables_def dest: claim_tables)
  next
    case (Withdraw p)
    with assms Inr show ?thesis by (auto simp: tables_def dest!: withdraw_ok claim_tables)
  next
    case (RegistAiusd i)
    with assms Inr show ?thesis by (auto dest: regist_aiusd_ok)
  qed
qed

lemma step_keeps_reward:
  assumes "staking_step cfg w w'" "pool_epoch_reward (store w) k = Some v"
  shows "pool_epoch_reward (store w') k = Some v"
  using assms
proof (cases rule: staking_step.cases)
  case (block n r)
  from withinD [OF begin_block_tables this(2)] assms(2) show ?thesis by (simp add: store_rel_def tables_def)
qed (auto intro: call_keeps_reward)


lemma reward_run: "fst (update_reward sample_staking Root 1 3 50 (rich_world 300)) = Inr ()"
  by (simp add: update_reward_def transactional_run exec_eval rich_world_def staking_start_def pool_storage_def
      get_epoch_index_def pool_setting_of_def lift_result_def sample_pool_times sample_staking_def ensure_root_def
      empty_staking_storage_def on_ledger_def book_tokens_def book_defs checked_add_def staking_deposit_event_def bindE_run word_le_nat_alt)


section \<open>Claims and withdrawals\<close>

lemma stable_claim_effect:
  assumes "token_laws (staking_tokens cfg)" "proportion_law cfg"
    and "do_stable_claim cfg who p t w = (Inr u, w')" "who \<noteq> stable_beneficiary cfg"
    and "aiusd_asset_id (store w) = Some i" "pool_checkpoint (store w) p = Some scp" "user_pool_checkpoint (store w) (who, p) = Some ucp"
  obtains wgt total scp' d where
    "weight_of ucp t = Some wgt" "weight_force scp t = Some total" "t \<le> block_number w"
    "d = proportion_of cfg (from_rational cfg wgt total) (pool_reward (store w) p)"
    "unat (tk_balance (token (staking_tokens cfg) (Some i)) (ledger w') who) =
       unat (tk_balance (token (staking_tokens cfg) (Some i)) (ledger w) who) + unat d"
    "unat (pool_reward (store w) p) = unat (pool_reward (store w') p) + unat d"
    "pool_checkpoint (store w') p = Some scp'" "amount scp' = amount scp"
    "user_pool_checkpoint (store w') (who, p) = Some (ucp\<lparr>effective_time := t\<rparr>)"
    "aiusd_asset_id (store w') = Some i" "block_number w' = block_number w"
proof -
  from assms(3,5-7) obtain wgt total scp' e y l where
    a: "weight_of ucp t = Some wgt" "weight_force scp t = Some total" "t \<le> block_number w"
      "claim_based_on_weight scp wgt = Some (e, scp')" and
    tr: "tk_transfer (asset_token (staking_tokens cfg) i) (stable_beneficiary cfg) who
       (proportion_of cfg (from_rational cfg wgt total) (pool_reward (store w) p)) (ledger w) = (Inr y, l)" and
    w': "ledger w' = l" "store w' = (store w)\<lparr>pool_reward := (pool_reward (store w))(p := pool_reward (store w) p -
        proportion_of cfg (from_rational cfg wgt total) (pool_reward (store w) p)),
      pool_checkpoint := (pool_checkpoint (store w))(p \<mapsto> scp'),
      user_pool_checkpoint := (user_pool_checkpoint (store w))((who, p) \<mapsto> ucp\<lparr>effective_time := t\<rparr>)\<rparr>"
      "block_number w' = block_number w"
    by (auto simp: do_stable_claim_def exec_ok claim_eq Let_def split: option.splits)
  let ?d = "proportion_of cfg (from_rational cfg wgt total) (pool_reward (store w) p)"
  have d: "?d \<le> pool_reward (store w) p" using assms(2) by (simp add: proportion_law_def)
  have ne: "stable_beneficiary cfg \<noteq> who" using assms(4) by simp
  show thesis
    by (rule that [of wgt total ?d scp'])
       (use a w' d transfer_lawD(3) [OF assms(1) tr [unfolded asset_token_Some] ne] assms(5)
         claim_based_on_weight_amount [OF a(4)] in \<open>simp_all add: unat_sub word_le_nat_alt\<close>)
qed

lemmas rich_simps = rich_world_def staking_start_def pool_storage_def empty_staking_storage_def sample_staking_def book_tokens_def book_defs
lemmas claim_simps = exec_eval bindE_run thenE_run claim_eq weight_of_eq weight_force_eq claim_based_on_weight_eq Let_def fit_def nat_word_def
   on_ledger_def checked_sub_def checked_add_def staking_deposit_event_def

text \<open>
  C14. A claim from a pool pays the user exactly its share by weight, books exactly that against the
  pool's reward (which cannot underflow), keeps the stake, and leaves the user without any weight
  to claim again for the same time.
\<close>

theorem stable_claim_pays:
  assumes "token_laws (staking_tokens cfg)" "proportion_law cfg"
    and "claim_stable cfg (Signed who) p t w = (Inr u, w')" "who \<noteq> stable_beneficiary cfg"
    and "aiusd_asset_id (store w) = Some i" "pool_checkpoint (store w) p = Some scp" "user_pool_checkpoint (store w) (who, p) = Some ucp"
  shows "\<exists>wgt total d ucp'. weight_of ucp t = Some wgt \<and> weight_force scp t = Some total \<and> t \<le> block_number w \<and>
    d = proportion_of cfg (from_rational cfg wgt total) (pool_reward (store w) p) \<and>
    unat (tk_balance (token (staking_tokens cfg) (Some i)) (ledger w') who) =
      unat (tk_balance (token (staking_tokens cfg) (Some i)) (ledger w) who) + unat d \<and>
    unat (pool_reward (store w) p) = unat (pool_reward (store w') p) + unat d \<and>
    user_pool_checkpoint (store w') (who, p) = Some ucp' \<and> amount ucp' = amount ucp \<and> weight_of ucp' t = Some 0"
proof -
  have run: "do_stable_claim cfg who p t w = (Inr (), w')"
    using assms(3) by (auto simp: claim_stable_def exec_ok)
  from stable_claim_effect [OF assms(1,2) run assms(4-7)] obtain wgt total d where
    a: "weight_of ucp t = Some wgt" "weight_force scp t = Some total" "t \<le> block_number w"
    "d = proportion_of cfg (from_rational cfg wgt total) (pool_reward (store w) p)"
    "unat (tk_balance (token (staking_tokens cfg) (Some i)) (ledger w') who) =
       unat (tk_balance (token (staking_tokens cfg) (Some i)) (ledger w) who) + unat d"
    "unat (pool_reward (store w) p) = unat (pool_reward (store w') p) + unat d"
    "user_pool_checkpoint (store w') (who, p) = Some (ucp\<lparr>effective_time := t\<rparr>)" .
  from a(1) have "weight_of (ucp\<lparr>effective_time := t\<rparr>) t = Some 0"
    by (auto simp: weight_of_eq fit_def nat_word_def split: if_splits)
  with a show ?thesis
    by (intro exI [of _ wgt] exI [of _ total] exI [of _ d] exI [of _ "ucp\<lparr>effective_time := t\<rparr>"]) simp
qed

lemma stable_claim_run: "fst (claim_stable sample_staking (Signed 5) 1 300 (rich_world 300)) = Inr ()"
  by (simp add: claim_stable_def do_stable_claim_def claim_simps rich_simps)

theorem stable_claim_pays_witness:
  "unat (pool_reward (store (snd (claim_stable sample_staking (Signed 5) 1 300 (rich_world 300)))) 1) \<le> 900"
proof -
  have run: "claim_stable sample_staking (Signed 5) 1 300 (rich_world 300) =
    (Inr (), snd (claim_stable sample_staking (Signed 5) 1 300 (rich_world 300)))"
    using stable_claim_run by (metis prod.collapse)
  have "aiusd_asset_id (store (rich_world 300)) = Some 4"
    "pool_checkpoint (store (rich_world 300)) 1 = Some \<lparr>effective_time = 110, amount = 300, last_add_time = 110\<rparr>"
    "user_pool_checkpoint (store (rich_world 300)) (5, 1) = Some \<lparr>effective_time = 110, amount = 100, last_add_time = 110\<rparr>"
    "pool_reward (store (rich_world 300)) 1 = 900"
    by (simp_all add: rich_simps)
  from stable_claim_pays [OF sample_staking_laws run _ this(1-3)] this(4) show ?thesis
    by (auto simp: sample_staking_simps)
qed

lemma native_claim_keeps:
  assumes "token_laws (staking_tokens cfg)" "do_native_claim cfg who t w = (Inr u, w')"
  shows "pool_checkpoint (store w') = pool_checkpoint (store w)" "user_pool_checkpoint (store w') = user_pool_checkpoint (store w)"
    "pool_reward (store w') = pool_reward (store w)" "aiusd_asset_id (store w') = aiusd_asset_id (store w)"
    "block_number w' = block_number w"
    "tk_balance (token (staking_tokens cfg) (Some i)) (ledger w') = tk_balance (token (staking_tokens cfg) (Some i)) (ledger w)"
  using do_native_claim_ok [OF assms(2)] separate_lawD(3) [OF assms(1), of None "Some i"]
  by (auto simp: Let_def native_token_None)


lemma withdraw_run: "fst (withdraw sample_staking (Signed 5) 1 (rich_world 500)) = Inr ()"
  by (simp add: withdraw_def pool_setting_of_def do_native_claim_def do_stable_claim_def do_withdraw_def
      shrink_native_def shrink_user_native_def withdraw_position_def sample_pool_times claim_simps rich_simps)


section \<open>The weightless claim\<close>

text \<open>
  The documentation of \<open>PerThing::from_rational\<close>: a zero denominator gives one, and one of anything
  is all of it.
\<close>

definition saturating_law :: "('e, 'l) staking_config \<Rightarrow> bool" where
  "saturating_law cfg \<longleftrightarrow> (\<forall>a x. proportion_of cfg (from_rational cfg a 0) x = x)"

lemma first_stake_native:
  assumes "native_checkpoint (store w) = None" "user_native_checkpoint (store w) who = None"
    and "stake cfg (Signed who) p a w = (Inr u, w')"
  shows "native_checkpoint (store w') = Some (new_position (block_number w) a)"
    "user_native_checkpoint (store w') who = Some (new_position (block_number w) a)"
    "block_number w' = block_number w"
  using stake_ok [OF assms(3)] assms(1,2) by (auto simp: add_or_open_def)

lemma stake_keeps_native:
  assumes "token_laws (staking_tokens cfg)" "stake cfg o' p a w = (Inr u, w')"
  shows "tk_balance (native_token (staking_tokens cfg)) (ledger w') = tk_balance (native_token (staking_tokens cfg)) (ledger w)"
proof -
  from stake_ok [OF assms(2)] obtain i who y l where
    tr: "tk_transfer (asset_token (staking_tokens cfg) i) who (stable_beneficiary cfg) a (ledger w) = (Inr y, l)"
    and l: "ledger w' = l" by auto
  from separate_lawD(3) [OF assms(1) _ tr [unfolded asset_token_Some], of None] show ?thesis
    by (simp add: l native_token_None)
qed

text \<open>
  C34. The first staker can take the whole native reward at once: in the block of the stake its weight
  and the total weight are both 0, the share of 0 in 0 counts as one, and a claim in that block pays
  out the entire balance of the reward account.
\<close>

theorem weightless_claim_takes_pot:
  assumes "token_laws (staking_tokens cfg)" "saturating_law cfg"
    and "native_checkpoint (store w) = None" "user_native_checkpoint (store w) who = None"
    and "stake cfg (Signed who) p a w = (Inr u, v)" "claim_native cfg (Signed who) (block_number w) v = (Inr u', w')"
    and "who \<noteq> native_beneficiary cfg"
  shows "unat (tk_balance (native_token (staking_tokens cfg)) (ledger w') who) =
      unat (tk_balance (native_token (staking_tokens cfg)) (ledger w) who) +
      unat (tk_balance (native_token (staking_tokens cfg)) (ledger w) (native_beneficiary cfg)) \<and>
    tk_balance (native_token (staking_tokens cfg)) (ledger w') (native_beneficiary cfg) = 0"
proof -
  note nt = first_stake_native [OF assms(3-5)] and bal = stake_keeps_native [OF assms(1,5)]
  let ?b = "\<lambda>x. tk_balance (native_token (staking_tokens cfg)) (ledger x)"
  have w0: "weight_force (new_position n a) n = Some 0" "weight_of (new_position n a) n = Some 0" for n
    by (simp_all add: weight_force_eq weight_of_eq new_position_def fit_def nat_word_def)
  have "do_native_claim cfg who (block_number w) v = (Inr (), w')"
    using assms(6) by (auto simp: claim_native_def exec_ok)
  then obtain y where tr: "tk_transfer (native_token (staking_tokens cfg)) (native_beneficiary cfg) who
      (proportion_of cfg (from_rational cfg 0 0) (?b v (native_beneficiary cfg))) (ledger v) = (Inr y, ledger w')"
    using nt w0 by (auto simp: do_native_claim_def exec_ok claim_eq Let_def)
  with assms(2) have tr: "tk_transfer (token (staking_tokens cfg) None) (native_beneficiary cfg) who
      (?b v (native_beneficiary cfg)) (ledger v) = (Inr y, ledger w')"
    by (simp add: saturating_law_def native_token_None)
  have ne: "native_beneficiary cfg \<noteq> who" using assms(7) by simp
  from transfer_lawD(2,3) [OF assms(1) tr ne] show ?thesis
    by (simp add: bal flip: native_token_None unat_eq_0)
qed

definition claimed_world :: "(unit, book, staking_storage) frame" where
  "claimed_world = snd (claim_native sample_staking (Signed 5) 100 staked_world)"

lemma sample_ratio: "proportion_of sample_staking (from_rational sample_staking a 0) x = x"
  by (simp add: sample_staking_def nat_word_def)

lemma claimed_world_run: "claim_native sample_staking (Signed 5) 100 staked_world = (Inr (), claimed_world)"
proof -
  have w0: "weight_force (new_position n a) n = Some 0" "weight_of (new_position n a) n = Some 0" for n a
    by (simp_all add: weight_force_eq weight_of_eq new_position_def fit_def nat_word_def)
  have c: "claim_based_on_weight (new_position 100 300) 0 = Some (100, new_position 100 300)"
    by (simp add: claim_based_on_weight_eq new_position_def nat_word_def)
  have t: "tk_transfer (native_token (staking_tokens sample_staking)) 71 5 5000 (ledger staked_world) =
      (Inr 5000, book_set None 5 10000 (book_set None 71 0 (ledger staked_world)))"
    by (simp add: staked_world_eq sample_staking_def book_defs book_tokens_def checked_sub_def checked_add_def)
  have n: "tk_balance (native_token (staking_tokens sample_staking)) (ledger staked_world) 71 = 5000"
    by (simp add: staked_world_eq sample_staking_def book_defs book_tokens_def)
  have nb: "native_beneficiary sample_staking = 71" by (simp add: sample_staking_def)
  have s: "native_checkpoint (store staked_world) = Some (new_position 100 300)"
    "user_native_checkpoint (store staked_world) 5 = Some (new_position 100 300)" "block_number staked_world = 100"
    by (simp_all add: staked_world_eq stake_world_def)
  have "fst (claim_native sample_staking (Signed 5) 100 staked_world) = Inr ()"
    using w0 c n
    by (simp add: claim_native_def exec_eval do_native_claim_def s claim_eq sample_ratio nb on_ledger_def t bindE_run staking_deposit_event_def)
  then show ?thesis unfolding claimed_world_def by (metis prod.collapse)
qed

theorem weightless_claim_takes_pot_witness:
  "unat (tk_balance (native_token book_tokens) (ledger claimed_world) 5) = 10000"
proof -
  have sat: "saturating_law sample_staking" by (simp add: saturating_law_def sample_ratio)
  have n: "native_checkpoint (store stake_world) = None" "user_native_checkpoint (store stake_world) 5 = None"
    "block_number stake_world = 100" "native_beneficiary sample_staking = 71"
    "tk_balance (native_token book_tokens) (ledger stake_world) x = 5000" for x
    by (simp_all add: stake_world_def staking_start_def pool_storage_def empty_staking_storage_def sample_staking_def
        book_tokens_def book_token_def book_balance_def)
  from weightless_claim_takes_pot [OF sample_staking_laws(1) sat n(1,2) stake_world_run claimed_world_run [folded n(3)]]
  show ?thesis by (simp add: n sample_staking_simps)
qed

section \<open>Who may call\<close>

fun permitted :: "('e, 'l) staking_config \<Rightarrow> origin \<Rightarrow> staking_call \<Rightarrow> bool" where
  "permitted cfg o' (CreateStakingPool p ps) = staking_committee_origin cfg o'"
| "permitted cfg o' (UpdateMetadata p n d) = staking_committee_origin cfg o'"
| "permitted cfg o' (UpdateReward p e r) = staking_committee_origin cfg o'"
| "permitted cfg o' (RegistAiusd i) = staking_committee_origin cfg o'"
| "permitted cfg o' _ = (\<exists>who. o' = Signed who)"

text \<open>
  Pools, their metadata and rewards and the staked token are set by the committee only, and every
  other call needs a signature; all other callers get \<open>BadOrigin\<close> and change nothing.
\<close>

lemma staking_refused:
  assumes "\<not> permitted cfg o' c"
  shows "run_staking_call cfg c o' w = (Inl BadOrigin, w)"
  using assms
  by (cases c; cases o')
     (simp_all add: create_staking_pool_def update_metadata_def update_reward_def regist_aiusd_def stake_def
       solve_pending_stake_def claim_native_def claim_stable_def withdraw_def transactional_run exec_eval)

end
