(* ===== verification/Staking_Precompile.thy ===== *)
theory Staking_Precompile
  imports Evm_Support Staking_Payouts
begin

text \<open>
  \<open>precompiles/stable-staking/src/lib.rs\<close>: the staking pallet as an EVM contract. Five functions
  dispatch calls of the pallet in the name of the caller's account, ten views read its storage.
  Numbers arrive as 256-bit words and are refused when they do not fit the pallet's types.
\<close>

section \<open>Configuration and results\<close>

text \<open>
  Where the runtime keeps the pallet: its calls among the runtime calls and its storage in the
  chain state. \<open>AccountId: From<[u8; 32]>\<close> is the identity on the 32 bytes.
\<close>

record ('c, 'w) staking_runtime =
  staking_into_call :: "staking_call \<Rightarrow> 'c"
  staking_storage_of :: "'w \<Rightarrow> staking_storage"

record precompile_pool_setting =
  pv_start_time :: u256
  pv_epoch :: u256
  pv_epoch_range :: u256
  pv_setup_time :: u256
  pv_pool_cap :: u256

record precompile_staking_info =
  pv_effective_time :: u256
  pv_amount :: u256
  pv_last_add_time :: u256

definition pool_id_arg :: "u256 \<Rightarrow> ('h, 'w, pool_id) precompile" where
  "pool_id_arg v = fits_or_revert v ''pool index type''"

definition balance_arg :: "u256 \<Rightarrow> ('h, 'w, balance) precompile" where
  "balance_arg v = fits_or_revert v ''balance type''"

definition block_number_arg :: "u256 \<Rightarrow> ('h, 'w, u32) precompile" where
  "block_number_arg v = fits_or_revert v ''block number type''"

section \<open>Functions\<close>

definition stake_precompile ::
  "('h, 'c, 'w) evm_host \<Rightarrow> ('c, 'w) staking_runtime \<Rightarrow> u256 \<Rightarrow> u256 \<Rightarrow> ('h, 'w, unit) precompile" where
  "stake_precompile host rt pool a =
     bindE (caller host) (\<lambda>c.
     let origin = into_account_id host c in
     bindE (pool_id_arg pool) (\<lambda>pool_id.
     bindE (balance_arg a) (\<lambda>amt.
     try_dispatch host origin (staking_into_call rt (Stake pool_id amt)))))"

definition solve_pending_stake_precompile ::
  "('h, 'c, 'w) evm_host \<Rightarrow> ('c, 'w) staking_runtime \<Rightarrow> ('h, 'w, unit) precompile" where
  "solve_pending_stake_precompile host rt =
     bindE (caller host) (\<lambda>c.
     try_dispatch host (into_account_id host c) (staking_into_call rt SolvePendingStake))"

definition claim_native_precompile ::
  "('h, 'c, 'w) evm_host \<Rightarrow> ('c, 'w) staking_runtime \<Rightarrow> u256 \<Rightarrow> ('h, 'w, unit) precompile" where
  "claim_native_precompile host rt until_time =
     bindE (caller host) (\<lambda>c.
     bindE (block_number_arg until_time) (\<lambda>t.
     try_dispatch host (into_account_id host c) (staking_into_call rt (ClaimNative t))))"

definition claim_stable_precompile ::
  "('h, 'c, 'w) evm_host \<Rightarrow> ('c, 'w) staking_runtime \<Rightarrow> u256 \<Rightarrow> u256 \<Rightarrow> ('h, 'w, unit) precompile" where
  "claim_stable_precompile host rt pool until_time =
     bindE (caller host) (\<lambda>c.
     bindE (pool_id_arg pool) (\<lambda>pool_id.
     bindE (block_number_arg until_time) (\<lambda>t.
     try_dispatch host (into_account_id host c) (staking_into_call rt (ClaimStable pool_id t)))))"

definition withdraw_precompile ::
  "('h, 'c, 'w) evm_host \<Rightarrow> ('c, 'w) staking_runtime \<Rightarrow> u256 \<Rightarrow> ('h, 'w, unit) precompile" where
  "withdraw_precompile host rt pool =
     bindE (caller host) (\<lambda>c.
     bindE (pool_id_arg pool) (\<lambda>pool_id.
     try_dispatch host (into_account_id host c) (staking_into_call rt (Withdraw pool_id))))"

section \<open>Views\<close>

text \<open>\<open>epoch\<close> is filled with the start time, as in the source.\<close>

definition staking_pool_setting_view ::
  "('h, 'c, 'w) evm_host \<Rightarrow> ('c, 'w) staking_runtime \<Rightarrow> u256 \<Rightarrow> ('h, 'w, precompile_pool_setting) precompile" where
  "staking_pool_setting_view host rt pool =
     thenE (record_db_read host 68)
     (bindE (pool_id_arg pool) (\<lambda>pool_id.
      bindE (bindE (read_chain (\<lambda>w. staking_pool_setting (staking_storage_of rt w) pool_id))
               (\<lambda>v. ok_or v (Revert [] (CustomReason ''not existing'')))) (\<lambda>setting.
      ret \<lparr>pv_start_time = ucast (start_time setting), pv_epoch = ucast (start_time setting),
           pv_epoch_range = ucast (epoch_range setting), pv_setup_time = ucast (setup_time setting),
           pv_pool_cap = ucast (pool_cap setting)\<rparr>)))"

definition pool_reward_view ::
  "('h, 'c, 'w) evm_host \<Rightarrow> ('c, 'w) staking_runtime \<Rightarrow> u256 \<Rightarrow> ('h, 'w, u256) precompile" where
  "pool_reward_view host rt pool =
     thenE (record_db_read host 40)
     (bindE (pool_id_arg pool) (\<lambda>pool_id.
      bindE (read_chain (\<lambda>w. pool_reward (staking_storage_of rt w) pool_id)) (\<lambda>reward.
      ret (ucast reward))))"

definition pool_epoch_reward_view ::
  "('h, 'c, 'w) evm_host \<Rightarrow> ('c, 'w) staking_runtime \<Rightarrow> u256 \<Rightarrow> u256 \<Rightarrow> ('h, 'w, u256) precompile" where
  "pool_epoch_reward_view host rt pool ep =
     thenE (record_db_read host 80)
     (bindE (pool_id_arg pool) (\<lambda>pool_id.
      bindE (fits_or_revert ep ''epoch index type'') (\<lambda>ep'.
      bindE (read_chain (\<lambda>w. pool_epoch_reward (staking_storage_of rt w) (pool_id, ep'))) (\<lambda>reward.
      ret (case reward of Some r \<Rightarrow> ucast r | None \<Rightarrow> 0)))))"

text \<open>The end of the five checkpoint views: the entry that must exist, in 256-bit words.\<close>

definition staking_info_result :: "staking_info option \<Rightarrow> ('h, 'w, precompile_staking_info) precompile" where
  "staking_info_result checkpoint =
     bindE (ok_or checkpoint (Revert [] (CustomReason ''not existing''))) (\<lambda>si.
     ret \<lparr>pv_effective_time = ucast (effective_time si), pv_amount = ucast (amount si),
          pv_last_add_time = ucast (last_add_time si)\<rparr>)"

definition pool_checkpoint_view ::
  "('h, 'c, 'w) evm_host \<Rightarrow> ('c, 'w) staking_runtime \<Rightarrow> u256 \<Rightarrow> ('h, 'w, precompile_staking_info) precompile" where
  "pool_checkpoint_view host rt pool =
     thenE (record_db_read host 48)
     (bindE (pool_id_arg pool) (\<lambda>pool_id.
      bindE (read_chain (\<lambda>w. pool_checkpoint (staking_storage_of rt w) pool_id)) staking_info_result))"

definition user_pool_checkpoint_evm_view ::
  "('h, 'c, 'w) evm_host \<Rightarrow> ('c, 'w) staking_runtime \<Rightarrow> h160 \<Rightarrow> u256 \<Rightarrow> ('h, 'w, precompile_staking_info) precompile" where
  "user_pool_checkpoint_evm_view host rt user pool =
     thenE (record_db_read host 88)
     (let who = into_account_id host user in
      bindE (pool_id_arg pool) (\<lambda>pool_id.
      bindE (read_chain (\<lambda>w. user_pool_checkpoint (staking_storage_of rt w) (who, pool_id))) staking_info_result))"

definition user_pool_checkpoint_sub_view ::
  "('h, 'c, 'w) evm_host \<Rightarrow> ('c, 'w) staking_runtime \<Rightarrow> u256 \<Rightarrow> u256 \<Rightarrow> ('h, 'w, precompile_staking_info) precompile" where
  "user_pool_checkpoint_sub_view host rt who pool =
     thenE (record_db_read host 48)
     (bindE (pool_id_arg pool) (\<lambda>pool_id.
      bindE (read_chain (\<lambda>w. user_pool_checkpoint (staking_storage_of rt w) (who, pool_id))) staking_info_result))"

definition native_checkpoint_view ::
  "('h, 'c, 'w) evm_host \<Rightarrow> ('c, 'w) staking_runtime \<Rightarrow> ('h, 'w, precompile_staking_info) precompile" where
  "native_checkpoint_view host rt =
     thenE (record_db_read host 24)
     (bindE (read_chain (\<lambda>w. native_checkpoint (staking_storage_of rt w))) staking_info_result)"

definition user_native_checkpoint_evm_view ::
  "('h, 'c, 'w) evm_host \<Rightarrow> ('c, 'w) staking_runtime \<Rightarrow> h160 \<Rightarrow> ('h, 'w, precompile_staking_info) precompile" where
  "user_native_checkpoint_evm_view host rt user =
     thenE (record_db_read host 64)
     (let who = into_account_id host user in
      bindE (read_chain (\<lambda>w. user_native_checkpoint (staking_storage_of rt w) who)) staking_info_result)"

definition user_native_checkpoint_sub_view ::
  "('h, 'c, 'w) evm_host \<Rightarrow> ('c, 'w) staking_runtime \<Rightarrow> u256 \<Rightarrow> ('h, 'w, precompile_staking_info) precompile" where
  "user_native_checkpoint_sub_view host rt who =
     thenE (record_db_read host 64)
     (bindE (read_chain (\<lambda>w. user_native_checkpoint (staking_storage_of rt w) who)) staking_info_result)"

definition pending_amount_view ::
  "('h, 'c, 'w) evm_host \<Rightarrow> ('c, 'w) staking_runtime \<Rightarrow> u256 \<Rightarrow> ('h, 'w, u256) precompile" where
  "pending_amount_view host rt pool =
     thenE (record_db_read host 40)
     (bindE (pool_id_arg pool) (\<lambda>pool_id.
      bindE (read_chain (\<lambda>w. pending_amount (staking_storage_of rt w) pool_id)) (\<lambda>a.
      ret (ucast a))))"

section \<open>The contract\<close>

text \<open>The functions that change the chain, by their Solidity signatures, and the calls they stand for.\<close>

datatype staking_fn =
    FnStake u256 u256
  | FnSolvePendingStake
  | FnClaimNative u256
  | FnClaimStable u256 u256
  | FnWithdraw u256

fun run_staking_fn ::
  "('h, 'c, 'w) evm_host \<Rightarrow> ('c, 'w) staking_runtime \<Rightarrow> staking_fn \<Rightarrow> ('h, 'w, unit) precompile" where
  "run_staking_fn host rt (FnStake pool a) = stake_precompile host rt pool a"
| "run_staking_fn host rt FnSolvePendingStake = solve_pending_stake_precompile host rt"
| "run_staking_fn host rt (FnClaimNative t) = claim_native_precompile host rt t"
| "run_staking_fn host rt (FnClaimStable pool t) = claim_stable_precompile host rt pool t"
| "run_staking_fn host rt (FnWithdraw pool) = withdraw_precompile host rt pool"

text \<open>The abstract contract: the call a function stands for, if its arguments fit.\<close>

fun staking_fn_call :: "staking_fn \<Rightarrow> staking_call option" where
  "staking_fn_call (FnStake pool a) =
     (if unat pool < 2 ^ 128 \<and> unat a < 2 ^ 128 then Some (Stake (ucast pool) (ucast a)) else None)"
| "staking_fn_call FnSolvePendingStake = Some SolvePendingStake"
| "staking_fn_call (FnClaimNative t) = (if unat t < 2 ^ 32 then Some (ClaimNative (ucast t)) else None)"
| "staking_fn_call (FnClaimStable pool t) =
     (if unat pool < 2 ^ 128 \<and> unat t < 2 ^ 32 then Some (ClaimStable (ucast pool) (ucast t)) else None)"
| "staking_fn_call (FnWithdraw pool) = (if unat pool < 2 ^ 128 then Some (Withdraw (ucast pool)) else None)"

lemmas staking_fn_defs = stake_precompile_def solve_pending_stake_precompile_def claim_native_precompile_def
  claim_stable_precompile_def withdraw_precompile_def pool_id_arg_def balance_arg_def block_number_arg_def

lemma run_staking_fn_eq:
  "run_staking_fn host rt f p = (case staking_fn_call f of
     Some c \<Rightarrow> try_dispatch host (into_account_id host (caller_of host (fst p))) (staking_into_call rt c) p
   | None \<Rightarrow> (Inl (case f of
        FnStake pool a \<Rightarrow> Revert [] (ValueIsTooLarge (if unat pool < 2 ^ 128 then ''balance type'' else ''pool index type''))
      | FnClaimStable pool t \<Rightarrow> Revert [] (ValueIsTooLarge (if unat pool < 2 ^ 128 then ''block number type'' else ''pool index type''))
      | FnClaimNative t \<Rightarrow> Revert [] (ValueIsTooLarge ''block number type'')
      | _ \<Rightarrow> Revert [] (ValueIsTooLarge ''pool index type'')), p))"
  by (cases f) (simp_all add: staking_fn_defs exec_eval fits_or_revert_eval Let_def)

section \<open>Properties\<close>

text \<open>
  C23. The contract refines the pallet: a function that succeeds has done on the chain exactly what
  the corresponding call does when the caller's own account signs it, with the arguments unchanged;
  an argument that does not fit reverts before anything happens.
\<close>

theorem staking_contract_refines:
  assumes "host_laws host run" "\<And>c o' w. run (staking_into_call rt c) o' w = run_staking_call cfg c o' w"
  shows "(run_staking_fn host rt f p = (Inr u, q) \<longrightarrow>
      (\<exists>c. staking_fn_call f = Some c \<and>
        run_staking_call cfg c (Signed (into_account_id host (caller_of host (fst p)))) (snd p) = (Inr (), snd q))) \<and>
    (staking_fn_call f = None \<longrightarrow> (\<exists>what. run_staking_fn host rt f p = (Inl (Revert [] (ValueIsTooLarge what)), p)))"
proof (cases "staking_fn_call f")
  case (Some c)
  with try_dispatchD(2) [OF assms(1)] show ?thesis
    by (auto simp: run_staking_fn_eq simp flip: assms(2) simp del: run_staking_fn.simps)
next
  case None
  then show ?thesis by (simp add: run_staking_fn_eq split: staking_fn.split del: run_staking_fn.simps)
qed

definition sample_staking_rt ::
  "(staking_call, (unit, book, staking_storage) frame) staking_runtime" where
  "sample_staking_rt = \<lparr>staking_into_call = (\<lambda>c. c), staking_storage_of = store\<rparr>"

lemma sample_contract_run:
  "run_staking_fn (sample_host (run_staking_call sample_staking)) sample_staking_rt (FnStake 1 300)
     (sample_handle, stake_world) = (Inr (), (sample_handle, staked_world))"
  unfolding run_staking_fn_eq
  by (simp add: try_dispatch_def sample_host_def sample_handle_def sample_staking_rt_def
      stake_world_run)

theorem staking_contract_refines_witness:
  "\<exists>c. staking_fn_call (FnStake 1 300) = Some c \<and>
     run_staking_call sample_staking c (Signed 5) stake_world = (Inr (), staked_world)"
proof -
  have host: "into_account_id (sample_host r) (caller_of (sample_host r) sample_handle) = 5"
    for r :: "staking_call \<Rightarrow> origin \<Rightarrow> (dispatch_error, (unit, book, staking_storage) frame, unit) exec"
    by (simp add: sample_host_def sample_handle_def)
  have rt: "run_staking_call sample_staking (staking_into_call sample_staking_rt c) o' w = run_staking_call sample_staking c o' w"
    for c o' w
    by (simp add: sample_staking_rt_def)
  from staking_contract_refines [OF sample_host_laws rt, of "FnStake 1 300" "(sample_handle, stake_world)" "()"
      "(sample_handle, staked_world)"]
  show ?thesis by (simp add: sample_contract_run host del: run_staking_fn.simps)
qed

text \<open>
  The view \<open>stakingPoolSetting\<close> does not show the number of epochs: it answers the start time
  in its place, so the answer is wrong for every pool whose number of epochs is not its start time.
\<close>

lemma pool_setting_view_epoch:
  assumes "host_laws host run" "staking_pool_setting_view host rt pool p = (Inr v, q)"
    and "staking_pool_setting (staking_storage_of rt (snd p)) (ucast pool) = Some ps"
  shows "pv_epoch v = ucast (start_time ps) \<and> (unat (epoch ps) \<noteq> unat (start_time ps) \<longrightarrow> unat (pv_epoch v) \<noteq> unat (epoch ps)) \<and>
    unat (pv_start_time v) = unat (start_time ps) \<and> unat (pv_epoch_range v) = unat (epoch_range ps) \<and>
    unat (pv_setup_time v) = unat (setup_time ps) \<and> unat (pv_pool_cap v) = unat (pool_cap ps)"
proof -
  from assms(2) obtain p' pool_id ps' u where
    db: "record_db_read host 68 p = (Inr u, p')" and id: "unat (pool_id :: pool_id) = unat pool" and
    ps': "staking_pool_setting (staking_storage_of rt (snd p')) pool_id = Some ps'" and
    v: "v = \<lparr>pv_start_time = ucast (start_time ps'), pv_epoch = ucast (start_time ps'),
      pv_epoch_range = ucast (epoch_range ps'), pv_setup_time = ucast (setup_time ps'), pv_pool_cap = ucast (pool_cap ps')\<rparr>"
    by (auto simp: staking_pool_setting_view_def exec_ok pool_id_arg_def)
  have "snd p' = snd p" using step_okD [OF host_steps_ok(1) [OF assms(1)] db] by simp
  moreover have "pool_id = ucast pool"
    using id by (rule unat_eq_ucast)
  ultimately have "ps' = ps" using ps' assms(3) by simp
  have w: "unat (ucast a :: u256) = unat a" "unat (ucast b :: u256) = unat b" for a :: u32 and b :: u128
    by (simp_all add: unsigned_ucast_eq take_bit_nat_eq_self_iff less_le_trans [OF u32_less] less_le_trans [OF u128_less])
  show ?thesis unfolding v \<open>ps' = ps\<close> by (simp add: w)
qed

lemma sample_view_run:
  "staking_pool_setting_view (sample_host (run_staking_call sample_staking)) sample_staking_rt 1
     (sample_handle, stake_world) = (Inr \<lparr>pv_start_time = 10, pv_epoch = 10, pv_epoch_range = 100, pv_setup_time = 20, pv_pool_cap = 1000\<rparr>,
       (sample_handle\<lparr>sh_gas := 9\<rparr>, stake_world))"
  by (simp add: staking_pool_setting_view_def pool_id_arg_def thenE_run record_db_read_def on_handle_def zoom_def
      sample_host_def spend_def sample_handle_def fits_or_revert_eval exec_eval sample_staking_rt_def stake_world_def
      staking_start_def pool_storage_def sample_pool_def)

end
