(* ===== verification/Precompile_Theorems.thy ===== *)
theory Precompile_Theorems
  imports Erc20_Precompile Staking_Precompile
begin

text \<open>
  The ERC20 contracts do what \<open>pallet_assets\<close> does: transfers, mints and burns are the pallet's calls
  signed by the caller's account with the amount unchanged, and \<open>approve\<close> sets an allowance.
\<close>

text \<open>
  What \<open>pallet_assets\<close> documents of approvals: cancelling removes one, approving without an earlier
  approval makes one of the given amount.
\<close>

definition approval_law ::
  "('c, 'w) assets_runtime \<Rightarrow> ('c \<Rightarrow> origin \<Rightarrow> (dispatch_error, 'w, unit) exec) \<Rightarrow> bool" where
  "approval_law rt run \<longleftrightarrow>
     (\<forall>i who d w u w'. run (assets_into_call rt (CancelApproval i d)) (Signed who) w = (Inr u, w') \<longrightarrow>
        asset_allowance rt w' i who d = 0) \<and>
     (\<forall>i who d a w u w'. run (assets_into_call rt (ApproveTransfer i d a)) (Signed who) w = (Inr u, w') \<longrightarrow>
        asset_allowance rt w i who d = 0 \<longrightarrow> asset_allowance rt w' i who d = a)"

section \<open>Assets to evaluate\<close>

text \<open>Balances in a book and allowances by asset, owner and delegate; what the properties are applied to.\<close>

type_synonym sample_assets = "book \<times> (asset_id \<times> account_id \<times> account_id \<Rightarrow> balance)"

fun sample_assets_run :: "assets_call \<Rightarrow> account_id \<Rightarrow> (dispatch_error, sample_assets, unit) exec" where
  "sample_assets_run (CancelApproval i d) who (l, al) = (Inr (), (l, al((i, who, d) := 0)))"
| "sample_assets_run (ApproveTransfer i d a) who (l, al) = (Inr (), (l, al((i, who, d) := saturating_add (al (i, who, d)) a)))"
| "sample_assets_run (TransferAsset i d a) who (l, al) = (case book_transfer (Some i) who d a l of
     (Inl e, _) \<Rightarrow> (Inl e, (l, al)) | (Inr x, l') \<Rightarrow> (Inr (), (l', al)))"
| "sample_assets_run _ who w = (Inl BadOrigin, w)"

definition sample_assets_call :: "assets_call \<Rightarrow> origin \<Rightarrow> (dispatch_error, sample_assets, unit) exec" where
  "sample_assets_call c o' = (case o' of Signed who \<Rightarrow> sample_assets_run c who | _ \<Rightarrow> throw BadOrigin)"

definition sample_assets_rt :: "(assets_call, sample_assets) assets_runtime" where
  "sample_assets_rt = \<lparr>address_to_asset = (\<lambda>_. Some 4), db_read_gas_cost = 25, maybe_total_supply = (\<lambda>w i. Some (snd (fst w) (Some i))),
     asset_issuance = (\<lambda>w i. snd (fst w) (Some i)), asset_balance = (\<lambda>w i. fst (fst w) (Some i)),
     asset_allowance = (\<lambda>w i a b. snd w (i, a, b)), asset_name = (\<lambda>_ _. []), asset_symbol = (\<lambda>_ _. []),
     asset_decimals = (\<lambda>_ _. 18), asset_minimum_balance = (\<lambda>_ _. 1), extra_max_encoded_len = 0,
     assets_string_limit = 50, assets_into_call = (\<lambda>c. c)\<rparr>"

definition sample_assets :: sample_assets where
  "sample_assets = ((\<lambda>_ _. 5000, \<lambda>_. 100000), \<lambda>_. 7)"

abbreviation assets_host :: "(sample_handle, assets_call, sample_assets) evm_host" where
  "assets_host \<equiv> sample_host sample_assets_call"

lemma sample_approval_law: "approval_law sample_assets_rt sample_assets_call"
  by (auto simp: approval_law_def sample_assets_rt_def sample_assets_call_def saturating_add_def)

lemmas sample_assets_simps = sample_assets_rt_def sample_assets_call_def sample_assets_def sample_host_def sample_handle_def

section \<open>Moving tokens\<close>

text \<open>The abstract contract: the amount, the pallet's call, and sender and receiver in the log.\<close>

fun erc20_spec :: "(h160 \<Rightarrow> account_id) \<Rightarrow> asset_id \<Rightarrow> h160 \<Rightarrow> erc20_fn \<Rightarrow> u256 \<times> assets_call \<times> h160 \<times> h160" where
  "erc20_spec acc i c (FnTransfer to v) = (v, TransferAsset i (acc to) (ucast v), c, to)"
| "erc20_spec acc i c (FnTransferFrom src to v) =
     (v, if acc c = acc src then TransferAsset i (acc to) (ucast v) else TransferApproved i (acc src) (acc to) (ucast v),
      src, to)"
| "erc20_spec acc i c (FnMint to v) = (v, MintAsset i (acc to) (ucast v), 0, to)"
| "erc20_spec acc i c (FnBurn src v) = (v, BurnAsset i (acc src) (ucast v), src, 0)"

text \<open>All four functions have one shape.\<close>

definition erc20_move ::
  "('h, 'c, 'w) evm_host \<Rightarrow> ('c, 'w) assets_runtime \<Rightarrow> u256 \<Rightarrow> (h160 \<Rightarrow> balance \<Rightarrow> assets_call) \<Rightarrow>
    (h160 \<Rightarrow> h160) \<Rightarrow> (h160 \<Rightarrow> h160) \<Rightarrow> ('h, 'w, bool) precompile" where
  "erc20_move host rt v op src dst =
     thenE (record_log_costs host 3 32)
     (bindE (in_field ''value'' (u256_to_amount v)) (\<lambda>amt.
      bindE (caller host) (\<lambda>c.
      thenE (try_dispatch host (into_account_id host c) (assets_into_call rt (op c amt)))
      (bindE (own_address host) (\<lambda>a.
       bindE (caller host) (\<lambda>c'.
       thenE (record_log host (log3 a selector_log_transfer (src c') (dst c') (ucast amt)))
       (ret True)))))))"

lemma bind_caller_const: "bindE (caller host) (\<lambda>_. m) = m"
  by (rule ext) (simp add: exec_eval)

lemma erc20_move_fns:
  "transfer_erc20 host rt i to v = erc20_move host rt v
     (\<lambda>c amt. TransferAsset i (into_account_id host to) amt) (\<lambda>c. c) (\<lambda>c. to)"
  "transfer_from host rt i owner to v = erc20_move host rt v
     (\<lambda>c amt. if into_account_id host c = into_account_id host owner
        then TransferAsset i (into_account_id host to) amt
        else TransferApproved i (into_account_id host owner) (into_account_id host to) amt) (\<lambda>c. owner) (\<lambda>c. to)"
  "mint host rt i to v = erc20_move host rt v
     (\<lambda>c amt. MintAsset i (into_account_id host to) amt) (\<lambda>c. 0) (\<lambda>c. to)"
  "burn host rt i owner v = erc20_move host rt v
     (\<lambda>c amt. BurnAsset i (into_account_id host owner) amt) (\<lambda>c. owner) (\<lambda>c. 0)"
proof -
  have branch: "(if a \<noteq> b then try_dispatch host a (assets_into_call rt x) else try_dispatch host b (assets_into_call rt y)) =
      try_dispatch host a (assets_into_call rt (if a = b then y else x))" for a b x y
    by simp
  show "transfer_from host rt i owner to v = erc20_move host rt v
     (\<lambda>c amt. if into_account_id host c = into_account_id host owner
        then TransferAsset i (into_account_id host to) amt
        else TransferApproved i (into_account_id host owner) (into_account_id host to) amt) (\<lambda>c. owner) (\<lambda>c. to)"
    unfolding transfer_from_def erc20_move_def Let_def bind_caller_const branch ..
qed (simp_all add: transfer_erc20_def mint_def burn_def erc20_move_def bind_caller_const)

lemma erc20_move_ok:
  assumes "host_laws host run" "erc20_move host rt v op src dst p = (Inr b, q)"
  shows "\<exists>amt h. unat amt = unat v \<and> b \<and>
    run (assets_into_call rt (op (caller_of host (fst p)) amt)) (Signed (into_account_id host (caller_of host (fst p)))) (snd p) = (Inr (), snd q) \<and>
    host_log host (log3 (address_of host (fst p)) selector_log_transfer (src (caller_of host (fst p))) (dst (caller_of host (fst p))) v) h = (Inr (), fst q)"
proof -
  from assms(2) obtain p1 amt p2 u u' u'' where
    a: "record_log_costs host 3 32 p = (Inr u, p1)" "unat (amt :: balance) = unat v"
      "try_dispatch host (into_account_id host (caller_of host (fst p1))) (assets_into_call rt (op (caller_of host (fst p1)) amt)) p1 = (Inr u', p2)" and
    l: "record_log host (log3 (address_of host (fst p2)) selector_log_transfer (src (caller_of host (fst p2)))
        (dst (caller_of host (fst p2))) (ucast amt)) p2 = (Inr u'', q)" and b: "b"
    unfolding erc20_move_def exec_ok u256_to_amount_def by blast
  have p1: "snd p1 = snd p" "keeps_context host (fst p) (fst p1)"
    using step_okD [OF host_steps_ok(2) [OF assms(1)] a(1)] by simp_all
  note d = try_dispatchD [OF assms(1) a(3)]
  have q: "snd q = snd p2" using step_okD [OF host_steps_ok(3) [OF assms(1)] l] by simp
  have v: "ucast amt = v" using unat_eq_ucast [of v amt] a(2) by simp
  have "host_log host (log3 (address_of host (fst p2)) selector_log_transfer (src (caller_of host (fst p2)))
        (dst (caller_of host (fst p2))) v) (fst p2) = (Inr (), fst q)"
    using l by (auto simp: record_log_def on_handle_def zoom_def v split: prod.splits)
  then show ?thesis
    using p1 d q a(2) b
    by (intro exI [of _ amt] exI [of _ "fst p2"]) (simp add: keeps_context_def)
qed

lemma on_handle_chain: "snd (snd (on_handle m p)) = snd p"
  by (simp add: on_handle_def zoom_def split: prod.split)

lemma erc20_move_too_large:
  assumes "2 ^ 128 \<le> unat v"
  shows "\<exists>e h. erc20_move host rt v op src dst p = (Inl e, (h, snd p))"
proof -
  obtain r p1 where run: "record_log_costs host 3 32 p = (r, p1)" by (cases "record_log_costs host 3 32 p")
  have "snd p1 = snd p" using on_handle_chain [of "host_log_costs host 3 32" p] run by (simp add: record_log_costs_def)
  moreover have "in_field ''value'' (u256_to_amount v) p1 = (Inl (Revert [''value''] (ValueIsTooLarge ''balance type'')), p1)"
    using assms by (simp add: in_field_def u256_to_amount_def fits_or_revert_def exec_eval try_into_def)
  ultimately show ?thesis
    using run by (cases r; cases p1) (simp_all add: erc20_move_def thenE_run bindE_run)
qed

text \<open>
  C15. The ERC20 functions refine \<open>pallet_assets\<close>: a function that succeeds answers \<open>true\<close>, has
  run exactly the pallet's call of the contract's asset, signed by the caller's account and with the
  given amount, and has logged it; \<open>transferFrom\<close> spends an allowance unless the owner calls. An
  amount beyond the balance type fails and leaves the chain as it was.
\<close>

theorem erc20_contract_refines:
  assumes "host_laws host run"
    and "erc20_spec (into_account_id host) i (caller_of host (fst p)) f = (v, call, src, dst)"
  shows "(run_erc20_fn host rt i f p = (Inr b, q) \<longrightarrow>
      b \<and> unat v < 2 ^ 128 \<and>
      run (assets_into_call rt call) (Signed (into_account_id host (caller_of host (fst p)))) (snd p) = (Inr (), snd q) \<and>
      (\<exists>h. host_log host (log3 (address_of host (fst p)) selector_log_transfer src dst v) h = (Inr (), fst q))) \<and>
    (2 ^ 128 \<le> unat v \<longrightarrow> (\<exists>e h. run_erc20_fn host rt i f p = (Inl e, (h, snd p))))"
proof -
  have cast: "unat (amt :: balance) = unat v \<Longrightarrow> ucast v = amt \<and> unat v < 2 ^ 128" for amt
    by (metis u128_less unat_eq_ucast)
  show ?thesis
    using assms(2)
    by (cases f) (auto simp: erc20_move_fns intro: erc20_move_too_large dest!: erc20_move_ok [OF assms(1)] dest: cast)
qed


lemma sample_transfer_run:
  "run_erc20_fn assets_host sample_assets_rt 4 (FnTransfer 6 100) (sample_handle, sample_assets) =
     (Inr True, (sample_handle\<lparr>sh_gas := 9, sh_logs := [log3 20481 selector_log_transfer 5 6 100]\<rparr>,
       (book_set (Some 4) 6 5100 (book_set (Some 4) 5 4900 (fst sample_assets)), \<lambda>_. 7)))"
proof -
  have "book_transfer (Some 4) 5 6 100 (\<lambda>_ _. 5000, \<lambda>_. 100000) =
      (Inr 100, book_set (Some 4) 6 5100 (book_set (Some 4) 5 4900 (\<lambda>_ _. 5000, \<lambda>_. 100000)))"
    by (simp add: book_defs checked_sub_def checked_add_def)
  then show ?thesis
    by (simp add: transfer_erc20_def thenE_run bindE_run record_log_costs_def record_log_def on_handle_def zoom_def
        sample_assets_simps spend_def u256_to_amount_def in_field_def fits_or_revert_def try_into_def exec_eval
        try_dispatch_def)
qed

theorem erc20_contract_refines_witness:
  "sample_assets_call (TransferAsset 4 6 100) (Signed 5) sample_assets =
     (Inr (), (book_set (Some 4) 6 5100 (book_set (Some 4) 5 4900 (fst sample_assets)), \<lambda>_. 7))"
proof -
  have "erc20_spec (into_account_id assets_host) 4 (caller_of assets_host (fst (sample_handle, sample_assets))) (FnTransfer 6 100) =
      (100, TransferAsset 4 6 100, 5, 6)"
    by (simp add: sample_host_def sample_handle_def)
  from erc20_contract_refines [OF sample_host_laws this, of sample_assets_rt] sample_transfer_run
  show ?thesis by (simp add: sample_host_def sample_handle_def sample_assets_rt_def del: run_erc20_fn.simps)
qed

section \<open>Allowances\<close>

lemma unat_saturated_amount: "unat (saturated_amount v) = min (unat v) (2 ^ 128 - 1)"
proof (cases "unat v < 2 ^ 128")
  case True
  then have "saturated_amount v = ucast v" "unat (ucast v :: balance) = unat v"
    by (simp_all add: saturated_amount_def try_into_def unsigned_ucast_eq take_bit_nat_eq_self)
  with True show ?thesis by simp
next
  case False
  then show ?thesis
    by (simp add: saturated_amount_def try_into_def unsigned_minus_1_eq_mask mask_eq_exp_minus_1)
qed

lemma approve_inner_ok:
  assumes laws: "host_laws host run" "approval_law rt run"
    and "approve_inner host rt i owner spender v p = (Inr u, q)"
  shows "asset_allowance rt (snd q) i (into_account_id host owner) (into_account_id host spender) = saturated_amount v"
    and "keeps_context host (fst p) (fst q)"
proof -
  let ?o = "into_account_id host owner" and ?d = "into_account_id host spender"
  from assms(3) obtain p1 u1 u2 p2 where
    r: "record_db_read host 148 p = (Inr u1, p1)" and
    c: "(if asset_allowance rt (snd p1) i ?o ?d \<noteq> 0 then try_dispatch host ?o (assets_into_call rt (CancelApproval i ?d))
        else ret ()) p1 = (Inr u2, p2)" and
    a: "try_dispatch host ?o (assets_into_call rt (ApproveTransfer i ?d (saturated_amount v))) p2 = (Inr u, q)"
    unfolding approve_inner_def Let_def exec_ok by blast
  have "asset_allowance rt (snd p2) i ?o ?d = 0 \<and> keeps_context host (fst p1) (fst p2)"
  proof (cases "asset_allowance rt (snd p1) i ?o ?d = 0")
    case True
    with c show ?thesis by (simp add: exec_ok keeps_context_def)
  next
    case False
    with c have "try_dispatch host ?o (assets_into_call rt (CancelApproval i ?d)) p1 = (Inr u2, p2)" by simp
    from try_dispatchD [OF laws(1) this] laws(2) show ?thesis
      unfolding approval_law_def by blast
  qed
  moreover have "keeps_context host (fst p) (fst p1)"
    using step_okD [OF host_steps_ok(1) [OF laws(1)] r] by simp
  moreover note try_dispatchD [OF laws(1) a]
  ultimately show "asset_allowance rt (snd q) i ?o ?d = saturated_amount v" "keeps_context host (fst p) (fst q)"
    using laws(2) unfolding approval_law_def by (blast, metis keeps_context_trans)
qed

text \<open>
  After a successful \<open>approve\<close> the spender's allowance is exactly the value asked for, or the
  largest balance when the value is beyond it, whatever was approved before; a spender approved for
  nothing has an allowance of nothing.
\<close>

lemma approve_sets_allowance:
  assumes "host_laws host run" "approval_law rt run"
    and "approve host rt i spender v p = (Inr b, q)"
  shows "b \<and> unat (asset_allowance rt (snd q) i (into_account_id host (caller_of host (fst p))) (into_account_id host spender)) =
    min (unat v) (2 ^ 128 - 1)"
proof -
  from assms(3) obtain p1 u1 p2 u2 u3 where
    r: "record_log_costs host 3 32 p = (Inr u1, p1)" and
    a: "approve_inner host rt i (caller_of host (fst p1)) spender v p1 = (Inr u2, p2)" and
    l: "record_log host (log3 (address_of host (fst p2)) selector_log_approval (caller_of host (fst p2)) spender v) p2 = (Inr u3, q)"
    and b: "b"
    unfolding approve_def exec_ok by blast
  have "caller_of host (fst p1) = caller_of host (fst p)"
    using step_okD [OF host_steps_ok(2) [OF assms(1)] r] by (simp add: keeps_context_def)
  moreover have "snd q = snd p2"
    using step_okD [OF host_steps_ok(3) [OF assms(1)] l] by simp
  ultimately show ?thesis
    using approve_inner_ok(1) [OF assms(1,2) a] b by (simp add: unat_saturated_amount)
qed

lemma sample_approve_run:
  "fst (approve assets_host sample_assets_rt 4 6 100 (sample_handle, sample_assets)) = Inr True"
  by (simp add: approve_def approve_inner_def thenE_run bindE_run record_log_costs_def record_db_read_def record_log_def
      on_handle_def zoom_def sample_assets_simps spend_def exec_eval try_dispatch_def)

end
