(* ===== verification/Halving_Mint.thy ===== *)
theory Halving_Mint
  imports Frame_Support
begin

text \<open>
  \<open>pallets/halving-mint/src\<close>: every block mints a reward to a beneficiary account, and the reward
  halves every \<open>HalvingInterval\<close> blocks. Blocks spent in the state \<open>Stopped\<close> are skipped: they
  push the schedule back. This theory holds the pallet's storage and operations and the run of its
  hook; \<open>Halving_Theorems\<close> bounds what it can ever mint.
\<close>

section \<open>Data, storage and configuration\<close>

datatype mint_flag = Stopped | Running

datatype mint_event =
    MintStateChanged mint_flag
  | OnTokenMintedStateChanged mint_flag
  | MintStarted u32
  | Minted account_id balance

datatype mint_error =
    MintStateUnchanged | OnTokenMintedStateUnchanged | MintAlreadyStarted | MintNotStarted
  | StartBlockTooEarly | SkippedBlocksOverflow

primrec mint_error_index :: "mint_error \<Rightarrow> nat" where
  "mint_error_index MintStateUnchanged = 0"
| "mint_error_index OnTokenMintedStateUnchanged = 1"
| "mint_error_index MintAlreadyStarted = 2"
| "mint_error_index MintNotStarted = 3"
| "mint_error_index StartBlockTooEarly = 4"
| "mint_error_index SkippedBlocksOverflow = 5"

text \<open>\<open>HalvingMint: pallet_halving_mint = 16\<close>.\<close>

definition mint_err :: "mint_error \<Rightarrow> dispatch_error" where
  "mint_err e = ModuleError 16 (mint_error_index e)"

record mint_storage =
  mint_state :: mint_flag
  on_token_minted_state :: mint_flag
  start_block :: "u32 option"
  skipped_blocks :: u32

text \<open>\<open>GenesisConfig\<close> and its \<open>build\<close>.\<close>

definition mint_genesis :: "mint_flag \<Rightarrow> mint_flag \<Rightarrow> u32 option \<Rightarrow> mint_storage" where
  "mint_genesis ms ts sb = \<lparr>mint_state = ms, on_token_minted_state = ts, start_block = sb, skipped_blocks = 0\<rparr>"

definition default_mint_genesis :: mint_storage where
  "default_mint_genesis = mint_genesis Stopped Stopped None"

text \<open>
  \<open>deposit_creating\<close> of the currency answers an imbalance that the pallet drops, so only its effect
  on the ledger is kept; \<open>token_minted\<close> is the callback \<open>OnTokenMinted\<close>.
\<close>

record ('e, 'l) mint_config =
  mint_manager_origin :: "origin \<Rightarrow> bool"
  mint_total_issuance :: balance
  halving_interval :: u32
  beneficiary_account :: account_id
  deposit_creating :: "account_id \<Rightarrow> balance \<Rightarrow> 'l \<Rightarrow> 'l"
  token_minted :: "account_id \<Rightarrow> balance \<Rightarrow> 'l \<Rightarrow> weight \<times> 'l"
  mint_db_weight :: "u64 \<Rightarrow> u64 \<Rightarrow> weight"
  mint_into_event :: "mint_event \<Rightarrow> 'e"

text \<open>\<open>impl OnTokenMinted for ()\<close>, the callback of the runtime.\<close>

definition unit_token_minted :: "account_id \<Rightarrow> balance \<Rightarrow> 'l \<Rightarrow> weight \<times> 'l" where
  "unit_token_minted to' amount l = (zero_weight, l)"

section \<open>The hook\<close>

text \<open>A division by zero panics in Rust and would stop the block.\<close>

datatype panic = DivideByZero

definition div_or_panic :: "'a::len word \<Rightarrow> 'a word \<Rightarrow> (panic, 'w, 'a word) exec" where
  "div_or_panic a b = ok_or (checked_div a b) DivideByZero"

text \<open>\<open>while i < halving_round { minted = minted / 2; i += 1 }\<close>\<close>

function halve_loop :: "u32 \<Rightarrow> u32 \<Rightarrow> balance \<Rightarrow> balance" where
  "halve_loop i halving_round minted =
     (if i < halving_round then halve_loop (i + 1) halving_round (minted div 2) else minted)"
  by pat_completeness auto
termination
proof (relation "measure (\<lambda>(i, r, _). unat r - unat i)")
  fix i r :: u32 and m :: balance
  assume "i < r"
  with unat_Suc_below [OF this] show "((i + 1, r, m div 2), (i, r, m)) \<in> measure (\<lambda>(i, r, _). unat r - unat i)"
    by (simp add: word_less_nat_alt)
qed simp

declare halve_loop.simps [simp del]

definition mint_on_initialize ::
  "('e, 'l) mint_config \<Rightarrow> u32 \<Rightarrow> (panic, ('e, 'l, mint_storage) frame, weight) exec" where
  "mint_on_initialize cfg n =
     bindE (gets (\<lambda>w. start_block (store w))) (\<lambda>sb.
     case sb of
       None \<Rightarrow> ret zero_weight
     | Some start \<Rightarrow>
        bindE (gets (\<lambda>w. mint_state (store w))) (\<lambda>state.
        if state = Running then
          bindE (gets (\<lambda>w. skipped_blocks (store w))) (\<lambda>skipped.
          let weight1 = weight_add zero_weight (mint_db_weight cfg 3 0) in
          if n < saturating_add start skipped then ret weight1
          else
            bindE (div_or_panic (mint_total_issuance cfg) (ucast (halving_interval cfg * 2))) (\<lambda>minted0.
            bindE (div_or_panic (n - saturating_add start skipped) (halving_interval cfg)) (\<lambda>halving_round.
            let to' = beneficiary_account cfg;
                weight2 = weight_add weight1 (mint_db_weight cfg 2 0);
                minted = halve_loop 0 halving_round minted0 in
            thenE (modify (\<lambda>w. w\<lparr>ledger := deposit_creating cfg to' minted (ledger w)\<rparr>))
            (thenE (modify (\<lambda>w. w\<lparr>events := events w @ [mint_into_event cfg (Minted to' minted)]\<rparr>))
            (bindE (gets (\<lambda>w. on_token_minted_state (store w))) (\<lambda>callback.
             bindE (if callback = Running
                    then bindE (gets (\<lambda>w. token_minted cfg to' minted (ledger w))) (\<lambda>r.
                         thenE (modify (\<lambda>w. w\<lparr>ledger := snd r\<rparr>)) (ret (weight_add weight2 (fst r))))
                    else ret weight2) (\<lambda>weight3.
             ret (weight_add weight3 (mint_db_weight cfg 1 0)))))))))
        else
          thenE (modify (\<lambda>w. w\<lparr>store := (store w)\<lparr>skipped_blocks := saturating_add (skipped_blocks (store w)) 1\<rparr>\<rparr>))
          (ret (weight_add zero_weight (mint_db_weight cfg 1 1)))))"

section \<open>Dispatchables\<close>

datatype pays = PaysYes | PaysNo

definition set_mint_state ::
  "('e, 'l) mint_config \<Rightarrow> origin \<Rightarrow> mint_flag \<Rightarrow> ('e, 'l, mint_storage, pays) pallet" where
  "set_mint_state cfg o' state =
     transactional
      (thenE (ensure_origin (mint_manager_origin cfg) o')
      (bindE (read_store start_block) (\<lambda>sb.
       thenE (ensure (sb \<noteq> None) (mint_err MintNotStarted))
      (bindE (read_store mint_state) (\<lambda>old.
       thenE (ensure (state \<noteq> old) (mint_err MintStateUnchanged))
      (thenE (write_store (\<lambda>s. s\<lparr>mint_state := state\<rparr>))
      (thenE (deposit_event (mint_into_event cfg (MintStateChanged state)))
       (ret PaysNo))))))))"

definition set_on_token_minted_state ::
  "('e, 'l) mint_config \<Rightarrow> origin \<Rightarrow> mint_flag \<Rightarrow> ('e, 'l, mint_storage, pays) pallet" where
  "set_on_token_minted_state cfg o' state =
     transactional
      (thenE (ensure_origin (mint_manager_origin cfg) o')
      (bindE (read_store start_block) (\<lambda>sb.
       thenE (ensure (sb \<noteq> None) (mint_err MintNotStarted))
      (bindE (read_store on_token_minted_state) (\<lambda>old.
       thenE (ensure (state \<noteq> old) (mint_err OnTokenMintedStateUnchanged))
      (thenE (write_store (\<lambda>s. s\<lparr>on_token_minted_state := state\<rparr>))
      (thenE (deposit_event (mint_into_event cfg (OnTokenMintedStateChanged state)))
       (ret PaysNo))))))))"

definition start_mint_from_block ::
  "('e, 'l) mint_config \<Rightarrow> origin \<Rightarrow> u32 \<Rightarrow> ('e, 'l, mint_storage, pays) pallet" where
  "start_mint_from_block cfg o' start =
     transactional
      (thenE (ensure_origin (mint_manager_origin cfg) o')
      (bindE (read_store start_block) (\<lambda>sb.
       thenE (ensure (sb = None) (mint_err MintAlreadyStarted))
      (bindE now (\<lambda>n.
       thenE (ensure (start > n) (mint_err StartBlockTooEarly))
      (thenE (write_store (\<lambda>s. s\<lparr>mint_state := Running\<rparr>))
      (thenE (write_store (\<lambda>s. s\<lparr>on_token_minted_state := Running\<rparr>))
      (thenE (write_store (\<lambda>s. s\<lparr>start_block := Some start\<rparr>))
      (thenE (deposit_event (mint_into_event cfg (MintStarted start)))
       (ret PaysNo))))))))))"

definition start_mint_from_next_block ::
  "('e, 'l) mint_config \<Rightarrow> origin \<Rightarrow> ('e, 'l, mint_storage, pays) pallet" where
  "start_mint_from_next_block cfg o' =
     transactional (bindE now (\<lambda>n. start_mint_from_block cfg o' (n + 1)))"

datatype mint_call =
    SetMintState mint_flag
  | SetOnTokenMintedState mint_flag
  | StartMintFromNextBlock
  | StartMintFromBlock u32

fun run_mint_call ::
  "('e, 'l) mint_config \<Rightarrow> mint_call \<Rightarrow> origin \<Rightarrow> ('e, 'l, mint_storage, pays) pallet" where
  "run_mint_call cfg (SetMintState s) o' = set_mint_state cfg o' s"
| "run_mint_call cfg (SetOnTokenMintedState s) o' = set_on_token_minted_state cfg o' s"
| "run_mint_call cfg StartMintFromNextBlock o' = start_mint_from_next_block cfg o'"
| "run_mint_call cfg (StartMintFromBlock n) o' = start_mint_from_block cfg o' n"

section \<open>Runs\<close>

lemma mint_err_eq [simp]: "mint_err e = mint_err e' \<longleftrightarrow> e = e'"
  by (cases e; cases e') (simp_all add: mint_err_def)

lemma set_mint_state_run:
  "set_mint_state cfg o' s w =
    (if \<not> mint_manager_origin cfg o' then (Inl BadOrigin, w)
     else if start_block (store w) = None then (Inl (mint_err MintNotStarted), w)
     else if s = mint_state (store w) then (Inl (mint_err MintStateUnchanged), w)
     else (Inr PaysNo, w\<lparr>store := (store w)\<lparr>mint_state := s\<rparr>,
       events := events w @ [mint_into_event cfg (MintStateChanged s)]\<rparr>))"
  by (auto simp: set_mint_state_def transactional_run exec_eval)

lemma set_on_token_minted_state_run:
  "set_on_token_minted_state cfg o' s w =
    (if \<not> mint_manager_origin cfg o' then (Inl BadOrigin, w)
     else if start_block (store w) = None then (Inl (mint_err MintNotStarted), w)
     else if s = on_token_minted_state (store w) then (Inl (mint_err OnTokenMintedStateUnchanged), w)
     else (Inr PaysNo, w\<lparr>store := (store w)\<lparr>on_token_minted_state := s\<rparr>,
       events := events w @ [mint_into_event cfg (OnTokenMintedStateChanged s)]\<rparr>))"
  by (auto simp: set_on_token_minted_state_def transactional_run exec_eval)

lemma start_mint_from_block_run:
  "start_mint_from_block cfg o' start w =
    (if \<not> mint_manager_origin cfg o' then (Inl BadOrigin, w)
     else if start_block (store w) \<noteq> None then (Inl (mint_err MintAlreadyStarted), w)
     else if start \<le> block_number w then (Inl (mint_err StartBlockTooEarly), w)
     else (Inr PaysNo, w\<lparr>store := (store w)\<lparr>mint_state := Running, on_token_minted_state := Running,
         start_block := Some start\<rparr>,
       events := events w @ [mint_into_event cfg (MintStarted start)]\<rparr>))"
  by (auto simp: start_mint_from_block_def transactional_run exec_eval not_less)

lemma start_mint_from_next_block_run:
  "start_mint_from_next_block cfg o' w = start_mint_from_block cfg o' (block_number w + 1) w"
  by (simp add: start_mint_from_next_block_def transactional_run exec_eval start_mint_from_block_run)

lemmas mint_call_run = set_mint_state_run set_on_token_minted_state_run start_mint_from_block_run
  start_mint_from_next_block_run

lemma unat_halve_loop: "unat (halve_loop i r m) = unat m div 2 ^ (unat r - unat i)"
proof (induction i r m rule: halve_loop.induct)
  case (1 i r m)
  show ?case
  proof (cases "i < r")
    case True
    then have i: "unat (i + 1) = unat i + 1" by (rule unat_Suc_below)
    have d: "unat r - unat i = Suc (unat r - (unat i + 1))"
      using True by (simp add: word_less_nat_alt)
    have "unat (halve_loop i r m) = unat m div 2 div 2 ^ (unat r - (unat i + 1))"
      using 1 [OF True] True i by (simp add: halve_loop.simps [of i] unat_div)
    then show ?thesis by (simp add: d div_mult2_eq)
  next
    case False
    then show ?thesis by (simp add: halve_loop.simps [of i] word_less_nat_alt)
  qed
qed

text \<open>
  The block at which the schedule stands: the start block pushed back by the skipped blocks, and
  the reward of the \<open>e\<close>-th minting block.
\<close>

definition mint_from :: "mint_storage \<Rightarrow> u32 option" where
  "mint_from s = map_option (\<lambda>b. saturating_add b (skipped_blocks s)) (start_block s)"

definition reward_at :: "('e, 'l) mint_config \<Rightarrow> nat \<Rightarrow> nat" where
  "reward_at cfg e = unat (mint_total_issuance cfg) div unat (halving_interval cfg * 2) div
     2 ^ (e div unat (halving_interval cfg))"

definition mint_config_ok :: "('e, 'l) mint_config \<Rightarrow> bool" where
  "mint_config_ok cfg \<longleftrightarrow> 0 < unat (halving_interval cfg) \<and> unat (halving_interval cfg) < 2 ^ 31"

lemma mint_config_ok_double:
  "mint_config_ok cfg \<Longrightarrow> unat (halving_interval cfg * 2) = 2 * unat (halving_interval cfg)"
  by (simp add: mint_config_ok_def unat_word_ariths)

definition block_reward :: "('e, 'l) mint_config \<Rightarrow> u32 \<Rightarrow> balance" where
  "block_reward cfg e = halve_loop 0 (e div halving_interval cfg)
     (mint_total_issuance cfg div ucast (halving_interval cfg * 2))"

lemma unat_block_reward: "unat (block_reward cfg e) = reward_at cfg (unat e)"
  by (simp add: block_reward_def reward_at_def unat_halve_loop unat_div unsigned_ucast_eq
      take_bit_nat_eq_self unsigned_less [THEN less_le_trans])

lemma mint_on_initialize_run:
  assumes "mint_config_ok cfg"
  shows "mint_on_initialize cfg n w =
    (case mint_from (store w) of
       None \<Rightarrow> (Inr zero_weight, w)
     | Some fr \<Rightarrow>
        if mint_state (store w) = Stopped then
          (Inr (weight_add zero_weight (mint_db_weight cfg 1 1)),
           w\<lparr>store := (store w)\<lparr>skipped_blocks := saturating_add (skipped_blocks (store w)) 1\<rparr>\<rparr>)
        else if n < fr then (Inr (weight_add zero_weight (mint_db_weight cfg 3 0)), w)
        else
          let who = beneficiary_account cfg; m = block_reward cfg (n - fr);
              l = deposit_creating cfg who m (ledger w);
              v = weight_add (weight_add zero_weight (mint_db_weight cfg 3 0)) (mint_db_weight cfg 2 0);
              cb = on_token_minted_state (store w) = Running
          in (Inr (weight_add (if cb then weight_add v (fst (token_minted cfg who m l)) else v) (mint_db_weight cfg 1 0)),
              w\<lparr>ledger := (if cb then snd (token_minted cfg who m l) else l),
                events := events w @ [mint_into_event cfg (Minted who m)]\<rparr>))"
proof -
  have "halving_interval cfg \<noteq> 0" "(ucast (halving_interval cfg * 2) :: balance) \<noteq> 0"
    using assms mint_config_ok_double [OF assms]
    by (auto simp: mint_config_ok_def word_unat_eq_iff unsigned_ucast_eq take_bit_nat_eq_self
        unsigned_less [THEN less_le_trans])
  then show ?thesis
    by (cases "mint_state (store w)"; cases "on_token_minted_state (store w)")
       (simp_all add: mint_on_initialize_def mint_from_def div_or_panic_def checked_div_def exec_eval
         block_reward_def Let_def split: option.split)
qed

end
