(* ===== verification/Bridge.thy ===== *)
theory Bridge
  imports Frame_Support
begin

text \<open>
  The chain bridge, \<open>pallets/bridge/src/lib.rs\<close>: relayers vote on proposals coming from other
  chains, a proposal with enough votes is dispatched from the bridge account, and outgoing
  transfers get a nonce per destination chain. This theory holds the pallet's data, storage and
  operations, in the order of the source, and what each operation does; the invariants of the
  running pallet are in \<open>Bridge_Safety\<close>.

  The proposal type, the runtime's events and the rest of the runtime are parameters, as in the
  pallet's \<open>Config\<close> trait: \<open>'c\<close> is \<open>Config::Proposal\<close>, \<open>'e\<close> is \<open>RuntimeEvent\<close>, \<open>'l\<close> is every part of
  the state that is not this pallet's storage, and \<open>dispatch_proposal\<close> runs a proposal.
\<close>

section \<open>Data\<close>

type_synonym bridge_chain_id = u8
type_synonym deposit_nonce = u64
type_synonym resource_id = "u8 list"  \<comment> \<open>\<open>[u8; 32]\<close>\<close>

definition default_relayer_threshold :: u32 where
  "default_relayer_threshold = 1"

text \<open>
  The loop writes the last byte of \<open>id\<close> next to the chain id and works its way to the left;
  \<open>r_id\<close> and \<open>id\<close> are indexed within their lengths only.
\<close>

definition derive_resource_id :: "u8 \<Rightarrow> u8 list \<Rightarrow> resource_id" where
  "derive_resource_id chain ident =
     (if ident = [] then replicate 32 0
      else let r_id = (replicate 32 0)[31 := chain];
               rng = (if length ident > 31 then 31 else length ident)
           in fold (\<lambda>i r. r[30 - i := ident ! (rng - 1 - i)]) [0..<rng] r_id)"

datatype proposal_status = Initiated | Approved | Rejected

record proposal_votes =
  votes_for :: "account_id list"
  votes_against :: "account_id list"
  status :: proposal_status
  expiry :: u32

datatype bridge_event =
    FungibleTransfer bridge_chain_id deposit_nonce resource_id u128 bytes
  | NonFungibleTransfer bridge_chain_id deposit_nonce resource_id bytes bytes bytes
  | GenericTransfer bridge_chain_id deposit_nonce resource_id bytes

text \<open>
  \<open>threshold as usize\<close> and \<open>len() as u32\<close> are conversions between 32-bit types on the Wasm
  target; the sum of votes against and threshold is taken in 32 bits.
\<close>

definition try_to_complete :: "u32 \<Rightarrow> u32 \<Rightarrow> proposal_votes \<Rightarrow> proposal_status \<times> proposal_votes" where
  "try_to_complete threshold total_relayers v =
     (if unat threshold \<le> length (votes_for v) then (Approved, v\<lparr>status := Approved\<rparr>)
      else if threshold \<le> total_relayers \<and> total_relayers < word_of_nat (length (votes_against v)) + threshold
      then (Rejected, v\<lparr>status := Rejected\<rparr>)
      else (Initiated, v))"

definition is_complete :: "proposal_votes \<Rightarrow> bool" where
  "is_complete v \<longleftrightarrow> status v \<noteq> Initiated"

definition has_voted :: "account_id \<Rightarrow> proposal_votes \<Rightarrow> bool" where
  "has_voted who v \<longleftrightarrow> who \<in> set (votes_for v) \<or> who \<in> set (votes_against v)"

definition is_expired :: "u32 \<Rightarrow> proposal_votes \<Rightarrow> bool" where
  "is_expired n v \<longleftrightarrow> expiry v \<le> n"

definition default_proposal_votes :: proposal_votes where
  "default_proposal_votes =
     \<lparr>votes_for = [], votes_against = [], status = Initiated, expiry = 0\<rparr>"

section \<open>Storage, events, errors and configuration\<close>

record 'c bridge_storage =
  chain_nonces :: "bridge_chain_id \<rightharpoonup> deposit_nonce"
  relayer_threshold :: u32
  relayers :: "account_id \<rightharpoonup> bool"
  relayer_count :: u32
  votes :: "bridge_chain_id \<times> deposit_nonce \<times> 'c \<rightharpoonup> proposal_votes"
  bridge_events :: "bridge_event list"

definition empty_bridge_storage :: "'c bridge_storage" where
  "empty_bridge_storage = \<lparr>chain_nonces = Map.empty,
     relayer_threshold = default_relayer_threshold, relayers = Map.empty, relayer_count = 0,
     votes = Map.empty, bridge_events = []\<rparr>"

datatype bridge_pallet_event =
    RelayerThresholdChanged u32
  | ChainWhitelisted bridge_chain_id
  | RelayerAdded account_id
  | RelayerRemoved account_id
  | FungibleTransferEvent bridge_chain_id deposit_nonce resource_id u128 bytes
  | NonFungibleTransferEvent bridge_chain_id deposit_nonce resource_id bytes bytes bytes
  | GenericTransferEvent bridge_chain_id deposit_nonce resource_id bytes
  | VoteFor bridge_chain_id deposit_nonce account_id
  | VoteAgainst bridge_chain_id deposit_nonce account_id
  | ProposalApproved bridge_chain_id deposit_nonce
  | ProposalRejected bridge_chain_id deposit_nonce
  | ProposalSucceeded bridge_chain_id deposit_nonce
  | ProposalFailed bridge_chain_id deposit_nonce

datatype bridge_error =
    ThresholdNotSet | InvalidChainId | InvalidThreshold | ChainNotWhitelisted
  | ChainAlreadyWhitelisted | ResourceDoesNotExist | RelayerAlreadyExists | RelayerInvalid
  | MustBeRelayer | RelayerAlreadyVoted | ProposalAlreadyExists | ProposalDoesNotExist
  | ProposalNotComplete | ProposalAlreadyComplete | ProposalExpired | NonceOverFlow

primrec bridge_error_index :: "bridge_error \<Rightarrow> nat" where
  "bridge_error_index ThresholdNotSet = 0"
| "bridge_error_index InvalidChainId = 1"
| "bridge_error_index InvalidThreshold = 2"
| "bridge_error_index ChainNotWhitelisted = 3"
| "bridge_error_index ChainAlreadyWhitelisted = 4"
| "bridge_error_index ResourceDoesNotExist = 5"
| "bridge_error_index RelayerAlreadyExists = 6"
| "bridge_error_index RelayerInvalid = 7"
| "bridge_error_index MustBeRelayer = 8"
| "bridge_error_index RelayerAlreadyVoted = 9"
| "bridge_error_index ProposalAlreadyExists = 10"
| "bridge_error_index ProposalDoesNotExist = 11"
| "bridge_error_index ProposalNotComplete = 12"
| "bridge_error_index ProposalAlreadyComplete = 13"
| "bridge_error_index ProposalExpired = 14"
| "bridge_error_index NonceOverFlow = 15"

text \<open>\<open>ChainBridge: pallet_bridge = 12\<close> in \<open>construct_runtime!\<close>.\<close>

definition bridge_err :: "bridge_error \<Rightarrow> dispatch_error" where
  "bridge_err e = ModuleError 12 (bridge_error_index e)"

record ('c, 'e, 'l) bridge_config =
  bridge_committee_origin :: "origin \<Rightarrow> bool"
  bridge_chain_id :: bridge_chain_id
  proposal_lifetime :: u32
  bridge_account_id :: account_id  \<comment> \<open>\<open>MODULE_ID.into_account_truncating()\<close>\<close>
  bridge_into_event :: "bridge_pallet_event \<Rightarrow> 'e"
  dispatch_proposal :: "'c \<Rightarrow> origin \<Rightarrow> ('e, 'l, 'c bridge_storage, unit) pallet"

section \<open>Operations\<close>

subsection \<open>Utility functions\<close>

definition is_relayer :: "'c bridge_storage \<Rightarrow> account_id \<Rightarrow> bool" where
  "is_relayer b who = (case relayers b who of Some r \<Rightarrow> r | None \<Rightarrow> False)"

definition chain_whitelisted :: "'c bridge_storage \<Rightarrow> bridge_chain_id \<Rightarrow> bool" where
  "chain_whitelisted b i \<longleftrightarrow> chain_nonces b i \<noteq> None"

definition bridge_deposit_event ::
  "('c, 'e, 'l) bridge_config \<Rightarrow> bridge_pallet_event \<Rightarrow> ('e, 'l, 'c bridge_storage, unit) pallet" where
  "bridge_deposit_event cfg ev = deposit_event (bridge_into_event cfg ev)"

definition bump_nonce :: "bridge_chain_id \<Rightarrow> ('e, 'l, 'c bridge_storage, deposit_nonce) pallet" where
  "bump_nonce i =
     bindE (read_store (\<lambda>b. case chain_nonces b i of Some n \<Rightarrow> n | None \<Rightarrow> 0)) (\<lambda>nonce.
     case checked_add nonce 1 of
       None \<Rightarrow> throw (bridge_err NonceOverFlow)
     | Some new_nonce \<Rightarrow>
         thenE (write_store (\<lambda>b. b\<lparr>chain_nonces := (chain_nonces b)(i \<mapsto> new_nonce)\<rparr>))
           (ret new_nonce))"

subsection \<open>Administration\<close>

definition set_relayer_threshold ::
  "('c, 'e, 'l) bridge_config \<Rightarrow> u32 \<Rightarrow> ('e, 'l, 'c bridge_storage, unit) pallet" where
  "set_relayer_threshold cfg threshold =
     block
      [ensure (threshold > 0) (bridge_err InvalidThreshold),
       write_store (\<lambda>b. b\<lparr>relayer_threshold := threshold\<rparr>),
       bridge_deposit_event cfg (RelayerThresholdChanged threshold)]"

definition whitelist ::
  "('c, 'e, 'l) bridge_config \<Rightarrow> bridge_chain_id \<Rightarrow> ('e, 'l, 'c bridge_storage, unit) pallet" where
  "whitelist cfg i =
     thenE (ensure (i \<noteq> bridge_chain_id cfg) (bridge_err InvalidChainId))
     (bindE (read_store (\<lambda>b. chain_whitelisted b i)) (\<lambda>listed.
     block
      [ensure (\<not> listed) (bridge_err ChainAlreadyWhitelisted),
       write_store (\<lambda>b. b\<lparr>chain_nonces := (chain_nonces b)(i \<mapsto> 0)\<rparr>),
       bridge_deposit_event cfg (ChainWhitelisted i)]))"

definition register_relayer ::
  "('c, 'e, 'l) bridge_config \<Rightarrow> account_id \<Rightarrow> ('e, 'l, 'c bridge_storage, unit) pallet" where
  "register_relayer cfg relayer =
     bindE (read_store (\<lambda>b. is_relayer b relayer)) (\<lambda>known.
     block
      [ensure (\<not> known) (bridge_err RelayerAlreadyExists),
       write_store (\<lambda>b. b\<lparr>relayers := (relayers b)(relayer \<mapsto> True)\<rparr>),
       write_store (\<lambda>b. b\<lparr>relayer_count := relayer_count b + 1\<rparr>),
       bridge_deposit_event cfg (RelayerAdded relayer)])"

definition unregister_relayer ::
  "('c, 'e, 'l) bridge_config \<Rightarrow> account_id \<Rightarrow> ('e, 'l, 'c bridge_storage, unit) pallet" where
  "unregister_relayer cfg relayer =
     bindE (read_store (\<lambda>b. is_relayer b relayer)) (\<lambda>known.
     block
      [ensure known (bridge_err RelayerInvalid),
       write_store (\<lambda>b. b\<lparr>relayers := (relayers b)(relayer := None)\<rparr>),
       write_store (\<lambda>b. b\<lparr>relayer_count := relayer_count b - 1\<rparr>),
       bridge_deposit_event cfg (RelayerRemoved relayer)])"

subsection \<open>Voting and execution\<close>

definition commit_vote ::
  "('c, 'e, 'l) bridge_config \<Rightarrow> account_id \<Rightarrow> deposit_nonce \<Rightarrow> bridge_chain_id \<Rightarrow> 'c \<Rightarrow> bool \<Rightarrow>
   ('e, 'l, 'c bridge_storage, unit) pallet" where
  "commit_vote cfg who nonce src prop in_favour =
     bindE now (\<lambda>n.
     bindE (read_store (\<lambda>b. case votes b (src, nonce, prop) of
              Some v \<Rightarrow> v
            | None \<Rightarrow> default_proposal_votes\<lparr>expiry := n + proposal_lifetime cfg\<rparr>)) (\<lambda>v.
     block
      [ensure (\<not> is_complete v) (bridge_err ProposalAlreadyComplete),
       ensure (\<not> is_expired n v) (bridge_err ProposalExpired),
       ensure (\<not> has_voted who v) (bridge_err RelayerAlreadyVoted),
       bridge_deposit_event cfg
         (if in_favour then VoteFor src nonce who else VoteAgainst src nonce who),
       write_store (\<lambda>b. b\<lparr>votes := (votes b)((src, nonce, prop) \<mapsto>
         (if in_favour then v\<lparr>votes_for := votes_for v @ [who]\<rparr>
          else v\<lparr>votes_against := votes_against v @ [who]\<rparr>))\<rparr>)]))"

definition finalize_execution ::
  "('c, 'e, 'l) bridge_config \<Rightarrow> bridge_chain_id \<Rightarrow> deposit_nonce \<Rightarrow> 'c \<Rightarrow>
   ('e, 'l, 'c bridge_storage, unit) pallet" where
  "finalize_execution cfg src nonce call =
     block
      [bridge_deposit_event cfg (ProposalApproved src nonce),
       dispatch_proposal cfg call (Signed (bridge_account_id cfg)),
       bridge_deposit_event cfg (ProposalSucceeded src nonce)]"

definition cancel_execution ::
  "('c, 'e, 'l) bridge_config \<Rightarrow> bridge_chain_id \<Rightarrow> deposit_nonce \<Rightarrow>
   ('e, 'l, 'c bridge_storage, unit) pallet" where
  "cancel_execution cfg src nonce = bridge_deposit_event cfg (ProposalRejected src nonce)"

definition try_resolve_proposal ::
  "('c, 'e, 'l) bridge_config \<Rightarrow> deposit_nonce \<Rightarrow> bridge_chain_id \<Rightarrow> 'c \<Rightarrow>
   ('e, 'l, 'c bridge_storage, unit) pallet" where
  "try_resolve_proposal cfg nonce src prop =
     bindE (read_store (\<lambda>b. votes b (src, nonce, prop))) (\<lambda>stored.
     case stored of
       None \<Rightarrow> throw (bridge_err ProposalDoesNotExist)
     | Some v \<Rightarrow>
         bindE now (\<lambda>n.
         thenE (ensure (\<not> is_complete v) (bridge_err ProposalAlreadyComplete))
         (thenE (ensure (\<not> is_expired n v) (bridge_err ProposalExpired))
         (bindE (read_store (\<lambda>b. try_to_complete (relayer_threshold b) (relayer_count b) v)) (\<lambda>r.
          thenE (write_store (\<lambda>b. b\<lparr>votes := (votes b)((src, nonce, prop) \<mapsto> snd r)\<rparr>))
          (case fst r of
             Approved \<Rightarrow> finalize_execution cfg src nonce prop
           | Rejected \<Rightarrow> cancel_execution cfg src nonce
           | Initiated \<Rightarrow> ret ()))))))"

definition vote_for ::
  "('c, 'e, 'l) bridge_config \<Rightarrow> account_id \<Rightarrow> deposit_nonce \<Rightarrow> bridge_chain_id \<Rightarrow> 'c \<Rightarrow>
   ('e, 'l, 'c bridge_storage, unit) pallet" where
  "vote_for cfg who nonce src prop =
     thenE (commit_vote cfg who nonce src prop True) (try_resolve_proposal cfg nonce src prop)"

definition vote_against ::
  "('c, 'e, 'l) bridge_config \<Rightarrow> account_id \<Rightarrow> deposit_nonce \<Rightarrow> bridge_chain_id \<Rightarrow> 'c \<Rightarrow>
   ('e, 'l, 'c bridge_storage, unit) pallet" where
  "vote_against cfg who nonce src prop =
     thenE (commit_vote cfg who nonce src prop False) (try_resolve_proposal cfg nonce src prop)"

subsection \<open>Outgoing transfers\<close>

text \<open>The balance type is \<open>u128\<close>, so \<open>saturated_into::<u128>\<close> is the identity.\<close>

definition signal_transfer_fungible ::
  "('c, 'e, 'l) bridge_config \<Rightarrow> bridge_chain_id \<Rightarrow> resource_id \<Rightarrow> bytes \<Rightarrow> balance \<Rightarrow>
   ('e, 'l, 'c bridge_storage, unit) pallet" where
  "signal_transfer_fungible cfg dest resource to' amount =
     bindE (read_store (\<lambda>b. chain_whitelisted b dest)) (\<lambda>listed.
     thenE (ensure listed (bridge_err ChainNotWhitelisted))
     (bindE (bump_nonce dest) (\<lambda>nonce.
     block
      [write_store (\<lambda>b. b\<lparr>bridge_events :=
         bridge_events b @ [FungibleTransfer dest nonce resource amount to']\<rparr>),
       bridge_deposit_event cfg (FungibleTransferEvent dest nonce resource amount to')])))"

text \<open>\<open>EnsureBridge\<close>: the origin check that only the bridge account passes.\<close>

definition ensure_bridge :: "('c, 'e, 'l) bridge_config \<Rightarrow> origin \<Rightarrow> bool" where
  "ensure_bridge cfg o' = (case o' of Signed who \<Rightarrow> who = bridge_account_id cfg | _ \<Rightarrow> False)"

section \<open>Hooks and dispatchables\<close>

definition bridge_on_initialize :: "u32 \<Rightarrow> ('e, 'l, 'c bridge_storage, weight) pallet" where
  "bridge_on_initialize n = thenE (write_store (\<lambda>b. b\<lparr>bridge_events := []\<rparr>)) (ret zero_weight)"

definition set_threshold ::
  "('c, 'e, 'l) bridge_config \<Rightarrow> origin \<Rightarrow> u32 \<Rightarrow> ('e, 'l, 'c bridge_storage, unit) pallet" where
  "set_threshold cfg o' threshold =
     transactional (thenE (ensure_origin (bridge_committee_origin cfg) o')
       (set_relayer_threshold cfg threshold))"

definition whitelist_chain ::
  "('c, 'e, 'l) bridge_config \<Rightarrow> origin \<Rightarrow> bridge_chain_id \<Rightarrow> ('e, 'l, 'c bridge_storage, unit) pallet" where
  "whitelist_chain cfg o' i =
     transactional (thenE (ensure_origin (bridge_committee_origin cfg) o') (whitelist cfg i))"

definition add_relayer ::
  "('c, 'e, 'l) bridge_config \<Rightarrow> origin \<Rightarrow> account_id \<Rightarrow> ('e, 'l, 'c bridge_storage, unit) pallet" where
  "add_relayer cfg o' v =
     transactional (thenE (ensure_origin (bridge_committee_origin cfg) o') (register_relayer cfg v))"

definition remove_relayer ::
  "('c, 'e, 'l) bridge_config \<Rightarrow> origin \<Rightarrow> account_id \<Rightarrow> ('e, 'l, 'c bridge_storage, unit) pallet" where
  "remove_relayer cfg o' v =
     transactional (thenE (ensure_origin (bridge_committee_origin cfg) o') (unregister_relayer cfg v))"

definition acknowledge_proposal ::
  "('c, 'e, 'l) bridge_config \<Rightarrow> origin \<Rightarrow> deposit_nonce \<Rightarrow> bridge_chain_id \<Rightarrow> resource_id \<Rightarrow> 'c \<Rightarrow>
   ('e, 'l, 'c bridge_storage, unit) pallet" where
  "acknowledge_proposal cfg o' nonce src r_id call =
     transactional
      (bindE (ensure_signed o') (\<lambda>who.
       bindE (read_store (\<lambda>b. is_relayer b who)) (\<lambda>relayer.
       thenE (ensure relayer (bridge_err MustBeRelayer))
       (bindE (read_store (\<lambda>b. chain_whitelisted b src)) (\<lambda>listed.
       thenE (ensure listed (bridge_err ChainNotWhitelisted))
       (vote_for cfg who nonce src call))))))"

definition reject_proposal ::
  "('c, 'e, 'l) bridge_config \<Rightarrow> origin \<Rightarrow> deposit_nonce \<Rightarrow> bridge_chain_id \<Rightarrow> resource_id \<Rightarrow> 'c \<Rightarrow>
   ('e, 'l, 'c bridge_storage, unit) pallet" where
  "reject_proposal cfg o' nonce src r_id call =
     transactional
      (bindE (ensure_signed o') (\<lambda>who.
       bindE (read_store (\<lambda>b. is_relayer b who)) (\<lambda>relayer.
       thenE (ensure relayer (bridge_err MustBeRelayer))
       (bindE (read_store (\<lambda>b. chain_whitelisted b src)) (\<lambda>listed.
       thenE (ensure listed (bridge_err ChainNotWhitelisted))
       (vote_against cfg who nonce src call))))))"

definition eval_vote_state ::
  "('c, 'e, 'l) bridge_config \<Rightarrow> origin \<Rightarrow> deposit_nonce \<Rightarrow> bridge_chain_id \<Rightarrow> 'c \<Rightarrow>
   ('e, 'l, 'c bridge_storage, unit) pallet" where
  "eval_vote_state cfg o' nonce src prop =
     transactional (bindE (ensure_signed o') (\<lambda>_. try_resolve_proposal cfg nonce src prop))"

text \<open>The pallet's \<open>Call\<close> enum and its dispatch.\<close>

datatype 'c bridge_call =
    SetThreshold u32
  | WhitelistChain bridge_chain_id
  | AddRelayer account_id
  | RemoveRelayer account_id
  | AcknowledgeProposal deposit_nonce bridge_chain_id resource_id 'c
  | RejectProposal deposit_nonce bridge_chain_id resource_id 'c
  | EvalVoteState deposit_nonce bridge_chain_id 'c

fun run_bridge_call ::
  "('c, 'e, 'l) bridge_config \<Rightarrow> 'c bridge_call \<Rightarrow> origin \<Rightarrow> ('e, 'l, 'c bridge_storage, unit) pallet" where
  "run_bridge_call cfg (SetThreshold t) o' = set_threshold cfg o' t"
| "run_bridge_call cfg (WhitelistChain i) o' = whitelist_chain cfg o' i"
| "run_bridge_call cfg (AddRelayer a) o' = add_relayer cfg o' a"
| "run_bridge_call cfg (RemoveRelayer a) o' = remove_relayer cfg o' a"
| "run_bridge_call cfg (AcknowledgeProposal n s r c) o' = acknowledge_proposal cfg o' n s r c"
| "run_bridge_call cfg (RejectProposal n s r c) o' = reject_proposal cfg o' n s r c"
| "run_bridge_call cfg (EvalVoteState n s c) o' = eval_vote_state cfg o' n s c"

end
