(* ===== verification/Bridge_Safety.thy ===== *)
theory Bridge_Safety
  imports Bridge
begin

text \<open>
  What the bridge pallet promises: the layout of resource ids, the run of every operation on every
  branch, the invariant of the storage, the order along which storage moves (ballots only grow and
  are final once decided, deposit nonces never go back), and from these the safety of voting.
\<close>

section \<open>Resource ids\<close>

definition place_byte :: "u8 list \<Rightarrow> nat \<Rightarrow> nat \<Rightarrow> u8 list \<Rightarrow> u8 list" where
  "place_byte ident rng i r = r[30 - i := ident ! (rng - 1 - i)]"

lemma fold_place_byte:
  assumes "k \<le> rng" "rng \<le> 31" "length r = 32"
  shows "length (fold (place_byte ident rng) [0..<k] r) = 32 \<and>
    (\<forall>j < 32. fold (place_byte ident rng) [0..<k] r ! j =
       (if 31 - k \<le> j \<and> j \<le> 30 then ident ! (rng - 1 - (30 - j)) else r ! j))"
  using assms
proof (induction k)
  case 0
  then show ?case by auto
next
  case (Suc k)
  then have IH: "length (fold (place_byte ident rng) [0..<k] r) = 32"
    "\<And>j. j < 32 \<Longrightarrow> fold (place_byte ident rng) [0..<k] r ! j =
       (if 31 - k \<le> j \<and> j \<le> 30 then ident ! (rng - 1 - (30 - j)) else r ! j)"
    by auto
  show ?case
  proof (intro conjI allI impI)
    show "length (fold (place_byte ident rng) [0..<Suc k] r) = 32"
      using IH(1) by (simp add: place_byte_def)
    fix j :: nat assume "j < 32"
    then show "fold (place_byte ident rng) [0..<Suc k] r ! j =
       (if 31 - Suc k \<le> j \<and> j \<le> 30 then ident ! (rng - 1 - (30 - j)) else r ! j)"
      using IH(1) IH(2)[of j] Suc.prems by (auto simp: place_byte_def nth_list_update)
  qed
qed

lemma derive_resource_id_layout:
  assumes "ident \<noteq> []"
  shows "derive_resource_id chain ident = replicate (31 - length ident) 0 @ take 31 ident @ [chain]"
proof -
  define n where "n = (if length ident > 31 then 31 else length ident)"
  define r where "r = (replicate 32 (0::u8))[31 := chain]"
  have n: "n \<le> 31" "n \<le> length ident" and r: "length r = 32" by (auto simp: n_def r_def)
  have r_nth: "j < 32 \<Longrightarrow> r ! j = (if j = 31 then chain else 0)" for j
    by (auto simp: r_def nth_list_update)
  have eq: "derive_resource_id chain ident = fold (place_byte ident n) [0..<n] r"
    using assms by (simp add: derive_resource_id_def n_def r_def Let_def place_byte_def [abs_def])
  note f = fold_place_byte [OF order_refl n(1) r, of ident]
  show ?thesis
  proof (rule nth_equalityI)
    show len: "length (derive_resource_id chain ident) =
      length (replicate (31 - length ident) 0 @ take 31 ident @ [chain])"
      using f by (simp add: eq)
    fix j assume "j < length (derive_resource_id chain ident)"
    with f have j: "j < 32" by (simp add: eq)
    with f have "derive_resource_id chain ident ! j =
      (if 31 - n \<le> j \<and> j \<le> 30 then ident ! (n - 1 - (30 - j)) else r ! j)"
      by (simp add: eq)
    also have "\<dots> = (replicate (31 - length ident) 0 @ take 31 ident @ [chain]) ! j"
      using j n by (auto simp: r_nth n_def nth_append nth_Cons' intro!: arg_cong [where f = "nth ident"])
    finally show "derive_resource_id chain ident ! j =
      (replicate (31 - length ident) 0 @ take 31 ident @ [chain]) ! j" .
  qed
qed

lemma dropWhile_zeros: "dropWhile ((=) 0) (replicate n 0 @ xs) = dropWhile ((=) 0) (xs :: u8 list)"
  by (induction n) auto

lemma zeros_append_eq_iff:
  fixes xs ys :: "u8 list"
  assumes "length (replicate m 0 @ xs) = length (replicate n 0 @ ys)"
  shows "replicate m 0 @ xs = replicate n 0 @ ys \<longleftrightarrow>
    dropWhile ((=) 0) xs = dropWhile ((=) 0) ys"
proof
  assume "replicate m 0 @ xs = replicate n 0 @ ys"
  then show "dropWhile ((=) 0) xs = dropWhile ((=) 0) ys"
    by (metis dropWhile_zeros)
next
  have split: "\<exists>k. zs = replicate k 0 @ dropWhile ((=) 0) zs" for zs :: "u8 list"
  proof -
    have "\<forall>y \<in> set (takeWhile ((=) 0) zs). y = 0" by (auto dest: set_takeWhileD)
    then have "replicate (length (takeWhile ((=) 0) zs)) 0 = takeWhile ((=) 0) zs"
      by (rule replicate_length_same)
    then have "zs = replicate (length (takeWhile ((=) 0) zs)) 0 @ dropWhile ((=) 0) zs" by simp
    then show ?thesis ..
  qed
  assume eq: "dropWhile ((=) 0) xs = dropWhile ((=) 0) ys"
  from split [of xs] split [of ys] eq obtain i j where
    "xs = replicate i 0 @ dropWhile ((=) 0) xs" "ys = replicate j 0 @ dropWhile ((=) 0) xs"
    by metis
  then obtain d where xs: "xs = replicate i 0 @ d" and ys: "ys = replicate j 0 @ d" by blast
  with assms have "m + i = n + j" by simp
  then show "replicate m 0 @ xs = replicate n 0 @ ys"
    by (simp add: xs ys flip: append_assoc replicate_add)
qed

section \<open>Runs of the operations\<close>

lemma bridge_err_eq [simp]: "bridge_err e = bridge_err e' \<longleftrightarrow> e = e'"
  by (cases e; cases e') (simp_all add: bridge_err_def)

text \<open>The ballot a vote goes to, and the ballot with the vote cast.\<close>

definition current_ballot ::
  "('c, 'e, 'l) bridge_config \<Rightarrow> u32 \<Rightarrow> 'c bridge_storage \<Rightarrow> bridge_chain_id \<times> deposit_nonce \<times> 'c \<Rightarrow> proposal_votes" where
  "current_ballot cfg n b k = (case votes b k of
      Some v \<Rightarrow> v
    | None \<Rightarrow> default_proposal_votes\<lparr>expiry := n + proposal_lifetime cfg\<rparr>)"

definition cast_vote :: "bool \<Rightarrow> account_id \<Rightarrow> proposal_votes \<Rightarrow> proposal_votes" where
  "cast_vote in_favour who v =
     (if in_favour then v\<lparr>votes_for := votes_for v @ [who]\<rparr>
      else v\<lparr>votes_against := votes_against v @ [who]\<rparr>)"

lemmas bridge_admin_defs = set_relayer_threshold_def whitelist_def register_relayer_def
  unregister_relayer_def bridge_deposit_event_def

lemma commit_vote_run:
  "commit_vote cfg who nonce src prop fav w =
    (let v = current_ballot cfg (block_number w) (store w) (src, nonce, prop) in
     if is_complete v then (Inl (bridge_err ProposalAlreadyComplete), w)
     else if is_expired (block_number w) v then (Inl (bridge_err ProposalExpired), w)
     else if has_voted who v then (Inl (bridge_err RelayerAlreadyVoted), w)
     else (Inr (), w\<lparr>events := events w @ [bridge_into_event cfg
             (if fav then VoteFor src nonce who else VoteAgainst src nonce who)],
           store := (store w)\<lparr>votes := (votes (store w))((src, nonce, prop) \<mapsto> cast_vote fav who v)\<rparr>\<rparr>))"
  by (simp add: commit_vote_def current_ballot_def cast_vote_def bridge_deposit_event_def
      exec_eval Let_def)

lemma try_resolve_run:
  "try_resolve_proposal cfg nonce src prop w =
    (case votes (store w) (src, nonce, prop) of
       None \<Rightarrow> (Inl (bridge_err ProposalDoesNotExist), w)
     | Some v \<Rightarrow>
        if is_complete v then (Inl (bridge_err ProposalAlreadyComplete), w)
        else if is_expired (block_number w) v then (Inl (bridge_err ProposalExpired), w)
        else let r = try_to_complete (relayer_threshold (store w)) (relayer_count (store w)) v;
                 w' = w\<lparr>store := (store w)\<lparr>votes := (votes (store w))((src, nonce, prop) \<mapsto> snd r)\<rparr>\<rparr>
             in (case fst r of
                   Approved \<Rightarrow> finalize_execution cfg src nonce prop w'
                 | Rejected \<Rightarrow> cancel_execution cfg src nonce w'
                 | Initiated \<Rightarrow> (Inr (), w')))"
  by (simp add: try_resolve_proposal_def exec_eval Let_def split: option.split proposal_status.split)

lemma bump_nonce_run:
  "bump_nonce i w =
    (case checked_add (case chain_nonces (store w) i of Some n \<Rightarrow> n | None \<Rightarrow> 0) 1 of
       None \<Rightarrow> (Inl (bridge_err NonceOverFlow), w)
     | Some n' \<Rightarrow> (Inr n', w\<lparr>store := (store w)\<lparr>chain_nonces := (chain_nonces (store w))(i \<mapsto> n')\<rparr>\<rparr>))"
  by (simp add: bump_nonce_def exec_eval split: option.split)

lemma signal_transfer_run:
  "signal_transfer_fungible cfg dest resource to' amount w =
    (case chain_nonces (store w) dest of
       None \<Rightarrow> (Inl (bridge_err ChainNotWhitelisted), w)
     | Some n \<Rightarrow>
        (case checked_add n 1 of
           None \<Rightarrow> (Inl (bridge_err NonceOverFlow), w)
         | Some n' \<Rightarrow> (Inr (), w\<lparr>
             events := events w @ [bridge_into_event cfg (FungibleTransferEvent dest n' resource amount to')],
             store := (store w)\<lparr>chain_nonces := (chain_nonces (store w))(dest \<mapsto> n'),
               bridge_events := bridge_events (store w) @ [FungibleTransfer dest n' resource amount to']\<rparr>\<rparr>)))"
  by (simp add: signal_transfer_fungible_def chain_whitelisted_def bridge_deposit_event_def
      bindE_run [of "bump_nonce _"] bump_nonce_run exec_eval split: option.split)

lemmas bridge_dispatch_defs = set_threshold_def whitelist_chain_def add_relayer_def
  remove_relayer_def acknowledge_proposal_def reject_proposal_def eval_vote_state_def

text \<open>The administrative calls in full: either refused without a trace, or exactly one write and one event.\<close>

lemma set_threshold_run:
  "set_threshold cfg o' t w =
    (if \<not> bridge_committee_origin cfg o' then (Inl BadOrigin, w)
     else if t = 0 then (Inl (bridge_err InvalidThreshold), w)
     else (Inr (), w\<lparr>events := events w @ [bridge_into_event cfg (RelayerThresholdChanged t)],
       store := (store w)\<lparr>relayer_threshold := t\<rparr>\<rparr>))"
  by (auto simp: set_threshold_def bridge_admin_defs transactional_run exec_eval word_gt_0)

lemma whitelist_chain_run:
  "whitelist_chain cfg o' i w =
    (if \<not> bridge_committee_origin cfg o' then (Inl BadOrigin, w)
     else if i = bridge_chain_id cfg then (Inl (bridge_err InvalidChainId), w)
     else if chain_whitelisted (store w) i then (Inl (bridge_err ChainAlreadyWhitelisted), w)
     else (Inr (), w\<lparr>events := events w @ [bridge_into_event cfg (ChainWhitelisted i)],
       store := (store w)\<lparr>chain_nonces := (chain_nonces (store w))(i \<mapsto> 0)\<rparr>\<rparr>))"
  by (auto simp: whitelist_chain_def bridge_admin_defs transactional_run exec_eval)

lemma add_relayer_run:
  "add_relayer cfg o' a w =
    (if \<not> bridge_committee_origin cfg o' then (Inl BadOrigin, w)
     else if is_relayer (store w) a then (Inl (bridge_err RelayerAlreadyExists), w)
     else (Inr (), w\<lparr>events := events w @ [bridge_into_event cfg (RelayerAdded a)],
       store := (store w)\<lparr>relayers := (relayers (store w))(a \<mapsto> True),
         relayer_count := relayer_count (store w) + 1\<rparr>\<rparr>))"
  by (auto simp: add_relayer_def bridge_admin_defs transactional_run exec_eval)

lemma remove_relayer_run:
  "remove_relayer cfg o' a w =
    (if \<not> bridge_committee_origin cfg o' then (Inl BadOrigin, w)
     else if \<not> is_relayer (store w) a then (Inl (bridge_err RelayerInvalid), w)
     else (Inr (), w\<lparr>events := events w @ [bridge_into_event cfg (RelayerRemoved a)],
       store := (store w)\<lparr>relayers := (relayers (store w))(a := None),
         relayer_count := relayer_count (store w) - 1\<rparr>\<rparr>))"
  by (auto simp: remove_relayer_def bridge_admin_defs transactional_run exec_eval)

lemmas bridge_admin_run = set_threshold_run whitelist_chain_run add_relayer_run remove_relayer_run

lemma acknowledge_run:
  "acknowledge_proposal cfg o' nonce src r_id call w =
    (case o' of
       Signed who \<Rightarrow>
        if \<not> is_relayer (store w) who then (Inl (bridge_err MustBeRelayer), w)
        else if \<not> chain_whitelisted (store w) src then (Inl (bridge_err ChainNotWhitelisted), w)
        else transactional (vote_for cfg who nonce src call) w
     | _ \<Rightarrow> (Inl BadOrigin, w))"
  by (simp add: acknowledge_proposal_def transactional_run exec_eval split: origin.split)

lemma reject_run:
  "reject_proposal cfg o' nonce src r_id call w =
    (case o' of
       Signed who \<Rightarrow>
        if \<not> is_relayer (store w) who then (Inl (bridge_err MustBeRelayer), w)
        else if \<not> chain_whitelisted (store w) src then (Inl (bridge_err ChainNotWhitelisted), w)
        else transactional (vote_against cfg who nonce src call) w
     | _ \<Rightarrow> (Inl BadOrigin, w))"
  by (simp add: reject_proposal_def transactional_run exec_eval split: origin.split)

lemma eval_vote_state_run:
  "eval_vote_state cfg o' nonce src prop w =
    (case o' of
       Signed _ \<Rightarrow> transactional (try_resolve_proposal cfg nonce src prop) w
     | _ \<Rightarrow> (Inl BadOrigin, w))"
  by (simp add: eval_vote_state_def transactional_run exec_eval split: origin.split)

lemmas bridge_vote_run = acknowledge_run reject_run eval_vote_state_run

section \<open>The order along which the storage moves\<close>

definition ballot_le :: "proposal_votes \<Rightarrow> proposal_votes \<Rightarrow> bool" where
  "ballot_le v v' \<longleftrightarrow> expiry v' = expiry v \<and> (\<exists>xs. votes_for v' = votes_for v @ xs) \<and>
     (\<exists>xs. votes_against v' = votes_against v @ xs) \<and> (is_complete v \<longrightarrow> v' = v)"

definition bridge_le :: "'c bridge_storage \<Rightarrow> 'c bridge_storage \<Rightarrow> bool" where
  "bridge_le b b' \<longleftrightarrow>
     (\<forall>k v. votes b k = Some v \<longrightarrow> (\<exists>v'. votes b' k = Some v' \<and> ballot_le v v')) \<and>
     (\<forall>i n. chain_nonces b i = Some n \<longrightarrow> (\<exists>n'. chain_nonces b' i = Some n' \<and> n \<le> n'))"

text \<open>A ballot goes from open to decided, once: the statuses are ordered that way.\<close>

instantiation proposal_status :: order
begin

definition less_eq_proposal_status :: "proposal_status \<Rightarrow> proposal_status \<Rightarrow> bool" where
  "less_eq_proposal_status s t \<longleftrightarrow> s = Initiated \<or> s = t"

definition less_proposal_status :: "proposal_status \<Rightarrow> proposal_status \<Rightarrow> bool" where
  "less_proposal_status s t \<longleftrightarrow> s = Initiated \<and> t \<noteq> Initiated"

instance
  by standard (auto simp: less_eq_proposal_status_def less_proposal_status_def)

end

lemma ballot_le_status: "ballot_le v v' \<Longrightarrow> status v \<le> status v'"
  by (auto simp: ballot_le_def is_complete_def less_eq_proposal_status_def)

text \<open>
  What is asked of the dispatch of a proposal, which may run any call of the runtime, this pallet's
  own included: it keeps the storage moving along \<open>R\<close>. The runtime discharges it by induction on
  calls.
\<close>

definition dispatch_within ::
  "('c, 'e, 'l) bridge_config \<Rightarrow> ('c bridge_storage \<Rightarrow> 'c bridge_storage \<Rightarrow> bool) \<Rightarrow> bool" where
  "dispatch_within cfg R \<longleftrightarrow> (\<forall>c o'. within (store_rel R) (dispatch_proposal cfg c o'))"

lemma ballot_le_refl [simp]: "ballot_le v v"
  by (simp add: ballot_le_def)

lemma ballot_le_trans: "ballot_le u v \<Longrightarrow> ballot_le v w \<Longrightarrow> ballot_le u w"
  unfolding ballot_le_def by (metis append.assoc)

lemma ballot_le_cast: "\<not> is_complete v \<Longrightarrow> ballot_le v (cast_vote fav who v)"
  by (simp add: ballot_le_def cast_vote_def)

lemma ballot_le_complete: "\<not> is_complete v \<Longrightarrow> ballot_le v (snd (try_to_complete t n v))"
  by (auto simp: ballot_le_def try_to_complete_def)

lemma bridge_le_refl [simp]: "bridge_le b b"
  by (simp add: bridge_le_def)

lemma bridge_le_trans: "bridge_le a b \<Longrightarrow> bridge_le b c \<Longrightarrow> bridge_le a c"
  unfolding bridge_le_def by (meson ballot_le_trans order_trans)

lemma preorder_bridge_le [simp, intro]: "preorder_rel bridge_le"
  by (rule preorder_relI) (auto intro: bridge_le_trans)

lemma bridge_le_fields:
  assumes "votes b' = votes b" "chain_nonces b' = chain_nonces b" shows "bridge_le b b'"
  by (auto simp: bridge_le_def assms)

lemma bridge_le_vote:
  assumes "\<And>v. votes b k = Some v \<Longrightarrow> ballot_le v v'"
  shows "bridge_le b (b\<lparr>votes := (votes b)(k \<mapsto> v')\<rparr>)"
  using assms by (auto simp: bridge_le_def)

lemma bridge_le_nonce:
  assumes "\<And>n. chain_nonces b i = Some n \<Longrightarrow> n \<le> n'"
  shows "bridge_le b (b\<lparr>chain_nonces := (chain_nonces b)(i \<mapsto> n')\<rparr>)"
  using assms by (auto simp: bridge_le_def)

lemma checked_add_le: "checked_add a b = Some c \<Longrightarrow> a \<le> c"
  by (simp add: checked_arith word_le_nat_alt)

lemma within_commit_vote:
  assumes "preorder_rel R"
    and "\<And>b k n. \<not> is_complete (current_ballot cfg n b k) \<Longrightarrow> \<not> is_expired n (current_ballot cfg n b k) \<Longrightarrow>
      \<not> has_voted who (current_ballot cfg n b k) \<Longrightarrow>
      R b (b\<lparr>votes := (votes b)(k \<mapsto> cast_vote fav who (current_ballot cfg n b k))\<rparr>)"
  shows "within (store_rel R) (commit_vote cfg who nonce src prop fav)"
  using assms by (auto simp: within_def commit_vote_run store_rel_def Let_def preorder_rel_def)

lemma within_try_resolve:
  assumes R: "preorder_rel R" and d: "dispatch_within cfg R"
    and step: "\<And>b k v. votes b k = Some v \<Longrightarrow> \<not> is_complete v \<Longrightarrow>
      R b (b\<lparr>votes := (votes b)(k \<mapsto> snd (try_to_complete (relayer_threshold b) (relayer_count b) v))\<rparr>)"
  shows "within (store_rel R) (try_resolve_proposal cfg nonce src prop)"
proof -
  have fin: "within (store_rel R) (finalize_execution cfg src nonce prop)"
    and can: "within (store_rel R) (cancel_execution cfg src nonce)"
    using R d by (auto simp: finalize_execution_def cancel_execution_def bridge_deposit_event_def
        dispatch_within_def intro!: within_intro)
  have R': "\<And>u. store_rel R u u" "\<And>u v w. store_rel R u v \<Longrightarrow> store_rel R v w \<Longrightarrow> store_rel R u w"
    using R by (auto simp: store_rel_def preorder_rel_def)
  show ?thesis
  proof (rule withinI)
    fix w r t assume run: "try_resolve_proposal cfg nonce src prop w = (r, t)"
    show "store_rel R w t"
    proof (cases "votes (store w) (src, nonce, prop)")
      case None
      with run R' show ?thesis by (simp add: try_resolve_run)
    next
      case (Some v)
      define w' where "w' = w\<lparr>store := (store w)\<lparr>votes := (votes (store w))((src, nonce, prop) \<mapsto>
        snd (try_to_complete (relayer_threshold (store w)) (relayer_count (store w)) v))\<rparr>\<rparr>"
      consider "t = w" | "\<not> is_complete v" "t = w'"
        | "\<not> is_complete v" "finalize_execution cfg src nonce prop w' = (r, t)"
        | "\<not> is_complete v" "cancel_execution cfg src nonce w' = (r, t)"
        using run Some
        by (auto simp: try_resolve_run Let_def w'_def split: if_splits proposal_status.splits)
      moreover have "\<not> is_complete v \<Longrightarrow> store_rel R w w'"
        using step Some by (simp add: store_rel_def w'_def)
      ultimately show ?thesis
        using R' withinD [OF fin] withinD [OF can] by cases blast+
    qed
  qed
qed

lemma within_acknowledge:
  assumes "preorder_rel R" and "\<And>who. within (store_rel R) (commit_vote cfg who nonce src c True)"
    and "within (store_rel R) (try_resolve_proposal cfg nonce src c)"
  shows "within (store_rel R) (acknowledge_proposal cfg o' nonce src r c)"
  unfolding acknowledge_proposal_def vote_for_def using assms by (intro within_intro) auto

lemma within_reject:
  assumes "preorder_rel R" and "\<And>who. within (store_rel R) (commit_vote cfg who nonce src c False)"
    and "within (store_rel R) (try_resolve_proposal cfg nonce src c)"
  shows "within (store_rel R) (reject_proposal cfg o' nonce src r c)"
  unfolding reject_proposal_def vote_against_def using assms by (intro within_intro) auto

lemma within_eval_vote_state:
  assumes "preorder_rel R" and "within (store_rel R) (try_resolve_proposal cfg nonce src c)"
  shows "within (store_rel R) (eval_vote_state cfg o' nonce src c)"
  unfolding eval_vote_state_def using assms by (intro within_intro) auto

lemma within_admin:
  assumes "preorder_rel R"
  shows "(\<And>b. t \<noteq> 0 \<Longrightarrow> R b (b\<lparr>relayer_threshold := t\<rparr>)) \<Longrightarrow>
      within (store_rel R) (set_threshold cfg o' t)"
    and "(\<And>b. i \<noteq> bridge_chain_id cfg \<Longrightarrow> chain_nonces b i = None \<Longrightarrow>
        R b (b\<lparr>chain_nonces := (chain_nonces b)(i \<mapsto> 0)\<rparr>)) \<Longrightarrow>
      within (store_rel R) (whitelist_chain cfg o' i)"
    and "(\<And>b. \<not> is_relayer b a \<Longrightarrow>
        R b (b\<lparr>relayers := (relayers b)(a \<mapsto> True), relayer_count := relayer_count b + 1\<rparr>)) \<Longrightarrow>
      within (store_rel R) (add_relayer cfg o' a)"
    and "(\<And>b. is_relayer b a \<Longrightarrow>
        R b (b\<lparr>relayers := (relayers b)(a := None), relayer_count := relayer_count b - 1\<rparr>)) \<Longrightarrow>
      within (store_rel R) (remove_relayer cfg o' a)"
  using assms
  by (auto simp: within_def store_rel_def bridge_admin_run chain_whitelisted_def preorder_rel_def)

lemma within_bridge_call:
  assumes R: "preorder_rel R" and d: "dispatch_within cfg R"
    and vote: "\<And>b who fav k n. \<not> is_complete (current_ballot cfg n b k) \<Longrightarrow>
      \<not> is_expired n (current_ballot cfg n b k) \<Longrightarrow> \<not> has_voted who (current_ballot cfg n b k) \<Longrightarrow>
      R b (b\<lparr>votes := (votes b)(k \<mapsto> cast_vote fav who (current_ballot cfg n b k))\<rparr>)"
    and tally: "\<And>b k v. votes b k = Some v \<Longrightarrow> \<not> is_complete v \<Longrightarrow>
      R b (b\<lparr>votes := (votes b)(k \<mapsto> snd (try_to_complete (relayer_threshold b) (relayer_count b) v))\<rparr>)"
    and threshold: "\<And>b t. t \<noteq> 0 \<Longrightarrow> R b (b\<lparr>relayer_threshold := t\<rparr>)"
    and chain: "\<And>b i. i \<noteq> bridge_chain_id cfg \<Longrightarrow> chain_nonces b i = None \<Longrightarrow>
      R b (b\<lparr>chain_nonces := (chain_nonces b)(i \<mapsto> 0)\<rparr>)"
    and add: "\<And>b a. \<not> is_relayer b a \<Longrightarrow>
      R b (b\<lparr>relayers := (relayers b)(a \<mapsto> True), relayer_count := relayer_count b + 1\<rparr>)"
    and remove: "\<And>b a. is_relayer b a \<Longrightarrow>
      R b (b\<lparr>relayers := (relayers b)(a := None), relayer_count := relayer_count b - 1\<rparr>)"
  shows "within (store_rel R) (run_bridge_call cfg c o')"
proof -
  have commit: "within (store_rel R) (commit_vote cfg who n s p fav)" for who n s p fav
    by (rule within_commit_vote [OF R vote])
  have resolve: "within (store_rel R) (try_resolve_proposal cfg n s p)" for n s p
    by (rule within_try_resolve [OF R d tally])
  show ?thesis
    by (cases c) (simp_all add: within_admin R threshold chain add remove within_acknowledge
        within_reject within_eval_vote_state commit resolve)
qed

lemma bridge_call_le:
  assumes "dispatch_within cfg bridge_le"
  shows "within (store_rel bridge_le) (run_bridge_call cfg c o')"
  using assms
  by (intro within_bridge_call)
     (auto intro!: bridge_le_vote ballot_le_cast ballot_le_complete bridge_le_nonce
       intro: bridge_le_fields simp: current_ballot_def split: option.splits)

lemma signal_transfer_le: "within (store_rel bridge_le) (signal_transfer_fungible cfg d r to' a)"
  by (auto simp: within_def store_rel_def signal_transfer_run bridge_le_def
      dest: checked_add_le split: option.split)

lemma bridge_on_initialize_run:
  "bridge_on_initialize n w = (Inr zero_weight, w\<lparr>store := (store w)\<lparr>bridge_events := []\<rparr>\<rparr>)"
  by (simp add: bridge_on_initialize_def exec_eval)

lemma on_initialize_le: "within (store_rel bridge_le) (bridge_on_initialize n)"
  unfolding bridge_on_initialize_def
  by (intro within_thenE within_ret) (auto simp: within_write_store intro: bridge_le_fields)

section \<open>The invariant of the storage\<close>

definition relayer_set :: "'c bridge_storage \<Rightarrow> account_id set" where
  "relayer_set b = {a. is_relayer b a}"

definition ballot_wf :: "proposal_votes \<Rightarrow> bool" where
  "ballot_wf v \<longleftrightarrow> distinct (votes_for v @ votes_against v) \<and>
     (status v = Approved \<longrightarrow> votes_for v \<noteq> []) \<and> (status v = Rejected \<longrightarrow> votes_against v \<noteq> [])"

text \<open>
  The relayer count is the number of relayers (in 32 bits), the threshold is positive, the chain
  itself is never a destination, and every stored ballot names each voter once.
\<close>

definition bridge_inv :: "bridge_chain_id \<Rightarrow> 'c bridge_storage \<Rightarrow> bool" where
  "bridge_inv own b \<longleftrightarrow> finite (relayer_set b) \<and>
     relayer_count b = word_of_nat (card (relayer_set b)) \<and> relayer_threshold b \<noteq> 0 \<and>
     chain_nonces b own = None \<and> (\<forall>k v. votes b k = Some v \<longrightarrow> ballot_wf v)"

lemma bridge_inv_empty: "bridge_inv own empty_bridge_storage"
  by (simp add: bridge_inv_def empty_bridge_storage_def relayer_set_def is_relayer_def
      default_relayer_threshold_def)

lemma ballot_wf_cast:
  "ballot_wf v \<Longrightarrow> \<not> is_complete v \<Longrightarrow> \<not> has_voted who v \<Longrightarrow> ballot_wf (cast_vote fav who v)"
  by (auto simp: ballot_wf_def cast_vote_def has_voted_def is_complete_def)

lemma ballot_wf_default: "ballot_wf (default_proposal_votes\<lparr>expiry := e\<rparr>)"
  by (simp add: ballot_wf_def default_proposal_votes_def)

lemma ballot_wf_complete:
  assumes "ballot_wf v" "\<not> is_complete v" "t \<noteq> 0"
  shows "ballot_wf (snd (try_to_complete t n v))"
proof -
  have "unat t \<le> length (votes_for v) \<Longrightarrow> votes_for v \<noteq> []"
    using assms(3) by (auto simp: unat_eq_0)
  moreover have "t \<le> n \<Longrightarrow> n < word_of_nat (length (votes_against v)) + t \<Longrightarrow> votes_against v \<noteq> []"
    by auto
  ultimately show ?thesis
    using assms by (simp add: try_to_complete_def ballot_wf_def is_complete_def)
qed

lemma relayer_set_add:
  "relayer_set (b\<lparr>relayers := (relayers b)(a \<mapsto> True), relayer_count := n\<rparr>) = insert a (relayer_set b)"
  by (auto simp: relayer_set_def is_relayer_def)

lemma relayer_set_remove:
  "relayer_set (b\<lparr>relayers := (relayers b)(a := None), relayer_count := n\<rparr>) = relayer_set b - {a}"
  by (auto simp: relayer_set_def is_relayer_def)

lemma relayer_set_fields:
  "relayer_set (b\<lparr>votes := vs\<rparr>) = relayer_set b" "relayer_set (b\<lparr>chain_nonces := cs\<rparr>) = relayer_set b"
  "relayer_set (b\<lparr>relayer_threshold := t\<rparr>) = relayer_set b"
  "relayer_set (b\<lparr>bridge_events := es\<rparr>) = relayer_set b"
  by (simp_all add: relayer_set_def is_relayer_def)

lemma bridge_inv_remove:
  assumes inv: "bridge_inv own b" and a: "is_relayer b a"
  shows "bridge_inv own (b\<lparr>relayers := (relayers b)(a := None), relayer_count := relayer_count b - 1\<rparr>)"
proof -
  have "a \<in> relayer_set b" and fin: "finite (relayer_set b)"
    using inv a by (simp_all add: relayer_set_def bridge_inv_def)
  then have "card (relayer_set b) = Suc (card (relayer_set b - {a}))"
    by (rule card.remove [rotated])
  with inv have "relayer_count b - 1 = word_of_nat (card (relayer_set b - {a}))"
    by (simp only: bridge_inv_def of_nat_Suc add_diff_cancel_left')
  with inv fin show ?thesis by (simp add: bridge_inv_def relayer_set_remove)
qed

lemma bridge_inv_add:
  assumes inv: "bridge_inv own b" and a: "\<not> is_relayer b a"
  shows "bridge_inv own (b\<lparr>relayers := (relayers b)(a \<mapsto> True), relayer_count := relayer_count b + 1\<rparr>)"
proof -
  have "a \<notin> relayer_set b" and fin: "finite (relayer_set b)"
    using inv a by (simp_all add: relayer_set_def bridge_inv_def)
  then have "card (insert a (relayer_set b)) = Suc (card (relayer_set b))" by simp
  with inv fin show ?thesis by (simp add: bridge_inv_def relayer_set_add add.commute)
qed

lemma bridge_call_inv:
  assumes "dispatch_within cfg (\<lambda>b b'. bridge_inv (bridge_chain_id cfg) b \<longrightarrow> bridge_inv (bridge_chain_id cfg) b')"
  shows "within (store_rel (\<lambda>b b'. bridge_inv (bridge_chain_id cfg) b \<longrightarrow> bridge_inv (bridge_chain_id cfg) b'))
    (run_bridge_call cfg c o')"
proof (rule within_bridge_call [OF _ assms], goal_cases)
  case (2 b who fav k n)
  then show ?case
    by (auto simp: bridge_inv_def relayer_set_fields current_ballot_def
        intro!: ballot_wf_cast ballot_wf_default split: option.splits)
next
  case (3 b k v)
  then show ?case
    by (auto simp: bridge_inv_def relayer_set_fields intro!: ballot_wf_complete)
next
  case (6 b a)
  then show ?case by (auto intro: bridge_inv_add)
next
  case (7 b a)
  then show ?case by (auto intro: bridge_inv_remove)
qed (auto simp: bridge_inv_def relayer_set_fields)

section \<open>The running pallet\<close>

text \<open>
  A step of the pallet: a call by any origin (refused or not), an outgoing transfer signalled by
  another pallet, the start of a later block, or anything the rest of the runtime does to its own
  state.
\<close>

inductive bridge_step ::
  "('c, 'e, 'l) bridge_config \<Rightarrow> ('e, 'l, 'c bridge_storage) frame \<Rightarrow> ('e, 'l, 'c bridge_storage) frame \<Rightarrow> bool"
  for cfg where
  call: "run_bridge_call cfg c o' w = (r, w') \<Longrightarrow> bridge_step cfg w w'"
| transfer: "signal_transfer_fungible cfg d rid to' a w = (r, w') \<Longrightarrow> bridge_step cfg w w'"
| next_block: "block_number w < n \<Longrightarrow> bridge_on_initialize n (w\<lparr>block_number := n\<rparr>) = (r, w') \<Longrightarrow>
    bridge_step cfg w w'"
| elsewhere: "bridge_step cfg w (w\<lparr>events := es, ledger := l\<rparr>)"

abbreviation bridge_steps ::
  "('c, 'e, 'l) bridge_config \<Rightarrow> ('e, 'l, 'c bridge_storage) frame \<Rightarrow> ('e, 'l, 'c bridge_storage) frame \<Rightarrow> bool" where
  "bridge_steps cfg \<equiv> (bridge_step cfg)\<^sup>*\<^sup>*"

lemma bridge_step_le:
  assumes d: "dispatch_within cfg bridge_le" and step: "bridge_step cfg w w'"
  shows "bridge_le (store w) (store w')"
  using step
proof (cases rule: bridge_step.cases)
  case (call c o' r)
  with withinD [OF bridge_call_le [OF d]] show ?thesis by (simp add: store_rel_def)
next
  case (transfer dst rid to' a r)
  with withinD [OF signal_transfer_le] show ?thesis by (simp add: store_rel_def)
next
  case (next_block n r)
  with withinD [OF on_initialize_le] show ?thesis by (fastforce simp: store_rel_def)
qed simp

lemma bridge_steps_le:
  assumes "dispatch_within cfg bridge_le" and "bridge_steps cfg w w'"
  shows "bridge_le (store w) (store w')"
  using assms(2) by induction (auto intro: bridge_le_trans bridge_step_le [OF assms(1)])

end
