(* ===== verification/Bridge_Transfer.thy ===== *)
theory Bridge_Transfer
  imports Bridge_Safety
begin

text \<open>
  \<open>pallets/bridge-transfer/src/lib.rs\<close>: the two dispatchables that move value over the bridge, and
  the interface \<open>BridgeHandler\<close> behind which the tokens are. The trait is a record of operations
  here and a locale of its contract; the client lemmas are proved once against the contract, and
  \<open>Assets_Handler\<close> interprets it.

  The pallet has no storage of its own. It works on the storage of the bridge (first half of the
  pair) and on that of the handler (second half).
\<close>

section \<open>Interface and configuration\<close>

record ('e, 'l, 'h) bridge_handler_ops =
  prepare_token_bridge_in :: "resource_id \<Rightarrow> account_id \<Rightarrow> balance \<Rightarrow> ('e, 'l, 'h, balance) pallet"
  prepare_token_bridge_out :: "resource_id \<Rightarrow> account_id \<Rightarrow> balance \<Rightarrow> ('e, 'l, 'h, balance) pallet"

record ('c, 'e, 'l, 'h) transfer_config =
  transfer_bridge :: "('c, 'e, 'l) bridge_config"
  bridge_origin :: "origin \<Rightarrow> bool"
  transfer_native_members :: "account_id \<Rightarrow> bool"  \<comment> \<open>\<open>SortedMembers::contains\<close>\<close>
  bridge_handler_of :: "('e, 'l, 'h) bridge_handler_ops"

section \<open>Dispatchables\<close>

text \<open>Both carry \<open>#[transactional]\<close> inside the storage layer that every dispatchable has.\<close>

definition transfer_assets ::
  "('c, 'e, 'l, 'h) transfer_config \<Rightarrow> origin \<Rightarrow> balance \<Rightarrow> bytes \<Rightarrow> bridge_chain_id \<Rightarrow> resource_id \<Rightarrow>
   (dispatch_error, ('e, 'l, 'c bridge_storage \<times> 'h) frame, unit) exec" where
  "transfer_assets cfg o' amount recipient dest_id resource =
     transactional (transactional
      (bindE (ensure_signed o') (\<lambda>source.
       thenE (ensure (transfer_native_members cfg source) BadOrigin)
       (bindE (zoom get_snd put_snd (prepare_token_bridge_out (bridge_handler_of cfg) resource source amount))
        (\<lambda>actual_dest_amount.
       zoom get_fst put_fst
         (signal_transfer_fungible (transfer_bridge cfg) dest_id resource recipient actual_dest_amount))))))"

definition bridge_in_transfer ::
  "('c, 'e, 'l, 'h) transfer_config \<Rightarrow> origin \<Rightarrow> account_id \<Rightarrow> balance \<Rightarrow> resource_id \<Rightarrow>
   (dispatch_error, ('e, 'l, 'c bridge_storage \<times> 'h) frame, unit) exec" where
  "bridge_in_transfer cfg o' to' amount rid =
     transactional (transactional
      (thenE (ensure_origin (bridge_origin cfg) o')
      (bindE (zoom get_snd put_snd (prepare_token_bridge_in (bridge_handler_of cfg) rid to' amount)) (\<lambda>_.
       ret ()))))"

datatype transfer_call =
    TransferAssets balance bytes bridge_chain_id resource_id
  | Transfer account_id balance resource_id

fun run_transfer_call ::
  "('c, 'e, 'l, 'h) transfer_config \<Rightarrow> transfer_call \<Rightarrow> origin \<Rightarrow>
   (dispatch_error, ('e, 'l, 'c bridge_storage \<times> 'h) frame, unit) exec" where
  "run_transfer_call cfg (TransferAssets a r d i) o' = transfer_assets cfg o' a r d i"
| "run_transfer_call cfg (Transfer t a i) o' = bridge_in_transfer cfg o' t a i"

lemma transactional_idem [simp]: "transactional (transactional m) = transactional m"
  by (rule ext) (simp add: transactional_def split: prod.split sum.split)

lemma transfer_assets_run:
  "transfer_assets cfg o' amount recipient dest resource w =
    (case o' of
       Signed who \<Rightarrow>
        if \<not> transfer_native_members cfg who then (Inl BadOrigin, w)
        else transactional
          (bindE (zoom get_snd put_snd (prepare_token_bridge_out (bridge_handler_of cfg) resource who amount))
            (\<lambda>actual. zoom get_fst put_fst
              (signal_transfer_fungible (transfer_bridge cfg) dest resource recipient actual))) w
     | _ \<Rightarrow> (Inl BadOrigin, w))"
  by (simp add: transfer_assets_def transactional_run exec_eval split: origin.split)

lemma bridge_in_transfer_run:
  "bridge_in_transfer cfg o' to' amount rid w =
    (if \<not> bridge_origin cfg o' then (Inl BadOrigin, w)
     else case prepare_token_bridge_in (bridge_handler_of cfg) rid to' amount (get_snd w) of
            (Inl e, _) \<Rightarrow> (Inl e, w)
          | (Inr _, v) \<Rightarrow> (Inr (), put_snd v w))"
  by (simp add: bridge_in_transfer_def transactional_run exec_eval bindE_run zoom_def split: prod.split sum.split)

text \<open>
  Seen from the bridge, these calls only ever signal transfers: the bridge storage moves along its
  order and keeps its invariant.
\<close>

lemma within_snd_view:
  "preorder_rel R \<Longrightarrow> within (\<lambda>w w'. R (fst (store w)) (fst (store w'))) (zoom get_snd put_snd m)"
  by (auto simp: within_def zoom_def put_snd_def preorder_rel_def split: prod.split)

lemma within_transfer_call:
  assumes R: "preorder_rel R"
    and signal: "\<And>d r to' a. within (store_rel R) (signal_transfer_fungible (transfer_bridge cfg) d r to' a)"
  shows "within (\<lambda>w w'. R (fst (store w)) (fst (store w'))) (run_transfer_call cfg c o')"
proof -
  let ?R = "\<lambda>w w'. R (fst (store w)) (fst (store w'))"
  have pre: "preorder_rel ?R" using R by (auto simp: preorder_rel_def)
  have fst_part: "within ?R (zoom get_fst put_fst (signal_transfer_fungible (transfer_bridge cfg) d r to' a))"
    for d r to' a
    using fst_lens.within_zoom [OF signal] by (simp add: store_rel_def get_fst_def)
  show ?thesis
    by (cases c) (auto simp: transfer_assets_def bridge_in_transfer_def
        intro!: within_intro pre within_snd_view [OF R] fst_part)
qed

lemma get_snd_sel:
  "store (get_snd w) = snd (store w)" "ledger (get_snd w) = ledger w"
  "block_number (get_snd w) = block_number w" "events (get_snd w) = events w"
  by (simp_all add: get_snd_def)

section \<open>The contract of a bridge handler\<close>

text \<open>
  \<open>asset_info\<close> reads from the handler's storage which token a resource stands for (\<open>None\<close> the
  native one) and the fee of sending it. Bringing tokens in mints them; sending them out burns the
  amount from the sender, mints the fee to the treasury and answers the rest.
\<close>

locale bridge_handler =
  fixes handler :: "('e, 'l, 'h) bridge_handler_ops"
    and asset_info :: "'h \<Rightarrow> resource_id \<Rightarrow> (asset_id option \<times> balance) option"
    and tok :: "'l tokens" and treasury :: account_id
  assumes in_contract: "prepare_token_bridge_in handler rid who amount w = (Inr x, w') \<Longrightarrow>
      \<exists>a fee. asset_info (store w) rid = Some (a, fee) \<and> store w' = store w \<and>
        tk_mint_into (token tok a) who amount (ledger w) = (Inr x, ledger w')"
    and out_contract: "prepare_token_bridge_out handler rid who amount w = (Inr x, w') \<Longrightarrow>
      \<exists>a fee burnt l y. asset_info (store w) rid = Some (a, fee) \<and> store w' = store w \<and>
        tk_burn_from (token tok a) who amount (ledger w) = (Inr burnt, l) \<and> fee < burnt \<and>
        tk_mint_into (token tok a) treasury fee l = (Inr y, ledger w') \<and> x = burnt - fee"
begin

lemma out_effect:
  assumes laws: "token_laws tok" and run: "prepare_token_bridge_out handler rid who amount w = (Inr x, w')"
  obtains a fee where "asset_info (store w) rid = Some (a, fee)" "store w' = store w" "fee < amount"
    "x = amount - fee"
    "unat (tk_issuance (token tok a) (ledger w)) = unat (tk_issuance (token tok a) (ledger w')) + unat x"
    "\<And>b z. b \<noteq> a \<Longrightarrow> tk_balance (token tok b) (ledger w') z = tk_balance (token tok b) (ledger w) z"
    "\<And>z. z \<noteq> who \<Longrightarrow> z \<noteq> treasury \<Longrightarrow> tk_balance (token tok a) (ledger w') z = tk_balance (token tok a) (ledger w) z"
    "who \<noteq> treasury \<Longrightarrow> unat (tk_balance (token tok a) (ledger w) who) =
       unat (tk_balance (token tok a) (ledger w') who) + unat amount"
    "who \<noteq> treasury \<Longrightarrow> unat (tk_balance (token tok a) (ledger w') treasury) =
       unat (tk_balance (token tok a) (ledger w) treasury) + unat fee"
    "who = treasury \<Longrightarrow> unat (tk_balance (token tok a) (ledger w) who) =
       unat (tk_balance (token tok a) (ledger w') who) + unat x"
proof -
  from out_contract [OF run] obtain a fee burnt l y where
    info: "asset_info (store w) rid = Some (a, fee)" "store w' = store w" and
    burn: "tk_burn_from (token tok a) who amount (ledger w) = (Inr burnt, l)" and fee: "fee < burnt" and
    mint: "tk_mint_into (token tok a) treasury fee l = (Inr y, ledger w')" and x: "x = burnt - fee"
    by blast
  note B = burn_lawD [OF laws burn] and M = mint_lawD [OF laws mint]
  have x': "unat x + unat fee = unat amount"
    using fee by (simp add: x B(1) unat_sub word_less_nat_alt word_le_nat_alt)
  show thesis
  proof (rule that)
    show "asset_info (store w) rid = Some (a, fee)" "store w' = store w" "fee < amount" "x = amount - fee"
      using info fee x B(1) by simp_all
    show "unat (tk_issuance (token tok a) (ledger w)) = unat (tk_issuance (token tok a) (ledger w')) + unat x"
      using B(4) M(4) x' by simp
    show "tk_balance (token tok b) (ledger w') z = tk_balance (token tok b) (ledger w) z" if "b \<noteq> a" for b z
      using separate_lawD(2) [OF laws that [symmetric] burn] separate_lawD(1) [OF laws that [symmetric] mint]
      by simp
    show "tk_balance (token tok a) (ledger w') z = tk_balance (token tok a) (ledger w) z"
      if "z \<noteq> who" "z \<noteq> treasury" for z
      using that B(3) M(3) by simp
    show "unat (tk_balance (token tok a) (ledger w) who) = unat (tk_balance (token tok a) (ledger w') who) + unat amount"
      if "who \<noteq> treasury" using that B(2) M(3) by simp
    show "unat (tk_balance (token tok a) (ledger w') treasury) = unat (tk_balance (token tok a) (ledger w) treasury) + unat fee"
      if "who \<noteq> treasury" using that B(3) M(2) by simp
    show "unat (tk_balance (token tok a) (ledger w) who) = unat (tk_balance (token tok a) (ledger w') who) + unat x"
      if "who = treasury" using that B(2) M(2) x' by simp
  qed
qed

lemma in_effect:
  assumes laws: "token_laws tok" and run: "prepare_token_bridge_in handler rid who amount w = (Inr x, w')"
  obtains a fee where "asset_info (store w) rid = Some (a, fee)" "store w' = store w" "x = amount"
    "unat (tk_issuance (token tok a) (ledger w')) = unat (tk_issuance (token tok a) (ledger w)) + unat amount"
    "unat (tk_balance (token tok a) (ledger w') who) = unat (tk_balance (token tok a) (ledger w) who) + unat amount"
    "\<And>b z. (b, z) \<noteq> (a, who) \<Longrightarrow> tk_balance (token tok b) (ledger w') z = tk_balance (token tok b) (ledger w) z"
proof -
  from in_contract [OF run] obtain a fee where
    info: "asset_info (store w) rid = Some (a, fee)" "store w' = store w" and
    mint: "tk_mint_into (token tok a) who amount (ledger w) = (Inr x, ledger w')"
    by blast
  have "tk_balance (token tok b) (ledger w') z = tk_balance (token tok b) (ledger w) z" if "(b, z) \<noteq> (a, who)" for b z
    using that mint_lawD(3) [OF laws mint] separate_lawD(1) [OF laws _ mint, of b] by (cases "b = a") auto
  with info mint_lawD [OF laws mint] show thesis by (intro that)
qed

text \<open>A successful outgoing transfer: the handler's part, then a signal to the bridge.\<close>

lemma transfer_assets_parts:
  assumes h: "bridge_handler_of cfg = handler"
    and run: "transfer_assets cfg o' amount recipient dest rid w = (Inr (), w')"
  obtains who x u n where "o' = Signed who" "transfer_native_members cfg who"
    "prepare_token_bridge_out handler rid who amount (get_snd w) = (Inr x, u)"
    "ledger w' = ledger u" "snd (store w') = snd (store w)" "chain_nonces (fst (store w)) dest \<noteq> None"
    "bridge_events (fst (store w')) = bridge_events (fst (store w)) @ [FungibleTransfer dest n rid x recipient]"
    "block_number w' = block_number u"
proof -
  from run h obtain who where who: "o' = Signed who" "transfer_native_members cfg who"
    and step: "bindE (zoom get_snd put_snd (prepare_token_bridge_out handler rid who amount))
      (\<lambda>actual. zoom get_fst put_fst (signal_transfer_fungible (transfer_bridge cfg) dest rid recipient actual)) w = (Inr (), w')"
    by (auto simp: transfer_assets_run exec_ok split: origin.splits if_splits)
  from step obtain x u v where out: "prepare_token_bridge_out handler rid who amount (get_snd w) = (Inr x, u)"
    and sig: "signal_transfer_fungible (transfer_bridge cfg) dest rid recipient x (get_fst (put_snd u w)) = (Inr (), v)"
    and w': "w' = put_fst v (put_snd u w)"
    by (auto simp: bindE_ok fst_lens.zoom_ok snd_lens.zoom_ok)
  have same: "snd (store w') = snd (store w)"
    using out_contract [OF out] by (auto simp: w' pair_lens_defs)
  from sig obtain n where n: "bridge_events (store v) = bridge_events (fst (store w)) @
      [FungibleTransfer dest n rid x recipient]" and l: "ledger v = ledger u" "block_number v = block_number u"
    and listed: "chain_nonces (fst (store w)) dest \<noteq> None"
    by (auto simp: signal_transfer_run pair_lens_defs split: option.splits)
  show thesis
    by (rule that [OF who out _ same listed]) (use n l in \<open>simp_all add: w' pair_lens_defs\<close>)
qed

text \<open>What leaves the ledger is what the bridge is told to deliver.\<close>

lemma transfer_assets_effect:
  assumes h: "bridge_handler_of cfg = handler" and laws: "token_laws tok"
    and run: "transfer_assets cfg o' amount recipient dest rid w = (Inr (), w')"
  obtains who a fee n where "o' = Signed who" "transfer_native_members cfg who"
    "asset_info (snd (store w)) rid = Some (a, fee)" "fee < amount"
    "chain_nonces (fst (store w)) dest \<noteq> None" "snd (store w') = snd (store w)"
    "bridge_events (fst (store w')) = bridge_events (fst (store w)) @
       [FungibleTransfer dest n rid (amount - fee) recipient]"
    "unat (tk_issuance (token tok a) (ledger w)) =
       unat (tk_issuance (token tok a) (ledger w')) + unat (amount - fee)"
    "who \<noteq> treasury \<Longrightarrow> unat (tk_balance (token tok a) (ledger w) who) =
       unat (tk_balance (token tok a) (ledger w') who) + unat amount"
    "who \<noteq> treasury \<Longrightarrow> unat (tk_balance (token tok a) (ledger w') treasury) =
       unat (tk_balance (token tok a) (ledger w) treasury) + unat fee"
proof -
  from run obtain who x u n where who: "o' = Signed who" "transfer_native_members cfg who"
    and out: "prepare_token_bridge_out handler rid who amount (get_snd w) = (Inr x, u)"
    and led: "ledger w' = ledger u" and same: "snd (store w') = snd (store w)"
    and listed: "chain_nonces (fst (store w)) dest \<noteq> None"
    and ev: "bridge_events (fst (store w')) = bridge_events (fst (store w)) @ [FungibleTransfer dest n rid x recipient]"
    by (rule transfer_assets_parts [OF h])
  obtain a fee where o: "asset_info (snd (store w)) rid = Some (a, fee)"
      "fee < amount" "x = amount - fee"
      "unat (tk_issuance (token tok a) (ledger w)) = unat (tk_issuance (token tok a) (ledger u)) + unat x"
      "who \<noteq> treasury \<Longrightarrow> unat (tk_balance (token tok a) (ledger w) who) =
         unat (tk_balance (token tok a) (ledger u) who) + unat amount"
      "who \<noteq> treasury \<Longrightarrow> unat (tk_balance (token tok a) (ledger u) treasury) =
         unat (tk_balance (token tok a) (ledger w) treasury) + unat fee"
    by (rule out_effect [OF laws out], unfold get_snd_sel) blast
  show thesis
    by (rule that [OF who o(1,2) listed same]) (use ev led o(3-6) in simp_all)
qed

text \<open>Nobody but the sender loses anything by either call.\<close>

lemma transfer_assets_spares:
  assumes h: "bridge_handler_of cfg = handler" and laws: "token_laws tok" and z: "o' \<noteq> Signed z"
    and run: "transfer_assets cfg o' amount recipient dest rid w = (Inr (), w')"
  shows "unat (tk_balance (token tok b) (ledger w) z) \<le> unat (tk_balance (token tok b) (ledger w') z)"
proof -
  from run obtain who x u where who: "o' = Signed who"
    and out: "prepare_token_bridge_out handler rid who amount (get_snd w) = (Inr x, u)"
    and led: "ledger w' = ledger u"
    by (rule transfer_assets_parts [OF h])
  from out_contract [OF out] obtain a fee burnt l y where
    burn: "tk_burn_from (token tok a) who amount (ledger w) = (Inr burnt, l)" and
    mint: "tk_mint_into (token tok a) treasury fee l = (Inr y, ledger w')"
    unfolding get_snd_sel led by blast
  note B = burn_lawD [OF laws burn] and M = mint_lawD [OF laws mint]
  show ?thesis
  proof (cases "b = a")
    case True
    then show ?thesis using B(3) [of z] M(2,3) z who by (cases "z = treasury") auto
  next
    case False
    then show ?thesis using separate_lawD(2) [OF laws _ burn] separate_lawD(1) [OF laws _ mint] by simp
  qed
qed

lemma bridge_in_spares:
  assumes h: "bridge_handler_of cfg = handler" and laws: "token_laws tok"
    and run: "bridge_in_transfer cfg o' to' amount rid w = (Inr (), w')"
  shows "unat (tk_balance (token tok b) (ledger w) z) \<le> unat (tk_balance (token tok b) (ledger w') z)"
proof -
  from run h obtain x v where run: "prepare_token_bridge_in handler rid to' amount (get_snd w) = (Inr x, v)"
    and w': "ledger w' = ledger v"
    by (auto simp: bridge_in_transfer_run pair_lens_defs split: if_splits prod.splits sum.splits)
  obtain a where "unat (tk_balance (token tok a) (ledger v) to') = unat (tk_balance (token tok a) (ledger w) to') + unat amount"
      "\<And>b z. (b, z) \<noteq> (a, to') \<Longrightarrow> tk_balance (token tok b) (ledger v) z = tk_balance (token tok b) (ledger w) z"
    by (rule in_effect [OF laws run], unfold get_snd_sel) blast
  then show ?thesis by (cases "(b, z) = (a, to')") (auto simp: w')
qed

end

end
