(* ===== verification/Assets_Handler.thy ===== *)
theory Assets_Handler
  imports Bridge_Transfer
begin

text \<open>
  \<open>pallets/assets-handler/src/lib.rs\<close>: the table from resource ids to tokens and fees, and the
  implementation of \<open>BridgeHandler\<close> that mints and burns them. Its interpretation of the handler
  contract carries over the client lemmas of \<open>Bridge_Transfer\<close>.
\<close>

section \<open>Data, storage and configuration\<close>

record asset_info =
  fee :: balance
  asset :: "asset_id option"  \<comment> \<open>\<open>None\<close> for the native token\<close>

datatype assets_handler_event =
    ResourceUpdated resource_id asset_info
  | ResourceRemoved resource_id
  | TokenBridgeIn "asset_id option" account_id balance
  | TokenBridgeOut "asset_id option" account_id balance balance

datatype assets_handler_error = InvalidResourceId | CannotPayAsFee

primrec assets_handler_error_index :: "assets_handler_error \<Rightarrow> nat" where
  "assets_handler_error_index InvalidResourceId = 0"
| "assets_handler_error_index CannotPayAsFee = 1"

text \<open>\<open>AssetsHandler: pallet_assets_handler = 13\<close>.\<close>

definition handler_err :: "assets_handler_error \<Rightarrow> dispatch_error" where
  "handler_err e = ModuleError 13 (assets_handler_error_index e)"

record handler_storage =
  resource_to_asset_info :: "resource_id \<rightharpoonup> asset_info"

definition empty_handler_storage :: handler_storage where
  "empty_handler_storage = \<lparr>resource_to_asset_info = Map.empty\<rparr>"

record ('e, 'l) handler_config =
  handler_committee_origin :: "origin \<Rightarrow> bool"
  handler_treasury :: account_id
  handler_tokens :: "'l tokens"
  handler_into_event :: "assets_handler_event \<Rightarrow> 'e"

section \<open>Dispatchables\<close>

definition set_resource ::
  "('e, 'l) handler_config \<Rightarrow> origin \<Rightarrow> resource_id \<Rightarrow> asset_info \<Rightarrow> ('e, 'l, handler_storage, unit) pallet" where
  "set_resource cfg o' rid info =
     transactional (block
      [ensure_origin (handler_committee_origin cfg) o',
       write_store (\<lambda>h. h\<lparr>resource_to_asset_info := (resource_to_asset_info h)(rid \<mapsto> info)\<rparr>),
       deposit_event (handler_into_event cfg (ResourceUpdated rid info))])"

definition remove_resource ::
  "('e, 'l) handler_config \<Rightarrow> origin \<Rightarrow> resource_id \<Rightarrow> ('e, 'l, handler_storage, unit) pallet" where
  "remove_resource cfg o' rid =
     transactional (block
      [ensure_origin (handler_committee_origin cfg) o',
       write_store (\<lambda>h. h\<lparr>resource_to_asset_info := (resource_to_asset_info h)(rid := None)\<rparr>),
       deposit_event (handler_into_event cfg (ResourceRemoved rid))])"

datatype handler_call =
    SetResource resource_id asset_info
  | RemoveResource resource_id

fun run_handler_call ::
  "('e, 'l) handler_config \<Rightarrow> handler_call \<Rightarrow> origin \<Rightarrow> ('e, 'l, handler_storage, unit) pallet" where
  "run_handler_call cfg (SetResource r i) o' = set_resource cfg o' r i"
| "run_handler_call cfg (RemoveResource r) o' = remove_resource cfg o' r"

section \<open>The bridge handler\<close>

text \<open>
  The source matches on the asset and calls \<open>pallet_balances\<close> or \<open>pallet_assets\<close>; \<open>token\<close> makes
  that choice.
\<close>

definition token_bridge_in ::
  "('e, 'l) handler_config \<Rightarrow> resource_id \<Rightarrow> account_id \<Rightarrow> balance \<Rightarrow> ('e, 'l, handler_storage, balance) pallet" where
  "token_bridge_in cfg rid who amount =
     bindE (read_store (\<lambda>h. resource_to_asset_info h rid)) (\<lambda>info.
     case info of
       None \<Rightarrow> throw (handler_err InvalidResourceId)
     | Some i \<Rightarrow>
         thenE (deposit_event (handler_into_event cfg (TokenBridgeIn (asset i) who amount)))
         (on_ledger (tk_mint_into (token (handler_tokens cfg) (asset i)) who amount)))"

definition token_bridge_out ::
  "('e, 'l) handler_config \<Rightarrow> resource_id \<Rightarrow> account_id \<Rightarrow> balance \<Rightarrow> ('e, 'l, handler_storage, balance) pallet" where
  "token_bridge_out cfg rid who amount =
     bindE (read_store (\<lambda>h. resource_to_asset_info h rid)) (\<lambda>info.
     case info of
       None \<Rightarrow> throw (handler_err InvalidResourceId)
     | Some i \<Rightarrow>
         thenE (deposit_event (handler_into_event cfg (TokenBridgeOut (asset i) who amount (fee i))))
         (bindE (on_ledger (tk_burn_from (token (handler_tokens cfg) (asset i)) who amount)) (\<lambda>burn_amount.
          thenE (ensure (burn_amount > fee i) (handler_err CannotPayAsFee))
          (bindE (on_ledger (tk_mint_into (token (handler_tokens cfg) (asset i)) (handler_treasury cfg) (fee i))) (\<lambda>_.
          ok_or (checked_sub burn_amount (fee i)) (Arithmetic Overflow))))))"

definition assets_handler :: "('e, 'l) handler_config \<Rightarrow> ('e, 'l, handler_storage) bridge_handler_ops" where
  "assets_handler cfg = \<lparr>prepare_token_bridge_in = token_bridge_in cfg,
     prepare_token_bridge_out = token_bridge_out cfg\<rparr>"

lemma assets_handler_simps [simp]:
  "prepare_token_bridge_in (assets_handler cfg) = token_bridge_in cfg"
  "prepare_token_bridge_out (assets_handler cfg) = token_bridge_out cfg"
  by (simp_all add: assets_handler_def)

section \<open>Runs\<close>

lemma set_resource_run:
  "set_resource cfg o' rid info w =
    (if \<not> handler_committee_origin cfg o' then (Inl BadOrigin, w)
     else (Inr (), w\<lparr>events := events w @ [handler_into_event cfg (ResourceUpdated rid info)],
       store := (store w)\<lparr>resource_to_asset_info := (resource_to_asset_info (store w))(rid \<mapsto> info)\<rparr>\<rparr>))"
  by (auto simp: set_resource_def transactional_run exec_eval)

lemma remove_resource_run:
  "remove_resource cfg o' rid w =
    (if \<not> handler_committee_origin cfg o' then (Inl BadOrigin, w)
     else (Inr (), w\<lparr>events := events w @ [handler_into_event cfg (ResourceRemoved rid)],
       store := (store w)\<lparr>resource_to_asset_info := (resource_to_asset_info (store w))(rid := None)\<rparr>\<rparr>))"
  by (auto simp: remove_resource_def transactional_run exec_eval)

lemma token_bridge_in_ok:
  "token_bridge_in cfg rid who amount w = (Inr x, w') \<longleftrightarrow>
    (\<exists>i l. resource_to_asset_info (store w) rid = Some i \<and>
       tk_mint_into (token (handler_tokens cfg) (asset i)) who amount (ledger w) = (Inr x, l) \<and>
       w' = w\<lparr>events := events w @ [handler_into_event cfg (TokenBridgeIn (asset i) who amount)], ledger := l\<rparr>)"
  by (auto simp: token_bridge_in_def exec_ok split: option.splits)

lemma token_bridge_out_ok:
  "token_bridge_out cfg rid who amount w = (Inr x, w') \<longleftrightarrow>
    (\<exists>i b l y l'. resource_to_asset_info (store w) rid = Some i \<and>
       tk_burn_from (token (handler_tokens cfg) (asset i)) who amount (ledger w) = (Inr b, l) \<and> fee i < b \<and>
       tk_mint_into (token (handler_tokens cfg) (asset i)) (handler_treasury cfg) (fee i) l = (Inr y, l') \<and>
       x = b - fee i \<and>
       w' = w\<lparr>events := events w @ [handler_into_event cfg (TokenBridgeOut (asset i) who amount (fee i))], ledger := l'\<rparr>)"
  by (auto simp: token_bridge_out_def exec_ok checked_sub_def split: option.splits if_splits)

text \<open>The contract of \<open>BridgeHandler\<close>, for every configuration of the pallet.\<close>

definition info_of :: "handler_storage \<Rightarrow> resource_id \<Rightarrow> (asset_id option \<times> balance) option" where
  "info_of h rid = map_option (\<lambda>i. (asset i, fee i)) (resource_to_asset_info h rid)"

interpretation ah: bridge_handler "assets_handler cfg" info_of "handler_tokens cfg" "handler_treasury cfg"
  for cfg :: "('e, 'l) handler_config"
  by unfold_locales (fastforce simp: token_bridge_in_ok token_bridge_out_ok info_of_def)+

lemma handler_err_eq [simp]: "handler_err e = handler_err e' \<longleftrightarrow> e = e'"
  by (cases e; cases e') (simp_all add: handler_err_def)

text \<open>The failing branches of \<open>token_bridge_out\<close>, for a ledger that keeps the laws.\<close>

lemma token_bridge_out_error:
  assumes "token_laws (handler_tokens cfg)" and run: "token_bridge_out cfg rid who amount w = (Inl e, w')"
  shows "(resource_to_asset_info (store w) rid = None \<and> e = handler_err InvalidResourceId) \<or>
    (\<exists>i. resource_to_asset_info (store w) rid = Some i \<and>
      ((\<exists>l. tk_burn_from (token (handler_tokens cfg) (asset i)) who amount (ledger w) = (Inl e, l)) \<or>
       amount \<le> fee i \<and> e = handler_err CannotPayAsFee \<or>
       (\<exists>l l'. tk_mint_into (token (handler_tokens cfg) (asset i)) (handler_treasury cfg) (fee i) l = (Inl e, l'))))"
proof (cases "resource_to_asset_info (store w) rid")
  case None
  with run show ?thesis by (simp add: token_bridge_out_def exec_eval)
next
  case (Some i)
  show ?thesis
  proof (cases "tk_burn_from (token (handler_tokens cfg) (asset i)) who amount (ledger w)")
    case (Pair r l)
    moreover from Pair have "r = Inr b \<Longrightarrow> b = amount" for b
      by (auto dest: burn_lawD(1) [OF assms(1)])
    ultimately show ?thesis
      using Some run
      by (cases r) (auto simp: token_bridge_out_def exec_eval bindE_run on_ledger_def checked_sub_def
          not_less split: prod.splits sum.splits if_splits)
  qed
qed

end
