(* ===== verification/Template_Pallet.thy ===== *)
theory Template_Pallet
  imports Evm_Support Bridge_Transfer
begin

text \<open>
  Two small parts: the pallet of \<open>pallets/template/src/lib.rs\<close>, a stored number with a setter and an
  increment, with its precompile \<open>precompiles/template/src/lib.rs\<close>, and the precompile of the bridge
  transfer, \<open>precompiles/bridge-transfer/src/lib.rs\<close>.
\<close>

section \<open>The pallet\<close>

record template_storage =
  something :: "u32 option"

definition empty_template_storage :: template_storage where
  "empty_template_storage = \<lparr>something = None\<rparr>"

datatype template_event = SomethingStored u32 account_id

datatype template_error = NoneValue | StorageOverflow

primrec template_error_index :: "template_error \<Rightarrow> nat" where
  "template_error_index NoneValue = 0"
| "template_error_index StorageOverflow = 1"

text \<open>\<open>Template: pallet_template = 15\<close>.\<close>

definition template_err :: "template_error \<Rightarrow> dispatch_error" where
  "template_err e = ModuleError 15 (template_error_index e)"

definition do_something ::
  "(template_event \<Rightarrow> 'e) \<Rightarrow> origin \<Rightarrow> u32 \<Rightarrow> ('e, 'l, template_storage, unit) pallet" where
  "do_something into_event o' v =
     transactional
      (bindE (ensure_signed o') (\<lambda>who.
       block
        [write_store (\<lambda>s. s\<lparr>something := Some v\<rparr>),
         deposit_event (into_event (SomethingStored v who))]))"

definition cause_error :: "origin \<Rightarrow> ('e, 'l, template_storage, unit) pallet" where
  "cause_error o' =
     transactional
      (bindE (ensure_signed o') (\<lambda>_.
       bindE (read_store something) (\<lambda>old.
       case old of
         None \<Rightarrow> throw (template_err NoneValue)
       | Some n \<Rightarrow>
           bindE (ok_or (checked_add n 1) (template_err StorageOverflow)) (\<lambda>new.
           write_store (\<lambda>s. s\<lparr>something := Some new\<rparr>)))))"

datatype template_call = DoSomething u32 | CauseError

fun run_template_call ::
  "(template_event \<Rightarrow> 'e) \<Rightarrow> template_call \<Rightarrow> origin \<Rightarrow> ('e, 'l, template_storage, unit) pallet" where
  "run_template_call into_event (DoSomething v) o' = do_something into_event o' v"
| "run_template_call into_event CauseError o' = cause_error o'"

lemma template_call_run:
  "run_template_call into_event c o' w = (case o' of
     Signed who \<Rightarrow> (case c of
        DoSomething v \<Rightarrow> (Inr (), w\<lparr>store := (store w)\<lparr>something := Some v\<rparr>, events := events w @ [into_event (SomethingStored v who)]\<rparr>)
      | CauseError \<Rightarrow> (case something (store w) of
           None \<Rightarrow> (Inl (template_err NoneValue), w)
         | Some n \<Rightarrow> if n = - 1 then (Inl (template_err StorageOverflow), w)
             else (Inr (), w\<lparr>store := (store w)\<lparr>something := Some (n + 1)\<rparr>\<rparr>)))
   | _ \<Rightarrow> (Inl BadOrigin, w))"
proof -
  have add: "checked_add n 1 = (if n = - 1 then None else Some (n + 1))" for n :: u32
  proof (cases "n = - 1")
    case True
    then show ?thesis by (simp add: checked_add_def unsigned_minus_1_eq_mask mask_eq_exp_minus_1)
  next
    case False
    then have "unat n \<noteq> 4294967295"
      by (simp add: word_unat_eq_iff unsigned_minus_1_eq_mask mask_eq_exp_minus_1)
    moreover have "unat n < 2 ^ LENGTH(32)" by (rule unsigned_less)
    ultimately have "unat n + 1 < 4294967296" by simp
    with False show ?thesis by (simp add: checked_add_def)
  qed
  show ?thesis
    by (cases o'; cases c; cases "something (store w)")
       (simp_all add: do_something_def cause_error_def transactional_run exec_eval add)
qed

section \<open>Its precompile\<close>

definition selector_log_something :: log_topic where
  "selector_log_something = Selector ''SomethingStored(address,uint32)''"

definition do_something_inner ::
  "('h, 'c, 'w) evm_host \<Rightarrow> (template_call \<Rightarrow> 'c) \<Rightarrow> u32 \<Rightarrow> ('h, 'w, unit) precompile" where
  "do_something_inner host into_call v =
     bindE (caller host) (\<lambda>c. try_dispatch host (into_account_id host c) (into_call (DoSomething v)))"

definition do_something_precompile ::
  "('h, 'c, 'w) evm_host \<Rightarrow> (template_call \<Rightarrow> 'c) \<Rightarrow> u32 \<Rightarrow> ('h, 'w, unit) precompile" where
  "do_something_precompile host into_call v =
     thenE (do_something_inner host into_call v)
     (thenE (record_log_costs host 2 4)
     (bindE (own_address host) (\<lambda>a.
      bindE (caller host) (\<lambda>c.
      record_log host \<lparr>log_address = a, log_topics = [selector_log_something, AddressTopic c],
        log_data = UintData (ucast v)\<rparr>))))"

definition cause_error_precompile ::
  "('h, 'c, 'w) evm_host \<Rightarrow> (template_call \<Rightarrow> 'c) \<Rightarrow> ('h, 'w, unit) precompile" where
  "cause_error_precompile host into_call =
     bindE (caller host) (\<lambda>c. try_dispatch host (into_account_id host c) (into_call CauseError))"

section \<open>The precompile of the bridge transfer\<close>

text \<open>The resource id arrives as an \<open>H256\<close>, the same 32 bytes.\<close>

definition transfer_assets_precompile ::
  "('h, 'c, 'w) evm_host \<Rightarrow> (transfer_call \<Rightarrow> 'c) \<Rightarrow> u256 \<Rightarrow> u8 \<Rightarrow> u8 list \<Rightarrow> bytes \<Rightarrow> ('h, 'w, unit) precompile" where
  "transfer_assets_precompile host into_call a dest_id rid recipient =
     bindE (caller host) (\<lambda>c.
     bindE (fits_or_revert a ''balance type'') (\<lambda>amt.
     try_dispatch host (into_account_id host c) (into_call (TransferAssets amt recipient dest_id rid))))"

lemma transfer_assets_precompile_ok:
  assumes "host_laws host run" "transfer_assets_precompile host into_call a d r to' p = (Inr u, q)"
  shows "\<exists>amt. unat (amt :: balance) = unat a \<and>
    run (into_call (TransferAssets amt to' d r)) (Signed (into_account_id host (caller_of host (fst p)))) (snd p) = (Inr (), snd q)"
  using assms(2)
  by (auto simp: transfer_assets_precompile_def exec_ok dest!: try_dispatchD(2) [OF assms(1)])

lemma template_precompile_ok:
  assumes "host_laws host run" "do_something_precompile host into_call v p = (Inr u, q)"
  shows "run (into_call (DoSomething v)) (Signed (into_account_id host (caller_of host (fst p)))) (snd p) = (Inr (), snd q)"
proof -
  from assms(2) obtain p1 p2 where
    d: "try_dispatch host (into_account_id host (caller_of host (fst p))) (into_call (DoSomething v)) p = (Inr (), p1)" and
    l: "record_log_costs host 2 4 p1 = (Inr (), p2)"
      "record_log host \<lparr>log_address = address_of host (fst p2), log_topics = [selector_log_something, AddressTopic (caller_of host (fst p2))],
        log_data = UintData (ucast v)\<rparr> p2 = (Inr u, q)"
    by (auto simp: do_something_precompile_def do_something_inner_def exec_ok)
  have "snd q = snd p1"
    using step_okD [OF host_steps_ok(2) [OF assms(1)] l(1)] step_okD [OF host_steps_ok(3) [OF assms(1)] l(2)] by simp
  with try_dispatchD(2) [OF assms(1) d] show ?thesis by simp
qed

end
