(* ===== verification/Call_Weights.thy ===== *)
theory Call_Weights
  imports Halving_Mint Assets_Handler Template_Pallet Stable_Staking
begin

text \<open>
  What a call costs before it runs: the weight functions of \<open>pallets/bridge/src/weights.rs\<close>,
  \<open>pallets/bridge-transfer/src/weights.rs\<close> and \<open>pallets/template/src/weights.rs\<close>, and the
  \<open>#[pallet::weight(..)]\<close> annotations of all pallets, from which \<open>get_dispatch_info\<close> is made. The
  weight of a database access is a parameter (\<open>T::DbWeight\<close>, \<open>RocksDbWeight\<close> of \<open>frame_support\<close>).
\<close>

section \<open>Dispatch information\<close>

datatype dispatch_class = Normal | Operational | Mandatory

record dispatch_info =
  info_weight :: weight
  info_class :: dispatch_class
  pays_fee :: bool

definition from_parts :: "u64 \<Rightarrow> u64 \<Rightarrow> weight" where
  "from_parts t p = \<lparr>ref_time = t, proof_size = p\<rparr>"

text \<open>The value of an annotation: a weight alone, a number alone, or a pair with a class; all pay the fee.\<close>

definition weight_info :: "weight \<Rightarrow> dispatch_info" where
  "weight_info w = \<lparr>info_weight = w, info_class = Normal, pays_fee = True\<rparr>"

definition classified_info :: "weight \<Rightarrow> dispatch_class \<Rightarrow> dispatch_info" where
  "classified_info w c = \<lparr>info_weight = w, info_class = c, pays_fee = True\<rparr>"

record db_weight =
  db_reads :: "u64 \<Rightarrow> weight"
  db_writes :: "u64 \<Rightarrow> weight"

section \<open>Weights of the bridge\<close>

record bridge_weight_info =
  w_set_threshold :: weight
  w_whitelist_chain :: weight
  w_add_relayer :: weight
  w_remove_relayer :: weight
  w_acknowledge_proposal :: weight
  w_reject_proposal :: weight
  w_eval_vote_state :: weight

definition bridge_litentry_weight :: "db_weight \<Rightarrow> bridge_weight_info" where
  "bridge_litentry_weight db =
     \<lparr>w_set_threshold = weight_add (from_parts 12574000 0) (db_writes db 1),
      w_whitelist_chain = weight_add (weight_add (from_parts 15179000 0) (db_reads db 1)) (db_writes db 1),
      w_add_relayer = weight_add (weight_add (from_parts 17723000 0) (db_reads db 2)) (db_writes db 2),
      w_remove_relayer = weight_add (weight_add (from_parts 18956000 0) (db_reads db 2)) (db_writes db 2),
      w_acknowledge_proposal = weight_add (weight_add (from_parts 45447000 0) (db_reads db 6)) (db_writes db 1),
      w_reject_proposal = weight_add (weight_add (from_parts 39255000 0) (db_reads db 6)) (db_writes db 1),
      w_eval_vote_state = weight_add (weight_add (from_parts 15891000 0) (db_reads db 3)) (db_writes db 1)\<rparr>"

text \<open>\<open>impl WeightInfo for ()\<close>, with the constants of RocksDB.\<close>

definition bridge_unit_weight :: "db_weight \<Rightarrow> bridge_weight_info" where
  "bridge_unit_weight rocks =
     \<lparr>w_set_threshold = weight_add (from_parts 12574000 0) (db_writes rocks 1),
      w_whitelist_chain = weight_add (weight_add (from_parts 15179000 0) (db_reads rocks 1)) (db_writes rocks 1),
      w_add_relayer = weight_add (weight_add (from_parts 17723000 0) (db_reads rocks 2)) (db_writes rocks 2),
      w_remove_relayer = weight_add (weight_add (from_parts 18956000 0) (db_reads rocks 2)) (db_writes rocks 2),
      w_acknowledge_proposal = weight_add (weight_add (from_parts 45447000 0) (db_reads rocks 6)) (db_writes rocks 1),
      w_reject_proposal = weight_add (weight_add (from_parts 39255000 0) (db_reads rocks 6)) (db_writes rocks 1),
      w_eval_vote_state = weight_add (weight_add (from_parts 15891000 0) (db_reads rocks 3)) (db_writes rocks 1)\<rparr>"

text \<open>
  The annotations of the bridge. Votes in favour and evaluations add the weight of the proposal and
  take its class; a vote against counts for itself alone.
\<close>

fun bridge_dispatch_info ::
  "bridge_weight_info \<Rightarrow> ('c \<Rightarrow> dispatch_info) \<Rightarrow> 'c bridge_call \<Rightarrow> dispatch_info" where
  "bridge_dispatch_info wi info (SetThreshold t) = weight_info (w_set_threshold wi)"
| "bridge_dispatch_info wi info (WhitelistChain i) = weight_info (w_whitelist_chain wi)"
| "bridge_dispatch_info wi info (AddRelayer a) = weight_info (w_add_relayer wi)"
| "bridge_dispatch_info wi info (RemoveRelayer a) = weight_info (w_remove_relayer wi)"
| "bridge_dispatch_info wi info (AcknowledgeProposal n s r p) =
     classified_info (weight_add (w_acknowledge_proposal wi) (info_weight (info p))) (info_class (info p))"
| "bridge_dispatch_info wi info (RejectProposal n s r p) = weight_info (w_reject_proposal wi)"
| "bridge_dispatch_info wi info (EvalVoteState n s p) =
     classified_info (weight_add (w_eval_vote_state wi) (info_weight (info p))) (info_class (info p))"

section \<open>Weights of the transfer pallet and the template\<close>

record transfer_weight_info =
  w_transfer_assets :: weight
  w_transfer :: weight

definition transfer_litentry_weight :: "db_weight \<Rightarrow> transfer_weight_info" where
  "transfer_litentry_weight db =
     \<lparr>w_transfer_assets = weight_add (weight_add (from_parts 59963000 0) (db_reads db 6)) (db_writes db 5),
      w_transfer = weight_add (weight_add (from_parts 29134000 0) (db_reads db 3)) (db_writes db 2)\<rparr>"

definition transfer_unit_weight :: "db_weight \<Rightarrow> transfer_weight_info" where
  "transfer_unit_weight rocks =
     \<lparr>w_transfer_assets = weight_add (weight_add (from_parts 59963000 0) (db_reads rocks 6)) (db_writes rocks 5),
      w_transfer = weight_add (weight_add (from_parts 29134000 0) (db_reads rocks 3)) (db_writes rocks 2)\<rparr>"

fun transfer_dispatch_info :: "transfer_weight_info \<Rightarrow> transfer_call \<Rightarrow> dispatch_info" where
  "transfer_dispatch_info wi (TransferAssets a r d i) = weight_info (w_transfer_assets wi)"
| "transfer_dispatch_info wi (Transfer t a i) = weight_info (w_transfer wi)"

record template_weight_info =
  w_do_something :: weight
  w_cause_error :: weight

definition template_substrate_weight :: "db_weight \<Rightarrow> template_weight_info" where
  "template_substrate_weight db =
     \<lparr>w_do_something = weight_add (from_parts 9000000 0) (db_writes db 1),
      w_cause_error = weight_add (weight_add (from_parts 6000000 1489) (db_reads db 1)) (db_writes db 1)\<rparr>"

definition template_unit_weight :: "db_weight \<Rightarrow> template_weight_info" where
  "template_unit_weight rocks =
     \<lparr>w_do_something = weight_add (from_parts 9000000 0) (db_writes rocks 1),
      w_cause_error = weight_add (weight_add (from_parts 6000000 1489) (db_reads rocks 1)) (db_writes rocks 1)\<rparr>"

fun template_dispatch_info :: "template_weight_info \<Rightarrow> template_call \<Rightarrow> dispatch_info" where
  "template_dispatch_info wi (DoSomething v) = weight_info (w_do_something wi)"
| "template_dispatch_info wi CauseError = weight_info (w_cause_error wi)"

section \<open>Pallets with constant weights\<close>

fun mint_dispatch_info :: "mint_call \<Rightarrow> dispatch_info" where
  "mint_dispatch_info (SetMintState s) = classified_info (from_parts 195000000 0) Normal"
| "mint_dispatch_info (SetOnTokenMintedState s) = classified_info (from_parts 195000000 0) Normal"
| "mint_dispatch_info StartMintFromNextBlock = classified_info (from_parts 195000000 0) Normal"
| "mint_dispatch_info (StartMintFromBlock n) = classified_info (from_parts 195000000 0) Normal"

fun handler_dispatch_info :: "handler_call \<Rightarrow> dispatch_info" where
  "handler_dispatch_info (SetResource r i) = weight_info (from_parts 1000 0)"
| "handler_dispatch_info (RemoveResource r) = weight_info (from_parts 1000 0)"

fun staking_dispatch_info :: "staking_call \<Rightarrow> dispatch_info" where
  "staking_dispatch_info (CreateStakingPool p s) = weight_info (from_parts 1000 0)"
| "staking_dispatch_info (UpdateMetadata p n d) = weight_info (from_parts 1000 0)"
| "staking_dispatch_info (UpdateReward p e r) = weight_info (from_parts 1000 0)"
| "staking_dispatch_info (Stake p a) = weight_info (from_parts 1000 0)"
| "staking_dispatch_info SolvePendingStake = weight_info (from_parts 1000 0)"
| "staking_dispatch_info (ClaimNative n) = weight_info (from_parts 1000 0)"
| "staking_dispatch_info (ClaimStable p n) = weight_info (from_parts 1000 0)"
| "staking_dispatch_info (Withdraw p) = weight_info (from_parts 1000 0)"
| "staking_dispatch_info (RegistAiusd i) = weight_info (from_parts 1000 0)"

section \<open>The order of weights\<close>

text \<open>\<open>all_lte\<close>: both components at most.\<close>

definition weight_le :: "weight \<Rightarrow> weight \<Rightarrow> bool" where
  "weight_le v w \<longleftrightarrow> ref_time v \<le> ref_time w \<and> proof_size v \<le> proof_size w"

lemma saturating_add_ge: "a \<le> saturating_add a b" "b \<le> saturating_add a b" for a b :: "'a::len word"
proof -
  have "unat x \<le> 2 ^ LENGTH('a) - 1" for x :: "'a word"
    using unsigned_less [of x, where ?'a = nat] by linarith
  then show "a \<le> saturating_add a b" "b \<le> saturating_add a b"
    by (simp_all add: word_le_nat_alt unat_saturating_add)
qed

lemma weight_add_ge: "weight_le v (weight_add v w)" "weight_le w (weight_add v w)"
  by (simp_all add: weight_le_def weight_add_def saturating_add_ge)

lemma weight_le_refl [simp]: "weight_le w w"
  by (simp add: weight_le_def)

lemma weight_le_trans: "weight_le u v \<Longrightarrow> weight_le v w \<Longrightarrow> weight_le u w"
  by (auto simp: weight_le_def)

lemmas info_simps [simp] = weight_info_def classified_info_def

text \<open>Where a runtime's database weights are those of RocksDB, both weight tables agree.\<close>

lemma unit_weights_agree:
  "bridge_unit_weight = bridge_litentry_weight" "transfer_unit_weight = transfer_litentry_weight"
  "template_unit_weight = template_substrate_weight"
  by (simp_all add: fun_eq_iff bridge_unit_weight_def bridge_litentry_weight_def transfer_unit_weight_def
      transfer_litentry_weight_def template_unit_weight_def template_substrate_weight_def)

end
