(* ===== verification/Runtime_Config.thy ===== *)
theory Runtime_Config
  imports Erc20_Precompile Call_Weights
begin

text \<open>
  The constants of \<open>runtime/src/lib.rs\<close>, its conversion between asset ids and EVM addresses, the
  block author as an EVM address, and the precompile table of \<open>runtime/src/precompiles.rs\<close>.
\<close>

section \<open>Constants\<close>

definition UNIT :: balance where "UNIT = 1000000000000000000"
definition DOLLARS :: balance where "DOLLARS = UNIT"
definition CENTS :: balance where "CENTS = DOLLARS div 100"
definition MILLICENTS :: balance where "MILLICENTS = CENTS div 1000"
definition EXISTENTIAL_DEPOSIT :: balance where "EXISTENTIAL_DEPOSIT = 10 * CENTS"

definition MILLISECS_PER_BLOCK :: u64 where "MILLISECS_PER_BLOCK = 6000"
definition SLOT_DURATION :: u64 where "SLOT_DURATION = MILLISECS_PER_BLOCK"
definition minimum_period :: u64 where "minimum_period = SLOT_DURATION div 2"

definition MINUTES :: u32 where "MINUTES = 60000 div ucast MILLISECS_PER_BLOCK"
definition HOURS :: u32 where "HOURS = MINUTES * 60"
definition DAYS :: u32 where "DAYS = HOURS * 24"
definition YEARS :: u32 where "YEARS = HOURS * 8766"

definition BLOCK_GAS_LIMIT :: u64 where "BLOCK_GAS_LIMIT = 75000000"
definition MAX_POV_SIZE :: u64 where "MAX_POV_SIZE = 5 * 1024 * 1024"

text \<open>\<open>saturating_div\<close> of unsigned integers is the division.\<close>

definition gas_limit_pov_size_ratio :: u64 where "gas_limit_pov_size_ratio = BLOCK_GAS_LIMIT div MAX_POV_SIZE"
definition block_gas_limit :: u256 where "block_gas_limit = ucast BLOCK_GAS_LIMIT"

definition deposit :: "u32 \<Rightarrow> u32 \<Rightarrow> balance" where
  "deposit items bytes = ucast items * UNIT + ucast bytes * UNIT"

definition asset_deposit :: balance where "asset_deposit = 1000000000000000000"
definition assets_string_limit_value :: u32 where "assets_string_limit_value = 50"
definition metadata_deposit_base :: balance where "metadata_deposit_base = deposit 1 68"
definition metadata_deposit_per_byte :: balance where "metadata_deposit_per_byte = deposit 0 1"
definition asset_account_deposit :: balance where "asset_account_deposit = deposit 1 18"

definition bridge_chain_id_value :: u8 where "bridge_chain_id_value = 2"
definition proposal_lifetime_value :: u32 where "proposal_lifetime_value = 50400"
definition halving_interval_value :: u32 where "halving_interval_value = 5 * YEARS"
definition total_issuance_value :: balance where "total_issuance_value = 21000000 * UNIT"
definition pool_string_limit_value :: u32 where "pool_string_limit_value = 100"

text \<open>Pallet ids, eight bytes each; the bridge's own id is fixed in its source.\<close>

definition ascii :: "string \<Rightarrow> bytes" where
  "ascii s = map (\<lambda>c. word_of_nat (of_char c)) s"

definition treasury_pallet_id :: bytes where "treasury_pallet_id = ascii ''can/bdge''"
definition halving_mint_id :: bytes where "halving_mint_id = ascii ''can/hlvm''"
definition staking_pool_id :: bytes where "staking_pool_id = ascii ''can/stpl''"
definition bridge_module_id :: bytes where "bridge_module_id = ascii ''litry/bg''"

lemmas runtime_constants = UNIT_def DOLLARS_def CENTS_def MILLICENTS_def EXISTENTIAL_DEPOSIT_def
  MILLISECS_PER_BLOCK_def SLOT_DURATION_def minimum_period_def MINUTES_def HOURS_def DAYS_def YEARS_def
  BLOCK_GAS_LIMIT_def MAX_POV_SIZE_def gas_limit_pov_size_ratio_def deposit_def proposal_lifetime_value_def
  halving_interval_value_def total_issuance_value_def

lemma constant_values:
  "MINUTES = 10" "HOURS = 600" "DAYS = 14400" "YEARS = 5259600" "EXISTENTIAL_DEPOSIT = 100000000000000000"
  "halving_interval_value = 26298000" "gas_limit_pov_size_ratio = 14"
  by (simp_all add: runtime_constants)

section \<open>Bytes\<close>

text \<open>\<open>to_be_bytes\<close> and \<open>from_be_bytes\<close>, over the number a word stands for.\<close>

fun to_be :: "nat \<Rightarrow> nat \<Rightarrow> bytes" where
  "to_be 0 x = []"
| "to_be (Suc n) x = to_be n (x div 256) @ [word_of_nat x]"

definition from_be :: "bytes \<Rightarrow> nat" where
  "from_be bs = foldl (\<lambda>a b. 256 * a + unat b) 0 bs"

lemma from_be_snoc [simp]: "from_be [] = 0" "from_be (bs @ [b]) = 256 * from_be bs + unat b"
  by (simp_all add: from_be_def)

lemma length_to_be [simp]: "length (to_be n x) = n"
  by (induction n arbitrary: x) simp_all

lemma from_to_be: "from_be (to_be n x) = x mod 256 ^ n"
proof (induction n arbitrary: x)
  case (Suc n)
  have "unat (word_of_nat x :: u8) = x mod 256"
    by (simp add: unsigned_of_nat take_bit_eq_mod)
  moreover have "256 * (x div 256 mod 256 ^ n) + x mod 256 = x mod (256 * 256 ^ n)"
    by (simp add: mod_mult2_eq)
  ultimately show ?case by (simp add: Suc.IH)
qed simp

lemma byte_less: "unat (b :: u8) < 256"
proof -
  have "unat b < 2 ^ LENGTH(8)" by (rule unsigned_less)
  then show ?thesis by simp
qed

lemma to_from_be: "to_be (length bs) (from_be bs) = bs"
proof (induction bs rule: rev_induct)
  case (snoc b bs)
  have "(256 * from_be bs + unat b) div 256 = from_be bs"
    using byte_less [of b] by simp
  moreover have "(word_of_nat (256 * from_be bs + unat b) :: u8) = b"
  proof -
    have "unat (word_of_nat (256 * from_be bs + unat b) :: u8) = (256 * from_be bs + unat b) mod 256"
      by (simp add: unsigned_of_nat take_bit_eq_mod del: of_nat_add of_nat_mult)
    also have "\<dots> = unat b" using byte_less [of b] by simp
    finally show ?thesis by (rule unsigned_word_eqI)
  qed
  ultimately show ?case using snoc.IH by simp
qed simp

lemma from_be_less: "from_be bs < 256 ^ length bs"
proof (induction bs rule: rev_induct)
  case (snoc b bs)
  then have "256 * from_be bs + unat b < 256 * (from_be bs + 1)" using byte_less [of b] by simp
  also have "\<dots> \<le> 256 * 256 ^ length bs" using snoc.IH by simp
  finally show ?case by simp
qed simp

lemma to_be_append: "to_be (m + n) x = to_be m (x div 256 ^ n) @ to_be n x"
proof (induction n arbitrary: x)
  case (Suc n)
  then show ?case by (simp add: div_mult2_eq)
qed simp

section \<open>Asset addresses\<close>

definition asset_precompile_address_prefix :: bytes where
  "asset_precompile_address_prefix = replicate 4 255"

definition address_to_asset_id :: "h160 \<Rightarrow> asset_id option" where
  "address_to_asset_id address =
     (let address_bytes = to_be 20 (unat address) in
      if asset_precompile_address_prefix = take 4 address_bytes
      then Some (word_of_nat (from_be (drop 4 address_bytes)))
      else None)"

definition asset_id_to_address :: "asset_id \<Rightarrow> h160" where
  "asset_id_to_address i = word_of_nat (from_be (asset_precompile_address_prefix @ to_be 16 (unat i)))"

lemma prefix_length [simp]: "length asset_precompile_address_prefix = 4"
  by (simp add: asset_precompile_address_prefix_def)

lemma u160_less: "unat (a :: u160) < 256 ^ 20"
proof -
  have "unat a < 2 ^ LENGTH(160)" by (rule unsigned_less)
  then show ?thesis by simp
qed

lemma asset_u128_less: "unat (a :: u128) < 256 ^ 16"
proof -
  have "unat a < 2 ^ LENGTH(128)" by (rule unsigned_less)
  then show ?thesis by simp
qed

lemma asset_address_bytes: "to_be 20 (unat (asset_id_to_address i)) = asset_precompile_address_prefix @ to_be 16 (unat i)"
proof -
  let ?bs = "asset_precompile_address_prefix @ to_be 16 (unat i)"
  have l: "length ?bs = 20" by simp
  have "from_be ?bs < 256 ^ 20" using from_be_less [of ?bs] unfolding l .
  then have "unat (asset_id_to_address i) = from_be ?bs"
    by (simp add: asset_id_to_address_def unat_word_of_nat)
  then show ?thesis using to_from_be [of ?bs] unfolding l by simp
qed

interpretation rt_assets: asset_addresses address_to_asset_id asset_id_to_address
proof
  fix a :: asset_id
  show "address_to_asset_id (asset_id_to_address a) = Some a"
    using asset_u128_less [of a]
    by (simp add: address_to_asset_id_def asset_address_bytes from_to_be)
next
  fix x a
  assume x: "address_to_asset_id x = Some a"
  let ?bs = "to_be 20 (unat x)"
  from x have p: "take 4 ?bs = asset_precompile_address_prefix" and a: "a = word_of_nat (from_be (drop 4 ?bs))"
    by (auto simp: address_to_asset_id_def Let_def split: if_splits)
  have l: "length (drop 4 ?bs) = 16" by simp
  have "from_be (drop 4 ?bs) < 256 ^ 16" using from_be_less [of "drop 4 ?bs"] unfolding l .
  then have "unat a = from_be (drop 4 ?bs)" by (simp add: a unat_word_of_nat)
  then have "to_be 16 (unat a) = drop 4 ?bs" using to_from_be [of "drop 4 ?bs"] unfolding l by simp
  then have "asset_precompile_address_prefix @ to_be 16 (unat a) = ?bs"
    by (simp flip: p)
  then show "asset_id_to_address a = x"
    using u160_less [of x] by (simp add: asset_id_to_address_def from_to_be)
qed

section \<open>The block author\<close>

text \<open>
  \<open>find_author\<close> of Aura answers an index; the author's EVM address is bytes 4 to 24 of its key. The
  index and the slice panic out of range.
\<close>

datatype author_panic = IndexOutOfBounds

definition find_author_truncated ::
  "('d \<Rightarrow> u32 option) \<Rightarrow> bytes list \<Rightarrow> 'd \<Rightarrow> author_panic + h160 option" where
  "find_author_truncated find_author authorities digests =
     (case find_author digests of
        None \<Rightarrow> Inr None
      | Some i \<Rightarrow>
          if unat i < length authorities then
            let raw = authorities ! unat i in
            if 24 \<le> length raw then Inr (Some (word_of_nat (from_be (take 20 (drop 4 raw)))))
            else Inl IndexOutOfBounds
          else Inl IndexOutOfBounds)"

section \<open>The precompile table\<close>

datatype precompile_check = AcceptDelegateCall | CallableByContract | CallableByPrecompile

datatype precompile_name =
    ECRecover | Sha256 | Ripemd160 | Identity | Modexp | Bn128Add | Bn128Mul | Bn128Pairing | Blake2F
  | Sha3FIPS256 | Dispatch | ECRecoverPublicKey | Ed25519Verify
  | StableStakingPrecompile | BridgeTransferPrecompile

definition ethereum_checks :: "precompile_check list" where
  "ethereum_checks = [AcceptDelegateCall, CallableByContract, CallableByPrecompile]"

definition precompiles_set_at :: "(h160 \<times> precompile_name \<times> precompile_check list) list" where
  "precompiles_set_at =
    [(1, ECRecover, ethereum_checks), (2, Sha256, ethereum_checks), (3, Ripemd160, ethereum_checks),
     (4, Identity, ethereum_checks), (5, Modexp, ethereum_checks), (6, Bn128Add, ethereum_checks),
     (7, Bn128Mul, ethereum_checks), (8, Bn128Pairing, ethereum_checks), (9, Blake2F, ethereum_checks),
     (1024, Sha3FIPS256, [CallableByContract, CallableByPrecompile]),
     (1025, Dispatch, []),
     (1026, ECRecoverPublicKey, [CallableByContract, CallableByPrecompile]),
     (1027, Ed25519Verify, [CallableByContract, CallableByPrecompile]),
     (20481, StableStakingPrecompile, [CallableByContract, CallableByPrecompile]),
     (20482, BridgeTransferPrecompile, [CallableByContract, CallableByPrecompile])]"

datatype precompile_target =
    Fixed precompile_name "precompile_check list"
  | AssetContract asset_id "precompile_check list"
  | RoutingOutOfGas

text \<open>
  The set builder of \<open>precompile_utils\<close>: the fixed addresses, skipped outside their range, then the
  prefixed set, which asks its discriminant for the asset.
\<close>

definition precompile_target_at ::
  "('c, 'w) assets_runtime \<Rightarrow> 'w \<Rightarrow> u64 \<Rightarrow> h160 \<Rightarrow> precompile_target option" where
  "precompile_target_at rt w gas address =
     (let fixed = (if 1 \<le> address \<and> address \<le> 20482 then map_of precompiles_set_at address else None) in
      case fixed of
        Some (n, cs) \<Rightarrow> Some (Fixed n cs)
      | None \<Rightarrow>
          if take 4 (to_be 20 (unat address)) = asset_precompile_address_prefix
          then (case discriminant rt w address gas of
                  DiscriminantSome i _ \<Rightarrow> Some (AssetContract i [CallableByContract])
                | DiscriminantNone _ \<Rightarrow> None | DiscriminantOutOfGas \<Rightarrow> Some RoutingOutOfGas)
          else None)"

section \<open>The dispatch precompile\<close>

datatype validation_error = InvalidCall | CallFilteredOut

text \<open>\<open>DispatchFilterValidate\<close>: paid normal calls that pass the filter, nothing else.\<close>

definition validate_before_dispatch ::
  "('c \<Rightarrow> dispatch_info) \<Rightarrow> ('c \<Rightarrow> bool) \<Rightarrow> account_id \<Rightarrow> 'c \<Rightarrow> validation_error option" where
  "validate_before_dispatch get_dispatch_info contains origin call =
     (let info = get_dispatch_info call;
          paid_normal_call = pays_fee info \<and> info_class info = Normal in
      if \<not> paid_normal_call then Some InvalidCall
      else if contains call then None else Some CallFilteredOut)"

end
