(* ===== verification/Assets_Theorems.thy ===== *)
theory Assets_Theorems
  imports Assets_Handler
begin

text \<open>
  Value over the bridge: what the two dispatchables of \<open>bridge-transfer\<close> do to balances and
  issuance when the tokens are those of \<open>assets-handler\<close>. The statements rest on the handler
  contract, interpreted in \<open>Assets_Handler\<close>, and on the documented laws of the token pallets.
\<close>

section \<open>A configuration to evaluate\<close>

definition sample_handler :: "(unit, book) handler_config" where
  "sample_handler = \<lparr>handler_committee_origin = ensure_root, handler_treasury = 50,
     handler_tokens = book_tokens, handler_into_event = (\<lambda>_. ())\<rparr>"

definition sample_transfer :: "(unit, unit, book, handler_storage) transfer_config" where
  "sample_transfer = \<lparr>transfer_bridge = \<lparr>bridge_committee_origin = ensure_root, bridge_chain_id = 2,
       proposal_lifetime = 100, bridge_account_id = 7, bridge_into_event = (\<lambda>_. ()),
       dispatch_proposal = (\<lambda>_ _. ret ())\<rparr>,
     bridge_origin = (\<lambda>o'. o' = Signed 7), transfer_native_members = (\<lambda>_. True),
     bridge_handler_of = assets_handler sample_handler\<rparr>"

text \<open>Account 1 holds 100 of the token 4, which stands behind the resource \<open>[9]\<close> with fee 3.\<close>

definition sample_ledger :: book where
  "sample_ledger = (\<lambda>a who. if a = Some 4 \<and> who = 1 then 100 else 0, \<lambda>a. if a = Some 4 then 100 else 0)"

definition sample_start :: "(unit, book, unit bridge_storage \<times> handler_storage) frame" where
  "sample_start = \<lparr>block_number = 5, events = [], ledger = sample_ledger,
     store = (empty_bridge_storage\<lparr>chain_nonces := [1 \<mapsto> 0]\<rparr>,
       \<lparr>resource_to_asset_info = [[9] \<mapsto> \<lparr>fee = 3, asset = Some 4\<rparr>]\<rparr>)\<rparr>"

lemma sample_transfer_simps:
  "bridge_handler_of sample_transfer = assets_handler sample_handler"
  "bridge_origin sample_transfer = (\<lambda>o'. o' = Signed 7)"
  "transfer_native_members sample_transfer = (\<lambda>_. True)"
  "handler_tokens sample_handler = book_tokens" "handler_treasury sample_handler = 50"
  by (simp_all add: sample_transfer_def sample_handler_def)

lemma sample_start_simps:
  "store sample_start = (empty_bridge_storage\<lparr>chain_nonces := [1 \<mapsto> 0]\<rparr>,
       \<lparr>resource_to_asset_info = [[9] \<mapsto> \<lparr>fee = 3, asset = Some 4\<rparr>]\<rparr>)"
  "ledger sample_start = sample_ledger"
  by (simp_all add: sample_start_def)

definition sample_sent :: "(unit, book, unit bridge_storage \<times> handler_storage) frame" where
  "sample_sent = snd (transfer_assets sample_transfer (Signed 1) 60 [8] 1 [9] sample_start)"

lemma sample_sent_facts:
  "transfer_assets sample_transfer (Signed 1) 60 [8] 1 [9] sample_start = (Inr (), sample_sent) \<and>
   snd (store sample_sent) = snd (store sample_start) \<and>
   ledger sample_sent = snd (book_mint (Some 4) 50 3 (snd (book_burn (Some 4) 1 60 sample_ledger)))"
proof -
  let ?i = "\<lparr>fee = 3, asset = Some 4\<rparr> :: asset_info"
  let ?l = "snd (book_mint (Some 4) 50 3 (snd (book_burn (Some 4) 1 60 sample_ledger)))"
  have "token_bridge_out sample_handler [9] 1 60 (get_snd sample_start) =
    (Inr 57, (get_snd sample_start)\<lparr>events := [()], ledger := ?l\<rparr>)"
    unfolding token_bridge_out_ok
    by (intro exI [of _ ?i] exI [of _ 60] exI [of _ "snd (book_burn (Some 4) 1 60 sample_ledger)"]
        exI [of _ 3] exI [of _ ?l])
       (simp add: sample_transfer_simps book_defs sample_ledger_def checked_add_def checked_sub_def
        sample_start_def sample_handler_def pair_lens_defs)
  then show ?thesis
    by (simp add: sample_sent_def transfer_assets_run sample_transfer_simps bindE_run zoom_def
        signal_transfer_run pair_lens_defs sample_start_simps checked_add_def transactional_run)
qed

lemmas sample_sent_run = sample_sent_facts [THEN conjunct1]

lemma sample_returned: "\<exists>w'. bridge_in_transfer sample_transfer (Signed 7) 1 57 [9] sample_sent = (Inr (), w')"
  by (simp add: bridge_in_transfer_run sample_transfer_simps token_bridge_in_def exec_eval get_snd_sel
      sample_sent_facts sample_start_simps on_ledger_def book_defs sample_ledger_def checked_add_def
      checked_sub_def)

section \<open>Out over the bridge\<close>



text \<open>
  An outgoing transfer of an unregistered resource, of no more than the fee, to a chain that
  is not listed, or from an origin that is not an admitted account fails, and a failed transfer
  leaves balances, fees, nonces and events untouched, although tokens are burnt before the last
  checks.
\<close>

lemma transfer_out_refused:
  assumes "bridge_handler_of cfg = assets_handler hcfg" "token_laws (handler_tokens hcfg)"
    and "resource_to_asset_info (snd (store w)) rid = None \<or>
      (\<exists>i. resource_to_asset_info (snd (store w)) rid = Some i \<and> amount \<le> fee i) \<or>
      chain_nonces (fst (store w)) dest = None \<or>
      (\<forall>who. o' = Signed who \<longrightarrow> \<not> transfer_native_members cfg who)"
  shows "\<exists>e. transfer_assets cfg o' amount recipient dest rid w = (Inl e, w)"
proof (cases "transfer_assets cfg o' amount recipient dest rid w")
  case (Pair r v)
  show ?thesis
  proof (cases r)
    case (Inl e)
    with Pair have "v = w"
      by (auto simp: transfer_assets_def transactional_err)
    with Pair Inl show ?thesis by simp
  next
    case (Inr u)
    with Pair have run: "transfer_assets cfg o' amount recipient dest rid w = (Inr (), v)" by simp
    show ?thesis
      by (rule ah.transfer_assets_effect [OF assms(1,2) run]) (use assms(3) in \<open>fastforce simp: info_of_def\<close>)
  qed
qed

section \<open>In over the bridge\<close>

text \<open>
  C19. Value comes in only through the bridge account: any other origin of \<open>transfer\<close> is refused
  and changes nothing. When it succeeds, the recipient and the issuance of the resource's token
  grow by the amount, no other balance of any token moves, and both storages stay as they are.
\<close>

theorem transfer_in_accounts:
  assumes "bridge_handler_of cfg = assets_handler hcfg" "token_laws (handler_tokens hcfg)"
    and "bridge_origin cfg = ensure_bridge (transfer_bridge cfg)"
    and "bridge_in_transfer cfg o' to' amount rid w = (r, w')"
  shows "(\<forall>e. r = Inl e \<longrightarrow> w' = w) \<and>
    (r = Inr () \<longrightarrow> o' = Signed (bridge_account_id (transfer_bridge cfg)) \<and> store w' = store w \<and>
      (\<exists>i. resource_to_asset_info (snd (store w)) rid = Some i \<and>
        unat (tk_issuance (token (handler_tokens hcfg) (asset i)) (ledger w')) =
          unat (tk_issuance (token (handler_tokens hcfg) (asset i)) (ledger w)) + unat amount \<and>
        unat (tk_balance (token (handler_tokens hcfg) (asset i)) (ledger w') to') =
          unat (tk_balance (token (handler_tokens hcfg) (asset i)) (ledger w) to') + unat amount \<and>
        (\<forall>b z. (b, z) \<noteq> (asset i, to') \<longrightarrow> tk_balance (token (handler_tokens hcfg) b) (ledger w') z =
          tk_balance (token (handler_tokens hcfg) b) (ledger w) z)))"
proof (intro conjI impI)
  show "\<forall>e. r = Inl e \<longrightarrow> w' = w"
    using assms(4) by (auto simp: bridge_in_transfer_def transactional_err)
  assume "r = Inr ()"
  with assms(1,3,4) obtain x v where o': "o' = Signed (bridge_account_id (transfer_bridge cfg))"
    and run: "prepare_token_bridge_in (assets_handler hcfg) rid to' amount (get_snd w) = (Inr x, v)"
    and w': "w' = put_snd v w"
    by (auto simp: bridge_in_transfer_run ensure_bridge_def split: if_splits prod.splits sum.splits origin.splits)
  have eff: "\<exists>i. resource_to_asset_info (snd (store w)) rid = Some i \<and> store v = snd (store w) \<and>
      unat (tk_issuance (token (handler_tokens hcfg) (asset i)) (ledger v)) =
        unat (tk_issuance (token (handler_tokens hcfg) (asset i)) (ledger w)) + unat amount \<and>
      unat (tk_balance (token (handler_tokens hcfg) (asset i)) (ledger v) to') =
        unat (tk_balance (token (handler_tokens hcfg) (asset i)) (ledger w) to') + unat amount \<and>
      (\<forall>b z. (b, z) \<noteq> (asset i, to') \<longrightarrow> tk_balance (token (handler_tokens hcfg) b) (ledger v) z =
        tk_balance (token (handler_tokens hcfg) b) (ledger w) z)"
    by (rule ah.in_effect [OF assms(2) run]) (auto simp: info_of_def get_snd_sel)
  show "o' = Signed (bridge_account_id (transfer_bridge cfg))" by (rule o')
  from eff show "store w' = store w" by (auto simp: w' put_snd_def)
  from eff show "\<exists>i. resource_to_asset_info (snd (store w)) rid = Some i \<and>
      unat (tk_issuance (token (handler_tokens hcfg) (asset i)) (ledger w')) =
        unat (tk_issuance (token (handler_tokens hcfg) (asset i)) (ledger w)) + unat amount \<and>
      unat (tk_balance (token (handler_tokens hcfg) (asset i)) (ledger w') to') =
        unat (tk_balance (token (handler_tokens hcfg) (asset i)) (ledger w) to') + unat amount \<and>
      (\<forall>b z. (b, z) \<noteq> (asset i, to') \<longrightarrow> tk_balance (token (handler_tokens hcfg) b) (ledger w') z =
        tk_balance (token (handler_tokens hcfg) b) (ledger w) z)"
    by (auto simp: w' put_snd_def)
qed


theorem transfer_in_accounts_witness:
  "bridge_in_transfer sample_transfer (Signed 8) 2 10 [9] sample_start = (Inl BadOrigin, sample_start)"
proof -
  obtain r w' where run: "bridge_in_transfer sample_transfer (Signed 8) 2 10 [9] sample_start = (r, w')"
    by fastforce
  have "bridge_origin sample_transfer = ensure_bridge (transfer_bridge sample_transfer)"
    by (auto simp: sample_transfer_def ensure_bridge_def fun_eq_iff split: origin.split)
  from transfer_in_accounts [OF sample_transfer_simps(1) _ this run] run show ?thesis
    by (simp add: sample_transfer_simps book_token_laws bridge_in_transfer_run)
qed




end
