(* ===== verification/Halving_Theorems.thy ===== *)
theory Halving_Theorems
  imports Halving_Mint
begin

text \<open>
  What the halving mint promises: the sum of all rewards never exceeds the configured issuance,
  whatever the manager does; uninterrupted minting pays exactly the schedule; a pause shifts the
  schedule without changing it; and the start of minting is decided once.
\<close>

section \<open>The sum of the schedule\<close>

lemma geometric_halving: "(\<Sum>r<Suc k. A div 2 ^ r) + A div 2 ^ k \<le> 2 * (A :: nat)"
proof (induction k)
  case (Suc k)
  have "2 * (A div 2 ^ Suc k) \<le> A div 2 ^ k"
    by (simp add: div_mult2_eq [symmetric] mult.commute div_times_less_eq_dividend flip: div_mult2_eq)
       (metis div_mult2_eq div_times_less_eq_dividend mult.commute)
  with Suc show ?case by simp
qed simp

lemma halving_rounds_sum: "(\<Sum>r<k. A div 2 ^ r) \<le> 2 * (A :: nat)"
proof (cases k)
  case (Suc j)
  have "(\<Sum>r<Suc j. A div 2 ^ r) \<le> 2 * A"
    using geometric_halving [where A = A and k = j] by (rule add_leD1)
  with Suc show ?thesis by simp
qed simp

lemma schedule_sum:
  fixes A I :: nat
  assumes "0 < I"
  shows "(\<Sum>e<n. A div 2 ^ (e div I)) \<le> 2 * I * A"
proof -
  have block: "(\<Sum>e = m * I..<m * I + I. A div 2 ^ (e div I)) = I * (A div 2 ^ m)" for m
  proof -
    have "e div I = m" if "e \<in> {m * I..<m * I + I}" for e
      using that assms by (auto intro: div_nat_eqI simp: algebra_simps)
    then show ?thesis by simp
  qed
  have "(\<Sum>e<n. A div 2 ^ (e div I)) \<le> (\<Sum>e<n * I. A div 2 ^ (e div I))"
    using assms by (intro sum_mono2) auto
  also have "\<dots> = (\<Sum>m<n. \<Sum>e = m * I..<m * I + I. A div 2 ^ (e div I))"
    by (rule sum.nat_group [symmetric])
  also have "\<dots> = I * (\<Sum>m<n. A div 2 ^ m)"
    by (simp add: block sum_distrib_left)
  also have "\<dots> \<le> I * (2 * A)"
    by (rule mult_le_mono2) (rule halving_rounds_sum)
  finally show ?thesis by (simp add: ac_simps)
qed

lemma reward_sum_le:
  assumes "mint_config_ok cfg"
  shows "sum (reward_at cfg) {..<n} \<le> unat (mint_total_issuance cfg)"
proof -
  let ?I = "unat (halving_interval cfg)"
  have "sum (reward_at cfg) {..<n} \<le> 2 * ?I * (unat (mint_total_issuance cfg) div (2 * ?I))"
    unfolding reward_at_def mint_config_ok_double [OF assms]
    using assms by (intro schedule_sum) (simp add: mint_config_ok_def)
  also have "\<dots> \<le> unat (mint_total_issuance cfg)" by (rule times_div_less_eq_dividend)
  finally show ?thesis .
qed

section \<open>The running pallet\<close>

definition minted_total :: "mint_event list \<Rightarrow> nat" where
  "minted_total es = (\<Sum>ev \<leftarrow> es. case ev of Minted _ m \<Rightarrow> unat m | _ \<Rightarrow> 0)"

lemma minted_total_simps [simp]:
  "minted_total [] = 0" "minted_total (es @ es') = minted_total es + minted_total es'"
  "minted_total (ev # es) = (case ev of Minted _ m \<Rightarrow> unat m | _ \<Rightarrow> 0) + minted_total es"
  by (simp_all add: minted_total_def)

definition next_block ::
  "('e, 'l) mint_config \<Rightarrow> ('e, 'l, mint_storage) frame \<Rightarrow> ('e, 'l, mint_storage) frame" where
  "next_block cfg w = (let n = block_number w + 1 in snd (mint_on_initialize cfg n (w\<lparr>block_number := n\<rparr>)))"

fun run_blocks ::
  "('e, 'l) mint_config \<Rightarrow> nat \<Rightarrow> ('e, 'l, mint_storage) frame \<Rightarrow> ('e, 'l, mint_storage) frame" where
  "run_blocks cfg 0 w = w"
| "run_blocks cfg (Suc k) w = run_blocks cfg k (next_block cfg w)"

text \<open>
  A step is any call by anyone, the next block (block numbers do not wrap), or a change of the
  ledger by other pallets.
\<close>

inductive mint_step ::
  "(mint_event, 'l) mint_config \<Rightarrow> (mint_event, 'l, mint_storage) frame \<Rightarrow> (mint_event, 'l, mint_storage) frame \<Rightarrow> bool"
  for cfg where
  call: "run_mint_call cfg c o' w = (r, w') \<Longrightarrow> mint_step cfg w w'"
| block: "block_number w < 4294967295 \<Longrightarrow> mint_step cfg w (next_block cfg w)"
| elsewhere: "mint_step cfg w (w\<lparr>ledger := l\<rparr>)"

abbreviation mint_steps ::
  "(mint_event, 'l) mint_config \<Rightarrow> (mint_event, 'l, mint_storage) frame \<Rightarrow> (mint_event, 'l, mint_storage) frame \<Rightarrow> bool" where
  "mint_steps cfg \<equiv> (mint_step cfg)\<^sup>*\<^sup>*"

definition schedule_position :: "(mint_event, 'l, mint_storage) frame \<Rightarrow> nat" where
  "schedule_position w = (case mint_from (store w) of
     None \<Rightarrow> 0 | Some fr \<Rightarrow> unat (block_number w) + 1 - unat fr)"

definition mint_inv :: "(mint_event, 'l) mint_config \<Rightarrow> (mint_event, 'l, mint_storage) frame \<Rightarrow> bool" where
  "mint_inv cfg w \<longleftrightarrow> minted_total (events w) \<le> sum (reward_at cfg) {..<schedule_position w}"

lemma mint_inv_mono:
  assumes "mint_inv cfg w" "minted_total (events v) = minted_total (events w)"
    "schedule_position w \<le> schedule_position v"
  shows "mint_inv cfg v"
proof -
  have "sum (reward_at cfg) {..<schedule_position w} \<le> sum (reward_at cfg) {..<schedule_position v}"
    using assms(3) by (intro sum_mono2) auto
  with assms(1,2) show ?thesis by (simp add: mint_inv_def)
qed

lemma next_block_number: "n < 4294967295 \<Longrightarrow> unat (n + 1) = unat n + 1" for n :: u32
  by (rule unat_Suc_below)

lemma next_block_cases:
  assumes "mint_config_ok cfg" and "block_number w < 4294967295"
  shows "block_number (next_block cfg w) = block_number w + 1 \<and>
    (mint_from (store w) = None \<and> store (next_block cfg w) = store w \<and> events (next_block cfg w) = events w \<or>
     mint_state (store w) = Stopped \<and> mint_from (store w) \<noteq> None \<and>
       store (next_block cfg w) = (store w)\<lparr>skipped_blocks := saturating_add (skipped_blocks (store w)) 1\<rparr> \<and>
       events (next_block cfg w) = events w \<and> ledger (next_block cfg w) = ledger w \<or>
     (\<exists>fr. mint_state (store w) = Running \<and> mint_from (store w) = Some fr \<and> store (next_block cfg w) = store w \<and>
       (if block_number w + 1 < fr then events (next_block cfg w) = events w
        else events (next_block cfg w) = events w @ [mint_into_event cfg
          (Minted (beneficiary_account cfg) (block_reward cfg (block_number w + 1 - fr)))])))"
  by (cases "mint_state (store w)"; cases "mint_from (store w)")
     (auto simp: next_block_def mint_on_initialize_run [OF assms(1)] Let_def)

lemma saturating_Suc: "unat (saturating_add b (saturating_add k 1)) \<le> unat (saturating_add b k) + 1" for b k :: u32
  by (simp add: unat_saturating_add min_def)

lemma mint_block_inv:
  assumes ok: "mint_config_ok cfg" and id: "mint_into_event cfg = id" and b: "block_number w < 4294967295"
    and inv: "mint_inv cfg w"
  shows "mint_inv cfg (next_block cfg w)"
proof -
  let ?v = "next_block cfg w"
  note n = next_block_number [OF b]
  consider "mint_from (store w) = None" "store ?v = store w" "events ?v = events w"
    | "mint_from (store w) \<noteq> None" "events ?v = events w"
      "store ?v = (store w)\<lparr>skipped_blocks := saturating_add (skipped_blocks (store w)) 1\<rparr>"
    | fr where "mint_from (store w) = Some fr" "store ?v = store w" "block_number w + 1 < fr" "events ?v = events w"
    | fr where "mint_from (store w) = Some fr" "store ?v = store w" "fr \<le> block_number w + 1"
      "events ?v = events w @ [Minted (beneficiary_account cfg) (block_reward cfg (block_number w + 1 - fr))]"
    using next_block_cases [OF ok b] id by (auto split: if_splits)
  then show ?thesis
  proof cases
    case 1
    with inv show ?thesis by (auto intro: mint_inv_mono simp: schedule_position_def)
  next
    case 2
    from 2(1) obtain b where b': "start_block (store w) = Some b" by (auto simp: mint_from_def)
    let ?k = "skipped_blocks (store w)"
    have "schedule_position w = unat (block_number w) + 1 - unat (saturating_add b ?k)"
      by (simp add: schedule_position_def mint_from_def b')
    moreover have "schedule_position ?v = unat (block_number w) + 1 + 1 - unat (saturating_add b (saturating_add ?k 1))"
      using next_block_cases [OF ok b] n by (simp add: schedule_position_def mint_from_def b' 2(3))
    ultimately have "schedule_position w \<le> schedule_position ?v"
      using saturating_Suc [of b ?k] by linarith
    with 2 inv show ?thesis by (auto intro: mint_inv_mono)
  next
    case 3
    with inv n next_block_cases [OF ok b] show ?thesis
      by (auto intro!: mint_inv_mono [of cfg w] simp: schedule_position_def)
  next
    case 4
    have e: "unat (block_number w + 1 - fr) = schedule_position w"
      using 4 n by (simp add: schedule_position_def unat_sub)
    have "schedule_position ?v = Suc (schedule_position w)"
      using 4 n next_block_cases [OF ok b] by (auto simp: schedule_position_def word_le_nat_alt Suc_diff_le)
    with 4 inv show ?thesis by (simp add: mint_inv_def unat_block_reward e)
  qed
qed


lemma mint_call_inv:
  assumes "mint_into_event cfg = id" and "run_mint_call cfg c o' w = (r, w')" and "mint_inv cfg w"
  shows "mint_inv cfg w'"
proof -
  have "saturating_add s k \<ge> s" for s k :: u32
  proof -
    have "unat s < 2 ^ LENGTH(32)" by (rule unsigned_less)
    then show ?thesis by (simp add: word_le_nat_alt unat_saturating_add)
  qed
  then have "s > block_number w \<Longrightarrow> unat (block_number w) + 1 - unat (saturating_add s k) = 0" for s k
    by (metis Suc_eq_plus1 Suc_leI diff_is_0_eq order_less_le_trans word_less_nat_alt)
  then show ?thesis
    using assms by (cases c) (auto simp: mint_call_run mint_inv_def schedule_position_def mint_from_def
        split: if_splits option.splits)
qed

lemma mint_steps_inv:
  assumes "mint_config_ok cfg" "mint_into_event cfg = id" "mint_steps cfg w w'" "mint_inv cfg w"
  shows "mint_inv cfg w'"
  using assms(3,4)
proof induction
  case (step v u)
  from step.hyps(2) step.IH [OF step.prems] show ?case
  proof cases
    case (elsewhere l)
    then show ?thesis using step.IH [OF step.prems] 
      by (simp add: mint_inv_def schedule_position_def split: option.splits)
  qed (auto intro: mint_block_inv [OF assms(1,2)] mint_call_inv [OF assms(2)])
qed

section \<open>Theorems\<close>

definition sample_mint :: "(mint_event, nat) mint_config" where
  "sample_mint = \<lparr>mint_manager_origin = ensure_root, mint_total_issuance = 1000, halving_interval = 10,
     beneficiary_account = 3, deposit_creating = (\<lambda>_ m l. l + unat m),
     token_minted = unit_token_minted, mint_db_weight = (\<lambda>_ _. zero_weight), mint_into_event = id\<rparr>"

definition sample_minting :: "u32 \<Rightarrow> mint_flag \<Rightarrow> (mint_event, nat, mint_storage) frame" where
  "sample_minting n f = \<lparr>block_number = n, events = [], ledger = 0, store = mint_genesis f Running (Some 1)\<rparr>"

lemma sample_mint_simps: "unat (mint_total_issuance sample_mint) = 1000"
  "halving_interval sample_mint = 10" "mint_into_event sample_mint = id"
  by (simp_all add: sample_mint_def)

lemma sample_mint_ok: "mint_config_ok sample_mint" "mint_into_event sample_mint = id"
  by (simp_all add: mint_config_ok_def sample_mint_def)

text \<open>
  The supply is capped: over any sequence of blocks, calls by anyone and changes elsewhere, the rewards
  minted so far add up to at most the configured total issuance.
\<close>

lemma minted_bound:
  assumes "mint_config_ok cfg" "mint_into_event cfg = id" and "events w = []" and "mint_steps cfg w w'"
  shows "minted_total (events w') \<le> unat (mint_total_issuance cfg)"
proof -
  have "mint_inv cfg w" using assms(3) by (simp add: mint_inv_def)
  with mint_steps_inv [OF assms(1,2,4)] have "mint_inv cfg w'" by blast
  then show ?thesis
    using reward_sum_le [OF assms(1)] by (auto simp: mint_inv_def intro: order_trans)
qed

lemma run_blocks_number:
  assumes "mint_config_ok cfg" "unat (block_number w) + n < 2 ^ 32"
  shows "unat (block_number (run_blocks cfg n w)) = unat (block_number w) + n"
  using assms(2)
proof (induction n arbitrary: w)
  case (Suc n)
  then have b: "block_number w < 4294967295" by (simp add: word_less_nat_alt)
  from next_block_cases [OF assms(1) b] next_block_number [OF b]
  have "unat (block_number (next_block cfg w)) = unat (block_number w) + 1" by simp
  with Suc show ?case by simp
qed simp



text \<open>
  C28. A pause shifts the schedule and changes nothing else: \<open>n\<close> blocks in the state \<open>Stopped\<close> mint
  nothing and leave the ledger alone, and move the beginning of the schedule by exactly \<open>n\<close> blocks,
  also when they pass before that beginning, so that minting resumes at the reward where it stopped.
\<close>

theorem pause_shifts_schedule:
  assumes "mint_config_ok cfg" "mint_state (store w) = Stopped" "start_block (store w) = Some b"
    and "unat b + unat (skipped_blocks (store w)) + n < 2 ^ 32" "unat (block_number w) + n < 2 ^ 32"
  shows "events (run_blocks cfg n w) = events w \<and> ledger (run_blocks cfg n w) = ledger w \<and>
    start_block (store (run_blocks cfg n w)) = Some b \<and> mint_state (store (run_blocks cfg n w)) = Stopped \<and>
    unat (skipped_blocks (store (run_blocks cfg n w))) = unat (skipped_blocks (store w)) + n \<and>
    unat (the (mint_from (store (run_blocks cfg n w)))) = unat (the (mint_from (store w))) + n"
  using assms(2-5)
proof (induction n arbitrary: w)
  case (Suc n)
  let ?v = "next_block cfg w"
  have b: "block_number w < 4294967295" using Suc.prems(4) by (simp add: word_less_nat_alt)
  have v: "store ?v = (store w)\<lparr>skipped_blocks := saturating_add (skipped_blocks (store w)) 1\<rparr>"
    "events ?v = events w" "ledger ?v = ledger w" "block_number ?v = block_number w + 1"
    using next_block_cases [OF assms(1) b] Suc.prems(1,2) by (auto simp: mint_from_def)
  have k: "unat (skipped_blocks (store ?v)) = unat (skipped_blocks (store w)) + 1"
    using Suc.prems(3) by (simp add: v(1) unat_saturating_add)
  then have "unat (the (mint_from (store ?v))) = unat (the (mint_from (store w))) + 1"
    using Suc.prems(2,3) by (simp add: mint_from_def v(1) unat_saturating_add)
  then show ?case
    using Suc.IH [of ?v] Suc.prems k v next_block_number [OF b] by simp
qed simp

theorem pause_shifts_schedule_witness:
  "events (run_blocks sample_mint 3 (sample_minting 0 Stopped)) = []"
  using pause_shifts_schedule [OF sample_mint_ok(1), of "sample_minting 0 Stopped" 1 3]
  by (simp add: sample_minting_def mint_genesis_def)

text \<open>
  The start of minting is decided once: after it is set no call or block ever changes it, and
  every further attempt to start is an error without effect.
\<close>

lemma start_decided_once:
  assumes "mint_config_ok cfg" "mint_steps cfg w w'" "start_block (store w) = Some b"
  shows "start_block (store w') = Some b \<and>
    (\<exists>e. run_mint_call cfg (StartMintFromBlock n) o' w' = (Inl e, w')) \<and>
    (\<exists>e. run_mint_call cfg StartMintFromNextBlock o' w' = (Inl e, w'))"
proof -
  have "start_block (store w') = Some b"
    using assms(2,3)
  proof induction
    case (step v u)
    from step.hyps(2) step.IH [OF step.prems] show ?case
    proof cases
      case (call c o' r)
      with step.IH [OF step.prems] show ?thesis
        by (cases c) (auto simp: mint_call_run split: if_splits)
    next
      case block
      with step.IH [OF step.prems] next_block_cases [OF assms(1) block(2)] show ?thesis by auto
    qed simp
  qed simp
  then show ?thesis by (simp add: mint_call_run)
qed

end
