(* ===== verification/Runtime.thy ===== *)
theory Runtime
  imports Runtime_Config Staking_Payouts Template_Pallet Assets_Theorems Halving_Theorems
begin

text \<open>
  The composition of the runtime, \<open>construct_runtime!\<close> of \<open>runtime/src/lib.rs\<close>: one state that holds
  the storage of every pallet, one call type whose proposals are calls again, the configuration of
  each pallet, and the dispatch that runs a call on the pallet it belongs to. Pallets from other
  repositories enter as the record \<open>runtime_env\<close>.
\<close>

section \<open>State, calls and events\<close>

datatype runtime_event =
    ChainBridgeEvent bridge_pallet_event
  | AssetsHandlerEvent assets_handler_event
  | TemplateEvent template_event
  | HalvingMintEvent mint_event
  | StableStakingEvent staking_event

datatype 't ethereum_call = Transact 't

text \<open>
  \<open>RuntimeCall\<close>: the pallets of this repository, the calls of \<open>pallet_assets\<close> that its code makes,
  Ethereum transactions, and everything else.
\<close>

datatype ('t, 'x) runtime_call =
    Ethereum "'t ethereum_call"
  | Assets assets_call
  | ChainBridge "('t, 'x) runtime_call bridge_call"
  | AssetsHandler handler_call
  | BridgeTransfer transfer_call
  | Template template_call
  | HalvingMint mint_call
  | StableStaking staking_call
  | OtherCall 'x

text \<open>The bridge's storage is the \<open>store\<close> of the world, all other storages are in its \<open>ledger\<close>.\<close>

record 'l runtime_rest =
  third_party :: 'l
  handler_part :: handler_storage
  template_part :: template_storage
  mint_part :: mint_storage
  staking_part :: staking_storage

type_synonym ('t, 'x, 'l) world =
  "(runtime_event, 'l runtime_rest, ('t, 'x) runtime_call bridge_storage) frame"

record ('t, 'x, 'l) runtime_env =
  env_tokens :: "'l tokens"
  pallet_account :: "bytes \<Rightarrow> account_id"  \<comment> \<open>\<open>PalletId::into_account_truncating\<close>\<close>
  perquintill_from_rational :: "u128 \<Rightarrow> u128 \<Rightarrow> u64"
  perquintill_of :: "u64 \<Rightarrow> u128 \<Rightarrow> u128"
  env_deposit_creating :: "account_id \<Rightarrow> balance \<Rightarrow> 'l \<Rightarrow> 'l"
  rocks_db_weight :: "u64 \<Rightarrow> u64 \<Rightarrow> weight"
  dispatch_assets :: "assets_call \<Rightarrow> origin \<Rightarrow> (dispatch_error, 'l, unit) exec"
  dispatch_ethereum :: "'t ethereum_call \<Rightarrow> origin \<Rightarrow> (dispatch_error, ('t, 'x, 'l) world, unit) exec"
  dispatch_other :: "'x \<Rightarrow> origin \<Rightarrow> (dispatch_error, ('t, 'x, 'l) world, unit) exec"

section \<open>The world of each pallet\<close>

definition get_part ::
  "('l runtime_rest \<Rightarrow> 's) \<Rightarrow> ('e, 'l runtime_rest, 'b) frame \<Rightarrow> ('e, 'l, 's) frame" where
  "get_part sel w = \<lparr>block_number = block_number w, events = events w,
     ledger = third_party (ledger w), store = sel (ledger w)\<rparr>"

definition put_part ::
  "('s \<Rightarrow> 'l runtime_rest \<Rightarrow> 'l runtime_rest) \<Rightarrow> ('e, 'l, 's) frame \<Rightarrow> ('e, 'l runtime_rest, 'b) frame \<Rightarrow>
    ('e, 'l runtime_rest, 'b) frame" where
  "put_part upd v w = \<lparr>block_number = block_number v, events = events v,
     ledger = upd (store v) ((ledger w)\<lparr>third_party := ledger v\<rparr>), store = store w\<rparr>"

abbreviation on_handler :: "('e', ('e, 'l, handler_storage) frame, 'a) exec \<Rightarrow> ('e', ('e, 'l runtime_rest, 'b) frame, 'a) exec" where
  "on_handler \<equiv> zoom (get_part handler_part) (put_part (\<lambda>s r. r\<lparr>handler_part := s\<rparr>))"

abbreviation on_template :: "('e', ('e, 'l, template_storage) frame, 'a) exec \<Rightarrow> ('e', ('e, 'l runtime_rest, 'b) frame, 'a) exec" where
  "on_template \<equiv> zoom (get_part template_part) (put_part (\<lambda>s r. r\<lparr>template_part := s\<rparr>))"

abbreviation on_mint :: "('e', ('e, 'l, mint_storage) frame, 'a) exec \<Rightarrow> ('e', ('e, 'l runtime_rest, 'b) frame, 'a) exec" where
  "on_mint \<equiv> zoom (get_part mint_part) (put_part (\<lambda>s r. r\<lparr>mint_part := s\<rparr>))"

abbreviation on_staking :: "('e', ('e, 'l, staking_storage) frame, 'a) exec \<Rightarrow> ('e', ('e, 'l runtime_rest, 'b) frame, 'a) exec" where
  "on_staking \<equiv> zoom (get_part staking_part) (put_part (\<lambda>s r. r\<lparr>staking_part := s\<rparr>))"

text \<open>The transfer pallet sees the bridge and the handler.\<close>

definition get_transfer :: "('e, 'l runtime_rest, 'b) frame \<Rightarrow> ('e, 'l, 'b \<times> handler_storage) frame" where
  "get_transfer w = \<lparr>block_number = block_number w, events = events w,
     ledger = third_party (ledger w), store = (store w, handler_part (ledger w))\<rparr>"

definition put_transfer ::
  "('e, 'l, 'b \<times> handler_storage) frame \<Rightarrow> ('e, 'l runtime_rest, 'b) frame \<Rightarrow> ('e, 'l runtime_rest, 'b) frame" where
  "put_transfer v w = \<lparr>block_number = block_number v, events = events v,
     ledger = (ledger w)\<lparr>third_party := ledger v, handler_part := snd (store v)\<rparr>, store = fst (store v)\<rparr>"

interpretation handler_lens: lens "get_part handler_part" "put_part (\<lambda>s r. r\<lparr>handler_part := s\<rparr>)"
  by unfold_locales (simp_all add: get_part_def put_part_def)

interpretation template_lens: lens "get_part template_part" "put_part (\<lambda>s r. r\<lparr>template_part := s\<rparr>)"
  by unfold_locales (simp_all add: get_part_def put_part_def)

interpretation mint_lens: lens "get_part mint_part" "put_part (\<lambda>s r. r\<lparr>mint_part := s\<rparr>)"
  by unfold_locales (simp_all add: get_part_def put_part_def)

interpretation staking_lens: lens "get_part staking_part" "put_part (\<lambda>s r. r\<lparr>staking_part := s\<rparr>)"
  by unfold_locales (simp_all add: get_part_def put_part_def)

interpretation transfer_lens: lens get_transfer put_transfer
  by unfold_locales (simp_all add: get_transfer_def put_transfer_def)

section \<open>Configuration of the pallets\<close>

text \<open>\<open>impl pallet_bridge::Config\<close>; the dispatch of proposals is the runtime's own, tied below.\<close>

definition runtime_bridge ::
  "('t, 'x, 'l) runtime_env \<Rightarrow> ('c \<Rightarrow> origin \<Rightarrow> (runtime_event, 'm, 'c bridge_storage, unit) pallet) \<Rightarrow>
    ('c, runtime_event, 'm) bridge_config" where
  "runtime_bridge env dispatch = \<lparr>bridge_committee_origin = ensure_root, bridge_chain_id = bridge_chain_id_value,
     proposal_lifetime = proposal_lifetime_value, bridge_account_id = pallet_account env bridge_module_id,
     bridge_into_event = ChainBridgeEvent, dispatch_proposal = dispatch\<rparr>"

definition runtime_handler :: "('t, 'x, 'l) runtime_env \<Rightarrow> (runtime_event, 'l) handler_config" where
  "runtime_handler env = \<lparr>handler_committee_origin = ensure_root,
     handler_treasury = pallet_account env treasury_pallet_id, handler_tokens = env_tokens env,
     handler_into_event = AssetsHandlerEvent\<rparr>"

text \<open>\<open>TransferNativeAnyone\<close>\<close>

definition transfer_native_anyone :: "account_id \<Rightarrow> bool" where
  "transfer_native_anyone who \<longleftrightarrow> True"

text \<open>The transfer pallet signals transfers on the bridge and never dispatches a proposal.\<close>

definition runtime_transfer ::
  "('t, 'x, 'l) runtime_env \<Rightarrow> ('c, runtime_event, 'l, handler_storage) transfer_config" where
  "runtime_transfer env =
     (let b = runtime_bridge env (\<lambda>_ _. ret ()) in
      \<lparr>transfer_bridge = b, bridge_origin = ensure_bridge b,
       transfer_native_members = transfer_native_anyone, bridge_handler_of = assets_handler (runtime_handler env)\<rparr>)"

definition runtime_mint :: "('t, 'x, 'l) runtime_env \<Rightarrow> (mint_event \<Rightarrow> 'e) \<Rightarrow> ('e, 'l) mint_config" where
  "runtime_mint env into_event = \<lparr>mint_manager_origin = ensure_root, mint_total_issuance = total_issuance_value,
     halving_interval = halving_interval_value, beneficiary_account = pallet_account env halving_mint_id,
     deposit_creating = env_deposit_creating env, token_minted = unit_token_minted,
     mint_db_weight = rocks_db_weight env, mint_into_event = into_event\<rparr>"

definition runtime_staking :: "('t, 'x, 'l) runtime_env \<Rightarrow> (runtime_event, 'l) staking_config" where
  "runtime_staking env = \<lparr>staking_committee_origin = ensure_root, staking_tokens = env_tokens env,
     stable_beneficiary = pallet_account env staking_pool_id, native_beneficiary = pallet_account env halving_mint_id,
     pool_string_limit = pool_string_limit_value, from_rational = perquintill_from_rational env,
     proportion_of = perquintill_of env, staking_into_event = StableStakingEvent\<rparr>"

section \<open>Dispatch\<close>

text \<open>
  The bridge dispatches a proposal by the runtime's dispatch, so the two are mutually recursive. A
  proposal is a part of the call that carries it; the recursion is over calls, and hands the bridge
  the proposal together with its run.
\<close>

definition proposal_run ::
  "('c \<times> (origin \<Rightarrow> (dispatch_error, 'w, unit) exec)) bridge_call \<Rightarrow> origin \<Rightarrow> (dispatch_error, 'w, unit) exec" where
  "proposal_run c = (case c of
     AcknowledgeProposal n s r p \<Rightarrow> snd p | RejectProposal n s r p \<Rightarrow> snd p | EvalVoteState n s p \<Rightarrow> snd p
   | _ \<Rightarrow> (\<lambda>_. ret ()))"

primrec run_runtime_call ::
  "('t, 'x, 'l) runtime_env \<Rightarrow> ('t, 'x) runtime_call \<Rightarrow> origin \<Rightarrow> (dispatch_error, ('t, 'x, 'l) world, unit) exec" where
  "run_runtime_call env (Ethereum c) = dispatch_ethereum env c"
| "run_runtime_call env (Assets c) = (\<lambda>o'. on_ledger (zoom third_party (\<lambda>l r. r\<lparr>third_party := l\<rparr>) (dispatch_assets env c o')))"
| "run_runtime_call env (ChainBridge c) = (\<lambda>o'.
     let c' = map_bridge_call (\<lambda>p. (p, run_runtime_call env p)) c in
     run_bridge_call (runtime_bridge env (\<lambda>_. proposal_run c')) (map_bridge_call fst c') o')"
| "run_runtime_call env (AssetsHandler c) = (\<lambda>o'. on_handler (run_handler_call (runtime_handler env) c o'))"
| "run_runtime_call env (BridgeTransfer c) = (\<lambda>o'. zoom get_transfer put_transfer (run_transfer_call (runtime_transfer env) c o'))"
| "run_runtime_call env (Template c) = (\<lambda>o'. on_template (run_template_call TemplateEvent c o'))"
| "run_runtime_call env (HalvingMint c) = (\<lambda>o'. on_mint (bindE (run_mint_call (runtime_mint env HalvingMintEvent) c o') (\<lambda>_. ret ())))"
| "run_runtime_call env (StableStaking c) = (\<lambda>o'. on_staking (run_staking_call (runtime_staking env) c o'))"
| "run_runtime_call env (OtherCall x) = dispatch_other env x"

text \<open>The knot: the bridge's dispatch of proposals is the runtime's dispatch.\<close>

lemma dispatch_only_own:
  assumes "d q = d' q"
  shows "try_resolve_proposal (runtime_bridge env d) n src q = try_resolve_proposal (runtime_bridge env d') n src q"
    and "commit_vote (runtime_bridge env d) who n src q f = commit_vote (runtime_bridge env d') who n src q f"
proof -
  have fin: "finalize_execution (runtime_bridge env d) src n q = finalize_execution (runtime_bridge env d') src n q"
    using assms by (simp add: finalize_execution_def runtime_bridge_def bridge_deposit_event_def)
  have can: "cancel_execution (runtime_bridge env d) src n = cancel_execution (runtime_bridge env d') src n"
    by (simp add: cancel_execution_def runtime_bridge_def bridge_deposit_event_def)
  show "try_resolve_proposal (runtime_bridge env d) n src q = try_resolve_proposal (runtime_bridge env d') n src q"
    unfolding try_resolve_proposal_def fin can ..
  have life: "proposal_lifetime (runtime_bridge env d) = proposal_lifetime (runtime_bridge env d')"
    and ev: "bridge_deposit_event (runtime_bridge env d) = bridge_deposit_event (runtime_bridge env d')"
    by (simp_all add: runtime_bridge_def bridge_deposit_event_def fun_eq_iff)
  show "commit_vote (runtime_bridge env d) who n src q f = commit_vote (runtime_bridge env d') who n src q f"
    unfolding commit_vote_def life ev ..
qed

lemma run_runtime_call_bridge:
  "run_runtime_call env (ChainBridge c) o' = run_bridge_call (runtime_bridge env (run_runtime_call env)) c o'"
proof (cases c)
  case (AcknowledgeProposal n s r p)
  note own = dispatch_only_own [where d = "\<lambda>_. run_runtime_call env p" and d' = "run_runtime_call env"
      and q = p, OF refl]
  show ?thesis
    by (simp add: AcknowledgeProposal proposal_run_def acknowledge_proposal_def vote_for_def own)
next
  case (RejectProposal n s r p)
  note own = dispatch_only_own [where d = "\<lambda>_. run_runtime_call env p" and d' = "run_runtime_call env"
      and q = p, OF refl]
  show ?thesis
    by (simp add: RejectProposal proposal_run_def reject_proposal_def vote_against_def own)
next
  case (EvalVoteState n s p)
  note own = dispatch_only_own [where d = "\<lambda>_. run_runtime_call env p" and d' = "run_runtime_call env"
      and q = p, OF refl]
  show ?thesis
    by (simp add: EvalVoteState proposal_run_def eval_vote_state_def own)
qed (simp_all add: set_threshold_def whitelist_chain_def add_relayer_def remove_relayer_def set_relayer_threshold_def
    whitelist_def register_relayer_def unregister_relayer_def runtime_bridge_def bridge_deposit_event_def)

section \<open>Blocks\<close>

text \<open>
  The hooks of a new block in the order of \<open>construct_runtime!\<close>, those of the other pallets left out.
  A hook answers a weight and no result; only the minting hook could panic.
\<close>

definition run_hook :: "('e, 's, 'a) exec \<Rightarrow> ('f, 's, unit) exec" where
  "run_hook m = modify (\<lambda>s. snd (m s))"

definition initialize_block ::
  "('t, 'x, 'l) runtime_env \<Rightarrow> u32 \<Rightarrow> (panic, ('t, 'x, 'l) world, unit) exec" where
  "initialize_block env n =
     block
      [modify (\<lambda>w. w\<lparr>block_number := n\<rparr>),
       run_hook (bridge_on_initialize n),
       bindE (on_mint (mint_on_initialize (runtime_mint env HalvingMintEvent) n)) (\<lambda>_. ret ()),
       run_hook (on_staking (staking_on_initialize (runtime_staking env) n))]"

section \<open>Self-contained calls\<close>

text \<open>
  \<open>SelfContainedCall for RuntimeCall\<close>: Ethereum transactions carry their own signature. What
  \<open>pallet_ethereum\<close> answers for its call is a parameter.
\<close>

fun is_self_contained :: "('t ethereum_call \<Rightarrow> bool) \<Rightarrow> ('t, 'x) runtime_call \<Rightarrow> bool" where
  "is_self_contained eth (Ethereum c) = eth c"
| "is_self_contained eth _ = False"

fun check_self_contained :: "('t ethereum_call \<Rightarrow> 'r option) \<Rightarrow> ('t, 'x) runtime_call \<Rightarrow> 'r option" where
  "check_self_contained eth (Ethereum c) = eth c"
| "check_self_contained eth _ = None"

fun validate_self_contained ::
  "('t ethereum_call \<Rightarrow> h160 \<Rightarrow> 'i \<Rightarrow> nat \<Rightarrow> 'r option) \<Rightarrow> ('t, 'x) runtime_call \<Rightarrow> h160 \<Rightarrow> 'i \<Rightarrow> nat \<Rightarrow> 'r option" where
  "validate_self_contained eth (Ethereum c) info dinfo len = eth c info dinfo len"
| "validate_self_contained eth _ info dinfo len = None"

fun pre_dispatch_self_contained ::
  "('t ethereum_call \<Rightarrow> h160 \<Rightarrow> 'i \<Rightarrow> nat \<Rightarrow> 'r option) \<Rightarrow> ('t, 'x) runtime_call \<Rightarrow> h160 \<Rightarrow> 'i \<Rightarrow> nat \<Rightarrow> 'r option" where
  "pre_dispatch_self_contained eth (Ethereum c) info dinfo len = eth c info dinfo len"
| "pre_dispatch_self_contained eth _ info dinfo len = None"

fun apply_self_contained ::
  "('t, 'x, 'l) runtime_env \<Rightarrow> ('t, 'x) runtime_call \<Rightarrow> h160 \<Rightarrow>
    (dispatch_error, ('t, 'x, 'l) world, unit) exec option" where
  "apply_self_contained env (Ethereum (Transact t)) info =
     Some (run_runtime_call env (Ethereum (Transact t)) (EthereumTransaction info))"
| "apply_self_contained env _ info = None"

text \<open>\<open>WhitelistedCalls\<close>: what the dispatch precompile lets through.\<close>

fun whitelisted_calls :: "('t, 'x) runtime_call \<Rightarrow> bool" where
  "whitelisted_calls (Assets (TransferAsset i d a)) = True"
| "whitelisted_calls _ = False"

text \<open>\<open>TransactionConverter\<close>: an Ethereum transaction as an extrinsic without a signature.\<close>

record ('c, 's) unchecked_extrinsic =
  extrinsic_signature :: "'s option"
  extrinsic_function :: 'c

definition convert_transaction :: "'t \<Rightarrow> (('t, 'x) runtime_call, 's) unchecked_extrinsic" where
  "convert_transaction t = \<lparr>extrinsic_signature = None, extrinsic_function = Ethereum (Transact t)\<rparr>"

text \<open>\<open>extrinsic_filter\<close> of the RPC API: the Ethereum transactions of a block.\<close>

definition extrinsic_filter :: "(('t, 'x) runtime_call, 's) unchecked_extrinsic list \<Rightarrow> 't list" where
  "extrinsic_filter xts = List.map_filter
     (\<lambda>xt. case extrinsic_function xt of Ethereum (Transact t) \<Rightarrow> Some t | _ \<Rightarrow> None) xts"

end
