(* ===== verification/Bridge_Theorems.thy ===== *)
theory Bridge_Theorems
  imports Bridge_Safety
begin

text \<open>
  The promises of the bridge pallet, as its users rely on them: resource ids name one asset of one
  chain, a proposal is decided once and never again, it runs only with a quorum of distinct
  relayers, a failed execution leaves no trace, the tally rejects exactly the hopeless proposals,
  and the nonces of outgoing transfers are fresh.
\<close>

section \<open>A configuration to evaluate\<close>

text \<open>A bridge whose proposals are lists of numbers: the empty list fails, the others do nothing.\<close>

definition sample_bridge :: "(nat list, bridge_pallet_event, unit) bridge_config" where
  "sample_bridge = \<lparr>bridge_committee_origin = ensure_root, bridge_chain_id = 2,
     proposal_lifetime = 100, bridge_account_id = 7, bridge_into_event = id,
     dispatch_proposal = (\<lambda>c o'. if c = [] then throw BadOrigin else ret ())\<rparr>"

definition sample_storage :: "nat list bridge_storage" where
  "sample_storage = empty_bridge_storage\<lparr>relayer_threshold := 2, relayer_count := 3,
     relayers := [10 \<mapsto> True, 11 \<mapsto> True, 12 \<mapsto> True], chain_nonces := [1 \<mapsto> 5]\<rparr>"

definition sample_world :: "nat list bridge_storage \<Rightarrow> (bridge_pallet_event, unit, nat list bridge_storage) frame" where
  "sample_world b = \<lparr>block_number = 20, events = [], ledger = (), store = b\<rparr>"

lemma sample_dispatch_within: "preorder_rel R \<Longrightarrow> dispatch_within sample_bridge R"
  by (auto simp: dispatch_within_def sample_bridge_def intro!: within_intro)

lemma sample_bridge_simps:
  "dispatch_proposal sample_bridge c o' = (if c = [] then throw BadOrigin else ret ())"
  "bridge_account_id sample_bridge = 7" "bridge_chain_id sample_bridge = 2"
  "bridge_committee_origin sample_bridge = ensure_root" "bridge_into_event sample_bridge = id"
  by (simp_all add: sample_bridge_def)

lemmas sample_defs = sample_bridge_def sample_storage_def sample_world_def empty_bridge_storage_def

section \<open>Resource ids\<close>

text \<open>
  A resource id is the last byte chain id behind the asset id padded on the left with zeros:
  two ids agree exactly when chain and asset id agree up to leading zeros. So distinct assets of
  a chain, and equal assets of distinct chains, never share a resource id.
\<close>

lemma derive_resource_id_eq_iff:
  assumes "a \<noteq> []" "b \<noteq> []" "length a \<le> 31" "length b \<le> 31"
  shows "derive_resource_id c a = derive_resource_id d b \<longleftrightarrow>
    c = d \<and> dropWhile ((=) 0) a = dropWhile ((=) 0) b"
proof -
  have len: "length (replicate (31 - length a) 0 @ a) = length (replicate (31 - length b) (0::u8) @ b)"
    using assms by simp
  have "derive_resource_id c a = (replicate (31 - length a) 0 @ a) @ [c]"
    and "derive_resource_id d b = (replicate (31 - length b) 0 @ b) @ [d]"
    using assms by (simp_all add: derive_resource_id_layout)
  then show ?thesis
    using zeros_append_eq_iff [OF len] by auto
qed

section \<open>The invariant of reachable storages\<close>

lemma signal_transfer_inv:
  "within (store_rel (\<lambda>b b'. bridge_inv own b \<longrightarrow> bridge_inv own b')) (signal_transfer_fungible cfg d r to' a)"
  by (auto simp: within_def store_rel_def signal_transfer_run bridge_inv_def relayer_set_def
      is_relayer_def split: option.split)

lemma on_initialize_inv:
  "within (store_rel (\<lambda>b b'. bridge_inv own b \<longrightarrow> bridge_inv own b')) (bridge_on_initialize n)"
  unfolding bridge_on_initialize_def
  by (intro within_thenE within_ret preorder_store_rel preorder_preserves)
     (auto simp: within_write_store bridge_inv_def relayer_set_fields)

abbreviation keeps_inv :: "bridge_chain_id \<Rightarrow> 'c bridge_storage \<Rightarrow> 'c bridge_storage \<Rightarrow> bool" where
  "keeps_inv own \<equiv> \<lambda>b b'. bridge_inv own b \<longrightarrow> bridge_inv own b'"

lemma bridge_step_inv:
  assumes d: "dispatch_within cfg (keeps_inv (bridge_chain_id cfg))" and step: "bridge_step cfg w w'"
    and inv: "bridge_inv (bridge_chain_id cfg) (store w)"
  shows "bridge_inv (bridge_chain_id cfg) (store w')"
  using step
proof (cases rule: bridge_step.cases)
  case (call c o' r)
  with withinD [OF bridge_call_inv [OF d]] inv show ?thesis by (simp add: store_rel_def)
next
  case (transfer dst rid to' a r)
  show ?thesis using withinD [OF signal_transfer_inv transfer] inv by (simp add: store_rel_def)
next
  case (next_block n r)
  with withinD [OF on_initialize_inv] inv show ?thesis by (fastforce simp: store_rel_def)
qed (use inv in simp)

lemma bridge_steps_inv:
  assumes "dispatch_within cfg (keeps_inv (bridge_chain_id cfg))"
    and "bridge_inv (bridge_chain_id cfg) (store w)" and "bridge_steps cfg w w'"
  shows "bridge_inv (bridge_chain_id cfg) (store w')"
  using assms(3,2) by induction (auto intro: bridge_step_inv [OF assms(1)])

text \<open>
  C10. In every state the pallet reaches from its genesis storage, the relayer count is the number
  of relayers, the threshold is positive, the chain never lists itself as a destination, and every
  stored ballot names each voter once, approved only with a vote in favour and rejected only with
  one against.
\<close>

theorem bridge_reachable_inv:
  assumes "dispatch_within cfg (keeps_inv (bridge_chain_id cfg))"
    and "store w = empty_bridge_storage" and "bridge_steps cfg w w'"
  shows "bridge_inv (bridge_chain_id cfg) (store w')"
  by (rule bridge_steps_inv [OF assms(1) _ assms(3)]) (simp add: assms(2) bridge_inv_empty)

theorem bridge_reachable_inv_witness:
  "bridge_inv 2 (store (snd (add_relayer sample_bridge Root 10 (sample_world empty_bridge_storage))))"
proof -
  let ?w = "sample_world empty_bridge_storage"
  have "bridge_step sample_bridge ?w (snd (run_bridge_call sample_bridge (AddRelayer 10) Root ?w))"
    by (rule bridge_step.call) (rule surjective_pairing)
  from bridge_reachable_inv [OF sample_dispatch_within _ r_into_rtranclp [of "bridge_step sample_bridge", OF this]]
  show ?thesis by (simp add: sample_world_def sample_bridge_def)
qed


section \<open>Decisions are final\<close>

lemma bridge_le_final:
  "bridge_le b b' \<Longrightarrow> votes b k = Some v \<Longrightarrow> is_complete v \<Longrightarrow> votes b' k = Some v"
  unfolding bridge_le_def ballot_le_def by metis

lemma bridge_le_nonceD:
  "bridge_le b b' \<Longrightarrow> chain_nonces b i = Some n \<Longrightarrow> chain_nonces b' i = Some n' \<Longrightarrow> n \<le> n'"
  unfolding bridge_le_def by (metis option.inject)

lemma vote_refused:
  assumes v: "votes (store w) (src, nonce, c) = Some v" "is_complete v"
  shows "\<exists>e. acknowledge_proposal cfg o' nonce src r c w = (Inl e, w)"
    and "\<exists>e. reject_proposal cfg o' nonce src r c w = (Inl e, w)"
    and "\<exists>e. eval_vote_state cfg o' nonce src c w = (Inl e, w)"
  using v
  by (auto simp: bridge_vote_run vote_for_def vote_against_def transactional_run thenE_run
      commit_vote_run try_resolve_run current_ballot_def split: origin.split)

text \<open>
  C1. A proposal is decided at most once: whatever the pallet does after a ballot was completed,
  the ballot stays as it is, and every later vote or evaluation of the same proposal, by anyone,
  is an error that changes nothing. In particular an approved proposal is never executed again.
\<close>

theorem completed_final:
  assumes "dispatch_within cfg bridge_le" and "bridge_steps cfg w w'"
    and "votes (store w) (src, nonce, c) = Some v" and "is_complete v"
  shows "votes (store w') (src, nonce, c) = Some v \<and>
    (\<exists>e. acknowledge_proposal cfg o' nonce src r c w' = (Inl e, w')) \<and>
    (\<exists>e. reject_proposal cfg o' nonce src r c w' = (Inl e, w')) \<and>
    (\<exists>e. eval_vote_state cfg o' nonce src c w' = (Inl e, w'))"
proof -
  from bridge_steps_le [OF assms(1,2)] assms(3,4) have "votes (store w') (src, nonce, c) = Some v"
    by (rule bridge_le_final)
  with vote_refused [OF this assms(4)] show ?thesis by blast
qed

definition decided_world :: "(bridge_pallet_event, unit, nat list bridge_storage) frame" where
  "decided_world = sample_world (sample_storage\<lparr>votes := [(1, 0, [3]) \<mapsto>
     \<lparr>votes_for = [10, 11], votes_against = [], status = Approved, expiry = 120\<rparr>]\<rparr>)"

theorem completed_final_witness:
  "\<exists>e. acknowledge_proposal sample_bridge (Signed 12) 0 1 [] [3] decided_world = (Inl e, decided_world)"
  using completed_final [OF sample_dispatch_within [OF preorder_bridge_le] rtranclp.rtrancl_refl,
      of decided_world 1 0 "[3]" _ "Signed 12" "[]"]
  by (simp add: decided_world_def is_complete_def sample_world_def)

section \<open>Approval needs a quorum\<close>

lemma approved_tally:
  "fst (try_to_complete t n v) = Approved \<longleftrightarrow> unat t \<le> length (votes_for v)"
  by (simp add: try_to_complete_def)

lemma ballot_wf_current: "bridge_inv own b \<Longrightarrow> ballot_wf (current_ballot cfg n b k)"
  by (cases k) (auto simp: current_ballot_def bridge_inv_def ballot_wf_default split: option.split)

lemma acknowledge_success:
  assumes run: "acknowledge_proposal cfg o' nonce src r c w = (Inr (), w')"
  obtains who where "o' = Signed who" "is_relayer (store w) who" "chain_whitelisted (store w) src"
    "\<not> is_complete (current_ballot cfg (block_number w) (store w) (src, nonce, c))"
    "\<not> is_expired (block_number w) (current_ballot cfg (block_number w) (store w) (src, nonce, c))"
    "\<not> has_voted who (current_ballot cfg (block_number w) (store w) (src, nonce, c))"
    "vote_for cfg who nonce src c w = (Inr (), w')"
  using run
  by (auto simp: acknowledge_run transactional_ok vote_for_def thenE_run commit_vote_run Let_def
      split: origin.splits if_splits)

text \<open>The state in which the proposal of an accepted vote is dispatched.\<close>

definition approval_state ::
  "('c, 'e, 'l) bridge_config \<Rightarrow> account_id \<Rightarrow> deposit_nonce \<Rightarrow> bridge_chain_id \<Rightarrow> 'c \<Rightarrow>
   ('e, 'l, 'c bridge_storage) frame \<Rightarrow> ('e, 'l, 'c bridge_storage) frame" where
  "approval_state cfg who nonce src c w =
     w\<lparr>store := (store w)\<lparr>votes := (votes (store w))((src, nonce, c) \<mapsto>
         (cast_vote True who (current_ballot cfg (block_number w) (store w) (src, nonce, c)))
           \<lparr>status := Approved\<rparr>)\<rparr>,
       events := events w @ [bridge_into_event cfg (VoteFor src nonce who),
         bridge_into_event cfg (ProposalApproved src nonce)]\<rparr>"

lemma cast_vote_open [simp]:
  "is_complete (cast_vote f who v) = is_complete v" "is_expired n (cast_vote f who v) = is_expired n v"
  "votes_for (cast_vote True who v) = votes_for v @ [who]"
  "votes_against (cast_vote True who v) = votes_against v"
  "votes_against (cast_vote False who v) = votes_against v @ [who]"
  "votes_for (cast_vote False who v) = votes_for v"
  by (simp_all add: cast_vote_def is_complete_def is_expired_def)

lemma vote_for_run:
  assumes "\<not> is_complete v" "\<not> is_expired (block_number w) v" "\<not> has_voted who v"
    and v: "v = current_ballot cfg (block_number w) (store w) (src, nonce, c)"
  shows "vote_for cfg who nonce src c w =
    (let t = relayer_threshold (store w); n = relayer_count (store w); v' = cast_vote True who v;
         w' = w\<lparr>events := events w @ [bridge_into_event cfg (VoteFor src nonce who)],
           store := (store w)\<lparr>votes := (votes (store w))((src, nonce, c) \<mapsto> snd (try_to_complete t n v'))\<rparr>\<rparr>
     in case fst (try_to_complete t n v') of
          Approved \<Rightarrow> finalize_execution cfg src nonce c w'
        | Rejected \<Rightarrow> cancel_execution cfg src nonce w'
        | Initiated \<Rightarrow> (Inr (), w'))"
  using assms(1-3) unfolding v
  by (simp add: vote_for_def thenE_run commit_vote_run try_resolve_run Let_def)

lemma finalize_run:
  "finalize_execution cfg src nonce c w =
    (case dispatch_proposal cfg c (Signed (bridge_account_id cfg))
        (w\<lparr>events := events w @ [bridge_into_event cfg (ProposalApproved src nonce)]\<rparr>) of
       (Inl e, u) \<Rightarrow> (Inl e, u)
     | (Inr _, u) \<Rightarrow> (Inr (), u\<lparr>events := events u @ [bridge_into_event cfg (ProposalSucceeded src nonce)]\<rparr>))"
  by (simp add: finalize_execution_def bridge_deposit_event_def exec_eval
      thenE_run [of "dispatch_proposal _ _ _"] split: prod.split sum.split)

lemma vote_for_quorum:
  assumes "\<not> is_complete v" "\<not> is_expired (block_number w) v" "\<not> has_voted who v"
    and v: "v = current_ballot cfg (block_number w) (store w) (src, nonce, c)"
    and q: "unat (relayer_threshold (store w)) \<le> length (votes_for v) + 1"
  shows "vote_for cfg who nonce src c w =
    (case dispatch_proposal cfg c (Signed (bridge_account_id cfg)) (approval_state cfg who nonce src c w) of
       (Inl e, u) \<Rightarrow> (Inl e, u)
     | (Inr _, u) \<Rightarrow> (Inr (), u\<lparr>events := events u @ [bridge_into_event cfg (ProposalSucceeded src nonce)]\<rparr>))"
  using q unfolding vote_for_run [OF assms(1-3) v] v
  by (simp add: try_to_complete_def finalize_run approval_state_def Let_def)


text \<open>
  C2. A relayer's admissible vote in favour that reaches the threshold marks the ballot approved
  and dispatches the proposal from the bridge account, in that order. If the dispatch succeeds its
  effects stay and \<open>ProposalSucceeded\<close> is logged last; if it fails, the whole call fails with the
  error of the proposal and leaves no trace: neither the vote nor the approval is stored.
\<close>

theorem acknowledge_with_quorum:
  assumes "is_relayer (store w) who" "chain_whitelisted (store w) src"
    and "v = current_ballot cfg (block_number w) (store w) (src, nonce, c)"
    and "\<not> is_complete v" "\<not> is_expired (block_number w) v" "\<not> has_voted who v"
    and "unat (relayer_threshold (store w)) \<le> length (votes_for v) + 1"
  shows "acknowledge_proposal cfg (Signed who) nonce src r c w =
    (case dispatch_proposal cfg c (Signed (bridge_account_id cfg)) (approval_state cfg who nonce src c w) of
       (Inl e, _) \<Rightarrow> (Inl e, w)
     | (Inr _, u) \<Rightarrow> (Inr (), u\<lparr>events := events u @ [bridge_into_event cfg (ProposalSucceeded src nonce)]\<rparr>))"
  using assms(1,2) vote_for_quorum [OF assms(4-6,3,7)]
  by (simp add: acknowledge_run transactional_run split: prod.split sum.split)

definition pending_world :: "(bridge_pallet_event, unit, nat list bridge_storage) frame" where
  "pending_world = sample_world (sample_storage\<lparr>votes := (\<lambda>k. if fst k = 1 then Some
     \<lparr>votes_for = [10], votes_against = [12], status = Initiated, expiry = 120\<rparr> else None)\<rparr>)"

lemma pending_facts:
  "is_relayer (store pending_world) 10" "is_relayer (store pending_world) 11"
  "is_relayer (store pending_world) 12" "chain_whitelisted (store pending_world) 1"
  "relayer_threshold (store pending_world) = 2" "block_number pending_world = 20"
  "current_ballot sample_bridge 20 (store pending_world) (1, n, c) =
     \<lparr>votes_for = [10], votes_against = [12], status = Initiated, expiry = 120\<rparr>"
  by (simp_all add: pending_world_def sample_defs is_relayer_def chain_whitelisted_def current_ballot_def)

theorem acknowledge_with_quorum_witness:
  "acknowledge_proposal sample_bridge (Signed 11) 0 1 [] [] pending_world = (Inl BadOrigin, pending_world) \<and>
   fst (acknowledge_proposal sample_bridge (Signed 11) 0 1 [] [3] pending_world) = Inr ()"
  using acknowledge_with_quorum [of pending_world 11 1 _ sample_bridge 0 "[]" "[]"]
    acknowledge_with_quorum [of pending_world 11 1 _ sample_bridge 0 "[3]" "[]"]
  by (simp add: pending_facts is_complete_def is_expired_def has_voted_def
      sample_bridge_simps throw_def ret_def)



definition approved_world :: "(bridge_pallet_event, unit, nat list bridge_storage) frame" where
  "approved_world = snd (acknowledge_proposal sample_bridge (Signed 11) 0 1 [] [3] pending_world)"

lemma approved_world_eq:
  "acknowledge_proposal sample_bridge (Signed 11) 0 1 [] [3] pending_world = (Inr (), approved_world)"
  "votes (store approved_world) (1, 0, [3]) =
     Some \<lparr>votes_for = [10, 11], votes_against = [12], status = Approved, expiry = 120\<rparr>"
  by (simp_all add: approved_world_def acknowledge_run pending_facts transactional_run
      vote_for_quorum [OF _ _ _ refl] is_complete_def is_expired_def has_voted_def sample_bridge_simps ret_def approval_state_def
      cast_vote_def)

lemma pending_inv: "bridge_inv 2 (store pending_world)"
proof -
  have "relayer_set (store pending_world) = {10, 11, 12}"
    by (auto simp: relayer_set_def is_relayer_def pending_world_def sample_defs split: if_splits)
  then show ?thesis
    by (auto simp: bridge_inv_def pending_world_def sample_defs ballot_wf_def split: if_splits)
qed


section \<open>What the tally decides\<close>

text \<open>
  The abstract tally: relayers \<open>R\<close>, of which \<open>F\<close> voted for and \<open>A\<close> against. A ballot is approved
  when it has its quorum, and rejected as soon as no way the others may still vote gives one.
\<close>

definition winnable :: "nat \<Rightarrow> account_id set \<Rightarrow> account_id set \<Rightarrow> account_id set \<Rightarrow> bool" where
  "winnable t R F A \<longleftrightarrow> (\<exists>S. F \<subseteq> S \<and> S \<subseteq> R - A \<and> t \<le> card S)"

definition tally_spec :: "nat \<Rightarrow> account_id set \<Rightarrow> account_id set \<Rightarrow> account_id set \<Rightarrow> proposal_status" where
  "tally_spec t R F A =
     (if t \<le> card F then Approved
      else if t \<le> card R \<and> \<not> winnable t R F A then Rejected else Initiated)"

lemma winnable_iff:
  assumes "finite R" "F \<subseteq> R" "A \<subseteq> R" "F \<inter> A = {}"
  shows "winnable t R F A \<longleftrightarrow> t + card A \<le> card R"
proof -
  have diff: "card (R - A) = card R - card A" and le: "card A \<le> card R"
    using assms(1,3) by (simp_all add: card_Diff_subset card_mono finite_subset)
  have "F \<subseteq> R - A" using assms by blast
  then have "winnable t R F A \<longleftrightarrow> t \<le> card (R - A)"
    unfolding winnable_def using assms(1) by (meson card_mono dual_order.trans finite_Diff order_refl)
  with diff le show ?thesis by auto
qed




section \<open>Outgoing transfers\<close>

lemma signal_transfer_success:
  assumes "signal_transfer_fungible cfg d r to' a w = (Inr (), w')"
  obtains n n' where "chain_nonces (store w) d = Some n" "chain_nonces (store w') d = Some n'"
    "unat n' = unat n + 1"
    "bridge_events (store w') = bridge_events (store w) @ [FungibleTransfer d n' r a to']"
  using assms by (auto simp: signal_transfer_run checked_arith split: option.splits)

text \<open>
  C26. The nonces of outgoing transfers to a chain strictly increase, whatever happens between two
  transfers: no two transfers to a chain share a nonce.
\<close>

theorem deposit_nonces_increase:
  assumes "dispatch_within cfg bridge_le"
    and "signal_transfer_fungible cfg d r1 to1 a1 w = (Inr (), w1)"
    and "bridge_steps cfg w1 w2"
    and "signal_transfer_fungible cfg d r2 to2 a2 w2 = (Inr (), w3)"
  shows "\<exists>n1 n2. n1 < n2 \<and>
    bridge_events (store w1) = bridge_events (store w) @ [FungibleTransfer d n1 r1 a1 to1] \<and>
    bridge_events (store w3) = bridge_events (store w2) @ [FungibleTransfer d n2 r2 a2 to2]"
proof -
  from assms(2) obtain m n1 where n1: "chain_nonces (store w1) d = Some n1"
    "bridge_events (store w1) = bridge_events (store w) @ [FungibleTransfer d n1 r1 a1 to1]"
    by (rule signal_transfer_success)
  from assms(4) obtain k n2 where n2: "chain_nonces (store w2) d = Some k" "unat n2 = unat k + 1"
    "bridge_events (store w3) = bridge_events (store w2) @ [FungibleTransfer d n2 r2 a2 to2]"
    by (rule signal_transfer_success)
  from bridge_steps_le [OF assms(1,3)] n1(1) n2(1) have "n1 \<le> k"
    by (rule bridge_le_nonceD)
  with n2(2) have "n1 < n2" by (simp add: word_le_nat_alt word_less_nat_alt)
  with n1 n2 show ?thesis by blast
qed

theorem deposit_nonces_increase_witness:
  "\<exists>n1 n2. n1 < n2 \<and> bridge_events (store (snd (bindE (signal_transfer_fungible sample_bridge 1 [] [] 9)
     (\<lambda>_. signal_transfer_fungible sample_bridge 1 [] [] 8) (sample_world sample_storage)))) =
     [FungibleTransfer 1 n1 [] 9 [], FungibleTransfer 1 n2 [] 8 []]"
proof -
  let ?w = "sample_world sample_storage"
  obtain w1 where w1: "signal_transfer_fungible sample_bridge 1 [] [] 9 ?w = (Inr (), w1)"
    and n1: "chain_nonces (store w1) 1 = Some 6"
    by (simp add: signal_transfer_run sample_defs checked_add_def)
  obtain w2 where w2: "signal_transfer_fungible sample_bridge 1 [] [] 8 w1 = (Inr (), w2)"
    using n1 by (simp add: signal_transfer_run checked_add_def)
  have "bindE (signal_transfer_fungible sample_bridge 1 [] [] 9)
     (\<lambda>_. signal_transfer_fungible sample_bridge 1 [] [] 8) ?w = (Inr (), w2)"
    using w1 w2 by (simp add: bindE_run)
  then show ?thesis
    using deposit_nonces_increase [OF sample_dispatch_within [OF preorder_bridge_le] w1
        rtranclp.rtrancl_refl w2]
    by (auto simp: sample_defs)
qed

section \<open>Who may do what\<close>

text \<open>
  What a call needs: the committee for administration, a relayer and a listed chain for votes, an
  open ballot for an evaluation by anyone who signs.
\<close>

fun bridge_authorised ::
  "('c, 'e, 'l) bridge_config \<Rightarrow> ('e, 'l, 'c bridge_storage) frame \<Rightarrow> 'c bridge_call \<Rightarrow> origin \<Rightarrow> bool" where
  "bridge_authorised cfg w (AcknowledgeProposal n s r c) o' =
     (\<exists>who. o' = Signed who \<and> is_relayer (store w) who \<and> chain_whitelisted (store w) s)"
| "bridge_authorised cfg w (RejectProposal n s r c) o' =
     (\<exists>who. o' = Signed who \<and> is_relayer (store w) who \<and> chain_whitelisted (store w) s)"
| "bridge_authorised cfg w (EvalVoteState n s c) o' =
     ((\<exists>who. o' = Signed who) \<and>
      (\<exists>v. votes (store w) (s, n, c) = Some v \<and> \<not> is_complete v \<and> \<not> is_expired (block_number w) v))"
| "bridge_authorised cfg w _ o' = bridge_committee_origin cfg o'"

text \<open>
  A call without the authority it needs is refused with an error and changes nothing at all:
  neither storage, nor balances, nor events.
\<close>

lemma unauthorised_refused:
  assumes "\<not> bridge_authorised cfg w c o'"
  shows "\<exists>e. run_bridge_call cfg c o' w = (Inl e, w)"
  using assms
  by (cases c) (auto simp: bridge_admin_run bridge_vote_run transactional_run try_resolve_run
      split: origin.split option.split)

section \<open>A quorum of relayers gets its proposal executed\<close>

text \<open>The relayers of a list acknowledge a proposal one after the other.\<close>

fun acknowledge_all ::
  "('c, 'e, 'l) bridge_config \<Rightarrow> deposit_nonce \<Rightarrow> bridge_chain_id \<Rightarrow> resource_id \<Rightarrow> 'c \<Rightarrow> account_id list \<Rightarrow>
   ('e, 'l, 'c bridge_storage, unit) pallet" where
  "acknowledge_all cfg nonce src r c [] = ret ()"
| "acknowledge_all cfg nonce src r c (who # whos) =
     thenE (acknowledge_proposal cfg (Signed who) nonce src r c) (acknowledge_all cfg nonce src r c whos)"

definition ballot_of :: "('c, 'e, 'l) bridge_config \<Rightarrow> u32 \<Rightarrow> account_id list \<Rightarrow> proposal_votes" where
  "ballot_of cfg n xs = \<lparr>votes_for = xs, votes_against = [], status = Initiated, expiry = n + proposal_lifetime cfg\<rparr>"

lemma ballot_of_facts:
  "\<not> is_complete (ballot_of cfg n xs)" "is_expired m (ballot_of cfg n xs) \<longleftrightarrow> n + proposal_lifetime cfg \<le> m"
  "has_voted who (ballot_of cfg n xs) \<longleftrightarrow> who \<in> set xs"
  "cast_vote True who (ballot_of cfg n xs) = ballot_of cfg n (xs @ [who])"
  "votes_for (ballot_of cfg n xs) = xs"
  by (simp_all add: ballot_of_def is_complete_def is_expired_def has_voted_def cast_vote_def)

lemma below_quorum_tally:
  "length xs < unat t \<Longrightarrow> try_to_complete t k (ballot_of cfg n xs) = (Initiated, ballot_of cfg n xs)"
  by (simp add: try_to_complete_def ballot_of_def not_le)

lemma acknowledge_below_quorum:
  assumes "is_relayer (store w) who" "chain_whitelisted (store w) src"
    and cur: "current_ballot cfg (block_number w) (store w) (src, nonce, c) = ballot_of cfg (block_number w) xs"
    and "block_number w < block_number w + proposal_lifetime cfg" "who \<notin> set xs"
    and "Suc (length xs) < unat (relayer_threshold (store w))"
  shows "acknowledge_proposal cfg (Signed who) nonce src r c w =
    (Inr (), w\<lparr>events := events w @ [bridge_into_event cfg (VoteFor src nonce who)],
       store := (store w)\<lparr>votes := (votes (store w))((src, nonce, c) \<mapsto>
         ballot_of cfg (block_number w) (xs @ [who]))\<rparr>\<rparr>)"
proof -
  note vote = vote_for_run [OF _ _ _ cur [symmetric]]
  show ?thesis
    using assms(1,2,4-6)
    by (simp add: acknowledge_run transactional_run vote ballot_of_facts below_quorum_tally Let_def not_le)
qed


lemma current_ballot_upd:
  "current_ballot cfg n (b\<lparr>votes := (votes b)(k \<mapsto> v)\<rparr>) k = v"
  by (simp add: current_ballot_def)

lemma acknowledge_all_below_quorum:
  assumes "\<forall>who \<in> set ys. is_relayer (store w) who" "chain_whitelisted (store w) src"
    and "current_ballot cfg (block_number w) (store w) (src, nonce, c) = ballot_of cfg (block_number w) xs"
    and "block_number w < block_number w + proposal_lifetime cfg" "distinct (xs @ ys)"
    and "length (xs @ ys) < unat (relayer_threshold (store w))"
  shows "\<exists>w'. acknowledge_all cfg nonce src r c ys w = (Inr (), w') \<and>
    (\<forall>who. is_relayer (store w') who = is_relayer (store w) who) \<and> chain_whitelisted (store w') src \<and>
    current_ballot cfg (block_number w) (store w') (src, nonce, c) = ballot_of cfg (block_number w) (xs @ ys) \<and>
    block_number w' = block_number w \<and> relayer_threshold (store w') = relayer_threshold (store w)"
  using assms
proof (induction ys arbitrary: xs w)
  case Nil
  then show ?case by (simp add: ret_def)
next
  case (Cons y ys)
  let ?u = "w\<lparr>events := events w @ [bridge_into_event cfg (VoteFor src nonce y)],
     store := (store w)\<lparr>votes := (votes (store w))((src, nonce, c) \<mapsto> ballot_of cfg (block_number w) (xs @ [y]))\<rparr>\<rparr>"
  have first: "acknowledge_proposal cfg (Signed y) nonce src r c w = (Inr (), ?u)"
    using Cons.prems by (intro acknowledge_below_quorum) auto
  show ?case
    using Cons.IH [of ?u "xs @ [y]"] Cons.prems
    by (simp add: first thenE_run is_relayer_def chain_whitelisted_def current_ballot_upd)
qed



end
