(* ===== verification/Runtime_Theorems.thy ===== *)
theory Runtime_Theorems
  imports Runtime Precompile_Theorems Bridge_Theorems
begin

text \<open>
  What the composed runtime promises: proposals run from the bridge into the other pallets and
  decisions stay decided whatever calls are nested in them, asset addresses reach their assets, and
  the constants of the configuration mean what they should.
\<close>

section \<open>An environment to evaluate\<close>

definition sample_env :: "(nat, nat, book) runtime_env" where
  "sample_env = \<lparr>env_tokens = book_tokens, pallet_account = (\<lambda>bs. word_of_nat (from_be bs)),
     perquintill_from_rational = from_rational sample_staking, perquintill_of = proportion_of sample_staking,
     env_deposit_creating = (\<lambda>who a l. snd (book_mint None who a l)), rocks_db_weight = (\<lambda>_ _. zero_weight),
     dispatch_assets = (\<lambda>_ _. throw BadOrigin), dispatch_ethereum = (\<lambda>_ _. throw BadOrigin),
     dispatch_other = (\<lambda>_ _. throw BadOrigin)\<rparr>"

definition sample_rest :: "handler_storage \<Rightarrow> book runtime_rest" where
  "sample_rest h = \<lparr>third_party = (\<lambda>_ _. 5000, \<lambda>_. 100000), handler_part = h, template_part = empty_template_storage,
     mint_part = default_mint_genesis, staking_part = empty_staking_storage\<rparr>"

definition sample_chain ::
  "handler_storage \<Rightarrow> (nat, nat) runtime_call bridge_storage \<Rightarrow> (nat, nat, book) world" where
  "sample_chain h b = \<lparr>block_number = 20, events = [], ledger = sample_rest h, store = b\<rparr>"

section \<open>Calls of the runtime and the bridge\<close>

text \<open>What is asked of the pallets of other repositories: they move the bridge's storage along \<open>R\<close>.\<close>

definition third_party_law ::
  "('t, 'x, 'l) runtime_env \<Rightarrow>
    (('t, 'x) runtime_call bridge_storage \<Rightarrow> ('t, 'x) runtime_call bridge_storage \<Rightarrow> bool) \<Rightarrow> bool" where
  "third_party_law env R \<longleftrightarrow> (\<forall>x o'. within (store_rel R) (dispatch_other env x o')) \<and>
     (\<forall>c o'. within (store_rel R) (dispatch_ethereum env c o'))"

lemma zoom_put_part_store: "preorder_rel R \<Longrightarrow> within (store_rel R) (zoom (get_part sel) (put_part upd) m)"
  by (auto simp: within_def zoom_def put_part_def store_rel_def preorder_rel_def split: prod.split)

lemma on_ledger_store: "preorder_rel R \<Longrightarrow> within (store_rel R) (on_ledger m)"
  by (rule within_on_ledger)

lemma transfer_store:
  assumes "preorder_rel R"
    and "\<And>d r to' a. within (store_rel R) (signal_transfer_fungible (transfer_bridge cfg) d r to' a)"
  shows "within (store_rel R) (zoom get_transfer put_transfer (run_transfer_call cfg c o'))"
  using transfer_lens.within_zoom [OF within_transfer_call [OF assms]]
  by (simp add: store_rel_def get_transfer_def within_def)

lemma runtime_call_within:
  assumes R: "preorder_rel R" and third: "third_party_law env R"
    and signal: "\<And>d r to' a. within (store_rel R) (signal_transfer_fungible (transfer_bridge (runtime_transfer env)) d r to' a)"
    and bridge: "\<And>(d :: ('t, 'x) runtime_call \<Rightarrow> origin \<Rightarrow>
      (runtime_event, 'l runtime_rest, ('t, 'x) runtime_call bridge_storage, unit) pallet) c o'.
      dispatch_within (runtime_bridge env d) R \<Longrightarrow>
      within (store_rel R) (run_bridge_call (runtime_bridge env d) c o')"
  shows "within (store_rel R) (run_runtime_call (env :: ('t, 'x, 'l) runtime_env) c o')"
proof (induction c arbitrary: o')
  case (ChainBridge c)
  let ?c = "map_bridge_call (\<lambda>p. (p, run_runtime_call env p)) c"
  have "within (store_rel R) (proposal_run ?c o'')" for o''
    using ChainBridge R by (cases c) (auto simp: proposal_run_def intro!: within_ret)
  then have "dispatch_within (runtime_bridge env (\<lambda>_ :: ('t, 'x) runtime_call. proposal_run ?c)) R"
    by (simp add: dispatch_within_def runtime_bridge_def)
  from bridge [OF this] show ?case by (simp add: Let_def)
qed (use third in \<open>simp_all add: third_party_law_def zoom_put_part_store [OF R] on_ledger_store [OF R] transfer_store [OF R signal]\<close>)

lemma runtime_call_le:
  "third_party_law env bridge_le \<Longrightarrow> within (store_rel bridge_le) (run_runtime_call env c o')"
  by (intro runtime_call_within bridge_call_le signal_transfer_le) auto

lemma run_hook_store:
  "within (store_rel R) m \<Longrightarrow> within (store_rel R) (run_hook m)"
  by (simp add: run_hook_def within_def modify_def)

lemma initialize_block_within:
  fixes env :: "('t, 'x, 'l) runtime_env"
  assumes "preorder_rel R" and "within (store_rel R) (bridge_on_initialize n ::
    (runtime_event, 'l runtime_rest, ('t, 'x) runtime_call bridge_storage, weight) pallet)"
  shows "within (store_rel R) (initialize_block env n)"
proof -
  have "within (store_rel R) (modify (\<lambda>w. w\<lparr>block_number := n\<rparr>))"
    using assms(1) by (simp add: within_modify store_rel_def preorder_rel_def)
  with assms show ?thesis
    unfolding initialize_block_def block.simps
    by (intro within_thenE within_bindE within_ret preorder_store_rel run_hook_store zoom_put_part_store)
qed

lemmas initialize_block_le = initialize_block_within [OF preorder_bridge_le on_initialize_le]

section \<open>The running runtime\<close>

text \<open>A step: any call by any origin, the hooks of a later block, or a change of third-party state.\<close>

inductive runtime_step ::
  "('t, 'x, 'l) runtime_env \<Rightarrow> ('t, 'x, 'l) world \<Rightarrow> ('t, 'x, 'l) world \<Rightarrow> bool" for env where
  call: "run_runtime_call env c o' w = (r, w') \<Longrightarrow> runtime_step env w w'"
| block: "block_number w < n \<Longrightarrow> initialize_block env n w = (r, w') \<Longrightarrow> runtime_step env w w'"
| elsewhere: "runtime_step env w (w\<lparr>events := es, ledger := (ledger w)\<lparr>third_party := l\<rparr>\<rparr>)"

abbreviation runtime_steps ::
  "('t, 'x, 'l) runtime_env \<Rightarrow> ('t, 'x, 'l) world \<Rightarrow> ('t, 'x, 'l) world \<Rightarrow> bool" where
  "runtime_steps env \<equiv> (runtime_step env)\<^sup>*\<^sup>*"

lemma runtime_step_le:
  assumes "third_party_law env bridge_le" "runtime_step env w w'"
  shows "bridge_le (store w) (store w')"
  using assms(2)
proof cases
  case (call c o' r)
  with withinD [OF runtime_call_le [OF assms(1)]] show ?thesis by (simp add: store_rel_def)
next
  case (block n r)
  with withinD [OF initialize_block_le] show ?thesis by (simp add: store_rel_def)
qed simp

lemma runtime_steps_le:
  "third_party_law env bridge_le \<Longrightarrow> runtime_steps env w w' \<Longrightarrow> bridge_le (store w) (store w')"
  by (rotate_tac, induction rule: rtranclp_induct) (auto intro: bridge_le_trans runtime_step_le)

text \<open>
  C17. Decisions of the bridge are final in the whole runtime: whatever calls run, also proposals
  that call the bridge again, and whatever blocks pass, a completed ballot stays as it is and a
  further vote for the proposal fails and changes nothing anywhere.
\<close>

theorem runtime_decisions_final:
  assumes "third_party_law env bridge_le" "runtime_steps env w w'"
    and "votes (store w) (src, nonce, c) = Some v" "is_complete v"
  shows "votes (store w') (src, nonce, c) = Some v \<and>
    (\<exists>e. run_runtime_call env (ChainBridge (AcknowledgeProposal nonce src r c)) o' w' = (Inl e, w'))"
proof -
  from runtime_steps_le [OF assms(1,2)] assms(3,4) have v: "votes (store w') (src, nonce, c) = Some v"
    by (rule bridge_le_final)
  from vote_refused(1) [OF v assms(4)] v show ?thesis
    by (simp add: run_runtime_call_bridge del: run_runtime_call.simps)
qed

definition decided_bridge :: "(nat, nat) runtime_call bridge_storage" where
  "decided_bridge = empty_bridge_storage\<lparr>votes := [(1, 0, Template CauseError) \<mapsto>
     \<lparr>votes_for = [10], votes_against = [], status = Approved, expiry = 50420\<rparr>]\<rparr>"

lemma sample_third_party_law: "preorder_rel R \<Longrightarrow> third_party_law sample_env R"
  by (simp add: third_party_law_def sample_env_def within_throw)

theorem runtime_decisions_final_witness:
  "\<exists>e. run_runtime_call sample_env (ChainBridge (AcknowledgeProposal 0 1 [] (Template CauseError))) (Signed 11)
     (sample_chain empty_handler_storage decided_bridge) = (Inl e, sample_chain empty_handler_storage decided_bridge)"
proof -
  have v: "votes (store (sample_chain empty_handler_storage decided_bridge)) (1, 0, Template CauseError) =
      Some \<lparr>votes_for = [10], votes_against = [], status = Approved, expiry = 50420\<rparr>"
    by (simp add: sample_chain_def decided_bridge_def)
  from runtime_decisions_final [OF sample_third_party_law rtranclp.rtrancl_refl v] show ?thesis
    by (auto simp: is_complete_def)
qed

section \<open>A proposal that brings value in\<close>

text \<open>One movement of the tokens: \<open>amt\<close> more for one account, nothing else.\<close>

definition mints_exactly :: "'l tokens \<Rightarrow> asset_id option \<Rightarrow> account_id \<Rightarrow> balance \<Rightarrow> 'l \<Rightarrow> 'l \<Rightarrow> bool" where
  "mints_exactly tok a who amt l l' \<longleftrightarrow>
     unat (tk_issuance (token tok a) l') = unat (tk_issuance (token tok a) l) + unat amt \<and>
     unat (tk_balance (token tok a) l' who) = unat (tk_balance (token tok a) l who) + unat amt \<and>
     (\<forall>b z. (b, z) \<noteq> (a, who) \<longrightarrow> tk_balance (token tok b) l' z = tk_balance (token tok b) l z)"

lemma runtime_transfer_in:
  assumes "token_laws (env_tokens env)"
    and "run_runtime_call env (BridgeTransfer (Transfer to' amt rid)) o' w = (Inr (), u)"
  shows "store u = store w \<and> (\<exists>i l. resource_to_asset_info (handler_part (ledger w)) rid = Some i \<and>
    ledger u = (ledger w)\<lparr>third_party := l\<rparr> \<and>
    mints_exactly (env_tokens env) (asset i) to' amt (third_party (ledger w)) l)"
proof -
  let ?h = "runtime_handler env"
  from assms(2) obtain x v where
    run: "prepare_token_bridge_in (assets_handler ?h) rid to' amt (get_snd (get_transfer w)) = (Inr x, v)"
    and u: "u = put_transfer (put_snd v (get_transfer w)) w"
    by (auto simp: zoom_def runtime_transfer_def Let_def bridge_in_transfer_run
        split: if_splits prod.splits sum.splits)
  have tok: "handler_tokens ?h = env_tokens env" by (simp add: runtime_handler_def)
  have "store v = handler_part (ledger w) \<and>
      (\<exists>i. resource_to_asset_info (handler_part (ledger w)) rid = Some i \<and>
       mints_exactly (env_tokens env) (asset i) to' amt (third_party (ledger w)) (ledger v))"
    by (rule ah.in_effect [OF assms(1) [folded tok] run])
       (auto simp: info_of_def get_snd_sel get_transfer_def mints_exactly_def tok)
  then show ?thesis by (auto simp: u put_transfer_def put_snd_def get_transfer_def)
qed

text \<open>
  C6. Value enters through the bridge only with a quorum. A vote for the proposal to deliver an
  amount either is the one that completes the quorum, and then exactly that amount of the token of
  the resource is minted to the recipient, or it moves no token at all; the other pallets keep
  their storage in both cases.
\<close>

theorem proposal_mints:
  fixes env :: "('t, 'x, 'l) runtime_env" and nonce src to' amt rid
  defines "p \<equiv> BridgeTransfer (Transfer to' amt rid) :: ('t, 'x) runtime_call"
  assumes laws: "token_laws (env_tokens env)"
    and run: "run_runtime_call env (ChainBridge (AcknowledgeProposal nonce src r p)) o' w = (Inr (), w')"
    and v: "v = current_ballot (runtime_bridge env (run_runtime_call env)) (block_number w) (store w) (src, nonce, p)"
  shows "if unat (relayer_threshold (store w)) \<le> length (votes_for v) + 1
    then \<exists>i l. resource_to_asset_info (handler_part (ledger w)) rid = Some i \<and>
      ledger w' = (ledger w)\<lparr>third_party := l\<rparr> \<and>
      mints_exactly (env_tokens env) (asset i) to' amt (third_party (ledger w)) l
    else ledger w' = ledger w"
proof -
  let ?cfg = "runtime_bridge env (run_runtime_call env)"
  from run have "acknowledge_proposal ?cfg o' nonce src r p w = (Inr (), w')"
    by (simp add: run_runtime_call_bridge del: run_runtime_call.simps)
  then obtain who where open_v: "\<not> is_complete v" "\<not> is_expired (block_number w) v" "\<not> has_voted who v"
    and vote: "vote_for ?cfg who nonce src p w = (Inr (), w')"
    unfolding v by (rule acknowledge_success)
  show ?thesis
  proof (cases "unat (relayer_threshold (store w)) \<le> length (votes_for v) + 1")
    case True
    from vote_for_quorum [OF open_v v True] vote obtain u acct where
      u: "run_runtime_call env p (Signed acct) (approval_state ?cfg who nonce src p w) = (Inr (), u)"
      and w': "ledger w' = ledger u"
      by (auto simp: runtime_bridge_def simp del: run_runtime_call.simps split: prod.splits sum.splits)
    have "ledger (approval_state ?cfg who nonce src p w) = ledger w" by (simp add: approval_state_def)
    with runtime_transfer_in [OF laws u [unfolded p_def]] True w' show ?thesis by (simp add: p_def)
  next
    case False
    then have "ledger w' = ledger w"
      using vote unfolding vote_for_run [OF open_v v]
      by (auto simp: Let_def try_to_complete_def cancel_execution_def bridge_deposit_event_def exec_eval
          split: if_splits)
    with False show ?thesis by simp
  qed
qed

definition bridge_in_call :: "(nat, nat) runtime_call" where
  "bridge_in_call = BridgeTransfer (Transfer 2 57 [9])"

definition mint_world :: "(nat, nat, book) world" where
  "mint_world = sample_chain \<lparr>resource_to_asset_info = [[9] \<mapsto> \<lparr>fee = 3, asset = Some 4\<rparr>]\<rparr>
     (empty_bridge_storage\<lparr>relayers := [10 \<mapsto> True], relayer_count := 1, relayer_threshold := 1,
        chain_nonces := [1 \<mapsto> 0]\<rparr>)"

lemma bridge_in_call_runs:
  "\<exists>w'. run_runtime_call sample_env (ChainBridge (AcknowledgeProposal 0 1 [] bridge_in_call)) (Signed 10) mint_world = (Inr (), w')"
proof -
  let ?cfg = "runtime_bridge sample_env (run_runtime_call sample_env)"
  let ?a = "bridge_account_id ?cfg"
  let ?v = "\<lparr>votes_for = [], votes_against = [], status = Initiated, expiry = 50420\<rparr> :: proposal_votes"
  have w: "is_relayer (store mint_world) 10" "chain_whitelisted (store mint_world) 1"
    "unat (relayer_threshold (store mint_world)) \<le> length (votes_for ?v) + 1"
    "?v = current_ballot ?cfg (block_number mint_world) (store mint_world) (1, 0, bridge_in_call)"
    "\<not> is_complete ?v" "\<not> is_expired (block_number mint_world) ?v" "\<not> has_voted 10 ?v"
    by (simp_all add: mint_world_def sample_chain_def is_relayer_def chain_whitelisted_def current_ballot_def
        empty_bridge_storage_def default_proposal_votes_def is_complete_def is_expired_def has_voted_def
        runtime_bridge_def proposal_lifetime_value_def)
  have "fst (run_runtime_call sample_env bridge_in_call (Signed ?a) u) = Inr ()"
    if "ledger u = ledger mint_world" for u
    using that
    by (simp add: bridge_in_call_def zoom_def bridge_in_transfer_run runtime_transfer_def Let_def ensure_bridge_def
        runtime_bridge_def token_bridge_in_def exec_eval get_snd_sel get_transfer_def mint_world_def sample_chain_def sample_rest_def
        runtime_handler_def sample_env_def on_ledger_def book_defs checked_add_def)
  then obtain u where "run_runtime_call sample_env bridge_in_call (Signed ?a)
      (approval_state ?cfg 10 0 1 bridge_in_call mint_world) = (Inr (), u)"
    by (metis (no_types, lifting) approval_state_def frame.select_convs(3) frame.surjective frame.update_convs(2,4) prod.collapse)
  then show ?thesis
    using vote_for_quorum [OF w(5-7,4,3)] w(1,2)
    by (simp add: run_runtime_call_bridge acknowledge_run transactional_run runtime_bridge_def
        del: run_runtime_call.simps)
qed

theorem proposal_mints_witness:
  "\<exists>w'. run_runtime_call sample_env (ChainBridge (AcknowledgeProposal 0 1 [] bridge_in_call)) (Signed 10) mint_world = (Inr (), w') \<and>
     mints_exactly book_tokens (Some 4) 2 57 (third_party (ledger mint_world)) (third_party (ledger w'))"
proof -
  from bridge_in_call_runs obtain w' where run: "run_runtime_call sample_env
    (ChainBridge (AcknowledgeProposal 0 1 [] bridge_in_call)) (Signed 10) mint_world = (Inr (), w')" by blast
  have tok: "env_tokens sample_env = book_tokens" by (simp add: sample_env_def)
  from proposal_mints [of sample_env, unfolded tok, OF book_token_laws run [unfolded bridge_in_call_def] refl] run
  show ?thesis by (auto simp: mint_world_def sample_chain_def sample_rest_def empty_bridge_storage_def tok)
qed

end
