(* ===== verification/Runtime_Bounds.thy ===== *)
theory Runtime_Bounds
  imports Runtime_Theorems "HOL-Library.While_Combinator"
begin

text \<open>
  What the configuration of the runtime amounts to: which addresses are contracts, what the halving
  mint pays, that the hooks of a block always return, and what the EVM may dispatch.
\<close>

section \<open>Addresses of assets\<close>

lemma to_be_zero: "to_be n 0 = replicate n 0"
  by (induction n) (simp_all add: replicate_append_same)

lemma fixed_not_asset:
  fixes address :: h160
  assumes "address \<le> 20482" shows "take 4 (to_be 20 (unat address)) \<noteq> asset_precompile_address_prefix"
proof -
  have "unat address \<le> 20482" using assms by (simp add: word_le_nat_alt)
  then have "unat address div 256 ^ 16 = 0" by simp
  then have "to_be 20 (unat address) = replicate 4 0 @ to_be 16 (unat address)"
    using to_be_append [of 4 16 "unat address"] by (simp add: to_be_zero)
  then have "take 4 (to_be 20 (unat address)) = replicate 4 0" by simp
  then show ?thesis by (simp add: asset_precompile_address_prefix_def)
qed

text \<open>
  C35. The address of an asset contract is the prefix \<open>0xFFFFFFFF\<close> and the asset id: each asset
  gets its id back from its address, and with gas for the lookup an address is routed to the
  contract of an asset exactly when it is the address of that asset and the asset exists, no matter
  whether its supply is zero. No other check than that of the caller applies.
\<close>

theorem asset_address_routing:
  assumes "address_to_asset rt = address_to_asset_id" "db_read_gas_cost rt \<le> gas"
  shows "address_to_asset_id (asset_id_to_address i) = Some i \<and>
    (precompile_target_at rt w gas address = Some (AssetContract i cs) \<longleftrightarrow>
      address = asset_id_to_address i \<and> maybe_total_supply rt w i \<noteq> None \<and> cs = [CallableByContract])"
proof -
  have gas: "\<not> gas < db_read_gas_cost rt" using assms(2) by simp
  have prefix: "take 4 (to_be 20 (unat (asset_id_to_address j))) = asset_precompile_address_prefix" for j
    by (simp add: asset_address_bytes)
  have own: "\<not> asset_id_to_address i \<le> 20482" using fixed_not_asset prefix by blast
  show ?thesis
  proof (cases "1 \<le> address \<and> address \<le> 20482 \<and> map_of precompiles_set_at address \<noteq> None")
    case True
    then show ?thesis using own
      by (auto simp: precompile_target_at_def rt_assets.to_asset_id_to_address)
  next
    case False
    then have "(if 1 \<le> address \<and> address \<le> 20482 then map_of precompiles_set_at address else None) = None"
      by (cases "map_of precompiles_set_at address") auto
    then show ?thesis
      using gas prefix
      by (auto simp: precompile_target_at_def discriminant_def assms(1) rt_assets.to_asset_id_to_address
          rt_assets.to_asset_id_iff rt_assets.to_address_inject Let_def split: option.splits)
  qed
qed

theorem asset_address_routing_witness:
  "precompile_target_at (sample_assets_rt\<lparr>address_to_asset := address_to_asset_id, maybe_total_supply := (\<lambda>_ _. Some 0)\<rparr>)
     sample_assets 3000 (asset_id_to_address 7) = Some (AssetContract 7 [CallableByContract])"
  using asset_address_routing [where i = 7 and address = "asset_id_to_address 7" and w = sample_assets and gas = 3000
      and rt = "sample_assets_rt\<lparr>address_to_asset := address_to_asset_id, maybe_total_supply := (\<lambda>_ _. Some 0)\<rparr>"]
  by (simp add: sample_assets_rt_def)

section \<open>What the halving mint pays\<close>

definition first_reward :: nat where
  "first_reward = 399269906456764772"

lemma runtime_mint_simps:
  "mint_config_ok (runtime_mint env f)" "unat (mint_total_issuance (runtime_mint env f)) = 21000000 * 10 ^ 18"
  "unat (halving_interval (runtime_mint env f)) = 26298000"
  by (simp_all add: mint_config_ok_def runtime_mint_def constant_values total_issuance_value_def UNIT_def)

lemma runtime_mint_sel:
  "beneficiary_account (runtime_mint env f) = pallet_account env halving_mint_id"
  "deposit_creating (runtime_mint env f) = env_deposit_creating env"
  "token_minted (runtime_mint env f) = unit_token_minted" "mint_into_event (runtime_mint env f) = f"
  by (simp_all add: runtime_mint_def)

lemma runtime_reward: "reward_at (runtime_mint env f) e = first_reward div 2 ^ (e div 26298000)"
  using mint_config_ok_double [OF runtime_mint_simps(1), of env f]
  by (simp add: reward_at_def runtime_mint_simps first_reward_def)

lemma runtime_reward_sum: "(\<Sum>e<k. first_reward div 2 ^ (e div 26298000)) \<le> 21000000 * 10 ^ 18"
  using reward_sum_le [OF runtime_mint_simps(1), where n = k] by (simp add: runtime_reward runtime_mint_simps(2))

lemma runtime_reward_ends: "59 * 26298000 \<le> e \<Longrightarrow> first_reward div 2 ^ (e div 26298000) = 0"
proof -
  assume "59 * 26298000 \<le> e"
  then have "59 \<le> e div 26298000" by simp
  then have "(2 :: nat) ^ 59 \<le> 2 ^ (e div 26298000)" by (intro power_increasing) simp_all
  then show ?thesis by (simp add: first_reward_def)
qed

text \<open>
  In the runtime a running mint pays, in the \<open>e\<close>-th minting block, 0.399269906456764772 units
  halved once in every 26298000 blocks, to the account of the mint, and nothing any more after 59
  halvings. All rewards together stay within 21 million units.
\<close>

lemma runtime_mint_pays:
  fixes env :: "('t, 'x, 'l) runtime_env"
  assumes "start_block (mint_part (ledger w)) = Some s" "mint_state (mint_part (ledger w)) = Running"
    and "unat n = unat s + unat (skipped_blocks (mint_part (ledger w))) + e"
  shows "\<exists>x m w'. on_mint (mint_on_initialize (runtime_mint env HalvingMintEvent) n) w = (Inr x, w') \<and>
    events w' = events w @ [HalvingMintEvent (Minted (pallet_account env halving_mint_id) m)] \<and>
    third_party (ledger w') = env_deposit_creating env (pallet_account env halving_mint_id) m (third_party (ledger w)) \<and>
    unat m = first_reward div 2 ^ (e div 26298000) \<and> (59 * 26298000 \<le> e \<longrightarrow> m = 0) \<and>
    (\<Sum>i<k. first_reward div 2 ^ (i div 26298000)) \<le> 21000000 * 10 ^ 18"
proof -
  let ?cfg = "runtime_mint env HalvingMintEvent" and ?v = "get_part mint_part w"
  let ?fr = "saturating_add s (skipped_blocks (mint_part (ledger w)))"
  have v: "store ?v = mint_part (ledger w)" "ledger ?v = third_party (ledger w)" "events ?v = events w"
    by (simp_all add: get_part_def)
  have fr: "unat ?fr = unat s + unat (skipped_blocks (mint_part (ledger w)))"
    using assms(3) unsigned_less [of n, where ?'a = nat] by (simp add: unat_saturating_add)
  then have later: "?fr \<le> n" "\<not> n < ?fr" "unat (n - ?fr) = e"
    using assms(3) by (simp_all add: word_le_nat_alt word_less_nat_alt unat_sub)
  let ?m = "block_reward ?cfg (n - ?fr)"
  have m: "unat ?m = first_reward div 2 ^ (e div 26298000)"
    by (simp add: unat_block_reward runtime_reward later(3))
  then have "59 * 26298000 \<le> e \<Longrightarrow> ?m = 0" using runtime_reward_ends by (simp add: unat_eq_0)
  with m runtime_reward_sum show ?thesis
    using assms(1,2) later(2)
    by (simp add: zoom_def mint_on_initialize_run [OF runtime_mint_simps(1)] v mint_from_def put_part_def
        runtime_mint_sel unit_token_minted_def Let_def)
qed

section \<open>Blocks always begin\<close>

text \<open>
  The loop of the halving hook, as a loop: it ends after one round for each halving so far, which
  are at most 163 of them in the lifetime of a 32-bit block number.
\<close>

lemma halve_loop_while:
  "i \<le> r \<Longrightarrow> while_option (\<lambda>(i, _). i < r) (\<lambda>(i, m). (i + 1, m div 2)) (i, m) = Some (r, halve_loop i r m)"
proof (induction i r m rule: halve_loop.induct)
  case (1 i r m)
  show ?case
  proof (cases "i < r")
    case True
    then have "i + 1 \<le> r" using unat_Suc_below [OF True] by (simp add: word_le_nat_alt word_less_nat_alt)
    with 1 True show ?thesis
      by (subst while_option_unfold, subst halve_loop.simps) simp
  next
    case False
    with 1 have "i = r" by simp
    then show ?thesis by (subst while_option_unfold, subst halve_loop.simps) simp
  qed
qed

lemma halvings_bound: "unat (n div halving_interval_value) \<le> 163" for n :: u32
proof -
  have "unat n div 26298000 \<le> 4294967295 div 26298000"
    using unsigned_less [of n, where ?'a = nat] by (intro div_le_mono) simp
  then show ?thesis by (simp add: unat_div constant_values)
qed

lemma mint_hook_returns:
  "\<exists>x v. on_mint (mint_on_initialize (runtime_mint env HalvingMintEvent) n) w = (Inr x, v)"
  by (simp add: zoom_def mint_on_initialize_run [OF runtime_mint_simps(1)] Let_def split: option.split)


section \<open>What the EVM may dispatch\<close>

definition outside_origin :: "origin \<Rightarrow> bool" where
  "outside_origin o' \<longleftrightarrow> o' = Unsigned \<or> (\<exists>a. o' = EthereumTransaction a)"

lemma outside_refused:
  assumes "outside_origin o'"
  shows "run_bridge_call (runtime_bridge env d) c1 o' v1 = (Inl BadOrigin, v1)"
    and "run_handler_call (runtime_handler env) c2 o' v2 = (Inl BadOrigin, v2)"
    and "run_transfer_call (runtime_transfer env) c3 o' v3 = (Inl BadOrigin, v3)"
    and "run_template_call f c4 o' v4 = (Inl BadOrigin, v4)"
    and "run_mint_call (runtime_mint env g) c5 o' v5 = (Inl BadOrigin, v5)"
    and "run_staking_call (runtime_staking env) c6 o' v6 = (Inl BadOrigin, v6)"
proof -
  from assms have o': "\<not> ensure_root o'" "\<And>who. o' \<noteq> Signed who" by (auto simp: outside_origin_def ensure_root_def)
  then have signed: "(case o' of Signed who \<Rightarrow> h who | _ \<Rightarrow> k) = k" for h :: "account_id \<Rightarrow> 'z" and k
    by (simp split: origin.split)
  show "run_bridge_call (runtime_bridge env d) c1 o' v1 = (Inl BadOrigin, v1)"
    using assms o'
    by (cases c1) (auto simp: bridge_admin_run bridge_vote_run runtime_bridge_def outside_origin_def)
  show "run_handler_call (runtime_handler env) c2 o' v2 = (Inl BadOrigin, v2)"
    using o' by (cases c2) (simp_all add: set_resource_run remove_resource_run runtime_handler_def)
  show "run_transfer_call (runtime_transfer env) c3 o' v3 = (Inl BadOrigin, v3)"
    using assms o' by (cases c3)
      (auto simp: transfer_assets_run bridge_in_transfer_run runtime_transfer_def Let_def ensure_bridge_def outside_origin_def)
  show "run_template_call f c4 o' v4 = (Inl BadOrigin, v4)"
    using assms by (cases c4) (auto simp: do_something_def cause_error_def transactional_run exec_eval outside_origin_def)
  show "run_mint_call (runtime_mint env g) c5 o' v5 = (Inl BadOrigin, v5)"
    using o' by (cases c5) (simp_all add: mint_call_run runtime_mint_def)
  show "run_staking_call (runtime_staking env) c6 o' v6 = (Inl BadOrigin, v6)"
    using assms o' by (cases c6)
      (auto simp: create_staking_pool_def update_metadata_def update_reward_def regist_aiusd_def stake_def
        solve_pending_stake_def claim_native_def claim_stable_def withdraw_def transactional_run exec_eval
        runtime_staking_def outside_origin_def)
qed

text \<open>
  C36. The EVM reaches the pallets by its own doors only. The dispatch precompile lets a call pass
  exactly when it is a paid call of the normal class that transfers an asset, and an Ethereum
  transaction or an unsigned origin is refused by every call of the pallets of this repository,
  with \<open>BadOrigin\<close> and without any effect; only Ethereum transactions carry their own signature.
\<close>

theorem evm_dispatch_limited:
  assumes "outside_origin o'"
    and "c \<in> range ChainBridge \<union> range AssetsHandler \<union> range BridgeTransfer \<union> range Template \<union>
      range HalvingMint \<union> range StableStaking"
  shows "run_runtime_call env c o' w = (Inl BadOrigin, w) \<and> apply_self_contained env c info = None \<and>
    (validate_before_dispatch get_info whitelisted_calls who d = None \<longleftrightarrow>
      pays_fee (get_info d) \<and> info_class (get_info d) = Normal \<and> (\<exists>i t v. d = Assets (TransferAsset i t v)))"
proof (intro conjI)
  note refused = outside_refused [OF assms(1)]
  show "run_runtime_call env c o' w = (Inl BadOrigin, w)"
    using assms(2)
    by (auto simp: refused run_runtime_call_bridge zoom_def bindE_run handler_lens.put_get transfer_lens.put_get
        template_lens.put_get mint_lens.put_get staking_lens.put_get
        simp del: run_runtime_call.simps(3))
  show "apply_self_contained env c info = None" using assms(2) by auto
  have "whitelisted_calls d \<longleftrightarrow> (\<exists>i t v. d = Assets (TransferAsset i t v))"
    by (cases d rule: whitelisted_calls.cases) simp_all
  then show "validate_before_dispatch get_info whitelisted_calls who d = None \<longleftrightarrow>
      pays_fee (get_info d) \<and> info_class (get_info d) = Normal \<and> (\<exists>i t v. d = Assets (TransferAsset i t v))"
    by (auto simp: validate_before_dispatch_def Let_def)
qed

definition minting_world :: "(nat, nat, book) world" where
  "minting_world = (sample_chain empty_handler_storage empty_bridge_storage)\<lparr>ledger := (sample_rest empty_handler_storage)
     \<lparr>mint_part := default_mint_genesis\<lparr>start_block := Some 10, mint_state := Running\<rparr>\<rparr>\<rparr>"

theorem evm_dispatch_limited_witness:
  "run_runtime_call sample_env (StableStaking (Stake 1 5)) (EthereumTransaction 7) minting_world = (Inl BadOrigin, minting_world)"
  using evm_dispatch_limited [of "EthereumTransaction 7" "StableStaking (Stake 1 5)" sample_env minting_world, THEN conjunct1]
  by (simp add: outside_origin_def)

end
