(* ===== verification/Staking_Tables.thy ===== *)
theory Staking_Tables
  imports Staking_Payouts
begin

text \<open>
  The tables of pools: names and descriptions are bounded vectors in the code, and no table entry
  speaks of a pool that was never created.
\<close>

section \<open>Well-formed tables\<close>

definition metadata_ok :: "('e, 'l) staking_config \<Rightarrow> staking_storage \<Rightarrow> bool" where
  "metadata_ok cfg s \<longleftrightarrow> (\<forall>p m. staking_pool_metadata s p = Some m \<longrightarrow>
     bounded cfg (pool_name m) \<and> bounded cfg (pool_description m) \<and> staking_pool_setting s p \<noteq> None)"

lemma metadata_ok_tables: "tables s' = tables s \<Longrightarrow> metadata_ok cfg s' = metadata_ok cfg s"
  by (simp add: metadata_ok_def tables_def)

lemma update_metadata_bounded:
  "update_metadata cfg o' p nm d w = (Inr u, w') \<Longrightarrow> metadata_ok cfg (store w) \<Longrightarrow> metadata_ok cfg (store w')"
  by (cases nm) (auto simp: update_metadata_def exec_ok metadata_ok_def staking_deposit_event_def)

lemma call_keeps_metadata:
  assumes run: "run_staking_call cfg c o' w = (r, w')" and ok: "metadata_ok cfg (store w)"
  shows "metadata_ok cfg (store w')"
proof (cases r)
  case (Inl e)
  with assms staking_call_atomic show ?thesis by blast
next
  case (Inr u)
  show ?thesis
  proof (cases c)
    case (CreateStakingPool p ps)
    with run ok Inr show ?thesis by (auto simp: metadata_ok_def dest!: create_pool_ok)
  next
    case (UpdateMetadata p nm d)
    with run ok Inr show ?thesis by (auto intro: update_metadata_bounded)
  next
    case (UpdateReward p ep x)
    with run ok Inr show ?thesis by (auto simp: metadata_ok_def dest!: update_reward_ok)
  next
    case (Stake p a)
    with run ok Inr show ?thesis by (auto simp: metadata_ok_def dest!: stake_ok)
  next
    case SolvePendingStake
    with run ok Inr show ?thesis
      by (auto simp: solve_pending_stake_def exec_ok dest!: claim_tables(4) metadata_ok_tables)
  next
    case (ClaimNative t)
    with run ok Inr show ?thesis
      by (auto simp: claim_native_def exec_ok dest!: claim_tables(1) metadata_ok_tables)
  next
    case (ClaimStable p t)
    with run ok Inr show ?thesis
      by (auto simp: claim_stable_def exec_ok dest!: claim_tables(2) metadata_ok_tables)
  next
    case (Withdraw p)
    with run Inr obtain who v v' where
      "do_native_claim cfg who (block_number w) w = (Inr (), v)"
      "do_stable_claim cfg who p (block_number w) v = (Inr (), v')" "do_withdraw cfg who p v' = (Inr (), w')"
      by (auto dest!: withdraw_ok)
    from claim_tables(1) [OF this(1)] claim_tables(2) [OF this(2)] claim_tables(3) [OF this(3)] ok
    show ?thesis by (simp add: metadata_ok_def tables_def)
  next
    case (RegistAiusd i)
    with run ok Inr show ?thesis by (auto simp: metadata_ok_def dest!: regist_aiusd_ok)
  qed
qed



end
