(* ===== verification/Chain_Spec.thy ===== *)
theory Chain_Spec
  imports Runtime_Bounds Staking_Tables
begin

text \<open>
  The genesis of the development chain, \<open>node/src/chain_spec.rs\<close>, the state in which the runtime then
  starts, and the invariants that hold from there on. Key derivation, the compiled runtime and
  reading a specification from a file are library code and enter as parameters; an \<open>expect\<close> that
  fails is the value \<open>None\<close>.
\<close>

section \<open>The specification\<close>

definition default_evm_chain_id :: u64 where "default_evm_chain_id = 42"
definition default_endowed_account_balance :: balance where "default_endowed_account_balance = 100 * UNIT"

definition get_from_seed :: "(string \<Rightarrow> 'k option) \<Rightarrow> string \<Rightarrow> 'k option" where
  "get_from_seed from_string seed = from_string (''//'' @ seed)"

definition get_account_id_from_seed :: "(string \<Rightarrow> 'k option) \<Rightarrow> ('k \<Rightarrow> account_id) \<Rightarrow> string \<Rightarrow> account_id option" where
  "get_account_id_from_seed from_string into_account seed = map_option into_account (get_from_seed from_string seed)"

definition authority_keys_from_seed ::
  "(string \<Rightarrow> 'a option) \<Rightarrow> (string \<Rightarrow> 'g option) \<Rightarrow> string \<Rightarrow> ('a \<times> 'g) option" where
  "authority_keys_from_seed aura_from_string grandpa_from_string s =
     Option.bind (get_from_seed aura_from_string s) (\<lambda>a.
     map_option (\<lambda>g. (a, g)) (get_from_seed grandpa_from_string s))"

datatype property_value = PropString string | PropNumber nat

definition default_properties :: "(string \<times> property_value) list" where
  "default_properties = [(''tokenSymbol'', PropString ''CAN''), (''tokenDecimals'', PropNumber 18)]"

text \<open>Of the parts that are left at their defaults, only the one of the halving mint is of this repository.\<close>

record ('a, 'g) runtime_genesis_config =
  system_code :: bytes
  balances_config :: "(account_id \<times> balance) list"
  aura_authorities :: "'a list"
  grandpa_authorities :: "('g \<times> u64) list"
  sudo_key :: "account_id option"
  evm_chain_id :: u64
  halving_mint_config :: mint_storage

definition build_genesis ::
  "bytes \<Rightarrow> ('a \<times> 'g) list \<Rightarrow> account_id \<Rightarrow> account_id list \<Rightarrow> bool \<Rightarrow> ('a, 'g) runtime_genesis_config" where
  "build_genesis wasm_binary initial_authorities root_key endowed_accounts enable_println =
     \<lparr>system_code = wasm_binary,
      balances_config = map (\<lambda>k. (k, default_endowed_account_balance)) endowed_accounts,
      aura_authorities = map fst initial_authorities,
      grandpa_authorities = map (\<lambda>x. (snd x, 1)) initial_authorities,
      sudo_key = Some root_key, evm_chain_id = default_evm_chain_id,
      halving_mint_config = default_mint_genesis\<rparr>"

datatype chain_type = Development

record ('a, 'g) chain_spec =
  spec_name :: string
  spec_id :: string
  spec_type :: chain_type
  spec_genesis :: "('a, 'g) runtime_genesis_config option"  \<comment> \<open>the constructor's run\<close>
  spec_protocol_id :: "string option"
  spec_properties :: "(string \<times> property_value) list option"

definition chain_spec_dev ::
  "bytes option \<Rightarrow> (string \<Rightarrow> 'a option) \<Rightarrow> (string \<Rightarrow> 'g option) \<Rightarrow> (string \<Rightarrow> account_id option) \<Rightarrow> account_id \<Rightarrow>
   string + ('a, 'g) chain_spec" where
  "chain_spec_dev wasm aura_from_string grandpa_from_string account_from_seed beneficiary =
     (case wasm of
        None \<Rightarrow> Inl ''Development wasm not available''
      | Some wasm_binary \<Rightarrow> Inr
         \<lparr>spec_name = ''canbus-dev'', spec_id = ''canbus-dev'', spec_type = Development,
          spec_genesis =
            Option.bind (authority_keys_from_seed aura_from_string grandpa_from_string ''Alice'') (\<lambda>keys.
            Option.bind (account_from_seed ''Alice'') (\<lambda>alice.
            Option.bind (account_from_seed ''Bob'') (\<lambda>bob.
            Some (build_genesis wasm_binary [keys] alice [alice, bob, beneficiary] True)))),
          spec_protocol_id = Some ''canbus'', spec_properties = Some default_properties\<rparr>)"

text \<open>\<open>load_spec\<close> of \<open>node/src/command.rs\<close>\<close>

definition load_spec ::
  "(string + ('a, 'g) chain_spec) \<Rightarrow> (string \<Rightarrow> string + ('a, 'g) chain_spec) \<Rightarrow> string \<Rightarrow> string + ('a, 'g) chain_spec" where
  "load_spec dev from_json_file i = (if i = '''' \<or> i = ''dev'' then dev else from_json_file i)"

section \<open>The first state\<close>

text \<open>The storages of this repository's pallets at genesis; \<open>l\<close> is the state of all other pallets.\<close>

definition genesis_world :: "('a, 'g) runtime_genesis_config \<Rightarrow> 'l \<Rightarrow> ('t, 'x, 'l) world" where
  "genesis_world g l = \<lparr>block_number = 0, events = [],
     ledger = \<lparr>third_party = l, handler_part = empty_handler_storage, template_part = empty_template_storage,
       mint_part = halving_mint_config g, staking_part = empty_staking_storage\<rparr>,
     store = empty_bridge_storage\<rparr>"

section \<open>What the bridge leaves alone\<close>

text \<open>The bridge writes its own storage; everything else moves only by the proposals it dispatches.\<close>

lemma bridge_call_moves:
  assumes pre: "preorder_rel R"
    and own: "\<And>g. within R (write_store g)" "\<And>e. within R (deposit_event (bridge_into_event cfg e))"
    and d: "\<And>c. c \<in> set_bridge_call call \<Longrightarrow> within R (dispatch_proposal cfg c (Signed (bridge_account_id cfg)))"
  shows "within R (run_bridge_call cfg call o')"
proof -
  have commit: "within R (commit_vote cfg who n s p f)" for who n s p f
    unfolding commit_vote_def bridge_deposit_event_def by (intro within_intro pre) (auto intro: own within_intro pre)
  have resolve: "p \<in> set_bridge_call call \<Longrightarrow> within R (try_resolve_proposal cfg n s p)" for n s p
    unfolding try_resolve_proposal_def finalize_execution_def cancel_execution_def bridge_deposit_event_def
    by (auto intro!: within_intro pre own d split: option.split proposal_status.split)
  show ?thesis
    using commit resolve
    by (cases call) (auto simp: bridge_dispatch_defs bridge_admin_defs bridge_deposit_event_def vote_for_def
        vote_against_def eval_vote_state_def intro!: within_intro pre own)
qed

text \<open>
  A part of the runtime that the bridge does not write, seen along a preorder \<open>R\<close>: when every call of
  the other pallets that is \<open>fine\<close> moves along \<open>R\<close>, and proposals of fine calls are fine for the
  bridge account, then so does every fine call, over any nesting of proposals.
\<close>

locale runtime_part =
  fixes env :: "('t, 'x, 'l) runtime_env"
    and R :: "('t, 'x, 'l) world \<Rightarrow> ('t, 'x, 'l) world \<Rightarrow> bool"
    and fine :: "('t, 'x) runtime_call \<Rightarrow> origin \<Rightarrow> bool"
  assumes preorder: "preorder_rel R"
    and bridge_storage: "within R (write_store g)"
    and bridge_event: "within R (deposit_event (ChainBridgeEvent e))"
    and other_calls: "fine c o' \<Longrightarrow> c \<notin> range ChainBridge \<Longrightarrow> within R (run_runtime_call env c o')"
    and proposals: "fine (ChainBridge b) o' \<Longrightarrow> p \<in> set_bridge_call b \<Longrightarrow>
      fine p (Signed (pallet_account env bridge_module_id))"
begin

lemma calls: "fine c o' \<Longrightarrow> within R (run_runtime_call env c o')"
proof (induction c arbitrary: o')
  case (ChainBridge b)
  let ?cfg = "runtime_bridge env (run_runtime_call env)"
  have cfg: "bridge_into_event ?cfg = ChainBridgeEvent" "dispatch_proposal ?cfg = run_runtime_call env"
    "bridge_account_id ?cfg = pallet_account env bridge_module_id"
    by (simp_all add: runtime_bridge_def)
  have "within R (run_bridge_call ?cfg b o')"
  proof (rule bridge_call_moves [OF preorder bridge_storage])
    show "within R (deposit_event (bridge_into_event ?cfg e))" for e
      unfolding cfg by (rule bridge_event)
    show "within R (dispatch_proposal ?cfg p (Signed (bridge_account_id ?cfg)))" if "p \<in> set_bridge_call b" for p
      unfolding cfg by (rule ChainBridge.IH [OF that proposals [OF ChainBridge.prems that]])
  qed
  then show ?case unfolding run_runtime_call_bridge .
qed (rule other_calls; auto)+

end

section \<open>Invariants from genesis on\<close>

text \<open>Nothing is counted or switched on before a start block is set.\<close>

definition mint_wf :: "mint_storage \<Rightarrow> bool" where
  "mint_wf s \<longleftrightarrow> start_block s = None \<longrightarrow>
     mint_state s = Stopped \<and> on_token_minted_state s = Stopped \<and> skipped_blocks s = 0"

definition parts_ok :: "('t, 'x, 'l) runtime_env \<Rightarrow> 'l runtime_rest \<Rightarrow> bool" where
  "parts_ok env r \<longleftrightarrow> mint_wf (mint_part r) \<and> metadata_ok (runtime_staking env) (staking_part r)"

text \<open>What is asked of the pallets of other repositories: they respect these storages.\<close>

definition third_party_parts :: "('t, 'x, 'l) runtime_env \<Rightarrow> bool" where
  "third_party_parts env \<longleftrightarrow> (\<forall>x o'. preserves (\<lambda>w. parts_ok env (ledger w)) (dispatch_other env x o')) \<and>
     (\<forall>c o'. preserves (\<lambda>w. parts_ok env (ledger w)) (dispatch_ethereum env c o'))"

lemma preservesI: "(\<And>s. P s \<Longrightarrow> P (snd (m s))) \<Longrightarrow> preserves P m"
  by (simp add: within_def)

lemma mint_call_wf:
  fixes cfg :: "('a, 'b) mint_config"
  shows "preserves (\<lambda>w. mint_wf (store w)) (run_mint_call cfg c o')"
proof (rule preservesI)
  fix s :: "('a, 'b, mint_storage) frame"
  assume "mint_wf (store s)"
  then show "mint_wf (store (snd (run_mint_call cfg c o' s)))"
    by (cases c; cases "start_block (store s)") (simp_all add: mint_call_run mint_wf_def)
qed

lemma mint_hook_wf:
  fixes cfg :: "('a, 'b) mint_config"
  shows "mint_config_ok cfg \<Longrightarrow> preserves (\<lambda>w. mint_wf (store w)) (mint_on_initialize cfg n)"
proof (rule preservesI)
  fix s :: "('a, 'b, mint_storage) frame"
  assume "mint_config_ok cfg" and "mint_wf (store s)"
  then show "mint_wf (store (snd (mint_on_initialize cfg n s)))"
    by (cases "start_block (store s)") (simp_all add: mint_on_initialize_run mint_wf_def mint_from_def Let_def)
qed

lemma staking_call_metadata: "preserves (\<lambda>w. metadata_ok cfg (store w)) (run_staking_call cfg c o')"
  by (rule preservesI) (metis call_keeps_metadata prod.collapse)

lemma staking_hook_metadata: "preserves (\<lambda>w. metadata_ok cfg (store w)) (staking_on_initialize cfg n)"
proof (rule preservesI)
  fix s
  have "tables (store (snd (staking_on_initialize cfg n s))) = tables (store s)"
    by (rule begin_block_tables [unfolded within_def store_rel_def, rule_format])
  from metadata_ok_tables [OF this, of cfg] show "metadata_ok cfg (store s) \<Longrightarrow>
    metadata_ok cfg (store (snd (staking_on_initialize cfg n s)))" by simp
qed

lemma snd_zoom: "snd (zoom get put m w) = put (snd (m (get w))) w"
  by (simp add: zoom_def split: prod.split)

lemma parts_zoom:
  "preserves (\<lambda>w. mint_wf (store w)) m \<Longrightarrow> preserves (\<lambda>w. parts_ok env (ledger w)) (on_mint m)"
  "preserves (\<lambda>w. metadata_ok (runtime_staking env) (store w)) k \<Longrightarrow> preserves (\<lambda>w. parts_ok env (ledger w)) (on_staking k)"
  "preserves (\<lambda>w. parts_ok env (ledger w)) (on_handler h)" "preserves (\<lambda>w. parts_ok env (ledger w)) (on_template t)"
  "preserves (\<lambda>w. parts_ok env (ledger w)) (zoom get_transfer put_transfer tr)"
  "preserves (\<lambda>w. parts_ok env (ledger w)) (on_ledger (zoom third_party (\<lambda>l r. r\<lparr>third_party := l\<rparr>) a))"
  by (simp_all add: within_def snd_zoom on_ledger_def put_part_def get_part_def put_transfer_def parts_ok_def split: prod.split)
     (simp_all add: zoom_def split: prod.split)

interpretation parts: runtime_part env "\<lambda>w w'. parts_ok env (ledger w) \<longrightarrow> parts_ok env (ledger w')"
  "\<lambda>_ _. third_party_parts env" for env :: "('t, 'x, 'l) runtime_env"
proof
  fix c :: "('t, 'x) runtime_call" and o'
  assume third: "third_party_parts env" and c: "c \<notin> range ChainBridge"
  have "preserves (\<lambda>w. mint_wf (store w)) (bindE (run_mint_call (runtime_mint env HalvingMintEvent) m o') (\<lambda>_. ret ()))" for m
    by (intro within_bindE within_ret mint_call_wf preorder_preserves)
  then show "preserves (\<lambda>w. parts_ok env (ledger w)) (run_runtime_call env c o')"
    using third c by (cases c) (simp_all add: third_party_parts_def parts_zoom staking_call_metadata)
qed (simp_all add: within_def write_store_def deposit_event_def modify_def)

lemmas runtime_call_parts = parts.calls

lemma block_parts: "preserves (\<lambda>w. parts_ok env (ledger w)) (initialize_block env n)"
proof -
  have hooks: "preserves (\<lambda>w. parts_ok env (ledger w)) (run_hook (bridge_on_initialize n))"
    "preserves (\<lambda>w. parts_ok env (ledger w)) (modify (\<lambda>w. w\<lparr>block_number := n\<rparr>))"
    by (simp_all add: run_hook_def within_modify bridge_on_initialize_run write_store_def modify_def)
  have stk: "preserves (\<lambda>w. parts_ok env (ledger w)) (run_hook (on_staking (staking_on_initialize (runtime_staking env) n)))"
    using parts_zoom(2) [OF staking_hook_metadata] by (simp add: run_hook_def within_def modify_def)
  show ?thesis
    unfolding initialize_block_def block.simps
    by (intro within_thenE within_bindE within_ret preorder_preserves hooks stk parts_zoom(1) mint_hook_wf
        runtime_mint_simps)
qed

lemma runtime_step_inv:
  assumes "third_party_law env (keeps_inv bridge_chain_id_value)" "third_party_parts env"
    and "runtime_step env w w'" "bridge_inv bridge_chain_id_value (store w)" "parts_ok env (ledger w)"
  shows "bridge_inv bridge_chain_id_value (store w') \<and> parts_ok env (ledger w')"
  using assms(3)
proof cases
  case (call c o' r)
  have "within (store_rel (keeps_inv bridge_chain_id_value)) (run_runtime_call env c o')"
    by (rule runtime_call_within [OF _ assms(1) signal_transfer_inv])
       (use bridge_call_inv [of "runtime_bridge _ _"] in \<open>auto simp: runtime_bridge_def\<close>)
  from withinD [OF this call] withinD [OF runtime_call_parts [OF assms(2)] call] assms(4,5)
  show ?thesis by (simp add: store_rel_def)
next
  case (block n r)
  from withinD [OF initialize_block_within [OF preorder_preserves on_initialize_inv] block(2)]
    withinD [OF block_parts block(2)] assms(4,5)
  show ?thesis by (simp add: store_rel_def)
next
  case (elsewhere es l)
  with assms(4,5) show ?thesis by (simp add: parts_ok_def)
qed

text \<open>
  C16. The storages are well-formed from the genesis of the chain on, in every state that any calls,
  nested proposals, blocks and changes of other pallets can lead to: ballots count distinct voters
  who did not vote twice, the relayer count is right and the threshold positive, nothing is minted
  or counted before a start block is set, and pool metadata is bounded and speaks of existing pools.
\<close>

theorem genesis_invariants:
  assumes "third_party_law env (keeps_inv bridge_chain_id_value)" "third_party_parts env"
    and "spec_genesis spec = Some g" "chain_spec_dev wasm ka kg acct ben = Inr spec"
    and "runtime_steps env (genesis_world g l) w"
  shows "bridge_inv bridge_chain_id_value (store w) \<and> mint_wf (mint_part (ledger w)) \<and>
    metadata_ok (runtime_staking env) (staking_part (ledger w))"
proof -
  have "halving_mint_config g = default_mint_genesis"
    using assms(3,4) by (auto simp: chain_spec_dev_def build_genesis_def bind_eq_Some_conv split: option.splits)
  then have start: "bridge_inv bridge_chain_id_value (store (genesis_world g l)) \<and> parts_ok env (ledger (genesis_world g l))"
    by (simp add: genesis_world_def bridge_inv_empty parts_ok_def mint_wf_def default_mint_genesis_def
        mint_genesis_def metadata_ok_def empty_staking_storage_def)
  from assms(5) have "bridge_inv bridge_chain_id_value (store w) \<and> parts_ok env (ledger w)"
    by (induction rule: rtranclp_induct) (use start runtime_step_inv [OF assms(1,2)] in auto)
  then show ?thesis by (simp add: parts_ok_def)
qed

lemma sample_third_party_parts: "third_party_parts sample_env"
  by (simp add: third_party_parts_def sample_env_def within_throw)

definition dev_seed :: "string \<Rightarrow> nat option" where
  "dev_seed s = Some (length s)"

theorem genesis_invariants_witness:
  "\<exists>spec g. chain_spec_dev (Some [1]) dev_seed dev_seed (\<lambda>s. Some (word_of_nat (length s))) 9 = Inr spec \<and>
     spec_genesis spec = Some g \<and> bridge_inv bridge_chain_id_value (store (genesis_world g empty_book :: (nat, nat, book) world))"
proof -
  obtain spec :: "(nat, nat) chain_spec" and g where
    spec: "chain_spec_dev (Some [1]) dev_seed dev_seed (\<lambda>s. Some (word_of_nat (length s))) 9 = Inr spec"
    and g: "spec_genesis spec = Some g"
    by (simp add: chain_spec_dev_def authority_keys_from_seed_def get_from_seed_def dev_seed_def)
  from genesis_invariants [OF sample_third_party_law sample_third_party_parts g spec rtranclp.rtrancl_refl, of empty_book] spec g
  show ?thesis by auto
qed

end
