(* ===== verification/Runtime_Staking.thy ===== *)
theory Runtime_Staking
  imports Chain_Spec
begin

text \<open>
  The staking pallet inside the runtime: seen through its part of the world, every run of the
  runtime is a run of the pallet on its own. What \<open>Staking_Theorems\<close> shows of the pallet alone
  therefore holds on the chain, in particular that its account covers what it owes, whatever the
  other pallets, nested proposals and blocks do.
\<close>

section \<open>The view of the pallet\<close>

abbreviation staking_view :: "('t, 'x, 'l) world \<Rightarrow> (runtime_event, 'l, staking_storage) frame" where
  "staking_view \<equiv> get_part staking_part"

text \<open>A run of the pallet alone leads from one view to the other.\<close>

definition as_staking :: "('t, 'x, 'l) runtime_env \<Rightarrow> ('t, 'x, 'l) world \<Rightarrow> ('t, 'x, 'l) world \<Rightarrow> bool" where
  "as_staking env w w' \<longleftrightarrow> staking_steps (runtime_staking env) (staking_view w) (staking_view w')"

lemma preorder_as_staking [simp]: "preorder_rel (as_staking env)"
proof -
  have "as_staking env u u" and "as_staking env u v \<Longrightarrow> as_staking env v w \<Longrightarrow> as_staking env u w" for u v w
    unfolding as_staking_def by (rule rtranclp.rtrancl_refl, rule rtranclp_trans)
  then show ?thesis unfolding preorder_rel_def by blast
qed

abbreviation pool_account :: "('t, 'x, 'l) runtime_env \<Rightarrow> account_id" where
  "pool_account env \<equiv> pallet_account env staking_pool_id"

definition pool_holds :: "('t, 'x, 'l) runtime_env \<Rightarrow> asset_id \<Rightarrow> 'l \<Rightarrow> nat" where
  "pool_holds env i l = unat (tk_balance (token (env_tokens env) (Some i)) l (pool_account env))"

lemma pool_holds_aiusd: "aiusd_held (runtime_staking env) i l = pool_holds env i l"
  by (simp add: aiusd_held_def pool_holds_def runtime_staking_def)

lemma runtime_staking_sel:
  "staking_tokens (runtime_staking env) = env_tokens env" "stable_beneficiary (runtime_staking env) = pool_account env"
  "staking_committee_origin (runtime_staking env) = ensure_root"
  by (simp_all add: runtime_staking_def)

text \<open>Changes that do not touch the pallet and take nothing from its account are steps elsewhere.\<close>

definition spares :: "('t, 'x, 'l) runtime_env \<Rightarrow> ('t, 'x, 'l) world \<Rightarrow> ('t, 'x, 'l) world \<Rightarrow> bool" where
  "spares env w w' \<longleftrightarrow> block_number w' = block_number w \<and> staking_part (ledger w') = staking_part (ledger w) \<and>
     (\<forall>i. pool_holds env i (third_party (ledger w)) \<le> pool_holds env i (third_party (ledger w')))"

lemma preorder_spares [simp]: "preorder_rel (spares env)"
proof -
  have "spares env u u" and "spares env u v \<Longrightarrow> spares env v w \<Longrightarrow> spares env u w" for u v w
    unfolding spares_def by (simp, auto intro: order_trans)
  then show ?thesis unfolding preorder_rel_def by blast
qed

lemma spares_as_staking:
  assumes "spares env w w'" shows "as_staking env w w'"
proof -
  from assms have same: "block_number w' = block_number w" "staking_part (ledger w') = staking_part (ledger w)"
    and more: "\<And>i. pool_holds env i (third_party (ledger w)) \<le> pool_holds env i (third_party (ledger w'))"
    unfolding spares_def by blast+
  have view: "staking_view w' = (staking_view w)\<lparr>events := events w', ledger := third_party (ledger w')\<rparr>"
    by (simp add: get_part_def same)
  have "staking_step (runtime_staking env) (staking_view w)
      ((staking_view w)\<lparr>events := events w', ledger := third_party (ledger w')\<rparr>)"
  proof (rule staking_step.elsewhere)
    fix i
    show "aiusd_held (runtime_staking env) i (ledger (staking_view w)) \<le>
        aiusd_held (runtime_staking env) i (third_party (ledger w'))"
      using more [of i] by (simp add: pool_holds_aiusd get_part_def)
  qed
  then show ?thesis unfolding as_staking_def view by (rule r_into_rtranclp)
qed

lemma within_spares: "within (spares env) m \<Longrightarrow> within (as_staking env) m"
  by (simp add: within_def spares_as_staking)

section \<open>The other pallets of the runtime\<close>

lemma spares_viewed:
  "(\<And>v. block_number (snd (m v)) = block_number v \<and> (\<forall>i. pool_holds env i (ledger v) \<le> pool_holds env i (ledger (snd (m v))))) \<Longrightarrow>
    ledger v = l \<Longrightarrow> pool_holds env i l \<le> pool_holds env i (ledger (snd (m v)))"
  by blast

lemma spares_parts:
  "(\<And>v. block_number (snd (m v)) = block_number v \<and> (\<forall>i. pool_holds env i (ledger v) \<le> pool_holds env i (ledger (snd (m v))))) \<Longrightarrow>
    within (spares env) (on_mint m)"
  "(\<And>v. block_number (snd (h v)) = block_number v \<and> ledger (snd (h v)) = ledger v) \<Longrightarrow> within (spares env) (on_handler h)"
  "(\<And>v. block_number (snd (t v)) = block_number v \<and> ledger (snd (t v)) = ledger v) \<Longrightarrow> within (spares env) (on_template t)"
  "(\<And>v. block_number (snd (tr v)) = block_number v \<and> (\<forall>i. pool_holds env i (ledger v) \<le> pool_holds env i (ledger (snd (tr v))))) \<Longrightarrow>
    within (spares env) (zoom get_transfer put_transfer tr)"
  by (auto simp: within_def spares_def snd_zoom put_part_def put_transfer_def get_part_def get_transfer_def intro: spares_viewed)

lemma handler_spares: "within (spares env) (on_handler (run_handler_call cfg c o'))"
  by (rule spares_parts, cases c) (simp_all add: set_resource_run remove_resource_run)

lemma template_spares: "within (spares env) (on_template (run_template_call f c o'))"
  by (rule spares_parts, cases c)
     (simp_all add: template_call_run del: run_template_call.simps split: origin.split option.split)

lemma mint_call_spares: "within (spares env) (on_mint (bindE (run_mint_call cfg c o') (\<lambda>_. ret ())))"
  by (rule spares_parts, cases c)
     (auto simp: bindE_run mint_call_run ret_def split: option.split)

lemma transfer_spares:
  assumes laws: "token_laws (env_tokens env)" and o': "o' \<noteq> Signed (pool_account env)"
  shows "within (spares env) (zoom get_transfer put_transfer (run_transfer_call (runtime_transfer env) c o'))"
proof (rule spares_parts)
  fix v
  let ?cfg = "runtime_transfer env" and ?h = "runtime_handler env"
  have h: "bridge_handler_of ?cfg = assets_handler ?h" "token_laws (handler_tokens ?h)" "handler_tokens ?h = env_tokens env"
    using laws by (simp_all add: runtime_transfer_def Let_def runtime_handler_def)
  obtain r w where run: "run_transfer_call ?cfg c o' v = (r, w)" by force
  show "block_number (snd (run_transfer_call ?cfg c o' v)) = block_number v \<and>
      (\<forall>i. pool_holds env i (ledger v) \<le> pool_holds env i (ledger (snd (run_transfer_call ?cfg c o' v))))"
  proof (cases r)
    case (Inl e)
    with run have "w = v" by (cases c) (auto simp: transfer_assets_def bridge_in_transfer_def transactional_err)
    with run show ?thesis by simp
  next
    case (Inr u)
    show ?thesis
    proof (cases c)
      case (TransferAssets a rc d rid)
      with run Inr have "transfer_assets ?cfg o' a rc d rid v = (Inr (), w)" by simp
      from ah.transfer_assets_spares [OF h(1,2) o' this] have "pool_holds env i (ledger v) \<le> pool_holds env i (ledger w)" for i
        by (simp add: pool_holds_def h(3))
      moreover have "block_number w = block_number v"
        by (rule ah.transfer_assets_parts [OF h(1) \<open>transfer_assets _ _ _ _ _ _ _ = _\<close>])
           (auto simp: token_bridge_out_ok get_snd_sel)
      ultimately show ?thesis using run by simp
    next
      case (Transfer t a rid)
      with run Inr have "bridge_in_transfer ?cfg o' t a rid v = (Inr (), w)" by simp
      from ah.bridge_in_spares [OF h(1,2) this] have "pool_holds env i (ledger v) \<le> pool_holds env i (ledger w)" for i
        by (simp add: pool_holds_def h(3))
      moreover have "block_number w = block_number v"
        using \<open>bridge_in_transfer _ _ _ _ _ _ = _\<close>
        by (auto simp: h(1) bridge_in_transfer_run token_bridge_in_ok pair_lens_defs split: if_splits prod.splits sum.splits)
      ultimately show ?thesis using run by simp
    qed
  qed
qed

section \<open>Careful calls\<close>

text \<open>
  What is asked of the calls, at every depth of nesting: pools have sane caps and nobody stakes
  nothing (an empty stake can lose the queue), and no asset administrator burns or moves the
  tokens of the pallet account.
\<close>

fun careful_assets :: "account_id \<Rightarrow> assets_call \<Rightarrow> bool" where
  "careful_assets acct (BurnAsset i who a) = (who \<noteq> acct)"
| "careful_assets acct (TransferApproved i own d a) = (own \<noteq> acct)"
| "careful_assets acct _ = True"

definition carried_all :: "bool bridge_call \<Rightarrow> bool" where
  "carried_all c \<longleftrightarrow> (\<forall>b \<in> set_bridge_call c. b)"

primrec careful :: "('t, 'x, 'l) runtime_env \<Rightarrow> ('t, 'x) runtime_call \<Rightarrow> bool" where
  "careful env (Ethereum c) = True"
| "careful env (Assets c) = careful_assets (pool_account env) c"
| "careful env (ChainBridge c) = carried_all (map_bridge_call (careful env) c)"
| "careful env (AssetsHandler c) = True"
| "careful env (BridgeTransfer c) = True"
| "careful env (Template c) = True"
| "careful env (HalvingMint c) = True"
| "careful env (StableStaking c) = admissible_call c"
| "careful env (OtherCall x) = True"

text \<open>
  What is asked of the pallets of other repositories: asset calls of others take nothing from the
  account of the pallet, nor does the currency when it mints, and whatever else they dispatch (as
  \<open>Sudo\<close> and the EVM do) reaches the staking pallet by its steps only.
\<close>

definition foreign_laws :: "('t, 'x, 'l) runtime_env \<Rightarrow> bool" where
  "foreign_laws env \<longleftrightarrow>
     (\<forall>c o' l i. o' \<noteq> Signed (pool_account env) \<longrightarrow> careful_assets (pool_account env) c \<longrightarrow>
        pool_holds env i l \<le> pool_holds env i (snd (dispatch_assets env c o' l))) \<and>
     (\<forall>who a l i. pool_holds env i l \<le> pool_holds env i (env_deposit_creating env who a l)) \<and>
     (\<forall>c o'. o' \<noteq> Signed (pool_account env) \<longrightarrow> within (as_staking env) (dispatch_ethereum env c o')) \<and>
     (\<forall>x o'. o' \<noteq> Signed (pool_account env) \<longrightarrow> within (as_staking env) (dispatch_other env x o'))"

lemma foreign_lawsD:
  assumes "foreign_laws env"
  shows "o' \<noteq> Signed (pool_account env) \<Longrightarrow> careful_assets (pool_account env) c \<Longrightarrow>
      pool_holds env i l \<le> pool_holds env i (snd (dispatch_assets env c o' l))"
    and "pool_holds env i l \<le> pool_holds env i (env_deposit_creating env who a l)"
    and "o' \<noteq> Signed (pool_account env) \<Longrightarrow> within (as_staking env) (dispatch_ethereum env e o')"
    and "o' \<noteq> Signed (pool_account env) \<Longrightarrow> within (as_staking env) (dispatch_other env x o')"
  using assms unfolding foreign_laws_def by blast+

section \<open>Calls of the runtime\<close>

lemma view_on_staking: "staking_view (snd (on_staking m w)) = snd (m (staking_view w))"
  by (simp add: snd_zoom staking_lens.get_put)

lemma staking_call_view:
  assumes "admissible_call c" "o' \<noteq> Signed (pool_account env)"
    and "\<And>i. c = RegistAiusd i \<Longrightarrow> o' = Root \<Longrightarrow> aiusd_asset_id (staking_part (ledger w)) \<in> {None, Some i}"
  shows "as_staking env w (snd (on_staking (run_staking_call (runtime_staking env) c o') w))"
proof (cases "\<exists>i. c = RegistAiusd i \<and> o' \<noteq> Root")
  case True
  then have "snd (run_staking_call (runtime_staking env) c o' v) = v" for v
    by (cases o') (auto simp: regist_aiusd_def transactional_run exec_eval runtime_staking_sel ensure_root_def)
  then show ?thesis unfolding as_staking_def view_on_staking by simp
next
  case False
  have "staking_step (runtime_staking env) (staking_view w) (snd (run_staking_call (runtime_staking env) c o' (staking_view w)))"
  proof (rule staking_step.call [OF surjective_pairing assms(1)])
    show "o' \<noteq> Signed (stable_beneficiary (runtime_staking env))" using assms(2) by (simp add: runtime_staking_sel)
    show "aiusd_asset_id (store (staking_view w)) \<in> {None, Some i}" if "c = RegistAiusd i" for i
      using that False assms(3) by (auto simp: get_part_def)
  qed
  then show ?thesis unfolding as_staking_def view_on_staking by (rule r_into_rtranclp)
qed

lemma bridge_writes_spare: "within (spares env) (write_store g)" "within (spares env) (deposit_event ev)"
  by (simp_all add: within_def spares_def write_store_def deposit_event_def modify_def)

text \<open>The other pallets, the bridge aside, move within the steps of the staking pallet.\<close>

definition careful_as ::
  "('t, 'x, 'l) runtime_env \<Rightarrow> ('t, 'x) runtime_call \<Rightarrow> origin \<Rightarrow> bool" where
  "careful_as env c o' \<longleftrightarrow> careful env c \<and> o' \<noteq> Signed (pool_account env) \<and>
     (\<forall>i. c = StableStaking (RegistAiusd i) \<longrightarrow> o' \<noteq> Root)"

definition runtime_laws :: "('t, 'x, 'l) runtime_env \<Rightarrow> bool" where
  "runtime_laws env \<longleftrightarrow> token_laws (env_tokens env) \<and> foreign_laws env \<and>
     pallet_account env bridge_module_id \<noteq> pool_account env"

lemma other_call_view:
  assumes "runtime_laws env" "careful_as env c o'" "c \<notin> range ChainBridge"
  shows "within (as_staking env) (run_runtime_call env c o')"
proof (cases c)
  case (Assets a)
  with assms have "pool_holds env i l \<le> pool_holds env i (snd (dispatch_assets env a o' l))" for i l
    unfolding runtime_laws_def careful_as_def by (auto intro!: foreign_lawsD(1))
  then have "within (spares env) (run_runtime_call env (Assets a) o')"
    by (auto simp: within_def spares_def on_ledger_def zoom_def split: prod.split) (metis snd_conv)
  with Assets show ?thesis by (simp add: within_spares)
next
  case (StableStaking s)
  with assms show ?thesis
    by (auto simp: within_def careful_as_def intro!: staking_call_view)
next
  case (ChainBridge b)
  with assms(3) show ?thesis by blast
qed (use assms in \<open>simp_all add: runtime_laws_def careful_as_def foreign_lawsD within_spares handler_spares
    template_spares mint_call_spares transfer_spares\<close>)

interpretation staking_in: runtime_part env "as_staking env" "\<lambda>c o'. runtime_laws env \<and> careful_as env c o'"
  for env :: "('t, 'x, 'l) runtime_env"
proof
  show "within (as_staking env) (run_runtime_call env c o')"
    if "runtime_laws env \<and> careful_as env c o'" "c \<notin> range ChainBridge" for c :: "('t, 'x) runtime_call" and o'
    using that other_call_view by blast
  show "runtime_laws env \<and> careful_as env p (Signed (pallet_account env bridge_module_id))"
    if "runtime_laws env \<and> careful_as env (ChainBridge b) o'" "p \<in> set_bridge_call b"
    for b :: "('t, 'x) runtime_call bridge_call" and o' p
    using that by (auto simp: runtime_laws_def careful_as_def carried_all_def bridge_call.set_map)
qed (simp_all add: within_spares bridge_writes_spare)

section \<open>Blocks\<close>

lemma mint_hook_spares:
  assumes "foreign_laws env"
  shows "within (spares env) (on_mint (mint_on_initialize (runtime_mint env HalvingMintEvent) n))"
  by (rule spares_parts(1))
     (auto simp: mint_on_initialize_run [OF runtime_mint_simps(1)] Let_def runtime_mint_sel unit_token_minted_def
       foreign_lawsD(2) [OF assms] split: option.split)

lemma block_view:
  assumes "foreign_laws env" "block_number w < n" "initialize_block env n w = (r, w')"
  shows "as_staking env w w'"
proof -
  let ?w = "snd (bridge_on_initialize n (w\<lparr>block_number := n\<rparr>))"
  obtain x v where v: "on_mint (mint_on_initialize (runtime_mint env HalvingMintEvent) n) ?w = (Inr x, v)"
    using mint_hook_returns by blast
  from withinD [OF mint_hook_spares [OF assms(1)] v] have s: "spares env ?w v" .
  have w': "w' = snd (on_staking (staking_on_initialize (runtime_staking env) n) v)"
    using assms(3) v by (simp add: initialize_block_def run_hook_def exec_eval bindE_run)
  let ?u = "(staking_view w)\<lparr>events := events v, ledger := third_party (ledger v)\<rparr>"
  have same: "block_number ?w = n" "ledger ?w = ledger w"
    by (simp_all add: bridge_on_initialize_run write_store_def modify_def)
  have "staking_step (runtime_staking env) (staking_view w) ?u"
  proof (rule staking_step.elsewhere)
    fix i
    from s have "pool_holds env i (third_party (ledger w)) \<le> pool_holds env i (third_party (ledger v))"
      unfolding spares_def same by blast
    then show "aiusd_held (runtime_staking env) i (ledger (staking_view w)) \<le> aiusd_held (runtime_staking env) i (third_party (ledger v))"
      by (simp add: pool_holds_aiusd get_part_def)
  qed
  moreover have "staking_step (runtime_staking env) ?u (staking_view w')"
  proof (rule staking_step.block)
    show "block_number ?u < n" using assms(2) by (simp add: get_part_def)
    have "staking_view v = ?u\<lparr>block_number := n\<rparr>"
      using s unfolding spares_def same by (simp add: get_part_def)
    then show "staking_on_initialize (runtime_staking env) n (?u\<lparr>block_number := n\<rparr>) =
        (fst (staking_on_initialize (runtime_staking env) n (staking_view v)), staking_view w')"
      unfolding w' view_on_staking by simp
  qed
  ultimately show ?thesis unfolding as_staking_def by (rule converse_rtranclp_into_rtranclp [OF _ r_into_rtranclp])
qed

section \<open>The running runtime\<close>

text \<open>
  A step of the runtime in which calls are careful, nobody signs as the pallet account, the staked
  token is registered once, and changes elsewhere take nothing from the pallet account.
\<close>

inductive careful_step ::
  "('t, 'x, 'l) runtime_env \<Rightarrow> ('t, 'x, 'l) world \<Rightarrow> ('t, 'x, 'l) world \<Rightarrow> bool" for env where
  call: "run_runtime_call env c o' w = (r, w') \<Longrightarrow> careful env c \<Longrightarrow> o' \<noteq> Signed (pool_account env) \<Longrightarrow>
    (\<And>i. c = StableStaking (RegistAiusd i) \<Longrightarrow> aiusd_asset_id (staking_part (ledger w)) \<in> {None, Some i}) \<Longrightarrow>
    careful_step env w w'"
| block: "block_number w < n \<Longrightarrow> initialize_block env n w = (r, w') \<Longrightarrow> careful_step env w w'"
| elsewhere: "(\<And>i. pool_holds env i (third_party (ledger w)) \<le> pool_holds env i l) \<Longrightarrow>
    careful_step env w (w\<lparr>events := es, ledger := (ledger w)\<lparr>third_party := l\<rparr>\<rparr>)"

abbreviation careful_steps ::
  "('t, 'x, 'l) runtime_env \<Rightarrow> ('t, 'x, 'l) world \<Rightarrow> ('t, 'x, 'l) world \<Rightarrow> bool" where
  "careful_steps env \<equiv> (careful_step env)\<^sup>*\<^sup>*"

lemma careful_step_view:
  assumes laws: "token_laws (env_tokens env)" "foreign_laws env"
    and apart: "pallet_account env bridge_module_id \<noteq> pool_account env" and step: "careful_step env w w'"
  shows "as_staking env w w'"
  using step
proof cases
  case (call c o' r)
  show ?thesis
  proof (cases "\<exists>i. c = StableStaking (RegistAiusd i)")
    case True
    then obtain i where c: "c = StableStaking (RegistAiusd i)" by blast
    with call have "w' = snd (on_staking (run_staking_call (runtime_staking env) (RegistAiusd i) o') w)" by simp
    with staking_call_view [of "RegistAiusd i" o' env w] call(3,4) c show ?thesis by auto
  next
    case False
    with laws apart call(2,3) have "runtime_laws env \<and> careful_as env c o'"
      by (simp add: runtime_laws_def careful_as_def)
    from withinD [OF staking_in.calls [OF this] call(1)] show ?thesis .
  qed
next
  case (block n r)
  then show ?thesis by (rule block_view [OF laws(2)])
next
  case (elsewhere l es)
  then have "spares env w w'" by (simp add: spares_def)
  then show ?thesis by (rule spares_as_staking)
qed

lemma careful_steps_view:
  assumes "token_laws (env_tokens env)" "foreign_laws env"
    and "pallet_account env bridge_module_id \<noteq> pool_account env" and "careful_steps env w w'"
  shows "staking_steps (runtime_staking env) (staking_view w) (staking_view w')"
  using assms(4)
proof induction
  case (step v u)
  from careful_step_view [OF assms(1-3) step.hyps(2)] step.IH show ?case
    unfolding as_staking_def by (rule rtranclp_trans [rotated])
qed simp



section \<open>A run to evaluate\<close>

lemma sample_env_sel:
  "env_tokens sample_env = book_tokens" "pool_account sample_env = word_of_nat (from_be staking_pool_id)"
  "perquintill_from_rational sample_env = from_rational sample_staking" "perquintill_of sample_env = proportion_of sample_staking"
  by (simp_all add: sample_env_def)

lemma sample_runtime_laws:
  "token_laws (env_tokens sample_env)" "proportion_law (runtime_staking sample_env)" "foreign_laws sample_env"
  "pallet_account sample_env bridge_module_id \<noteq> pallet_account sample_env staking_pool_id"
proof -
  show "proportion_law (runtime_staking sample_env)"
    using sample_staking_laws(2) by (simp add: proportion_law_def runtime_staking_def sample_env_sel)
  have "pool_holds sample_env i (snd (book_mint None who a l)) = pool_holds sample_env i l" for i who a l
    by (simp add: pool_holds_def sample_env_sel book_defs split: option.split)
  then show "foreign_laws sample_env"
    by (simp add: foreign_laws_def sample_env_def within_throw) (simp add: throw_def)
qed (simp_all add: sample_env_sel book_token_laws sample_env_def bridge_module_id_def staking_pool_id_def ascii_def from_be_def)

text \<open>Genesis, the token registered, a pool opened, a later block, and a stake of 300 by account 5.\<close>

definition dev_genesis :: "(nat, nat) runtime_genesis_config" where
  "dev_genesis = build_genesis [] [] 0 [] False"

definition fresh_chain :: "(nat, nat, book) world" where
  "fresh_chain = genesis_world dev_genesis (\<lambda>_ _. 5000, \<lambda>_. 100000)"

definition registered_chain :: "(nat, nat, book) world" where
  "registered_chain = snd (run_runtime_call sample_env (StableStaking (RegistAiusd 4)) Root fresh_chain)"

definition opened_chain :: "(nat, nat, book) world" where
  "opened_chain = snd (run_runtime_call sample_env
     (StableStaking (CreateStakingPool 1 (sample_pool\<lparr>start_time := 60\<rparr>))) Root registered_chain)"

definition later_chain :: "(nat, nat, book) world" where
  "later_chain = snd (initialize_block sample_env 100 opened_chain)"

definition staked_chain :: "(nat, nat, book) world" where
  "staked_chain = snd (run_runtime_call sample_env (StableStaking (Stake 1 300)) (Signed 5) later_chain)"

lemma staked_chain_steps: "careful_steps sample_env (genesis_world dev_genesis (\<lambda>_ _. 5000, \<lambda>_. 100000)) staked_chain"
proof -
  have acct: "Signed 5 \<noteq> Signed (pool_account sample_env)"
    by (simp add: sample_env_def staking_pool_id_def ascii_def from_be_def)
  have s1: "careful_step sample_env fresh_chain registered_chain"
    unfolding registered_chain_def
    by (rule careful_step.call [OF surjective_pairing]) (auto simp: fresh_chain_def genesis_world_def empty_staking_storage_def)
  have s2: "careful_step sample_env registered_chain opened_chain"
    unfolding opened_chain_def by (rule careful_step.call [OF surjective_pairing]) (auto simp: sample_pool_def)
  have "block_number opened_chain = 0"
    by (simp add: opened_chain_def registered_chain_def fresh_chain_def genesis_world_def snd_zoom put_part_def get_part_def
        create_staking_pool_def regist_aiusd_def transactional_run exec_eval staking_deposit_event_def runtime_staking_def
        ensure_root_def sample_pool_def empty_staking_storage_def)
  then have s3: "careful_step sample_env opened_chain later_chain"
    unfolding later_chain_def by (intro careful_step.block [OF _ surjective_pairing]) simp
  have s4: "careful_step sample_env later_chain staked_chain"
    unfolding staked_chain_def by (rule careful_step.call [OF surjective_pairing]) (use acct in auto)
  show ?thesis
    using s1 s2 s3 s4 unfolding fresh_chain_def by (meson rtranclp.rtrancl_into_rtrancl rtranclp.rtrancl_refl)
qed

lemma later_chain_part:
  "block_number later_chain = 100" "third_party (ledger later_chain) = (\<lambda>_ _. 5000, \<lambda>_. 100000)"
  "staking_part (ledger later_chain) = empty_staking_storage\<lparr>staking_pool_setting := [1 \<mapsto> sample_pool\<lparr>start_time := 60\<rparr>],
     aiusd_asset_id := Some 4\<rparr>"
  by (simp_all add: later_chain_def opened_chain_def registered_chain_def fresh_chain_def genesis_world_def snd_zoom
      zoom_def initialize_block_def run_hook_def put_part_def get_part_def bindE_run
      create_staking_pool_def regist_aiusd_def transactional_run exec_eval staking_deposit_event_def runtime_staking_def
      ensure_root_def sample_pool_def empty_staking_storage_def mint_on_initialize_run [OF runtime_mint_simps(1)]
      mint_from_def dev_genesis_def build_genesis_def default_mint_genesis_def mint_genesis_def
      staking_on_initialize_def begin_block_def bridge_on_initialize_run write_store_def modify_def)

lemma staked_chain_part:
  "aiusd_asset_id (staking_part (ledger staked_chain)) = Some 4"
  "pending_amount (staking_part (ledger staked_chain)) 1 = 300"
proof -
  let ?b = "word_of_nat (from_be staking_pool_id) :: account_id"
  let ?l = "book_set (Some 4) ?b 5300 (book_set (Some 4) 5 4700 (\<lambda>_ _. 5000, \<lambda>_. 100000))"
  have "?b \<noteq> 5" by (simp add: staking_pool_id_def ascii_def from_be_def)
  then have l: "book_transfer (Some 4) 5 ?b 300 (\<lambda>_ _. 5000, \<lambda>_. 100000) = (Inr 300, ?l)"
    by (simp add: book_defs checked_sub_def checked_add_def)
  have tr: "tk_transfer (asset_token book_tokens 4) 5 ?b 300 (\<lambda>_ _. 5000, \<lambda>_. 100000) = (Inr 300, ?l)"
    using l by (simp add: book_token_def book_tokens_def)
  let ?v = "staking_view later_chain"
  have v: "block_number ?v = 100" "ledger ?v = (\<lambda>_ _. 5000, \<lambda>_. 100000)"
    "store ?v = empty_staking_storage\<lparr>staking_pool_setting := [1 \<mapsto> sample_pool\<lparr>start_time := 60\<rparr>], aiusd_asset_id := Some 4\<rparr>"
    by (simp_all add: get_part_def later_chain_part)
  have "staking_view staked_chain = snd (stake (runtime_staking sample_env) (Signed 5) 1 300 ?v)"
    by (simp add: staked_chain_def view_on_staking)
  also have "\<dots> = snd (Inr () :: dispatch_error + unit, ?v\<lparr>store := (store ?v)\<lparr>
           pending_setup := sort_key (\<lambda>x. effective_time (position x))
             (pending_setup (store ?v) @ [\<lparr>staker = 5, target_pool = 1, position = new_position 160 300\<rparr>]),
           pending_amount := (pending_amount (store ?v))(1 := 300),
           native_checkpoint := Some (new_position 100 300),
           user_native_checkpoint := (user_native_checkpoint (store ?v))(5 \<mapsto> new_position 100 300)\<rparr>,
         ledger := ?l, events := events ?v @ [staking_into_event (runtime_staking sample_env) (Staked 5 1 160 300)]\<rparr>)"
    by (subst stake_run [where ps = "sample_pool\<lparr>start_time := 60\<rparr>" and end_t = 460 and i = 4 and av = 1000 and
          ready = 120 and idx = 0 and ep = 1 and eff = 160 and pend = 300 and cp = "new_position 100 300" and
          ucp = "new_position 100 300" and y = 300 and l = ?l])
       (simp_all add: v sample_pool_times add_or_open_def staked_def empty_staking_storage_def tr
         runtime_staking_sel sample_env_sel word_le_nat_alt)
  finally have "store (staking_view staked_chain) = (store ?v)\<lparr>
           pending_setup := sort_key (\<lambda>x. effective_time (position x))
             (pending_setup (store ?v) @ [\<lparr>staker = 5, target_pool = 1, position = new_position 160 300\<rparr>]),
           pending_amount := (pending_amount (store ?v))(1 := 300),
           native_checkpoint := Some (new_position 100 300),
           user_native_checkpoint := (user_native_checkpoint (store ?v))(5 \<mapsto> new_position 100 300)\<rparr>"
    by simp
  then show "aiusd_asset_id (staking_part (ledger staked_chain)) = Some 4"
    "pending_amount (staking_part (ledger staked_chain)) 1 = 300"
    by (simp_all add: get_part_def later_chain_part)
qed



end
