(* ===== verification/Runtime_Supply.thy ===== *)
theory Runtime_Supply
  imports Runtime_Staking
begin

text \<open>
  The halving mint inside the runtime: seen through its storage, its events and the block number,
  every run of the runtime is a run of the pallet on its own, so the cap on the supply that
  \<open>Halving_Theorems\<close> shows of the pallet alone holds on the chain.
\<close>

section \<open>Runs that mint nothing\<close>

definition mint_events :: "runtime_event list \<Rightarrow> mint_event list" where
  "mint_events es = concat (map (\<lambda>ev. case ev of HalvingMintEvent m \<Rightarrow> [m] | _ \<Rightarrow> []) es)"

lemma mint_events_simps [simp]:
  "mint_events [] = []" "mint_events (es @ es') = mint_events es @ mint_events es'"
  "mint_events (ev # es) = (case ev of HalvingMintEvent m \<Rightarrow> [m] | _ \<Rightarrow> []) @ mint_events es"
  by (simp_all add: mint_events_def)

definition silent :: "(runtime_event, 'v, 's) frame \<Rightarrow> (runtime_event, 'v, 's) frame \<Rightarrow> bool" where
  "silent w w' \<longleftrightarrow> block_number w' = block_number w \<and> mint_events (events w') = mint_events (events w)"

lemma preorder_silent [simp]: "preorder_rel silent"
  by (simp add: preorder_rel_def silent_def)

abbreviation mints_nothing :: "('e, (runtime_event, 'v, 's) frame, 'a) exec \<Rightarrow> bool" where
  "mints_nothing \<equiv> within silent"

named_theorems silent_intro \<open>rules for runs that mint nothing\<close>

lemma silent_steps [silent_intro]:
  "mints_nothing (write_store g)" "mints_nothing (on_ledger op)" "mints_nothing (lift_result r)"
  by (simp_all add: within_def silent_def write_store_def modify_def on_ledger_def lift_result_def split: prod.split)

lemma silent_event: "ev \<notin> range HalvingMintEvent \<Longrightarrow> mints_nothing (deposit_event ev)"
  by (auto simp: within_def silent_def deposit_event_def modify_def split: runtime_event.split)

lemma silent_case_prod [silent_intro]:
  "(\<And>a b. mints_nothing (f a b)) \<Longrightarrow> mints_nothing (case p of (a, b) \<Rightarrow> f a b)"
  by (simp split: prod.split)

lemma silent_let [silent_intro]: "(\<And>x. mints_nothing (f x)) \<Longrightarrow> mints_nothing (let x = v in f x)"
  by simp

lemmas silent_rules = within_intro silent_intro preorder_silent

section \<open>The pallets that mint nothing\<close>

locale silent_staking =
  fixes cfg :: "(runtime_event, 'l) staking_config"
  assumes event: "staking_into_event cfg ev \<notin> range HalvingMintEvent"
begin

lemma deposit: "mints_nothing (staking_deposit_event cfg ev)"
  unfolding staking_deposit_event_def by (rule silent_event [OF event])

lemma setting: "mints_nothing (pool_setting_of p)" "mints_nothing (get_epoch_index p t)"
  "mints_nothing (get_epoch_begin_time p ep)"
  unfolding pool_setting_of_def get_epoch_index_def get_epoch_begin_time_def by (intro silent_rules)+

lemma adds: "mints_nothing (do_native_add who a t)" "mints_nothing (do_stable_add who p a t)"
  unfolding do_native_add_def do_stable_add_def by (intro silent_rules)+

lemma solves: "mints_nothing (solve_loop cfg n xs)"
  by (induction xs) (auto intro!: silent_rules deposit adds)

lemma solve: "mints_nothing (solve_pending cfg n)"
  unfolding solve_pending_def by (intro silent_rules solves)

lemma hook: "mints_nothing (staking_on_initialize cfg n)"
  unfolding staking_on_initialize_def begin_block_def
  by (auto intro!: silent_rules solve split: list.split)

lemma claims: "mints_nothing (do_native_claim cfg who t)" "mints_nothing (do_stable_claim cfg who p t)"
  "mints_nothing (do_withdraw cfg who p)"
  unfolding do_native_claim_def do_stable_claim_def do_withdraw_def shrink_native_def shrink_user_native_def
  by (auto intro!: silent_rules deposit split: option.split)

lemma calls: "mints_nothing (run_staking_call cfg c o')"
  by (cases c)
     (auto simp: create_staking_pool_def update_metadata_def update_reward_def stake_def solve_pending_stake_def
       claim_native_def claim_stable_def withdraw_def regist_aiusd_def
       intro!: silent_rules deposit setting adds solve claims split: option.split)

end

interpretation quiet_staking: silent_staking "runtime_staking env" for env :: "('t, 'x, 'l) runtime_env"
  by unfold_locales (auto simp: runtime_staking_def)

lemma silent_handler: "mints_nothing (run_handler_call (runtime_handler env) c o')"
  unfolding runtime_handler_def
  by (cases c) (auto simp: set_resource_def remove_resource_def intro!: silent_rules silent_event)

lemma silent_template: "mints_nothing (run_template_call TemplateEvent c o')"
  by (cases c) (auto simp: do_something_def cause_error_def intro!: silent_rules silent_event)

lemma silent_zoom:
  assumes "mints_nothing m"
    and "\<And>w. block_number (get w) = block_number w \<and> events (get w) = events w"
    and "\<And>v w. block_number (put v w) = block_number v \<and> events (put v w) = events v"
  shows "mints_nothing (zoom get put m)"
  using assms(1) unfolding within_def silent_def by (simp add: snd_zoom assms(2,3))

lemma silent_transfer: "mints_nothing (run_transfer_call (runtime_transfer env) c o')"
proof -
  let ?h = "runtime_handler env"
  have zooms: "mints_nothing m \<Longrightarrow> mints_nothing (zoom get_snd put_snd m)"
    "mints_nothing k \<Longrightarrow> mints_nothing (zoom get_fst put_fst k)" for m k
    by (rule silent_zoom, assumption, simp_all add: pair_lens_defs)+
  have tokens: "mints_nothing (token_bridge_in ?h rid who a)" "mints_nothing (token_bridge_out ?h rid who a)" for rid who a
    by (auto simp: token_bridge_in_def token_bridge_out_def runtime_handler_def intro!: silent_rules silent_event
        split: option.split)
  have signal: "mints_nothing (signal_transfer_fungible (runtime_bridge env d) i r to' a)" for d i r to' a
    by (auto simp: signal_transfer_fungible_def bump_nonce_def bridge_deposit_event_def runtime_bridge_def
        intro!: silent_rules silent_event)
  show ?thesis
    by (cases c)
       (simp_all add: transfer_assets_def bridge_in_transfer_def runtime_transfer_def Let_def,
        (intro silent_rules zooms tokens signal)+)
qed

section \<open>The view of the mint\<close>

definition mint_view :: "('t, 'x, 'l) world \<Rightarrow> (mint_event, 'l, mint_storage) frame" where
  "mint_view w = \<lparr>block_number = block_number w, events = mint_events (events w),
     ledger = third_party (ledger w), store = mint_part (ledger w)\<rparr>"

definition as_mint :: "('t, 'x, 'l) runtime_env \<Rightarrow> ('t, 'x, 'l) world \<Rightarrow> ('t, 'x, 'l) world \<Rightarrow> bool" where
  "as_mint env w w' \<longleftrightarrow> mint_steps (runtime_mint env id) (mint_view w) (mint_view w')"

lemma preorder_as_mint [simp]: "preorder_rel (as_mint env)"
proof -
  have "as_mint env u u" and "as_mint env u v \<Longrightarrow> as_mint env v w \<Longrightarrow> as_mint env u w" for u v w
    unfolding as_mint_def by (rule rtranclp.rtrancl_refl, rule rtranclp_trans)
  then show ?thesis unfolding preorder_rel_def by blast
qed

text \<open>A run that mints nothing and leaves the storage alone is a step elsewhere.\<close>

definition leaves_mint :: "('t, 'x, 'l) world \<Rightarrow> ('t, 'x, 'l) world \<Rightarrow> bool" where
  "leaves_mint w w' \<longleftrightarrow> silent w w' \<and> mint_part (ledger w') = mint_part (ledger w)"

lemma leaves_as_mint:
  assumes "leaves_mint w w'" shows "as_mint env w w'"
proof -
  from assms have "mint_view w' = (mint_view w)\<lparr>ledger := third_party (ledger w')\<rparr>"
    by (simp add: leaves_mint_def silent_def mint_view_def)
  then show ?thesis unfolding as_mint_def by (simp add: r_into_rtranclp mint_step.elsewhere)
qed

lemma within_leaves: "within leaves_mint m \<Longrightarrow> within (as_mint env) m"
  by (simp add: within_def leaves_as_mint)

lemma zoom_leaves:
  assumes "mints_nothing m" and "\<And>s r. mint_part (upd s r) = mint_part r"
  shows "within leaves_mint (zoom (get_part sel) (put_part upd) m)"
  using assms(1) unfolding within_def
  by (simp add: leaves_mint_def silent_def snd_zoom put_part_def get_part_def assms(2))
    
lemma transfer_leaves:
  fixes env :: "('t, 'x, 'l) runtime_env"
  shows "within (leaves_mint :: ('t, 'x, 'l) world \<Rightarrow> _)
    (zoom get_transfer put_transfer (run_transfer_call (runtime_transfer env) c o'))"
proof -
  have "silent v (snd (run_transfer_call (runtime_transfer env) c o' v))"
    for v :: "(runtime_event, 'l, ('t, 'x) runtime_call bridge_storage \<times> handler_storage) frame"
    using silent_transfer [of env c o'] unfolding within_def by blast
  then show ?thesis
    unfolding within_def silent_def
    by (simp add: leaves_mint_def silent_def snd_zoom put_transfer_def get_transfer_def)
qed

text \<open>The calls of the pallet do the same whatever its events are injected into.\<close>

lemma mint_call_view:
  "as_mint env w (snd (on_mint (bindE (run_mint_call (runtime_mint env HalvingMintEvent) c o') (\<lambda>_. ret ())) w))"
proof -
  let ?w' = "snd (on_mint (bindE (run_mint_call (runtime_mint env HalvingMintEvent) c o') (\<lambda>_. ret ())) w)"
  have "mint_view ?w' = snd (run_mint_call (runtime_mint env id) c o' (mint_view w))"
    by (cases c) (auto simp: snd_zoom bindE_run mint_call_run mint_view_def put_part_def get_part_def ret_def
        runtime_mint_sel runtime_mint_def split: option.split)
  then show ?thesis
    unfolding as_mint_def using mint_step.call [OF surjective_pairing] by (metis r_into_rtranclp)
qed

section \<open>Calls and blocks\<close>

text \<open>What is asked of the pallets of other repositories: whatever they dispatch reaches the mint by its steps.\<close>

definition mint_foreign :: "('t, 'x, 'l) runtime_env \<Rightarrow> bool" where
  "mint_foreign env \<longleftrightarrow> (\<forall>x o'. within (as_mint env) (dispatch_other env x o')) \<and>
     (\<forall>c o'. within (as_mint env) (dispatch_ethereum env c o'))"

lemma other_call_mint:
  fixes env :: "('t, 'x, 'l) runtime_env"
  assumes "mint_foreign env" "c \<notin> range ChainBridge"
  shows "within (as_mint env) (run_runtime_call env c o')"
proof (cases c)
  case (HalvingMint m)
  then show ?thesis by (simp add: within_def mint_call_view del: run_mint_call.simps)
next
  case (Assets a)
  have "within leaves_mint (run_runtime_call env (Assets a) o')"
    by (simp add: within_def leaves_mint_def silent_def on_ledger_def zoom_def split: prod.split)
  with Assets show ?thesis by (simp add: within_leaves)
next
  case (ChainBridge b)
  with assms(2) show ?thesis by blast
qed (use assms(1) in \<open>simp_all add: mint_foreign_def within_leaves transfer_leaves zoom_leaves silent_handler
    silent_template quiet_staking.calls\<close>)

interpretation mint_in: runtime_part env "as_mint env" "\<lambda>_ _. mint_foreign env" for env :: "('t, 'x, 'l) runtime_env"
proof
  show "within (as_mint env) (write_store g)"
    for g :: "('t, 'x) runtime_call bridge_storage \<Rightarrow> ('t, 'x) runtime_call bridge_storage"
    by (rule within_leaves) (simp add: within_def leaves_mint_def silent_def write_store_def modify_def)
  show "within (as_mint env) (deposit_event (ChainBridgeEvent e))" for e
    by (rule within_leaves) (simp add: within_def leaves_mint_def silent_def deposit_event_def modify_def)
qed (simp_all add: other_call_mint)

lemma mint_hook_view:
  "mint_view (snd (on_mint (mint_on_initialize (runtime_mint env HalvingMintEvent) n) u)) =
    snd (mint_on_initialize (runtime_mint env id) n (mint_view u))"
proof -
  have reward: "block_reward (runtime_mint env f) k = block_reward (runtime_mint env id) k" for f k
    by (simp add: block_reward_def runtime_mint_def)
  show ?thesis
    by (simp add: snd_zoom mint_on_initialize_run [OF runtime_mint_simps(1)] mint_view_def put_part_def get_part_def
        runtime_mint_sel Let_def reward [of HalvingMintEvent] split: option.split)
qed

lemma mint_block_view:
  assumes "block_number w < 4294967295" "initialize_block env (block_number w + 1) w = (r, w')"
  shows "as_mint env w w'"
proof -
  let ?n = "block_number w + 1"
  let ?u = "snd (bridge_on_initialize ?n (w\<lparr>block_number := ?n\<rparr>))"
  obtain x v where v: "on_mint (mint_on_initialize (runtime_mint env HalvingMintEvent) ?n) ?u = (Inr x, v)"
    using mint_hook_returns by blast
  have w': "w' = snd (on_staking (staking_on_initialize (runtime_staking env) ?n) v)"
    using assms(2) v by (simp add: initialize_block_def run_hook_def exec_eval bindE_run)
  have u: "mint_view ?u = (mint_view w)\<lparr>block_number := ?n\<rparr>"
    by (simp add: mint_view_def bridge_on_initialize_run write_store_def modify_def)
  from v have "snd (on_mint (mint_on_initialize (runtime_mint env HalvingMintEvent) ?n) ?u) = v" by (rule sndI)
  then have "mint_view v = snd (mint_on_initialize (runtime_mint env id) ?n (mint_view ?u))"
    using mint_hook_view [of env ?n ?u] by (simp only:)
  then have "mint_view v = next_block (runtime_mint env id) (mint_view w)"
    unfolding u by (simp add: next_block_def Let_def mint_view_def)
  then have "as_mint env w v"
    unfolding as_mint_def using mint_step.block [of "mint_view w" "runtime_mint env id"] assms(1)
    by (simp add: mint_view_def r_into_rtranclp)
  moreover have "within leaves_mint (on_staking (staking_on_initialize (runtime_staking env) ?n))"
    by (rule zoom_leaves) (simp_all add: quiet_staking.hook)
  then have "as_mint env v w'" unfolding w' within_def by (blast intro: leaves_as_mint)
  ultimately show ?thesis unfolding as_mint_def by (rule rtranclp_trans)
qed

section \<open>The supply of the chain\<close>

text \<open>
  A step: any call by any origin, the hooks of the next block (block numbers do not wrap), or a
  change of third-party state and events that reports no minting.
\<close>

inductive chain_step :: "('t, 'x, 'l) runtime_env \<Rightarrow> ('t, 'x, 'l) world \<Rightarrow> ('t, 'x, 'l) world \<Rightarrow> bool" for env where
  call: "run_runtime_call env c o' w = (r, w') \<Longrightarrow> chain_step env w w'"
| block: "block_number w < 4294967295 \<Longrightarrow> initialize_block env (block_number w + 1) w = (r, w') \<Longrightarrow> chain_step env w w'"
| elsewhere: "mint_events es = mint_events (events w) \<Longrightarrow>
    chain_step env w (w\<lparr>events := es, ledger := (ledger w)\<lparr>third_party := l\<rparr>\<rparr>)"

abbreviation chain_steps :: "('t, 'x, 'l) runtime_env \<Rightarrow> ('t, 'x, 'l) world \<Rightarrow> ('t, 'x, 'l) world \<Rightarrow> bool" where
  "chain_steps env \<equiv> (chain_step env)\<^sup>*\<^sup>*"

lemma chain_step_view:
  assumes "mint_foreign env" "chain_step env w w'"
  shows "as_mint env w w'"
  using assms(2)
proof cases
  case (call c o' r)
  from withinD [OF mint_in.calls [OF assms(1)] this] show ?thesis .
next
  case (block r)
  then show ?thesis by (rule mint_block_view)
next
  case (elsewhere es l)
  then have "leaves_mint w w'" by (simp add: leaves_mint_def silent_def)
  then show ?thesis by (rule leaves_as_mint)
qed

lemma chain_steps_view:
  assumes "mint_foreign env" "chain_steps env w w'"
  shows "mint_steps (runtime_mint env id) (mint_view w) (mint_view w')"
  using assms(2)
proof induction
  case (step v u)
  from chain_step_view [OF assms(1) step.hyps(2)] step.IH show ?case
    unfolding as_mint_def by (rule rtranclp_trans [rotated])
qed simp


text \<open>The chain with minting switched on from block 1, after its first block.\<close>

lemma sample_mint_foreign: "mint_foreign sample_env"
  by (simp add: mint_foreign_def sample_env_def within_throw)

definition minting_genesis :: "(nat, nat) runtime_genesis_config" where
  "minting_genesis = dev_genesis\<lparr>halving_mint_config := mint_genesis Running Running (Some 1)\<rparr>"

definition minted_chain :: "(nat, nat, book) world" where
  "minted_chain = snd (initialize_block sample_env 1 (genesis_world minting_genesis (\<lambda>_ _. 5000, \<lambda>_. 100000)))"

lemma minted_chain_steps:
  "chain_steps sample_env (genesis_world minting_genesis (\<lambda>_ _. 5000, \<lambda>_. 100000)) minted_chain"
proof -
  let ?g = "genesis_world minting_genesis (\<lambda>_ _. 5000, \<lambda>_. 100000) :: (nat, nat, book) world"
  have "block_number ?g < 4294967295" "block_number ?g + 1 = 1" by (simp_all add: genesis_world_def)
  then have "chain_step sample_env ?g minted_chain"
    unfolding minted_chain_def using chain_step.block [OF _ surjective_pairing] by metis
  then show ?thesis by (rule r_into_rtranclp)
qed

lemma minted_chain_events: "mint_events (events minted_chain) =
    [Minted (word_of_nat (from_be halving_mint_id)) (block_reward (runtime_mint sample_env HalvingMintEvent) 0)]"
  by (simp add: minted_chain_def genesis_world_def minting_genesis_def snd_zoom zoom_def initialize_block_def
      run_hook_def put_part_def get_part_def bindE_run mint_on_initialize_run [OF runtime_mint_simps(1)] Let_def
      mint_from_def mint_genesis_def empty_staking_storage_def staking_on_initialize_def begin_block_def
      bridge_on_initialize_run write_store_def modify_def exec_eval saturating_add_def runtime_mint_sel sample_env_def)


end
