(* ===== verification/Runtime_Api.thy ===== *)
theory Runtime_Api
  imports Runtime
begin

text \<open>
  The runtime APIs of \<open>runtime/src/lib.rs\<close> that do something with their arguments before they hand
  them to a library, the fee parameters, and the way of Ethereum transactions through extrinsics.
  \<open>pallet_evm\<close>, \<open>pallet_ethereum\<close> and the executive are the record \<open>evm_backend\<close>.
\<close>

section \<open>Calls and creations for the RPC server\<close>

datatype transaction_action = CallAction h160 | CreateAction

type_synonym access_list = "(h160 \<times> u256 list) list"

record transaction_data =
  td_action :: transaction_action
  td_input :: bytes
  td_nonce :: u256
  td_gas_limit :: u256
  td_gas_price :: "u256 option"
  td_max_fee_per_gas :: "u256 option"
  td_max_priority_fee_per_gas :: "u256 option"
  td_value :: u256
  td_chain_id :: "u64 option"
  td_access_list :: access_list

text \<open>The arguments of the two API functions, but for the target of a call.\<close>

record evm_request =
  rq_source :: h160
  rq_data :: bytes
  rq_value :: u256
  rq_gas_limit :: u256
  rq_max_fee_per_gas :: "u256 option"
  rq_max_priority_fee_per_gas :: "u256 option"
  rq_nonce :: "u256 option"
  rq_estimate :: bool
  rq_access_list :: "access_list option"

text \<open>What the runner is given: gas as 64 bits, transactional and validating flags, weight limit, proof size and configuration.\<close>

record 'c runner_args =
  ra_source :: h160
  ra_data :: bytes
  ra_value :: u256
  ra_gas_limit :: u64
  ra_max_fee_per_gas :: "u256 option"
  ra_max_priority_fee_per_gas :: "u256 option"
  ra_nonce :: "u256 option"
  ra_access_list :: access_list
  ra_is_transactional :: bool
  ra_validate :: bool
  ra_weight_limit :: "weight option"
  ra_proof_size_base_cost :: "u64 option"
  ra_config :: 'c

record ('c, 'w, 'i) evm_backend =
  evm_config :: 'c
  with_estimate :: "'c \<Rightarrow> 'c"
  chain_id_of :: "'w \<Rightarrow> u64"
  transaction_weight :: "transaction_data \<Rightarrow> weight option \<times> u64 option"
  runner_call :: "h160 \<Rightarrow> 'c runner_args \<Rightarrow> 'w \<Rightarrow> dispatch_error + 'i"
  runner_create :: "'c runner_args \<Rightarrow> 'w \<Rightarrow> dispatch_error + 'i"
  account_storages :: "'w \<Rightarrow> h160 \<Rightarrow> bytes \<Rightarrow> bytes"

definition saturated_gas :: "u256 \<Rightarrow> u64" where
  "saturated_gas g = (case try_into g of Some n \<Rightarrow> n | None \<Rightarrow> - 1)"

definition api_call ::
  "('c, 'w, 'i) evm_backend \<Rightarrow> h160 \<Rightarrow> evm_request \<Rightarrow> 'w \<Rightarrow> dispatch_error + 'i" where
  "api_call ev to' rq w =
     (let config = (if rq_estimate rq then Some (with_estimate ev (evm_config ev)) else None);
          gas = min (rq_gas_limit rq) (ucast (- 1 :: u64));
          td = \<lparr>td_action = CallAction to', td_input = rq_data rq,
                td_nonce = (case rq_nonce rq of Some n \<Rightarrow> n | None \<Rightarrow> 0), td_gas_limit = gas, td_gas_price = None,
                td_max_fee_per_gas = rq_max_fee_per_gas rq, td_max_priority_fee_per_gas = rq_max_priority_fee_per_gas rq,
                td_value = rq_value rq, td_chain_id = Some (chain_id_of ev w),
                td_access_list = (case rq_access_list rq of Some l \<Rightarrow> l | None \<Rightarrow> [])\<rparr>;
          (weight_limit, proof_size) = transaction_weight ev td in
      runner_call ev to'
       \<lparr>ra_source = rq_source rq, ra_data = rq_data rq, ra_value = rq_value rq, ra_gas_limit = saturated_gas gas,
        ra_max_fee_per_gas = rq_max_fee_per_gas rq, ra_max_priority_fee_per_gas = rq_max_priority_fee_per_gas rq,
        ra_nonce = rq_nonce rq, ra_access_list = (case rq_access_list rq of Some l \<Rightarrow> l | None \<Rightarrow> []),
        ra_is_transactional = False, ra_validate = True, ra_weight_limit = weight_limit,
        ra_proof_size_base_cost = proof_size,
        ra_config = (case config of Some c \<Rightarrow> c | None \<Rightarrow> evm_config ev)\<rparr> w)"

definition api_create ::
  "('c, 'w, 'i) evm_backend \<Rightarrow> evm_request \<Rightarrow> 'w \<Rightarrow> dispatch_error + 'i" where
  "api_create ev rq w =
     (let config = (if rq_estimate rq then Some (with_estimate ev (evm_config ev)) else None);
          td = \<lparr>td_action = CreateAction, td_input = rq_data rq,
                td_nonce = (case rq_nonce rq of Some n \<Rightarrow> n | None \<Rightarrow> 0), td_gas_limit = rq_gas_limit rq,
                td_gas_price = None, td_max_fee_per_gas = rq_max_fee_per_gas rq,
                td_max_priority_fee_per_gas = rq_max_priority_fee_per_gas rq,
                td_value = rq_value rq, td_chain_id = Some (chain_id_of ev w),
                td_access_list = (case rq_access_list rq of Some l \<Rightarrow> l | None \<Rightarrow> [])\<rparr>;
          (weight_limit, proof_size) = transaction_weight ev td in
      runner_create ev
       \<lparr>ra_source = rq_source rq, ra_data = rq_data rq, ra_value = rq_value rq,
        ra_gas_limit = saturated_gas (rq_gas_limit rq),
        ra_max_fee_per_gas = rq_max_fee_per_gas rq, ra_max_priority_fee_per_gas = rq_max_priority_fee_per_gas rq,
        ra_nonce = rq_nonce rq, ra_access_list = (case rq_access_list rq of Some l \<Rightarrow> l | None \<Rightarrow> []),
        ra_is_transactional = False, ra_validate = True, ra_weight_limit = weight_limit,
        ra_proof_size_base_cost = proof_size,
        ra_config = (case config of Some c \<Rightarrow> c | None \<Rightarrow> evm_config ev)\<rparr> w)"

text \<open>The key of a storage slot is its index in 32 big-endian bytes.\<close>

definition storage_at :: "('c, 'w, 'i) evm_backend \<Rightarrow> 'w \<Rightarrow> h160 \<Rightarrow> u256 \<Rightarrow> bytes" where
  "storage_at ev w address i = account_storages ev w address (to_be 32 (unat i))"

lemma unat_saturated_gas: "unat (saturated_gas g) = min (unat g) (2 ^ 64 - 1)"
proof (cases "unat g < 2 ^ 64")
  case True
  then show ?thesis by (auto simp: saturated_gas_def try_into_def unsigned_ucast_eq take_bit_nat_eq_self)
next
  case False
  then have "(try_into g :: u64 option) = None" by (simp add: try_into_None)
  with False show ?thesis
    by (simp add: saturated_gas_def unsigned_minus_1_eq_mask mask_eq_exp_minus_1)
qed

text \<open>The clamp of \<open>api_call\<close> is not seen by the runner, which gets the same gas with and without it.\<close>

lemma clamped_gas: "saturated_gas (min g (ucast (- 1 :: u64))) = saturated_gas g"
proof -
  have "unat (ucast (- 1 :: u64) :: u256) = 2 ^ 64 - 1"
    by (simp add: unsigned_ucast_eq unsigned_minus_1_eq_mask mask_eq_exp_minus_1)
  then have "unat (min g (ucast (- 1 :: u64))) = min (unat g) (2 ^ 64 - 1)"
    by (simp add: min_def word_le_nat_alt)
  then show ?thesis by (simp add: word_unat_eq_iff unat_saturated_gas)
qed

lemma storage_slots_distinct: "to_be 32 (unat i) = to_be 32 (unat j) \<Longrightarrow> i = j" for i j :: u256
proof -
  assume "to_be 32 (unat i) = to_be 32 (unat j)"
  then have "unat i mod 256 ^ 32 = unat j mod 256 ^ 32" by (metis from_to_be)
  moreover have "unat i < 256 ^ 32" "unat j < 256 ^ 32"
    using unsigned_less [of i, where ?'a = nat] unsigned_less [of j, where ?'a = nat] by simp_all
  ultimately show "i = j" by (simp add: word_unat_eq_iff)
qed

section \<open>Transactions in extrinsics\<close>

lemma extrinsic_round_trip: "extrinsic_filter (map convert_transaction ts) = ts"
  by (induction ts) (simp_all add: extrinsic_filter_def convert_transaction_def List.map_filter_def)

text \<open>\<open>pending_block\<close>: all extrinsics are applied, failed or not, then the Ethereum block is closed.\<close>

definition pending_block ::
  "('xt \<Rightarrow> 'w \<Rightarrow> ('r \<times> 'w)) \<Rightarrow> (u32 \<Rightarrow> 'w \<Rightarrow> 'w) \<Rightarrow> ('w \<Rightarrow> u32) \<Rightarrow> ('w \<Rightarrow> 'b option) \<Rightarrow> ('w \<Rightarrow> 'st list option) \<Rightarrow>
   'xt list \<Rightarrow> 'w \<Rightarrow> 'b option \<times> 'st list option" where
  "pending_block apply_extrinsic on_finalize block_number_of current_block current_statuses xts w =
     (let w' = fold (\<lambda>xt v. snd (apply_extrinsic xt v)) xts w;
          w'' = on_finalize (block_number_of w' + 1) w' in
      (current_block w'', current_statuses w''))"

definition current_all ::
  "('w \<Rightarrow> 'b option) \<Rightarrow> ('w \<Rightarrow> 'r list option) \<Rightarrow> ('w \<Rightarrow> 'st list option) \<Rightarrow> 'w \<Rightarrow>
   'b option \<times> 'r list option \<times> 'st list option" where
  "current_all current_block current_receipts current_statuses w =
     (current_block w, current_receipts w, current_statuses w)"

section \<open>Fees and reports\<close>

definition threshold_lower :: u32 where "threshold_lower = 0"
definition threshold_ideal :: u32 where "threshold_ideal = 500000"
definition threshold_upper :: u32 where "threshold_upper = 1000000"
definition default_base_fee_per_gas :: u256 where "default_base_fee_per_gas = 1000000000"
definition bound_division :: u256 where "bound_division = 1024"
definition default_elasticity :: u32 where "default_elasticity = 125000"

lemma threshold_order: "threshold_lower \<le> threshold_ideal" "threshold_ideal \<le> threshold_upper"
  by (simp_all add: threshold_lower_def threshold_ideal_def threshold_upper_def)

text \<open>Equivocations cannot be reported: there are no key ownership proofs.\<close>

definition submit_report_equivocation :: "'p \<Rightarrow> 'k \<Rightarrow> unit option" where
  "submit_report_equivocation equivocation_proof key_owner_proof = None"

definition generate_key_ownership_proof :: "'s \<Rightarrow> 'a \<Rightarrow> 'k option" where
  "generate_key_ownership_proof set_id authority_id = None"

end
