(* ===== verification/Runtime_Weights.thy ===== *)
theory Runtime_Weights
  imports Runtime_Bounds
begin

text \<open>
  \<open>get_dispatch_info\<close> of the runtime: the weight and class a call declares before it runs, put
  together from the annotations of the pallets, and what a vote of the bridge really executes.
\<close>

section \<open>Dispatch information of the runtime\<close>

text \<open>The annotations of other repositories' calls and the database weights are parameters.\<close>

record ('t, 'x) foreign_info =
  rocks_weights :: db_weight
  ethereum_info :: "'t ethereum_call \<Rightarrow> dispatch_info"
  assets_info :: "assets_call \<Rightarrow> dispatch_info"
  other_info :: "'x \<Rightarrow> dispatch_info"

primrec get_dispatch_info :: "('t, 'x) foreign_info \<Rightarrow> ('t, 'x) runtime_call \<Rightarrow> dispatch_info" where
  "get_dispatch_info fi (Ethereum c) = ethereum_info fi c"
| "get_dispatch_info fi (Assets c) = assets_info fi c"
| "get_dispatch_info fi (ChainBridge c) =
     bridge_dispatch_info (bridge_unit_weight (rocks_weights fi)) (\<lambda>i. i) (map_bridge_call (get_dispatch_info fi) c)"
| "get_dispatch_info fi (AssetsHandler c) = handler_dispatch_info c"
| "get_dispatch_info fi (BridgeTransfer c) = transfer_dispatch_info (transfer_unit_weight (rocks_weights fi)) c"
| "get_dispatch_info fi (Template c) = template_dispatch_info (template_unit_weight (rocks_weights fi)) c"
| "get_dispatch_info fi (HalvingMint c) = mint_dispatch_info c"
| "get_dispatch_info fi (StableStaking c) = staking_dispatch_info c"
| "get_dispatch_info fi (OtherCall x) = other_info fi x"

lemma bridge_info_map:
  "bridge_dispatch_info wi (\<lambda>i. i) (map_bridge_call f c) = bridge_dispatch_info wi f c"
  by (cases c) simp_all

lemma get_dispatch_info_bridge:
  "get_dispatch_info fi (ChainBridge c) =
     bridge_dispatch_info (bridge_unit_weight (rocks_weights fi)) (get_dispatch_info fi) c"
  by (simp add: bridge_info_map)

section \<open>Votes and evaluations pay for what they carry\<close>

text \<open>The proposals that a call can execute by its own approval, over any number of nestings.\<close>

inductive charged_for :: "('t, 'x) runtime_call \<Rightarrow> ('t, 'x) runtime_call \<Rightarrow> bool" where
  itself: "charged_for c c"
| acknowledged: "charged_for p c \<Longrightarrow> charged_for (ChainBridge (AcknowledgeProposal n s r p)) c"
| evaluated: "charged_for p c \<Longrightarrow> charged_for (ChainBridge (EvalVoteState n s p)) c"

text \<open>
  C40. A vote in favour and an evaluation declare what they may execute: the weight of a call covers
  the weight of every proposal nested in it by votes in favour and evaluations, in both dimensions,
  and its class is the class of the innermost of them.
\<close>

theorem nested_weight_covered:
  assumes "charged_for c d"
  shows "weight_le (info_weight (get_dispatch_info fi d)) (info_weight (get_dispatch_info fi c)) \<and>
    info_class (get_dispatch_info fi c) = info_class (get_dispatch_info fi d)"
  using assms
  by induction (auto simp: get_dispatch_info_bridge simp del: get_dispatch_info.simps(3)
      intro: weight_le_trans weight_add_ge)

definition free_info :: "(nat, nat) foreign_info" where
  "free_info = \<lparr>rocks_weights = \<lparr>db_reads = (\<lambda>n. from_parts (25000000 * n) 0), db_writes = (\<lambda>n. from_parts (100000000 * n) 0)\<rparr>,
     ethereum_info = (\<lambda>_. weight_info zero_weight), assets_info = (\<lambda>_. weight_info zero_weight),
     other_info = (\<lambda>x. classified_info (from_parts (of_nat x) 7) Operational)\<rparr>"

theorem nested_weight_covered_witness:
  "info_class (get_dispatch_info free_info (ChainBridge (EvalVoteState 0 1 (ChainBridge
     (AcknowledgeProposal 0 1 [] (OtherCall 5)))))) = Operational"
proof -
  have "charged_for (ChainBridge (EvalVoteState 0 1 (ChainBridge (AcknowledgeProposal 0 1 [] (OtherCall 5)))))
      (OtherCall 5 :: (nat, nat) runtime_call)"
    by (intro charged_for.intros)
  from nested_weight_covered [OF this, of free_info] show ?thesis by (simp add: free_info_def)
qed

section \<open>Votes against\<close>

text \<open>The state in which a proposal is dispatched that a vote against found approved.\<close>

definition overruled_state ::
  "('c, 'e, 'l) bridge_config \<Rightarrow> account_id \<Rightarrow> deposit_nonce \<Rightarrow> bridge_chain_id \<Rightarrow> 'c \<Rightarrow>
   ('e, 'l, 'c bridge_storage) frame \<Rightarrow> ('e, 'l, 'c bridge_storage) frame" where
  "overruled_state cfg who nonce src c w =
     w\<lparr>store := (store w)\<lparr>votes := (votes (store w))((src, nonce, c) \<mapsto>
         (cast_vote False who (current_ballot cfg (block_number w) (store w) (src, nonce, c)))
           \<lparr>status := Approved\<rparr>)\<rparr>,
       events := events w @ [bridge_into_event cfg (VoteAgainst src nonce who),
         bridge_into_event cfg (ProposalApproved src nonce)]\<rparr>"

lemma vote_against_run:
  assumes "\<not> is_complete v" "\<not> is_expired (block_number w) v" "\<not> has_voted who v"
    and v: "v = current_ballot cfg (block_number w) (store w) (src, nonce, c)"
  shows "vote_against cfg who nonce src c w =
    (if unat (relayer_threshold (store w)) \<le> length (votes_for v)
     then (case dispatch_proposal cfg c (Signed (bridge_account_id cfg)) (overruled_state cfg who nonce src c w) of
       (Inl e, u) \<Rightarrow> (Inl e, u)
     | (Inr _, u) \<Rightarrow> (Inr (), u\<lparr>events := events u @ [bridge_into_event cfg (ProposalSucceeded src nonce)]\<rparr>))
     else (Inr (), w\<lparr>store := (store w)\<lparr>votes := (votes (store w))((src, nonce, c) \<mapsto>
         snd (try_to_complete (relayer_threshold (store w)) (relayer_count (store w)) (cast_vote False who v)))\<rparr>,
       events := events w @ bridge_into_event cfg (VoteAgainst src nonce who) #
         (if fst (try_to_complete (relayer_threshold (store w)) (relayer_count (store w)) (cast_vote False who v)) = Rejected
          then [bridge_into_event cfg (ProposalRejected src nonce)] else [])\<rparr>))"
  using assms(1-3) unfolding v
  by (simp add: vote_against_def thenE_run commit_vote_run try_resolve_run Let_def try_to_complete_def
      finalize_run overruled_state_def cancel_execution_def bridge_deposit_event_def exec_eval
      split: prod.split sum.split)


text \<open>Two relayers were asked for and one voted in favour; then the threshold was lowered to one.\<close>

definition overruled_world :: "(nat, nat, book) world" where
  "overruled_world = sample_chain empty_handler_storage (empty_bridge_storage\<lparr>relayers := [10 \<mapsto> True, 11 \<mapsto> True],
     relayer_count := 2, relayer_threshold := 1, chain_nonces := [1 \<mapsto> 0], votes := [(1, 0, Template (DoSomething 5)) \<mapsto>
       \<lparr>votes_for = [10], votes_against = [], status = Initiated, expiry = 50420\<rparr>]\<rparr>)"


end
