(* ===== verification/Runtime_Params.thy ===== *)
theory Runtime_Params
  imports Runtime_Weights
begin

text \<open>
  Parameters of \<open>runtime/src/lib.rs\<close> for the pallets of other repositories, the version of the
  runtime, the indices under which its calls travel, and the signed extension that the node's
  benchmarks put into their extrinsics (\<open>node/src/benchmarking.rs\<close>).
\<close>

section \<open>Version and limits\<close>

record runtime_version =
  rv_spec_name :: string
  rv_impl_name :: string
  authoring_version :: u32
  spec_version :: u32
  impl_version :: u32
  transaction_version :: u32
  state_version :: u8

definition VERSION :: runtime_version where
  "VERSION = \<lparr>rv_spec_name = ''canbus'', rv_impl_name = ''canbus'', authoring_version = 1, spec_version = 100,
     impl_version = 1, transaction_version = 1, state_version = 1\<rparr>"

text \<open>\<open>native_version\<close>: a node may author with its native code when that has this version.\<close>

definition native_version :: runtime_version where "native_version = VERSION"

definition normal_dispatch_ratio :: nat where "normal_dispatch_ratio = 75"  \<comment> \<open>per cent\<close>
definition weight_millisecs_per_block :: u64 where "weight_millisecs_per_block = 2000"

text \<open>\<open>WEIGHT_REF_TIME_PER_MILLIS\<close> is a constant of the library.\<close>

definition maximum_block_weight :: "u64 \<Rightarrow> weight" where
  "maximum_block_weight ref_time_per_millis = from_parts (weight_millisecs_per_block * ref_time_per_millis) (- 1)"

definition maximum_block_length :: u32 where "maximum_block_length = 5 * 1024 * 1024"

text \<open>\<open>weight_per_gas\<close> is a function of \<open>fp_evm\<close>, on gas limit, ratio and milliseconds.\<close>

definition weight_per_gas_value :: "(u64 \<Rightarrow> nat \<Rightarrow> u64 \<Rightarrow> u64) \<Rightarrow> weight" where
  "weight_per_gas_value weight_per_gas =
     from_parts (weight_per_gas BLOCK_GAS_LIMIT normal_dispatch_ratio weight_millisecs_per_block) 0"

definition block_hash_count :: u32 where "block_hash_count = 2400"
definition ss58_prefix :: u8 where "ss58_prefix = 42"

record system_limits =
  max_consumers :: u32
  max_locks :: u32
  aura_max_authorities :: u32
  allow_multiple_blocks_per_slot :: bool
  grandpa_max_authorities :: u32
  max_nominators :: u32
  max_set_id_session_entries :: u64
  operational_fee_multiplier :: u8
  extra_data_length :: u32
  remove_items_limit :: u32
  approval_deposit :: balance

definition runtime_limits :: system_limits where
  "runtime_limits = \<lparr>max_consumers = 16, max_locks = 50, aura_max_authorities = 32,
     allow_multiple_blocks_per_slot = False, grandpa_max_authorities = 32, max_nominators = 0,
     max_set_id_session_entries = 0, operational_fee_multiplier = 5, extra_data_length = 30,
     remove_items_limit = 1000, approval_deposit = EXISTENTIAL_DEPOSIT\<rparr>"

section \<open>Indices of calls\<close>

text \<open>
  A call travels as the index of its pallet in \<open>construct_runtime!\<close> and its \<open>#[pallet::call_index]\<close>.
  The metadata names it by pallet and function.
\<close>

fun bridge_call_index :: "'c bridge_call \<Rightarrow> u8" where
  "bridge_call_index (SetThreshold t) = 0"
| "bridge_call_index (WhitelistChain i) = 1"
| "bridge_call_index (AddRelayer a) = 2"
| "bridge_call_index (RemoveRelayer a) = 3"
| "bridge_call_index (AcknowledgeProposal n s r p) = 4"
| "bridge_call_index (RejectProposal n s r p) = 5"
| "bridge_call_index (EvalVoteState n s p) = 6"

fun handler_call_index :: "handler_call \<Rightarrow> u8" where
  "handler_call_index (SetResource r i) = 0"
| "handler_call_index (RemoveResource r) = 1"

fun transfer_call_index :: "transfer_call \<Rightarrow> u8" where
  "transfer_call_index (TransferAssets a r d i) = 0"
| "transfer_call_index (Transfer t a i) = 1"

fun template_call_index :: "template_call \<Rightarrow> u8" where
  "template_call_index (DoSomething v) = 0"
| "template_call_index CauseError = 1"

fun mint_call_index :: "mint_call \<Rightarrow> u8" where
  "mint_call_index (SetMintState s) = 0"
| "mint_call_index (SetOnTokenMintedState s) = 1"
| "mint_call_index StartMintFromNextBlock = 2"
| "mint_call_index (StartMintFromBlock n) = 3"

fun staking_call_index :: "staking_call \<Rightarrow> u8" where
  "staking_call_index (CreateStakingPool p s) = 0"
| "staking_call_index (UpdateMetadata p n d) = 1"
| "staking_call_index (UpdateReward p e r) = 2"
| "staking_call_index (Stake p a) = 3"
| "staking_call_index SolvePendingStake = 4"
| "staking_call_index (ClaimNative n) = 5"
| "staking_call_index (ClaimStable p n) = 6"
| "staking_call_index (Withdraw p) = 7"
| "staking_call_index (RegistAiusd i) = 8"

text \<open>The calls of other repositories' pallets have their own indices, a parameter.\<close>

fun call_index :: "('x \<Rightarrow> u8 \<times> u8) \<Rightarrow> (assets_call \<Rightarrow> u8) \<Rightarrow> ('t, 'x) runtime_call \<Rightarrow> u8 \<times> u8" where
  "call_index other assets (Ethereum (Transact t)) = (7, 0)"
| "call_index other assets (Assets c) = (11, assets c)"
| "call_index other assets (ChainBridge c) = (12, bridge_call_index c)"
| "call_index other assets (AssetsHandler c) = (13, handler_call_index c)"
| "call_index other assets (BridgeTransfer c) = (14, transfer_call_index c)"
| "call_index other assets (Template c) = (15, template_call_index c)"
| "call_index other assets (HalvingMint c) = (16, mint_call_index c)"
| "call_index other assets (StableStaking c) = (17, staking_call_index c)"
| "call_index other assets (OtherCall x) = other x"

section \<open>The extrinsic of a benchmark\<close>

text \<open>\<open>checked_next_power_of_two\<close>: the first power of two of the width that is not below.\<close>

definition checked_next_power_of_two :: "u32 \<Rightarrow> u32 option" where
  "checked_next_power_of_two n = map_option word_of_nat (find (\<lambda>m. unat n \<le> m) (map (\<lambda>k. 2 ^ k) [0..<32]))"

definition mortal_period :: u64 where
  "mortal_period = (case map_option (\<lambda>c. c div 2) (checked_next_power_of_two block_hash_count) of
     Some c \<Rightarrow> ucast c | None \<Rightarrow> 2)"

text \<open>\<open>SignedExtra\<close> and what is signed with it; era, hashes and keys are the library's.\<close>

record 'era signed_extra =
  check_mortality :: 'era
  check_nonce :: u32
  charge_tip :: balance

record ('c, 'era, 'hash) signed_payload =
  payload_call :: 'c
  payload_extra :: "'era signed_extra"
  payload_spec_version :: u32
  payload_transaction_version :: u32
  payload_genesis_hash :: 'hash
  payload_mortality_hash :: 'hash

record ('c, 'era, 'sig) signed_extrinsic =
  signed_call :: 'c
  signed_account :: account_id
  signed_signature :: 'sig
  signed_extra_of :: "'era signed_extra"

text \<open>\<open>mortal\<close> is \<open>Era::mortal\<close> of period and current block; a missing genesis hash panics.\<close>

definition create_benchmark_extrinsic ::
  "(u64 \<Rightarrow> u64 \<Rightarrow> 'era) \<Rightarrow> ('k \<Rightarrow> account_id) \<Rightarrow> ('k \<Rightarrow> ('c, 'era, 'hash) signed_payload \<Rightarrow> 'sig) \<Rightarrow>
   'hash option \<Rightarrow> 'hash \<Rightarrow> u32 \<Rightarrow> 'k \<Rightarrow> 'c \<Rightarrow> u32 \<Rightarrow> ('c, 'era, 'sig) signed_extrinsic option" where
  "create_benchmark_extrinsic mortal public sign genesis best_hash best_block sender call nonce =
     Option.bind genesis (\<lambda>genesis_hash.
     let extra = \<lparr>check_mortality = mortal mortal_period (ucast best_block), check_nonce = nonce, charge_tip = 0\<rparr>;
         raw_payload = \<lparr>payload_call = call, payload_extra = extra, payload_spec_version = spec_version VERSION,
           payload_transaction_version = transaction_version VERSION, payload_genesis_hash = genesis_hash,
           payload_mortality_hash = best_hash\<rparr>;
         signature = sign sender raw_payload in
     Some \<lparr>signed_call = call, signed_account = public sender, signed_signature = signature, signed_extra_of = extra\<rparr>)"

text \<open>
  The period is a power of two, as eras need, and the chain remembers block hashes for at least as
  long, so a mortal extrinsic can be checked during its whole life.
\<close>

lemma mortal_period_value: "mortal_period = 2 ^ 11" "mortal_period \<le> ucast block_hash_count"
  by (simp_all add: mortal_period_def checked_next_power_of_two_def block_hash_count_def upt_rec)

section \<open>Indices and errors\<close>

text \<open>The index of a pallet in a call is the one its errors carry.\<close>

lemma errors_carry_pallet_index:
  "bridge_err e1 = ModuleError (unat (fst (call_index ox ax (ChainBridge c1)))) (bridge_error_index e1)"
  "handler_err e2 = ModuleError (unat (fst (call_index ox ax (AssetsHandler c2)))) (assets_handler_error_index e2)"
  "template_err e3 = ModuleError (unat (fst (call_index ox ax (Template c3)))) (template_error_index e3)"
  "mint_err e4 = ModuleError (unat (fst (call_index ox ax (HalvingMint c4)))) (mint_error_index e4)"
  "staking_err e5 = ModuleError (unat (fst (call_index ox ax (StableStaking c5)))) (staking_error_index e5)"
  by (simp_all add: bridge_err_def handler_err_def template_err_def mint_err_def staking_err_def)

text \<open>
  Pallet and call index together tell the calls of this repository apart: two of them with equal
  indices are the same call up to its arguments, so they declare the same weight unless they carry
  proposals.
\<close>

lemma equal_index_equal_weight:
  assumes "call_index ox ax c = call_index ox ax d"
    and "c \<in> range AssetsHandler \<union> range BridgeTransfer \<union> range Template \<union> range HalvingMint \<union> range StableStaking"
    and "d \<in> range AssetsHandler \<union> range BridgeTransfer \<union> range Template \<union> range HalvingMint \<union> range StableStaking"
  shows "get_dispatch_info fi c = get_dispatch_info fi d"
proof -
  have h: "handler_call_index c = handler_call_index d \<Longrightarrow> handler_dispatch_info c = handler_dispatch_info d" for c d
    by (cases c; cases d) simp_all
  have t: "transfer_call_index c = transfer_call_index d \<Longrightarrow> transfer_dispatch_info w c = transfer_dispatch_info w d" for c d w
    by (cases c; cases d) simp_all
  have p: "template_call_index c = template_call_index d \<Longrightarrow> template_dispatch_info w c = template_dispatch_info w d" for c d w
    by (cases c; cases d) simp_all
  have m: "mint_dispatch_info c = mint_dispatch_info d" for c d
    by (cases c; cases d) simp_all
  have s: "staking_dispatch_info c = staking_dispatch_info d" for c d
    by (cases c; cases d) simp_all
  show ?thesis using assms by (auto intro: h t p m s)
qed

end
