(* ===== verification/Node_Service.thy ===== *)
theory Node_Service
  imports Chain_Spec
begin

text \<open>
  The node's start, \<open>node/src/service.rs\<close>, \<open>node/src/eth.rs\<close> and \<open>node/src/rpc/\<close>: in which order the
  library components are made, which tasks are spawned for which configuration, and what an error
  in between leaves undone. The state is the log of what was done; every call into a library that
  can fail is a step whose outcome, given the log so far, is a parameter.
\<close>

section \<open>Configuration\<close>

type_synonym path = "string list"

text \<open>\<open>DatabaseSource\<close> of \<open>sc_service\<close>; the code tells the first two apart from the others.\<close>

datatype database_source = RocksDb path nat | ParityDb path | OtherDatabase

datatype backend_type = KeyValue | Sql

text \<open>\<open>EthConfiguration\<close> with the defaults of its command line arguments.\<close>

record eth_configuration =
  max_past_logs :: u32
  fee_history_limit :: u64
  enable_dev_signer :: bool
  target_gas_price :: u64
  execute_gas_limit_multiplier :: u64
  eth_log_block_cache :: nat
  eth_statuses_cache :: nat
  frontier_backend_type :: backend_type
  sql_backend_pool_size :: u32
  sql_backend_num_ops_timeout :: u32
  sql_backend_thread_count :: u32
  sql_backend_cache_size :: u64

definition default_eth_configuration :: eth_configuration where
  "default_eth_configuration = \<lparr>max_past_logs = 10000, fee_history_limit = 2048, enable_dev_signer = False,
     target_gas_price = 1, execute_gas_limit_multiplier = 10, eth_log_block_cache = 50, eth_statuses_cache = 50,
     frontier_backend_type = KeyValue, sql_backend_pool_size = 100, sql_backend_num_ops_timeout = 10000000,
     sql_backend_thread_count = 4, sql_backend_cache_size = 209715200\<rparr>"

text \<open>What the node reads of \<open>sc_service::Configuration\<close>; \<open>config_dir\<close> is a method of its base path.\<close>

record configuration =
  config_dir :: "string \<Rightarrow> path"
  chain_id :: string
  database :: database_source
  is_authority :: bool
  telemetry_endpoints :: "string list option"
  offchain_worker_enabled :: bool
  disable_grandpa :: bool
  force_authoring :: bool
  keystore_in_memory :: bool

definition db_config_dir :: "configuration \<Rightarrow> path" where
  "db_config_dir config = config_dir config (chain_id config)"

section \<open>The log and the libraries\<close>

datatype library_step =
    NewTelemetryWorker nat
  | NewFullParts
  | NewGrandpaBlockImport u32
  | OpenKeyValueBackend database_source path
  | CreateDirAll path
  | NewSqlBackend path u32 u64 u32 "u32 option"
  | AuraSlotDuration
  | AuraImportQueue
  | NewTransactionPool bool
  | GenesisBlockHash
  | BuildNetwork
  | NewBlockDataCache nat nat
  | SpawnServiceTasks
  | StartAura bool
  | RunGrandpaVoter bool u32
  | StartNetwork
  | CreateRunner
  | RunCommand string
  | PurgeDatabase database_source
  | RemoveDirAll path
  | MergeRpc string

text \<open>A spawned task: whether it is essential and whether it blocks, its name and its group.\<close>

datatype node_event = Step library_step | Spawned bool bool string "string option"

datatype 'e node_error = ServiceError 'e | Panicked string | CommandError string

type_synonym ('e, 'a) node = "('e node_error, node_event list, 'a) exec"

type_synonym 'e library = "node_event list \<Rightarrow> library_step \<Rightarrow> 'e option"

definition log_event :: "node_event \<Rightarrow> ('e, unit) node" where
  "log_event ev = modify (\<lambda>log. log @ [ev])"

text \<open>\<open>step?\<close> hands an error on, \<open>step.expect(msg)\<close> panics.\<close>

definition try_step :: "'e library \<Rightarrow> library_step \<Rightarrow> ('e, unit) node" where
  "try_step lib st = bindE (gets (\<lambda>log. lib log st)) (\<lambda>r.
     thenE (log_event (Step st)) (case r of None \<Rightarrow> ret () | Some e \<Rightarrow> throw (ServiceError e)))"

definition expect_step :: "'e library \<Rightarrow> library_step \<Rightarrow> string \<Rightarrow> ('e, unit) node" where
  "expect_step lib st msg = bindE (gets (\<lambda>log. lib log st)) (\<lambda>r.
     thenE (log_event (Step st)) (case r of None \<Rightarrow> ret () | Some e \<Rightarrow> throw (Panicked msg)))"

definition spawn :: "string \<Rightarrow> string option \<Rightarrow> ('e, unit) node" where
  "spawn name grp = log_event (Spawned False False name grp)"

definition spawn_essential :: "string \<Rightarrow> string option \<Rightarrow> ('e, unit) node" where
  "spawn_essential name grp = log_event (Spawned True False name grp)"

definition spawn_essential_blocking :: "string \<Rightarrow> string option \<Rightarrow> ('e, unit) node" where
  "spawn_essential_blocking name grp = log_event (Spawned True True name grp)"

definition when_true :: "bool \<Rightarrow> ('e, unit) node \<Rightarrow> ('e, unit) node" where
  "when_true b m = (if b then m else ret ())"

section \<open>The parts of a service\<close>

definition grandpa_justification_period :: u32 where "grandpa_justification_period = 512"

text \<open>\<open>telemetry_endpoints.filter(|x| !x.is_empty())\<close>\<close>

definition has_telemetry :: "configuration \<Rightarrow> bool" where
  "has_telemetry config = (case telemetry_endpoints config of None \<Rightarrow> False | Some xs \<Rightarrow> xs \<noteq> [])"

definition open_frontier_backend :: "'e library \<Rightarrow> configuration \<Rightarrow> eth_configuration \<Rightarrow> ('e, unit) node" where
  "open_frontier_backend lib config eth =
     (case frontier_backend_type eth of
        KeyValue \<Rightarrow> try_step lib (OpenKeyValueBackend (database config) (db_config_dir config))
      | Sql \<Rightarrow>
          let db_path = db_config_dir config @ [''sql''] in
          block
           [expect_step lib (CreateDirAll db_path) ''failed creating sql db directory'',
            expect_step lib (NewSqlBackend (''sqlite:///'' # db_path @ [''frontier.db3'']) (sql_backend_thread_count eth)
              (sql_backend_cache_size eth) (sql_backend_pool_size eth)
              (if sql_backend_num_ops_timeout eth = 0 then None else Some (sql_backend_num_ops_timeout eth)))
              ''failed creating sql backend''])"

definition build_aura_grandpa_import_queue :: "'e library \<Rightarrow> ('e, unit) node" where
  "build_aura_grandpa_import_queue lib = block [try_step lib AuraSlotDuration, try_step lib AuraImportQueue]"

definition new_partial ::
  "'e library \<Rightarrow> configuration \<Rightarrow> eth_configuration \<Rightarrow> ('e, unit) node \<Rightarrow> ('e, unit) node" where
  "new_partial lib config eth build_import_queue =
     block
      [when_true (has_telemetry config) (try_step lib (NewTelemetryWorker 16)),
       try_step lib NewFullParts,
       when_true (has_telemetry config) (spawn ''telemetry'' None),
       try_step lib (NewGrandpaBlockImport grandpa_justification_period),
       open_frontier_backend lib config eth,
       build_import_queue,
       log_event (Step (NewTransactionPool (is_authority config)))]"

record frontier_partial_components =
  filter_pool :: "(nat \<rightharpoonup> string) option"
  fee_history_cache :: "u64 \<rightharpoonup> string"
  fee_history_cache_limit :: u64

definition new_frontier_partial :: "eth_configuration \<Rightarrow> frontier_partial_components" where
  "new_frontier_partial eth = \<lparr>filter_pool = Some Map.empty, fee_history_cache = Map.empty,
     fee_history_cache_limit = fee_history_limit eth\<rparr>"

definition spawn_frontier_tasks ::
  "backend_type \<Rightarrow> frontier_partial_components \<Rightarrow> ('e, unit) node" where
  "spawn_frontier_tasks backend parts =
     block
      [case backend of
         KeyValue \<Rightarrow> spawn_essential ''frontier-mapping-sync-worker'' (Some ''frontier'')
       | Sql \<Rightarrow> spawn_essential_blocking ''frontier-mapping-sync-worker'' (Some ''frontier''),
       case filter_pool parts of
         Some _ \<Rightarrow> spawn_essential ''frontier-filter-pool'' (Some ''frontier'')
       | None \<Rightarrow> ret (),
       spawn_essential ''frontier-fee-history'' (Some ''frontier'')]"

text \<open>
  \<open>new_full\<close>. The closure that builds the RPC modules runs later, per connection; making it asks for
  the slot duration and starts the block data cache.
\<close>

definition new_full :: "'e library \<Rightarrow> configuration \<Rightarrow> eth_configuration \<Rightarrow> ('e, unit) node" where
  "new_full lib config eth =
     block
      [new_partial lib config eth (build_aura_grandpa_import_queue lib),
       expect_step lib GenesisBlockHash ''Genesis block exists; qed'',
       try_step lib BuildNetwork,
       when_true (offchain_worker_enabled config) (spawn ''offchain-workers-runner'' (Some ''offchain-worker'')),
       log_event (Step (NewBlockDataCache (eth_log_block_cache eth) (eth_statuses_cache eth))),
       try_step lib AuraSlotDuration,
       try_step lib SpawnServiceTasks,
       spawn_frontier_tasks (frontier_backend_type eth) (new_frontier_partial eth),
       when_true (is_authority config)
         (block
           [try_step lib AuraSlotDuration,
            try_step lib (StartAura (force_authoring config)),
            spawn_essential_blocking ''aura'' (Some ''block-authoring'')]),
       when_true (\<not> disable_grandpa config)
         (block
           [try_step lib (RunGrandpaVoter (is_authority config) grandpa_justification_period),
            spawn_essential_blocking ''grandpa-voter'' None]),
       log_event (Step StartNetwork)]"

definition new_chain_ops :: "'e library \<Rightarrow> configuration \<Rightarrow> eth_configuration \<Rightarrow> ('e, configuration) node" where
  "new_chain_ops lib config eth =
     (let config' = config\<lparr>keystore_in_memory := True\<rparr> in
      thenE (new_partial lib config' eth (build_aura_grandpa_import_queue lib)) (ret config'))"

section \<open>Inherent data of a block\<close>

text \<open>
  Slot, timestamp and target gas price of a block under construction; the slot of a timestamp is the
  library's \<open>from_timestamp_and_slot_duration\<close>. A pending block is made for the next slot.
\<close>

definition create_inherent_data_providers ::
  "(u64 \<Rightarrow> u64 \<Rightarrow> 'slot) \<Rightarrow> u64 \<Rightarrow> eth_configuration \<Rightarrow> u64 \<Rightarrow> 'slot \<times> u64 \<times> u256" where
  "create_inherent_data_providers slot_of slot_duration eth current =
     (let timestamp = current in (slot_of timestamp slot_duration, timestamp, ucast (target_gas_price eth)))"

definition pending_create_inherent_data_providers ::
  "(u64 \<Rightarrow> u64 \<Rightarrow> 'slot) \<Rightarrow> u64 \<Rightarrow> eth_configuration \<Rightarrow> u64 \<Rightarrow> 'slot \<times> u64 \<times> u256" where
  "pending_create_inherent_data_providers slot_of slot_duration eth current =
     (let next_slot = current + slot_duration; timestamp = next_slot in
      (slot_of timestamp slot_duration, timestamp, ucast (target_gas_price eth)))"

section \<open>RPC modules\<close>

datatype eth_signer = EthDevSigner

definition eth_signers :: "eth_configuration \<Rightarrow> eth_signer list" where
  "eth_signers eth = (if enable_dev_signer eth then [EthDevSigner] else [])"

text \<open>\<open>txpool\<close> is a feature of the build, on by default.\<close>

definition create_eth :: "bool \<Rightarrow> 'e library \<Rightarrow> frontier_partial_components \<Rightarrow> ('e, unit) node" where
  "create_eth txpool lib parts =
     block
      [try_step lib (MergeRpc ''Eth''),
       case filter_pool parts of Some _ \<Rightarrow> try_step lib (MergeRpc ''EthFilter'') | None \<Rightarrow> ret (),
       try_step lib (MergeRpc ''EthPubSub''),
       try_step lib (MergeRpc ''Net''),
       try_step lib (MergeRpc ''Web3''),
       try_step lib (MergeRpc ''Debug''),
       when_true txpool (try_step lib (MergeRpc ''TxPool''))]"

definition create_full :: "bool \<Rightarrow> 'e library \<Rightarrow> frontier_partial_components \<Rightarrow> ('e, unit) node" where
  "create_full txpool lib parts =
     block
      [try_step lib (MergeRpc ''System''),
       try_step lib (MergeRpc ''TransactionPayment''),
       create_eth txpool lib parts]"

end
