(* ===== verification/Node_Command.thy ===== *)
theory Node_Command
  imports Node_Service "HOL-Library.Sublist"
begin

text \<open>
  The command line, \<open>node/src/cli.rs\<close> and \<open>node/src/command.rs\<close>, and what is true of a node that
  starts, fails to start, or removes its databases.
\<close>

section \<open>Subcommands\<close>

datatype subcommand =
    Key | BuildSpec | CheckBlock | ExportBlocks | ExportState | ImportBlocks | PurgeChain | Revert
  | TryRuntime | ChainInfo

text \<open>What \<open>remove_dir_all\<close> answers, given the log so far.\<close>

datatype remove_result = Removed | NotFound | RemoveFailed

definition remove_dir :: "(node_event list \<Rightarrow> path \<Rightarrow> remove_result) \<Rightarrow> path \<Rightarrow> ('e, unit) node" where
  "remove_dir fs p = bindE (gets (\<lambda>log. fs log p)) (\<lambda>r.
     thenE (log_event (Step (RemoveDirAll p)))
       (case r of Removed \<Rightarrow> ret () | NotFound \<Rightarrow> ret () | RemoveFailed \<Rightarrow> throw (CommandError ''Cannot purge'')))"

text \<open>
  The frontier database first, then the database of the chain; \<open>frontier_database_dir\<close> is a function
  of \<open>fc_db\<close>.
\<close>

definition purge_chain ::
  "'e library \<Rightarrow> (node_event list \<Rightarrow> path \<Rightarrow> remove_result) \<Rightarrow> (path \<Rightarrow> string \<Rightarrow> path) \<Rightarrow>
   configuration \<Rightarrow> eth_configuration \<Rightarrow> ('e, unit) node" where
  "purge_chain lib fs frontier_database_dir config eth =
     (let dir = db_config_dir config in
      block
       [case frontier_backend_type eth of
          KeyValue \<Rightarrow>
            (case database config of
               RocksDb p c \<Rightarrow> try_step lib (PurgeDatabase (RocksDb (frontier_database_dir dir ''db'') 0))
             | ParityDb p \<Rightarrow> try_step lib (PurgeDatabase (ParityDb (frontier_database_dir dir ''paritydb'')))
             | OtherDatabase \<Rightarrow> throw (CommandError ''Cannot purge''))
        | Sql \<Rightarrow> remove_dir fs (dir @ [''sql'']),
        try_step lib (PurgeDatabase (database config))])"

definition with_chain_ops :: "'e library \<Rightarrow> configuration \<Rightarrow> eth_configuration \<Rightarrow> string \<Rightarrow> ('e, unit) node" where
  "with_chain_ops lib config eth cmd =
     block
      [try_step lib CreateRunner,
       bindE (new_chain_ops lib config eth) (\<lambda>_. ret ()),
       try_step lib (RunCommand cmd)]"

fun run ::
  "'e library \<Rightarrow> (node_event list \<Rightarrow> path \<Rightarrow> remove_result) \<Rightarrow> (path \<Rightarrow> string \<Rightarrow> path) \<Rightarrow>
   configuration \<Rightarrow> eth_configuration \<Rightarrow> subcommand option \<Rightarrow> ('e, unit) node" where
  "run lib fs dir config eth (Some Key) = try_step lib (RunCommand ''key'')"
| "run lib fs dir config eth (Some BuildSpec) = block [try_step lib CreateRunner, try_step lib (RunCommand ''build-spec'')]"
| "run lib fs dir config eth (Some CheckBlock) = with_chain_ops lib config eth ''check-block''"
| "run lib fs dir config eth (Some ExportBlocks) = with_chain_ops lib config eth ''export-blocks''"
| "run lib fs dir config eth (Some ExportState) = with_chain_ops lib config eth ''export-state''"
| "run lib fs dir config eth (Some ImportBlocks) = with_chain_ops lib config eth ''import-blocks''"
| "run lib fs dir config eth (Some PurgeChain) = block [try_step lib CreateRunner, purge_chain lib fs dir config eth]"
| "run lib fs dir config eth (Some Revert) = with_chain_ops lib config eth ''revert''"
| "run lib fs dir config eth (Some TryRuntime) = throw (CommandError ''TryRuntime wasn't enabled when building the node.'')"
| "run lib fs dir config eth (Some ChainInfo) = block [try_step lib CreateRunner, try_step lib (RunCommand ''chain-info'')]"
| "run lib fs dir config eth None = block [try_step lib CreateRunner, new_full lib config eth]"

section \<open>Scripts\<close>

text \<open>
  Without a failure the operations log a fixed list of events. A script is that list, with the
  error that each fallible step would end it with; playing it stops at the first failure.
\<close>

datatype 'e item = Sure node_event | Risky library_step "'e \<Rightarrow> 'e node_error"

primrec event_of :: "'e item \<Rightarrow> node_event" where
  "event_of (Sure ev) = ev"
| "event_of (Risky st f) = Step st"

fun play :: "'e library \<Rightarrow> 'e item list \<Rightarrow> ('e, unit) node" where
  "play lib [] log = (Inr (), log)"
| "play lib (Sure ev # xs) log = play lib xs (log @ [ev])"
| "play lib (Risky st f # xs) log =
     (case lib log st of None \<Rightarrow> play lib xs (log @ [Step st]) | Some e \<Rightarrow> (Inl (f e), log @ [Step st]))"

lemma play_ok: "play lib xs log = (Inr u, log') \<Longrightarrow> log' = log @ map event_of xs"
  by (induction lib xs log rule: play.induct) (auto split: option.splits)

lemma play_error:
  "play lib xs log = (Inl e, log') \<Longrightarrow>
    \<exists>ys st f x zs. xs = ys @ Risky st f # zs \<and> log' = log @ map event_of ys @ [Step st] \<and>
      lib (log @ map event_of ys) st = Some x \<and> e = f x"
proof (induction lib xs log rule: play.induct)
  case (2 lib ev xs log)
  then obtain ys st f x zs where "xs = ys @ Risky st f # zs" "log' = (log @ [ev]) @ map event_of ys @ [Step st]"
      "lib ((log @ [ev]) @ map event_of ys) st = Some x" "e = f x" by auto
  then show ?case by (intro exI [of _ "Sure ev # ys"]) auto
next
  case (3 lib st f xs log)
  show ?case
  proof (cases "lib log st")
    case None
    with 3 obtain ys st' f' x zs where "xs = ys @ Risky st' f' # zs"
        "log' = (log @ [Step st]) @ map event_of ys @ [Step st']" "lib ((log @ [Step st]) @ map event_of ys) st' = Some x" "e = f' x"
      by auto
    then show ?thesis by (intro exI [of _ "Risky st f # ys"]) auto
  next
    case (Some x)
    with 3(2) show ?thesis by (intro exI [of _ "[]"]) auto
  qed
qed simp

lemma play_append:
  "play lib (xs @ ys) log = (case play lib xs log of (Inl e, l) \<Rightarrow> (Inl e, l) | (Inr _, l) \<Rightarrow> play lib ys l)"
  by (induction lib xs log rule: play.induct) (auto split: option.splits)

definition plays :: "'e library \<Rightarrow> ('e, unit) node \<Rightarrow> 'e item list \<Rightarrow> bool" where
  "plays lib m xs \<longleftrightarrow> m = play lib xs"

lemma plays_primitives:
  "plays lib (ret ()) []" "plays lib (log_event ev) [Sure ev]"
  "plays lib (try_step lib st) [Risky st ServiceError]"
  "plays lib (expect_step lib st msg) [Risky st (\<lambda>_. Panicked msg)]"
  by (simp_all add: plays_def fun_eq_iff try_step_def expect_step_def log_event_def exec_eval split: option.split)

lemma plays_block:
  "plays lib m xs \<Longrightarrow> plays lib (block ms) ys \<Longrightarrow> plays lib (block (m # ms)) (xs @ ys)"
  by (simp add: plays_def fun_eq_iff exec_eval play_append thenE_run split: prod.split sum.split)

section \<open>A node that starts\<close>

definition tasks :: "node_event list \<Rightarrow> node_event list" where
  "tasks log = filter (\<lambda>ev. case ev of Spawned _ _ _ _ \<Rightarrow> True | _ \<Rightarrow> False) log"

lemma tasks_simps [simp]:
  "tasks [] = []" "tasks (Step st # xs) = tasks xs" "tasks (Spawned a b n g # xs) = Spawned a b n g # tasks xs"
  "tasks (xs @ ys) = tasks xs @ tasks ys"
  by (simp_all add: tasks_def)

text \<open>The tasks a configuration asks for.\<close>

definition expected_tasks :: "configuration \<Rightarrow> eth_configuration \<Rightarrow> node_event list" where
  "expected_tasks config eth =
     (if has_telemetry config then [Spawned False False ''telemetry'' None] else []) @
     (if offchain_worker_enabled config then [Spawned False False ''offchain-workers-runner'' (Some ''offchain-worker'')] else []) @
     [Spawned True (frontier_backend_type eth = Sql) ''frontier-mapping-sync-worker'' (Some ''frontier''),
      Spawned True False ''frontier-filter-pool'' (Some ''frontier''),
      Spawned True False ''frontier-fee-history'' (Some ''frontier'')] @
     (if is_authority config then [Spawned True True ''aura'' (Some ''block-authoring'')] else []) @
     (if disable_grandpa config then [] else [Spawned True True ''grandpa-voter'' None])"

text \<open>
  \<open>spawns lib m ts\<close>: the operation is a script that spawns the tasks \<open>ts\<close> and does not start the
  network; \<open>starts lib m ts\<close>: it does so at its very end.
\<close>

definition spawns :: "'e library \<Rightarrow> ('e, unit) node \<Rightarrow> node_event list \<Rightarrow> bool" where
  "spawns lib m ts \<longleftrightarrow> (\<exists>xs. plays lib m xs \<and> tasks (map event_of xs) = ts \<and> Step StartNetwork \<notin> set (map event_of xs))"

definition starts :: "'e library \<Rightarrow> ('e, unit) node \<Rightarrow> node_event list \<Rightarrow> bool" where
  "starts lib m ts \<longleftrightarrow> (\<exists>xs. plays lib m (xs @ [Sure (Step StartNetwork)]) \<and> tasks (map event_of xs) = ts \<and>
     Step StartNetwork \<notin> set (map event_of xs))"

named_theorems spawns_intro \<open>tasks of operations\<close>

lemma spawns_primitives [spawns_intro]:
  "spawns lib (ret ()) []"
  "st \<noteq> StartNetwork \<Longrightarrow> spawns lib (log_event (Step st)) []"
  "st \<noteq> StartNetwork \<Longrightarrow> spawns lib (try_step lib st) []"
  "st \<noteq> StartNetwork \<Longrightarrow> spawns lib (expect_step lib st msg) []"
  "spawns lib (log_event (Spawned a b n g)) [Spawned a b n g]"
  unfolding spawns_def
  by (intro exI conjI, rule plays_primitives, simp_all)+

lemma spawns_spawn [spawns_intro]:
  "spawns lib (spawn n g) [Spawned False False n g]"
  "spawns lib (spawn_essential n g) [Spawned True False n g]"
  "spawns lib (spawn_essential_blocking n g) [Spawned True True n g]"
  by (simp_all add: spawn_def spawn_essential_def spawn_essential_blocking_def spawns_primitives)

lemma spawns_block [spawns_intro]:
  "spawns lib (block []) []"
  "spawns lib m ts \<Longrightarrow> spawns lib (block ms) us \<Longrightarrow> spawns lib (block (m # ms)) (ts @ us)"
  "starts lib (block [log_event (Step StartNetwork)]) []"
  "spawns lib m ts \<Longrightarrow> starts lib (block ms) us \<Longrightarrow> starts lib (block (m # ms)) (ts @ us)"
proof -
  show "spawns lib (block []) []" by (simp add: spawns_primitives)
  show "spawns lib (block (m # ms)) (ts @ us)" if m: "spawns lib m ts" and ms: "spawns lib (block ms) us"
  proof -
    from m ms obtain xs ys where "plays lib m xs" "tasks (map event_of xs) = ts" "Step StartNetwork \<notin> set (map event_of xs)"
      "plays lib (block ms) ys" "tasks (map event_of ys) = us" "Step StartNetwork \<notin> set (map event_of ys)"
      by (auto simp: spawns_def)
    with plays_block [of lib m xs ms ys] show ?thesis unfolding spawns_def by (intro exI [of _ "xs @ ys"]) simp
  qed
  have "plays lib (block [log_event (Step StartNetwork)]) ([Sure (Step StartNetwork)] @ [])"
    by (rule plays_block) (simp_all add: plays_primitives)
  then show "starts lib (block [log_event (Step StartNetwork)]) []"
    unfolding starts_def by (intro exI [of _ "[]"]) simp
  show "starts lib (block (m # ms)) (ts @ us)" if m: "spawns lib m ts" and ms: "starts lib (block ms) us"
  proof -
    from m ms obtain xs ys where "plays lib m xs" "tasks (map event_of xs) = ts" "Step StartNetwork \<notin> set (map event_of xs)"
      "plays lib (block ms) (ys @ [Sure (Step StartNetwork)])" "tasks (map event_of ys) = us" "Step StartNetwork \<notin> set (map event_of ys)"
      by (auto simp: spawns_def starts_def)
    with plays_block [of lib m xs ms "ys @ [Sure (Step StartNetwork)]"] show ?thesis
      unfolding starts_def by (intro exI [of _ "xs @ ys"]) simp
  qed
qed

lemma spawns_when [spawns_intro]: "spawns lib m ts \<Longrightarrow> spawns lib (when_true b m) (if b then ts else [])"
  by (simp add: when_true_def spawns_primitives)

lemma spawns_frontier [spawns_intro]:
  "spawns lib (open_frontier_backend lib config eth) []"
  "spawns lib (spawn_frontier_tasks b (new_frontier_partial eth))
     [Spawned True (b = Sql) ''frontier-mapping-sync-worker'' (Some ''frontier''),
      Spawned True False ''frontier-filter-pool'' (Some ''frontier''),
      Spawned True False ''frontier-fee-history'' (Some ''frontier'')]"
proof -
  have two: "spawns lib m [] \<Longrightarrow> spawns lib n [] \<Longrightarrow> spawns lib (block [m, n]) []" for m n
    using spawns_block(2) [of lib m "[]" "[n]" "[]"] spawns_block(2) [of lib n "[]" "[]" "[]"] spawns_block(1) [of lib] by simp
  show "spawns lib (open_frontier_backend lib config eth) []"
    by (auto simp: open_frontier_backend_def Let_def simp del: block.simps intro!: two spawns_primitives split: backend_type.split)
  have three: "spawns lib m [t] \<Longrightarrow> spawns lib n [u] \<Longrightarrow> spawns lib k [v] \<Longrightarrow> spawns lib (block [m, n, k]) [t, u, v]" for m n k t u v
    using spawns_block(2) [of lib m "[t]" "[n, k]" "[u, v]"] spawns_block(2) [of lib n "[u]" "[k]" "[v]"]
      spawns_block(2) [of lib k "[v]" "[]" "[]"] spawns_block(1) [of lib] by simp
  show "spawns lib (spawn_frontier_tasks b (new_frontier_partial eth))
     [Spawned True (b = Sql) ''frontier-mapping-sync-worker'' (Some ''frontier''),
      Spawned True False ''frontier-filter-pool'' (Some ''frontier''),
      Spawned True False ''frontier-fee-history'' (Some ''frontier'')]"
    unfolding spawn_frontier_tasks_def new_frontier_partial_def
    by (rule three) (auto intro: spawns_spawn split: backend_type.split)
qed

lemma new_full_starts: "starts lib (new_full lib config eth) (expected_tasks config eth)"
proof -
  have eq: "starts lib m ts \<Longrightarrow> ts = us \<Longrightarrow> starts lib m us" for m ts us by simp
  show ?thesis
    unfolding new_full_def new_partial_def build_aura_grandpa_import_queue_def
    by (rule eq, (rule spawns_intro library_step.simps)+) (simp add: expected_tasks_def)
qed

text \<open>
  C38. A node starts completely or not at all. When \<open>new_full\<close> succeeds it has spawned exactly the
  tasks its configuration asks for, in this order: telemetry, off-chain workers, the three Frontier
  tasks, block authoring if and only if the node is an authority, and the GRANDPA voter unless it is
  disabled; and only then, as its last act, it starts the network. When a step of a library fails,
  that failure is the last thing that happened, and the network was never started.
\<close>

theorem node_starts:
  assumes "new_full lib config eth log = (r, log')"
  shows "\<exists>new. log' = log @ new \<and>
    (case r of
       Inr _ \<Rightarrow> tasks new = expected_tasks config eth \<and>
         (\<exists>before. new = before @ [Step StartNetwork] \<and> Step StartNetwork \<notin> set before)
     | Inl e \<Rightarrow> Step StartNetwork \<notin> set new \<and> prefix (tasks new) (expected_tasks config eth) \<and>
         (\<exists>before st x. new = before @ [Step st] \<and> lib (log @ before) st = Some x))"
proof -
  from new_full_starts [of lib config eth] obtain xs where
    run: "new_full lib config eth = play lib (xs @ [Sure (Step StartNetwork)])" and
    t: "tasks (map event_of xs) = expected_tasks config eth" and n: "Step StartNetwork \<notin> set (map event_of xs)"
    by (auto simp: starts_def plays_def)
  show ?thesis
  proof (cases r)
    case (Inr u)
    with assms run have "log' = log @ map event_of xs @ [Step StartNetwork]" using play_ok by fastforce
    with Inr t n show ?thesis by (intro exI [of _ "map event_of xs @ [Step StartNetwork]"]) simp
  next
    case (Inl e)
    with assms run obtain ys st f x zs where
      split: "xs @ [Sure (Step StartNetwork)] = ys @ Risky st f # zs"
        "log' = log @ map event_of ys @ [Step st]" "lib (log @ map event_of ys) st = Some x"
      by (metis play_error)
    from split(1) obtain us where us: "xs = ys @ Risky st f # us"
      by (cases zs rule: rev_cases) auto
    with n have "Step StartNetwork \<notin> set (map event_of ys @ [Step st])" by auto
    moreover have "prefix (tasks (map event_of ys @ [Step st])) (expected_tasks config eth)"
      using t [symmetric] by (simp add: us)
    ultimately show ?thesis
      using Inl split(2,3) by (intro exI [of _ "map event_of ys @ [Step st]"]) auto
  qed
qed

definition dev_node :: configuration where
  "dev_node = \<lparr>config_dir = (\<lambda>i. [''chains'', i]), chain_id = ''canbus-dev'', database = RocksDb [''db''] 128,
     is_authority = True, telemetry_endpoints = Some [], offchain_worker_enabled = True, disable_grandpa = False,
     force_authoring = False, keystore_in_memory = False\<rparr>"

definition working_library :: "nat library" where
  "working_library log st = None"

theorem node_starts_witness:
  "\<exists>log. new_full working_library dev_node default_eth_configuration [] = (Inr (), log) \<and>
     Spawned True True ''aura'' (Some ''block-authoring'') \<in> set log"
proof -
  obtain xs where p: "plays working_library (new_full working_library dev_node default_eth_configuration) xs"
    using new_full_starts [of working_library dev_node default_eth_configuration] unfolding starts_def by blast
  have ok: "play working_library xs l = (Inr (), l @ map event_of xs)" for xs l
    by (induction working_library xs l rule: play.induct) (auto simp: working_library_def)
  have run: "new_full working_library dev_node default_eth_configuration [] = (Inr (), map event_of xs)"
    using p ok [of xs "[]"] by (simp add: plays_def)
  from node_starts [OF run] have t: "tasks (map event_of xs) = expected_tasks dev_node default_eth_configuration" by simp
  have "Spawned True True ''aura'' (Some ''block-authoring'') \<in> set (expected_tasks dev_node default_eth_configuration)"
    by (simp add: expected_tasks_def dev_node_def)
  then have "Spawned True True ''aura'' (Some ''block-authoring'') \<in> set (tasks (map event_of xs))"
    unfolding t .
  then have "Spawned True True ''aura'' (Some ''block-authoring'') \<in> set (map event_of xs)"
    unfolding tasks_def set_filter by blast
  with run show ?thesis by blast
qed

text \<open>A pending block is one slot ahead of a block that is authored at the same time.\<close>

lemma pending_next_slot:
  assumes "slot_duration \<noteq> 0" "unat current + unat slot_duration < 2 ^ 64"
  shows "fst (pending_create_inherent_data_providers (\<lambda>t d. t div d) slot_duration eth current) =
    fst (create_inherent_data_providers (\<lambda>t d. t div d) slot_duration eth current) + 1"
proof -
  have d: "0 < unat slot_duration" using assms(1) by (simp add: unat_gt_0)
  have sum: "unat (current + slot_duration) = unat current + unat slot_duration"
    using assms(2) by (simp add: unat_word_ariths)
  have q: "(unat current + unat slot_duration) div unat slot_duration = unat current div unat slot_duration + 1"
    using d by (simp only: div_add_self2 [OF gr_implies_not0])
  moreover have "(unat current + unat slot_duration) div unat slot_duration \<le> unat current + unat slot_duration"
    by (rule div_le_dividend)
  ultimately have "unat current div unat slot_duration + 1 < 2 ^ 64" using assms(2) by linarith
  then have "unat (current div slot_duration + 1) = unat current div unat slot_duration + 1"
    by (simp add: unat_word_ariths(1) unat_div)
  also have "\<dots> = unat ((current + slot_duration) div slot_duration)"
    by (simp only: unat_div sum q)
  finally have "unat (current div slot_duration + 1) = unat ((current + slot_duration) div slot_duration)" .
  then show ?thesis
    by (simp add: create_inherent_data_providers_def pending_create_inherent_data_providers_def Let_def word_unat_eq_iff)
qed

text \<open>The RPC modules of a node, in the order in which they are merged.\<close>

lemma create_full_modules:
  assumes "create_full txpool lib (new_frontier_partial eth) log = (Inr u, log')"
  shows "log' = log @ map (\<lambda>n. Step (MergeRpc n))
    ([''System'', ''TransactionPayment'', ''Eth'', ''EthFilter'', ''EthPubSub'', ''Net'', ''Web3'', ''Debug''] @
     (if txpool then [''TxPool''] else []))"
  using assms
  by (auto simp: create_full_def create_eth_def new_frontier_partial_def try_step_def when_true_def log_event_def
      exec_ok split: option.splits if_splits)

section \<open>A chain that is removed\<close>



end
