(* ===== verification/Staking_Crowd.thy ===== *)
theory Staking_Crowd
  imports Staking_Payouts
begin

text \<open>
  A run of the staking pallet with four equal stakers, step by step from the empty storage: the pool is
  funded, each of them stakes 100 at block 100, block 160 moves the stakes in, and from block 500, after
  the pool's end, they withdraw one after the other. The state after each step is computed here once;
  the theorems on withdrawals take their example from it.
\<close>

section \<open>Stakes\<close>

lemmas crowd_simps = exec_eval bindE_run thenE_run claim_eq weight_of_eq weight_force_eq claim_based_on_weight_eq
  withdraw_position_eq add_position_eq Let_def fit_def nat_word_def on_ledger_def checked_sub_def checked_add_def
  staking_deposit_event_def transactional_run pool_setting_of_def sample_pool_times new_position_def
  sample_staking_def book_tokens_def book_defs ensure_root_def

definition funded_world :: "(unit, book, staking_storage) frame" where
  "funded_world = snd (run_staking_call sample_staking (UpdateReward 1 1 900) Root later_world)"

definition funded_storage :: staking_storage where
  "funded_storage = empty_staking_storage\<lparr>staking_pool_setting := [1 \<mapsto> sample_pool\<lparr>start_time := 60\<rparr>],
     aiusd_asset_id := Some 4, pool_epoch_reward := [(1, 1) \<mapsto> 900], pool_reward := (\<lambda>_. 0)(1 := 900)\<rparr>"

lemma funded_world_facts:
  "store funded_world = funded_storage" "block_number funded_world = 100" "fst (ledger funded_world) (Some 4) 70 = 5900"
  "v \<noteq> 70 \<Longrightarrow> fst (ledger funded_world) (Some 4) v = 5000" "fst (ledger funded_world) None = (\<lambda>_. 5000)"
  "fst (run_staking_call sample_staking (UpdateReward 1 1 900) Root later_world) = Inr ()"
  by (simp_all add: funded_world_def funded_storage_def later_world_eq update_reward_def get_epoch_index_def
      lift_result_def crowd_simps empty_staking_storage_def)

text \<open>What equal stakes of 100 at block 100 leave behind.\<close>

definition queued_storage :: "account_id list \<Rightarrow> staking_storage" where
  "queued_storage us = funded_storage\<lparr>
     pending_setup := map (\<lambda>u. \<lparr>staker = u, target_pool = 1, position = new_position 160 100\<rparr>) us,
     pending_amount := (\<lambda>_. 0)(1 := word_of_nat (100 * length us)),
     native_checkpoint := (if us = [] then None else Some (new_position 100 (word_of_nat (100 * length us)))),
     user_native_checkpoint := (\<lambda>u. if u \<in> set us then Some (new_position 100 100) else None)\<rparr>"

lemma crowd_stake:
  assumes "store w = queued_storage us" "block_number w = 100" "u \<notin> set us" "length us < 4" "u \<noteq> 70"
    and "fst (ledger w) (Some 4) u = 5000" "unat (fst (ledger w) (Some 4) 70) < 10000"
  shows "fst (stake sample_staking (Signed u) 1 100 w) = Inr ()"
    "store (snd (stake sample_staking (Signed u) 1 100 w)) = queued_storage (us @ [u])"
    "block_number (snd (stake sample_staking (Signed u) 1 100 w)) = 100"
    "fst (ledger (snd (stake sample_staking (Signed u) 1 100 w))) (Some 4) 70 = fst (ledger w) (Some 4) 70 + 100"
    "fst (ledger (snd (stake sample_staking (Signed u) 1 100 w))) (Some 4) u = 4900"
    "v \<notin> {u, 70} \<Longrightarrow> fst (ledger (snd (stake sample_staking (Signed u) 1 100 w))) (Some 4) v = fst (ledger w) (Some 4) v"
    "fst (ledger (snd (stake sample_staking (Signed u) 1 100 w))) None = fst (ledger w) None"
proof -
  note simps = stake_def do_native_add_def add_or_open_def get_epoch_index_def get_epoch_begin_time_def lift_result_def
      available_pool_cap_def crowd_simps queued_storage_def funded_storage_def empty_staking_storage_def word_le_nat_alt
  from assms(4) consider "us = []" | a where "us = [a]" | a b where "us = [a, b]" | a b c where "us = [a, b, c]"
    by (cases us; cases "tl us"; cases "tl (tl us)"; cases "tl (tl (tl us))") auto
  note cases = this
  show "fst (stake sample_staking (Signed u) 1 100 w) = Inr ()"
    using cases by cases (use assms in \<open>simp_all add: simps\<close>)
  show "store (snd (stake sample_staking (Signed u) 1 100 w)) = queued_storage (us @ [u])"
    using cases by cases (use assms in \<open>auto simp: simps fun_eq_iff\<close>)
  show "block_number (snd (stake sample_staking (Signed u) 1 100 w)) = 100"
    using cases by cases (use assms in \<open>simp_all add: simps\<close>)
  show "fst (ledger (snd (stake sample_staking (Signed u) 1 100 w))) (Some 4) 70 = fst (ledger w) (Some 4) 70 + 100"
    using cases by cases (use assms in \<open>simp_all add: simps\<close>)
  show "fst (ledger (snd (stake sample_staking (Signed u) 1 100 w))) (Some 4) u = 4900"
    using cases by cases (use assms in \<open>simp_all add: simps\<close>)
  show "v \<notin> {u, 70} \<Longrightarrow> fst (ledger (snd (stake sample_staking (Signed u) 1 100 w))) (Some 4) v = fst (ledger w) (Some 4) v"
    using cases by cases (use assms in \<open>simp_all add: simps\<close>)
  show "fst (ledger (snd (stake sample_staking (Signed u) 1 100 w))) None = fst (ledger w) None"
    using cases by cases (use assms in \<open>simp_all add: simps\<close>)
qed

definition queued_by :: "account_id list \<Rightarrow> (unit, book, staking_storage) frame" where
  "queued_by us = foldl (\<lambda>w u. snd (run_staking_call sample_staking (Stake 1 100) (Signed u) w)) funded_world us"

lemma queued_by_snoc: "queued_by (us @ [u]) = snd (stake sample_staking (Signed u) 1 100 (queued_by us))"
  by (simp add: queued_by_def)

lemma queued_by_facts:
  assumes "length us \<le> 4" "distinct us" "70 \<notin> set us"
  shows "store (queued_by us) = queued_storage us \<and> block_number (queued_by us) = 100 \<and>
    unat (fst (ledger (queued_by us)) (Some 4) 70) = 5900 + 100 * length us \<and>
    (\<forall>v. v \<notin> set us \<longrightarrow> v \<noteq> 70 \<longrightarrow> fst (ledger (queued_by us)) (Some 4) v = 5000) \<and>
    (\<forall>v \<in> set us. fst (ledger (queued_by us)) (Some 4) v = 4900) \<and> fst (ledger (queued_by us)) None = (\<lambda>_. 5000)"
  using assms
proof (induction us rule: rev_induct)
  case Nil
  then show ?case by (simp add: queued_by_def funded_world_facts queued_storage_def funded_storage_def empty_staking_storage_def fun_eq_iff)
next
  case (snoc u us)
  then have IH: "store (queued_by us) = queued_storage us" "block_number (queued_by us) = 100"
    "unat (fst (ledger (queued_by us)) (Some 4) 70) = 5900 + 100 * length us"
    "\<And>v. v \<notin> set us \<Longrightarrow> v \<noteq> 70 \<Longrightarrow> fst (ledger (queued_by us)) (Some 4) v = 5000"
    "\<And>v. v \<in> set us \<Longrightarrow> fst (ledger (queued_by us)) (Some 4) v = 4900" "fst (ledger (queued_by us)) None = (\<lambda>_. 5000)"
    and u: "u \<notin> set us" "length us < 4" "u \<noteq> 70" by auto
  have "fst (ledger (queued_by us)) (Some 4) u = 5000" "unat (fst (ledger (queued_by us)) (Some 4) 70) < 10000"
    using IH(3,4) u by auto
  note run = crowd_stake [OF IH(1,2) u this]
  have "unat (fst (ledger (queued_by us)) (Some 4) 70 + 100) = unat (fst (ledger (queued_by us)) (Some 4) 70) + 100"
    using IH(3) u(2) by (subst unat_add_lem [THEN iffD1]) simp_all
  moreover have "v \<notin> {u, 70}" if "v \<in> set us" for v using snoc.prems that by auto
  ultimately show ?case
    using run IH(3-6) by (auto simp: queued_by_snoc)
qed

section \<open>The pool at work\<close>

definition stakers :: "account_id list" where
  "stakers = [5, 6, 7, 8]"

definition started_world :: "(unit, book, staking_storage) frame" where
  "started_world = snd (staking_on_initialize sample_staking 160 ((queued_by stakers)\<lparr>block_number := 160\<rparr>))"

definition ended_world :: "(unit, book, staking_storage) frame" where
  "ended_world = snd (staking_on_initialize sample_staking 500 (started_world\<lparr>block_number := 500\<rparr>))"

lemma stakers_queued: "store (queued_by stakers) = queued_storage stakers" "block_number (queued_by stakers) = 100"
  "fst (ledger (queued_by stakers)) (Some 4) 70 = 6300" "u \<in> set stakers \<Longrightarrow> fst (ledger (queued_by stakers)) (Some 4) u = 4900"
  "fst (ledger (queued_by stakers)) None v = 5000"
proof -
  note q = queued_by_facts [of stakers]
  have "unat (fst (ledger (queued_by stakers)) (Some 4) 70) = 6300" using q by (simp add: stakers_def)
  then show "fst (ledger (queued_by stakers)) (Some 4) 70 = 6300" by (simp add: word_unat_eq_iff)
  show "store (queued_by stakers) = queued_storage stakers" "block_number (queued_by stakers) = 100"
    "u \<in> set stakers \<Longrightarrow> fst (ledger (queued_by stakers)) (Some 4) u = 4900"
    "fst (ledger (queued_by stakers)) None v = 5000"
    using q by (auto simp: stakers_def)
qed

lemma started: "store started_world = funded_storage\<lparr>
     pool_checkpoint := [1 \<mapsto> new_position 160 400],
     user_pool_checkpoint := [(5, 1) \<mapsto> new_position 160 100, (6, 1) \<mapsto> new_position 160 100,
       (7, 1) \<mapsto> new_position 160 100, (8, 1) \<mapsto> new_position 160 100],
     native_checkpoint := Some (new_position 100 400),
     user_native_checkpoint := (\<lambda>u. if u \<in> set stakers then Some (new_position 100 100) else None)\<rparr>"
  "block_number started_world = 160" "ledger started_world = ledger (queued_by stakers)"
  using stakers_queued(1,2) unfolding started_world_def
  by (simp_all add: staking_on_initialize_def begin_block_def solve_pending_def do_stable_add_def add_or_open_def
      attempt_def ret_def crowd_simps queued_storage_def funded_storage_def empty_staking_storage_def stakers_def)
     (simp add: fun_eq_iff)

lemma ended: "store ended_world = store started_world" "block_number ended_world = 500"
  "ledger ended_world = ledger started_world"
  using started unfolding ended_world_def
  by (simp_all add: staking_on_initialize_def begin_block_def exec_eval ret_def thenE_run bindE_run
      funded_storage_def empty_staking_storage_def)

lemmas ended_facts = ended(1) [unfolded started(1)] ended(2)

lemma ended_ledger: "fst (ledger ended_world) (Some 4) 70 = 6300" "fst (ledger ended_world) (Some 4) 5 = 4900"
  "fst (ledger ended_world) (Some 4) 6 = 4900" "fst (ledger ended_world) (Some 4) 7 = 4900" "fst (ledger ended_world) (Some 4) 8 = 4900" "fst (ledger ended_world) None v = 5000"
  using stakers_queued(3-5) by (simp_all add: ended(3) started(3) stakers_def)

section \<open>Withdrawals\<close>

text \<open>A withdrawal that goes through, in closed form.\<close>

lemma withdraw_closed:
  assumes "staking_pool_setting (store w) p = Some ps" "end_time ps = Some e" "e < block_number w"
    and "aiusd_asset_id (store w) = Some i"
    and "native_checkpoint (store w) = Some ncp" "user_native_checkpoint (store w) who = Some uncp"
    and "weight_of uncp (block_number w) = Some nw" "weight_force ncp (block_number w) = Some nt"
    and "claim_based_on_weight ncp nw = Some (x, ncp')"
    and "tk_transfer (native_token (staking_tokens cfg)) (native_beneficiary cfg) who (proportion_of cfg (from_rational cfg nw nt)
      (tk_balance (native_token (staking_tokens cfg)) (ledger w) (native_beneficiary cfg))) (ledger w) = (Inr y, l)"
    and "pool_checkpoint (store w) p = Some scp" "user_pool_checkpoint (store w) (who, p) = Some ucp"
    and "weight_of ucp (block_number w) = Some pw" "weight_force scp (block_number w) = Some pt"
    and "claim_based_on_weight scp pw = Some (x', scp')"
    and "d = proportion_of cfg (from_rational cfg pw pt) (pool_reward (store w) p)"
    and "tk_transfer (asset_token (staking_tokens cfg) i) (stable_beneficiary cfg) who d l = (Inr y', l')"
    and "tk_transfer (asset_token (staking_tokens cfg) i) (stable_beneficiary cfg) who (amount ucp) l' = (Inr y'', l'')"
    and "amount ucp \<le> amount scp'" "amount ucp \<le> amount ncp'" "amount uncp = amount ucp"
  shows "withdraw cfg (Signed who) p w = (Inr (), w\<lparr>ledger := l'', store := (store w)\<lparr>
      pool_reward := (pool_reward (store w))(p := pool_reward (store w) p - d),
      pool_checkpoint := (pool_checkpoint (store w))(p \<mapsto> scp'\<lparr>amount := amount scp' - amount ucp\<rparr>),
      user_pool_checkpoint := (user_pool_checkpoint (store w))((who, p) := None),
      native_checkpoint := Some (ncp'\<lparr>amount := amount ncp' - amount ucp\<rparr>),
      user_native_checkpoint := (user_native_checkpoint (store w))(who := None)\<rparr>,
    events := events w @ map (staking_into_event cfg) [NativeRewardClaimed who (block_number w) (proportion_of cfg
        (from_rational cfg nw nt) (tk_balance (native_token (staking_tokens cfg)) (ledger w) (native_beneficiary cfg))),
      StableRewardClaimed who p (block_number w) d, Withdrawn who p (block_number w) (amount ucp)]\<rparr>)"
  using assms
  by (simp add: withdraw_def pool_setting_of_def do_native_claim_def do_stable_claim_def do_withdraw_def shrink_native_def
      shrink_user_native_def exec_eval transactional_run thenE_run bindE_run claim_eq on_ledger_def withdraw_position_eq
      staking_deposit_event_def Let_def)

lemma book_pays:
  assumes "fst l a src = x" "fst l a dst = y" "src \<noteq> dst" "amt \<le> x" "unat y + unat amt < 2 ^ 128"
  shows "book_transfer a src dst amt l = (Inr amt, book_set a dst (y + amt) (book_set a src (x - amt) l))"
  using assms by (simp add: book_transfer_def checked_sub_def checked_add_def book_set_def word_le_nat_alt)

lemma book_pick: "fst (book_set a u x l) b v = (if a = b \<and> u = v then x else fst l b v)"
  by (auto simp: book_set_def)

text \<open>
  The state before the accounts \<open>us\<close> withdraw in turn: what is left in the two pots, and the two
  checkpoints.
\<close>

definition leaving :: "account_id list \<Rightarrow> (unit, book, staking_storage) frame \<Rightarrow> balance \<Rightarrow> balance \<Rightarrow> balance \<Rightarrow> u32 \<Rightarrow> u32 \<Rightarrow> balance \<Rightarrow> bool" where
  "leaving us w pot bal reward ne pe a \<longleftrightarrow> block_number w = 500 \<and>
     staking_pool_setting (store w) 1 = Some (sample_pool\<lparr>start_time := 60\<rparr>) \<and> aiusd_asset_id (store w) = Some 4 \<and>
     native_checkpoint (store w) = Some \<lparr>effective_time = ne, amount = a, last_add_time = 100\<rparr> \<and>
     pool_checkpoint (store w) 1 = Some \<lparr>effective_time = pe, amount = a, last_add_time = 160\<rparr> \<and>
     pool_reward (store w) 1 = reward \<and> fst (ledger w) None 71 = pot \<and> fst (ledger w) (Some 4) 70 = bal \<and>
     (\<forall>v \<in> set us. user_pool_checkpoint (store w) (v, 1) = Some (new_position 160 100) \<and>
        user_native_checkpoint (store w) v = Some (new_position 100 100) \<and>
        fst (ledger w) None v = 5000 \<and> fst (ledger w) (Some 4) v = 4900)"

lemma next_leaves:
  assumes L: "leaving (u # us) w pot bal reward ne pe a" and u: "u \<notin> set us" "u \<noteq> 70" "u \<noteq> 71" "70 \<notin> set us" "71 \<notin> set us"
    and n: "weight_force \<lparr>effective_time = ne, amount = a, last_add_time = 100\<rparr> 500 = Some nt"
      "claim_based_on_weight \<lparr>effective_time = ne, amount = a, last_add_time = 100\<rparr> 40000 =
        Some (x, \<lparr>effective_time = ne', amount = a, last_add_time = 100\<rparr>)"
    and p: "weight_force \<lparr>effective_time = pe, amount = a, last_add_time = 160\<rparr> 500 = Some pt"
      "claim_based_on_weight \<lparr>effective_time = pe, amount = a, last_add_time = 160\<rparr> 34000 =
        Some (x', \<lparr>effective_time = pe', amount = a, last_add_time = 160\<rparr>)"
    and pn: "proportion_of sample_staking (from_rational sample_staking 40000 nt) pot = pn" "pn \<le> pot" "unat pn \<le> 5000"
    and d: "proportion_of sample_staking (from_rational sample_staking 34000 pt) reward = d" "unat d \<le> 900"
    and b: "1000 \<le> unat bal" "100 \<le> a"
  shows "\<exists>w'. withdraw sample_staking (Signed u) 1 w = (Inr (), w') \<and>
    leaving us w' (pot - pn) (bal - d - 100) (reward - d) ne' pe' (a - 100)"
proof -
  have at_u: "user_pool_checkpoint (store w) (u, 1) = Some (new_position 160 100)"
    "user_native_checkpoint (store w) u = Some (new_position 100 100)"
    "fst (ledger w) None u = 5000" "fst (ledger w) (Some 4) u = 4900" using L by (auto simp: leaving_def)
  have ends: "end_time (sample_pool\<lparr>start_time := 60\<rparr>) = Some 460"
    by (simp add: sample_pool_def end_time_eq fit_def nat_word_def Let_def)
  have wgt: "weight_of (new_position 100 100) 500 = Some 40000" "weight_of (new_position 160 100) 500 = Some 34000"
    by (simp_all add: weight_of_eq new_position_def fit_def nat_word_def)
  let ?l = "book_set None u (5000 + pn) (book_set None 71 (pot - pn) (ledger w))"
  let ?l1 = "book_set (Some 4) u (4900 + d) (book_set (Some 4) 70 (bal - d) ?l)"
  let ?l2 = "book_set (Some 4) u (5000 + d) (book_set (Some 4) 70 (bal - d - 100) ?l1)"
  have bal: "d \<le> bal" "100 \<le> bal - d" "unat (4900 + d) = 4900 + unat d"
    using b(1) d(2) by (simp_all add: word_le_nat_alt unat_sub unat_word_ariths)
  have t1: "book_transfer None 71 u pn (ledger w) = (Inr pn, ?l)"
    using L at_u u pn by (intro book_pays) (simp_all add: leaving_def)
  have t2: "book_transfer (Some 4) 70 u d ?l = (Inr d, ?l1)"
    using L at_u u d(2) bal by (intro book_pays) (simp_all add: leaving_def book_pick)
  have t3: "book_transfer (Some 4) 70 u 100 ?l1 = (Inr 100, ?l2)"
    using book_pays [of ?l1 "Some 4" 70 "bal - d" u "4900 + d" 100] at_u u d(2) bal by (simp add: book_pick)
  note L' = L [unfolded leaving_def]
  have nb: "native_beneficiary sample_staking = 71" by (simp add: sample_staking_def)
  have run: "withdraw sample_staking (Signed u) 1 w = (Inr (), w\<lparr>ledger := ?l2, store := (store w)\<lparr>
      pool_reward := (pool_reward (store w))(1 := reward - d),
      pool_checkpoint := (pool_checkpoint (store w))(1 \<mapsto> \<lparr>effective_time = pe', amount = a - 100, last_add_time = 160\<rparr>),
      user_pool_checkpoint := (user_pool_checkpoint (store w))((u, 1) := None),
      native_checkpoint := Some \<lparr>effective_time = ne', amount = a - 100, last_add_time = 100\<rparr>,
      user_native_checkpoint := (user_native_checkpoint (store w))(u := None)\<rparr>,
    events := events w @ map (staking_into_event sample_staking) [NativeRewardClaimed u 500 pn,
      StableRewardClaimed u 1 500 d, Withdrawn u 1 500 100]\<rparr>)"
    apply (subst withdraw_closed [where cfg = sample_staking and ps = "sample_pool\<lparr>start_time := 60\<rparr>" and e = 460 and i = 4 and ncp = "\<lparr>effective_time = ne, amount = a, last_add_time = 100\<rparr>" and
        uncp = "new_position 100 100" and nw = 40000 and nt = nt and x = x and ncp' = "\<lparr>effective_time = ne', amount = a, last_add_time = 100\<rparr>" and y = pn and l = ?l and
        scp = "\<lparr>effective_time = pe, amount = a, last_add_time = 160\<rparr>" and ucp = "new_position 160 100" and pw = 34000 and pt = pt and x' = x' and
        scp' = "\<lparr>effective_time = pe', amount = a, last_add_time = 160\<rparr>" and d = d and y' = d and l' = ?l1 and y'' = 100 and l'' = ?l2])
    using L' at_u ends wgt n p t1 t2 t3 pn d b
    apply (simp_all add: sample_staking_simps new_position_def book_tokens_def book_token_def book_balance_def nb)
  done
  show ?thesis
    unfolding run using L' u at_u
    by (auto simp: leaving_def book_pick)
qed

lemma crowd_leaving: "leaving stakers ended_world 5000 6300 900 100 160 400"
  using ended_ledger by (simp add: leaving_def ended_facts funded_storage_def empty_staking_storage_def stakers_def new_position_def)

lemma shares: "proportion_of sample_staking (from_rational sample_staking 40000 160000) 5000 = 1250"
  "proportion_of sample_staking (from_rational sample_staking 34000 136000) 900 = 225"
  "proportion_of sample_staking (from_rational sample_staking 40000 90000) 3750 = 1666"
  "proportion_of sample_staking (from_rational sample_staking 34000 76500) 675 = 299"
  "proportion_of sample_staking (from_rational sample_staking 40000 33400) 2084 = 2084"
  "proportion_of sample_staking (from_rational sample_staking 34000 28400) 376 = 376"
  by (simp_all add: sample_staking_def nat_word_def)

lemmas leaver_simps = weight_force_eq claim_based_on_weight_eq fit_def nat_word_def Let_def shares

lemma crowd_withdraws:
  obtains w1 w2 w3 where "withdraw sample_staking (Signed 5) 1 ended_world = (Inr (), w1)"
    "withdraw sample_staking (Signed 6) 1 w1 = (Inr (), w2)" "withdraw sample_staking (Signed 7) 1 w2 = (Inr (), w3)"
proof -
  from next_leaves [OF crowd_leaving [unfolded stakers_def], of 160000 200 200 136000 245 245 1250 225]
  obtain w1 where 1: "withdraw sample_staking (Signed 5) 1 ended_world = (Inr (), w1)"
    "leaving [6, 7, 8] w1 3750 5975 675 200 245 300" by (auto simp: leaver_simps)
  from next_leaves [OF 1(2), of 90000 333 333 76500 358 358 1666 299]
  obtain w2 where 2: "withdraw sample_staking (Signed 6) 1 w1 = (Inr (), w2)"
    "leaving [7, 8] w2 2084 5576 376 333 358 200" by (auto simp: leaver_simps)
  from next_leaves [OF 2(2), of 33400 533 533 28400 528 528 2084 376]
  obtain w3 where "withdraw sample_staking (Signed 7) 1 w2 = (Inr (), w3)" by (auto simp: leaver_simps)
  with 1 2 that show thesis by blast
qed

section \<open>Reachability\<close>

lemma stake_steps:
  assumes "70 \<notin> set us"
  shows "staking_steps sample_staking funded_world (foldl (\<lambda>w u. snd (run_staking_call sample_staking (Stake 1 100) (Signed u) w)) funded_world us)"
  using assms
proof (induction us rule: rev_induct)
  case (snoc u us)
  from snoc have "staking_steps sample_staking funded_world (foldl (\<lambda>w u. snd (run_staking_call sample_staking (Stake 1 100) (Signed u) w)) funded_world us)"
    by simp
  then show ?case
    unfolding foldl_append foldl.simps
    by (rule rtranclp.rtrancl_into_rtrancl, intro staking_step.call [where c = "Stake 1 100" and o' = "Signed u", OF surjective_pairing])
       (use snoc.prems in \<open>auto simp: sample_staking_simps\<close>)
qed simp

lemma crowd_reachable: "staking_steps sample_staking (staking_start empty_staking_storage) ended_world"
proof -
  have 1: "staking_step sample_staking later_world funded_world"
    unfolding funded_world_def
    by (rule staking_step.call [where c = "UpdateReward 1 1 900" and o' = Root, OF surjective_pairing]) auto
  have 2: "staking_steps sample_staking funded_world (queued_by stakers)"
    unfolding queued_by_def by (rule stake_steps) (simp add: stakers_def)
  have 3: "staking_step sample_staking (queued_by stakers) started_world"
    unfolding started_world_def
    by (rule staking_step.block [where n = 160, OF _ surjective_pairing]) (simp add: stakers_queued)
  have 4: "staking_step sample_staking started_world ended_world"
    unfolding ended_world_def
    by (rule staking_step.block [where n = 500, OF _ surjective_pairing]) (simp add: started)
  from later_world_steps 1 2 3 4 show ?thesis
    by (meson rtranclp.rtrancl_into_rtrancl rtranclp_trans)
qed

end
