(* ===== verification/Staking_Fairness.thy ===== *)
theory Staking_Fairness
  imports Staking_Crowd
begin

text \<open>
  Where the shares of a reward come out wrong. A pool has one checkpoint for all its positions, whose
  weight stands for the sum of theirs. A claim may name a past block, at which the checkpoint counts
  later stakes with a negative weight; and a withdrawal takes its amount out of the checkpoint at the
  average time instead of at its own, so the weight of those who stay is no longer covered. The
  theorems say who gains and who is locked out.
\<close>

section \<open>Shares\<close>

text \<open>
  The documentation of \<open>PerThing::from_rational\<close>: a numerator that is not below the denominator
  (which may be zero) gives one, and one of anything is all of it.
\<close>

definition full_share_law :: "('e, 'l) staking_config \<Rightarrow> bool" where
  "full_share_law cfg \<longleftrightarrow> (\<forall>a b x. b \<le> a \<longrightarrow> proportion_of cfg (from_rational cfg a b) x = x)"

lemma full_shareD: "full_share_law cfg \<Longrightarrow> b \<le> a \<Longrightarrow> proportion_of cfg (from_rational cfg a b) x = x"
  by (simp add: full_share_law_def)

lemma weight_values:
  "weight_force si n = Some v \<Longrightarrow> effective_time si \<le> n \<and> unat v = (unat n - unat (effective_time si)) * unat (amount si)"
  "weight_of si n = Some v \<Longrightarrow> effective_time si \<le> n \<and> unat v = (unat n - unat (effective_time si)) * unat (amount si)"
  by (auto simp: weight_of_eq weight_force_eq fit_Some word_le_nat_alt split: if_splits)

text \<open>What a claim does to the checkpoint it is taken from, without any wrap-around.\<close>

lemma claimed_checkpoint:
  assumes "weight_of ucp n = Some wgt" "claim_based_on_weight scp wgt = Some (e, scp')" "amount ucp \<le> amount scp"
  shows "amount scp' = amount scp" "amount scp \<noteq> 0"
    "unat (effective_time scp') = unat (effective_time scp) +
       (unat n - unat (effective_time ucp)) * unat (amount ucp) div unat (amount scp)"
proof -
  let ?d = "unat wgt div unat (amount scp)"
  have A: "amount scp \<noteq> 0" using assms(2) by (auto simp: claim_based_on_weight_eq)
  have "unat wgt \<le> unat n * unat (amount scp)"
    using weight_values(2) [OF assms(1)] assms(3) by (auto simp: word_le_nat_alt intro: mult_le_mono)
  then have "?d \<le> unat n" using A by (simp add: unat_gt_0 div_le_mono [THEN order_trans])
  then have "unat (effective_time scp) + ?d < 2 ^ 33"
    using u32_less [of n] u32_less [of "effective_time scp"] by simp
  then have "(unat (effective_time scp) + ?d) mod 2 ^ 128 = unat (effective_time scp) + ?d" by simp
  with assms(2) A show "amount scp' = amount scp" "amount scp \<noteq> 0"
    "unat (effective_time scp') = unat (effective_time scp) +
       (unat n - unat (effective_time ucp)) * unat (amount ucp) div unat (amount scp)"
    using weight_values(2) [OF assms(1)]
    by (auto simp: claim_based_on_weight_eq Let_def split: if_splits)
qed

section \<open>Claims for a past block\<close>

lemma earlier_weight:
  assumes "add_position si e a = Some scp" "amount si \<le> a" "unat t + 2 \<le> unat e"
    and "weight_of si t = Some wgt" "weight_force scp t = Some tot"
  shows "tot \<le> wgt"
proof -
  let ?e1 = "unat (effective_time si)" and ?a1 = "unat (amount si)" and ?t = "unat t" and ?e2 = "unat e" and ?a2 = "unat a"
  let ?S = "?a1 + ?a2" and ?W = "?e1 * ?a1 + ?e2 * ?a2"
  note f = add_position_facts [OF assms(1)]
  have S: "0 < ?S" using f(1,2) by (metis not_gr0 unat_eq_0)
  have e1: "?e1 \<le> ?t" and w: "unat wgt = (?t - ?e1) * ?a1" and v: "unat tot = (?t - ?W div ?S) * ?S"
    and E: "?W div ?S \<le> ?t"
    using weight_values(1) [OF assms(5)] weight_values(2) [OF assms(4)] f(1,4) by (simp_all add: word_le_nat_alt)
  have "(?t - ?W div ?S) * ?S + ?W div ?S * ?S = ?t * ?S" "(?t - ?e1) * ?a1 + ?e1 * ?a1 = ?t * ?a1"
    using E e1 by (simp_all flip: distrib_right)
  moreover have "?W div ?S * ?S + ?W mod ?S = ?W" "?W mod ?S < ?S"
    using S by (simp_all add: div_mult_mod_eq)
  moreover have "(?t + 2) * ?a2 \<le> ?e2 * ?a2" using assms(3) by (rule mult_le_mono1)
  moreover have "?a1 \<le> ?a2" using assms(2) by (simp add: word_le_nat_alt)
  ultimately have "unat tot \<le> unat wgt" unfolding w v by (simp add: algebra_simps)
  then show ?thesis by (simp add: word_le_nat_alt)
qed

text \<open>
  C8. A staker can take the whole reward of a pool from those who staked later. It claims for a past
  block, shortly before a later stake of at least the same amount came in: the pool's checkpoint then
  counts that stake with a negative weight, so the share of the claim is everything, at any block in
  which the claim is made.
\<close>

theorem early_claim_takes_pot:
  assumes "token_laws (staking_tokens cfg)" "proportion_law cfg" "full_share_law cfg"
    and "user_pool_checkpoint (store w) (who, p) = Some ucp" "pool_checkpoint (store w) p = Some scp"
    and "add_position ucp e a = Some scp" "amount ucp \<le> a" "unat t + 2 \<le> unat e"
    and "aiusd_asset_id (store w) = Some i" "who \<noteq> stable_beneficiary cfg"
    and "claim_stable cfg (Signed who) p t w = (Inr u, w')"
  shows "pool_reward (store w') p = 0 \<and>
    unat (tk_balance (token (staking_tokens cfg) (Some i)) (ledger w') who) =
      unat (tk_balance (token (staking_tokens cfg) (Some i)) (ledger w) who) + unat (pool_reward (store w) p)"
proof -
  have "do_stable_claim cfg who p t w = (Inr (), w')" using assms(11) by (auto simp: claim_stable_def exec_ok)
  from stable_claim_effect [OF assms(1,2) this assms(10,9,5,4)] obtain wgt tot d where
    w: "weight_of ucp t = Some wgt" "weight_force scp t = Some tot" and
    d: "d = proportion_of cfg (from_rational cfg wgt tot) (pool_reward (store w) p)" and
    paid: "unat (tk_balance (token (staking_tokens cfg) (Some i)) (ledger w') who) =
       unat (tk_balance (token (staking_tokens cfg) (Some i)) (ledger w) who) + unat d"
    "unat (pool_reward (store w) p) = unat (pool_reward (store w') p) + unat d" .
  have "tot \<le> wgt" by (rule earlier_weight [OF assms(6-8) w])
  then have all: "d = pool_reward (store w) p" unfolding d by (rule full_shareD [OF assms(3)])
  from paid(2) have "unat (pool_reward (store w') p) = 0" unfolding all by linarith
  with paid(1) show ?thesis unfolding all by (simp only: unat_eq_0 simp_thms)
qed

text \<open>
  Account 5 staked 100 from block 110, account 6 staked 300 from block 210. At block 400 the fair share
  of 5 is a third; a claim for block 200 gives it all 900.
\<close>

definition contested_world :: "(unit, book, staking_storage) frame" where
  "contested_world = (staking_start (pool_storage\<lparr>pool_reward := (\<lambda>_. 0)(1 := 900),
     pool_checkpoint := [1 \<mapsto> \<lparr>effective_time = 185, amount = 400, last_add_time = 210\<rparr>],
     user_pool_checkpoint := [(5, 1) \<mapsto> new_position 110 100, (6, 1) \<mapsto> new_position 210 300]\<rparr>))\<lparr>block_number := 400\<rparr>"

lemma sample_full_share: "full_share_law sample_staking"
  unfolding full_share_law_def
proof (intro allI impI)
  fix a b x :: u128
  assume "b \<le> a"
  then have m: "min (unat a) (unat b) = unat b" by (simp add: word_le_nat_alt)
  have one: "from_rational sample_staking a b = 1000000000000000000"
  proof (cases "b = 0")
    case False
    then have "0 < unat b" by (simp add: unat_gt_0)
    then have "unat b * 10 ^ 18 div unat b = 10 ^ 18" by simp
    with False m show ?thesis by (simp add: sample_staking_def nat_word_def)
  qed (simp add: sample_staking_def)
  show "proportion_of sample_staking (from_rational sample_staking a b) x = x"
    unfolding one by (simp add: sample_staking_def nat_word_def)
qed

theorem early_claim_takes_pot_witness:
  "pool_reward (store contested_world) 1 = 900 \<and>
   pool_reward (store (snd (claim_stable sample_staking (Signed 5) 1 200 contested_world))) 1 = 0"
proof -
  let ?v = "snd (claim_stable sample_staking (Signed 5) 1 200 contested_world)"
  have "fst (claim_stable sample_staking (Signed 5) 1 200 contested_world) = Inr ()"
    by (simp add: claim_stable_def do_stable_claim_def contested_world_def claim_simps rich_simps new_position_def)
  then have run: "claim_stable sample_staking (Signed 5) 1 200 contested_world = (Inr (), ?v)"
    by (metis prod.collapse)
  have merged: "add_position (new_position 110 100) 210 300 = Some \<lparr>effective_time = 185, amount = 400, last_add_time = 210\<rparr>"
    by (simp add: add_position_eq new_position_def Let_def nat_word_def max_def)
  have u: "user_pool_checkpoint (store contested_world) (5, 1) = Some (new_position 110 100)"
    and s: "pool_checkpoint (store contested_world) 1 = Some \<lparr>effective_time = 185, amount = 400, last_add_time = 210\<rparr>"
    and i: "aiusd_asset_id (store contested_world) = Some 4" and r: "pool_reward (store contested_world) 1 = 900"
    by (simp_all add: contested_world_def rich_simps)
  from early_claim_takes_pot [OF sample_staking_laws sample_full_share u s merged _ _ i _ run] r show ?thesis
    by (simp add: new_position_def sample_staking_simps)
qed

section \<open>Withdrawals of others\<close>

text \<open>A withdrawal as far as the pool sees it.\<close>

lemma withdraw_pool_effect:
  assumes "token_laws (staking_tokens cfg)" "withdraw cfg (Signed who) p w = (Inr u, w')"
    and "pool_checkpoint (store w) p = Some scp" "user_pool_checkpoint (store w) (who, p) = Some ucp"
  obtains wgt tot e scp' where
    "weight_of ucp (block_number w) = Some wgt" "weight_force scp (block_number w) = Some tot"
    "claim_based_on_weight scp wgt = Some (e, scp')" "amount ucp \<le> amount scp"
    "pool_checkpoint (store w') p = Some (scp'\<lparr>amount := amount scp - amount ucp\<rparr>)"
    "user_pool_checkpoint (store w') = (user_pool_checkpoint (store w))((who, p) := None)"
    "pool_reward (store w') p = pool_reward (store w) p -
       proportion_of cfg (from_rational cfg wgt tot) (pool_reward (store w) p)"
    "block_number w' = block_number w"
proof -
  from withdraw_ok [OF assms(2)] obtain v v' where
    n: "do_native_claim cfg who (block_number w) w = (Inr (), v)" and
    c: "do_stable_claim cfg who p (block_number w) v = (Inr (), v')" and
    d: "do_withdraw cfg who p v' = (Inr (), w')" by auto
  note k = native_claim_keeps(1-5) [OF assms(1) n]
  from c k assms(3,4) obtain wgt tot e scp' where
    a: "weight_of ucp (block_number w) = Some wgt" "weight_force scp (block_number w) = Some tot"
      "claim_based_on_weight scp wgt = Some (e, scp')" and
    v': "pool_checkpoint (store v') p = Some scp'"
      "user_pool_checkpoint (store v') = (user_pool_checkpoint (store w))((who, p) \<mapsto> ucp\<lparr>effective_time := block_number w\<rparr>)"
      "pool_reward (store v') p = pool_reward (store w) p -
         proportion_of cfg (from_rational cfg wgt tot) (pool_reward (store w) p)" "block_number v' = block_number w"
    by (auto simp: do_stable_claim_def exec_ok claim_eq Let_def split: option.splits)
  from d v' have "amount ucp \<le> amount scp'"
    "pool_checkpoint (store w') p = Some (scp'\<lparr>amount := amount scp' - amount ucp\<rparr>)"
    "user_pool_checkpoint (store w') = (user_pool_checkpoint (store w))((who, p) := None)"
    "pool_reward (store w') p = pool_reward (store v') p" "block_number w' = block_number w"
    by (auto simp: do_withdraw_def exec_ok withdraw_position_eq split: if_splits
        dest!: shrink_native_ok shrink_user_native_ok)
  with a v'(3) claim_based_on_weight_amount [OF a(3)] show thesis by (intro that [of wgt tot e scp']) simp_all
qed

text \<open>
  After a withdrawal the checkpoint covers only the fraction of the amount that is left, of the weight
  \<open>rest\<close> that those who stay have between them: every later share comes out too big.
\<close>

lemma withdraw_uncovers_weight:
  assumes "token_laws (staking_tokens cfg)" "withdraw cfg (Signed who) p w = (Inr u, w')"
    and "pool_checkpoint (store w) p = Some scp" "user_pool_checkpoint (store w) (who, p) = Some ucp"
    and balanced: "(unat (block_number w) - unat (effective_time scp)) * unat (amount scp) =
      rest + (unat (block_number w) - unat (effective_time ucp)) * unat (amount ucp)"
  shows "\<exists>scp'. pool_checkpoint (store w') p = Some scp' \<and> unat (amount scp') + unat (amount ucp) = unat (amount scp) \<and>
    unat (amount scp) * ((unat (block_number w) - unat (effective_time scp')) * unat (amount scp')) \<le>
      (rest + unat (amount scp)) * unat (amount scp')"
proof -
  from withdraw_pool_effect [OF assms(1-4)] obtain wgt tot e scp' where
    c: "weight_of ucp (block_number w) = Some wgt" "weight_force scp (block_number w) = Some tot"
      "claim_based_on_weight scp wgt = Some (e, scp')" "amount ucp \<le> amount scp" and
    w': "pool_checkpoint (store w') p = Some (scp'\<lparr>amount := amount scp - amount ucp\<rparr>)" .
  note f = claimed_checkpoint [OF c(1,3,4)]
  let ?A = "unat (amount scp)" and ?n = "unat (block_number w)" and ?E = "unat (effective_time scp)"
    and ?E' = "unat (effective_time scp')" and ?g = "(unat (block_number w) - unat (effective_time ucp)) * unat (amount ucp)"
  have left: "unat (amount scp - amount ucp) + unat (amount ucp) = ?A"
    using c(4) by (simp add: unat_sub word_le_nat_alt)
  have "?A * (?g div ?A) + ?g mod ?A = ?g" "?g mod ?A < ?A" using f(2) by (simp_all add: unat_gt_0)
  moreover have "?A * (?n - ?E) = rest + ?g" using balanced by (simp add: mult.commute)
  moreover have "?A * (?n - ?E') = ?A * (?n - ?E) - ?A * (?g div ?A)"
    unfolding f(3) by (simp add: diff_mult_distrib2 flip: diff_diff_left)
  ultimately have "?A * (?n - ?E') \<le> rest + ?A" by linarith
  then have "?A * (?n - ?E') * unat (amount scp - amount ucp) \<le> (rest + ?A) * unat (amount scp - amount ucp)"
    by (rule mult_le_mono1)
  with w' left show ?thesis by (simp add: mult.assoc)
qed

text \<open>One of \<open>k\<close> equal positions leaves.\<close>

lemma equal_withdrawal:
  assumes "token_laws (staking_tokens cfg)" "withdraw cfg (Signed who) p w = (Inr u, w')"
    and "pool_checkpoint (store w) p = Some scp" "user_pool_checkpoint (store w) (who, p) = Some ucp"
    and k: "unat (amount scp) = k * unat (amount ucp)"
  shows "\<exists>scp' wgt tot. pool_checkpoint (store w') p = Some scp' \<and>
    unat (amount scp') = (k - 1) * unat (amount ucp) \<and> amount ucp \<noteq> 0 \<and> effective_time scp \<le> block_number w \<and>
    unat (effective_time scp') = unat (effective_time scp) + (unat (block_number w) - unat (effective_time ucp)) div k \<and>
    unat wgt = (unat (block_number w) - unat (effective_time ucp)) * unat (amount ucp) \<and>
    unat tot = (unat (block_number w) - unat (effective_time scp)) * (k * unat (amount ucp)) \<and>
    pool_reward (store w') p = pool_reward (store w) p -
       proportion_of cfg (from_rational cfg wgt tot) (pool_reward (store w) p) \<and>
    user_pool_checkpoint (store w') = (user_pool_checkpoint (store w))((who, p) := None) \<and> block_number w' = block_number w"
proof -
  from withdraw_pool_effect [OF assms(1-4)] obtain wgt tot e scp' where
    c: "weight_of ucp (block_number w) = Some wgt" "weight_force scp (block_number w) = Some tot"
      "claim_based_on_weight scp wgt = Some (e, scp')" "amount ucp \<le> amount scp" and
    w': "pool_checkpoint (store w') p = Some (scp'\<lparr>amount := amount scp - amount ucp\<rparr>)"
      "user_pool_checkpoint (store w') = (user_pool_checkpoint (store w))((who, p) := None)"
      "pool_reward (store w') p = pool_reward (store w) p - proportion_of cfg (from_rational cfg wgt tot) (pool_reward (store w) p)"
      "block_number w' = block_number w" .
  note f = claimed_checkpoint [OF c(1,3,4)]
  have a: "0 < unat (amount ucp)" using f(2) k by (metis gr0I mult_is_0 unat_eq_0)
  have "(unat (block_number w) - unat (effective_time ucp)) * unat (amount ucp) div unat (amount scp) =
      (unat (block_number w) - unat (effective_time ucp)) div k"
    unfolding k using a by simp
  moreover have "unat (amount scp - amount ucp) = (k - 1) * unat (amount ucp)"
    using c(4) k by (simp add: unat_sub diff_mult_distrib)
  ultimately show ?thesis
    using w' f(3) a weight_values(1) [OF c(2)] weight_values(2) [OF c(1)] k
    by (intro exI [of _ "scp'\<lparr>amount := amount scp - amount ucp\<rparr>"] exI [of _ wgt] exI [of _ tot]) (auto simp: unat_gt_0)
qed

lemma locked_withdraw:
  assumes "token_laws (staking_tokens cfg)" "pool_checkpoint (store w) p = Some scp"
    and "user_pool_checkpoint (store w) (who, p) = Some ucp" "block_number w < effective_time scp"
  shows "\<exists>e. withdraw cfg (Signed who) p w = (Inl e, w)"
proof -
  obtain r w' where run: "withdraw cfg (Signed who) p w = (r, w')" by fastforce
  show ?thesis
  proof (cases r)
    case (Inl e)
    with run staking_call_atomic [of cfg "Withdraw p" "Signed who" w e w'] show ?thesis by simp
  next
    case (Inr u)
    with run have "withdraw cfg (Signed who) p w = (Inr u, w')" by simp
    from withdraw_pool_effect [OF assms(1) this assms(2,3)] obtain tot where
      "weight_force scp (block_number w) = Some tot" .
    with assms(4) weight_values(1) show ?thesis by fastforce
  qed
qed

text \<open>Three of four equal positions leave in one block \<open>n\<close>: the checkpoint that is left, and the third share.\<close>

lemma three_leave:
  assumes "token_laws (staking_tokens cfg)"
    and "pool_checkpoint (store w) p = Some scp" "effective_time scp = e" "unat (amount scp) = 4 * unat a"
    and "\<forall>who \<in> {u1, u2, u3, u4}. \<exists>ucp. user_pool_checkpoint (store w) (who, p) = Some ucp \<and> effective_time ucp = e \<and> amount ucp = a"
    and "distinct [u1, u2, u3, u4]"
    and "withdraw cfg (Signed u1) p w = (Inr x1, w1)" "withdraw cfg (Signed u2) p w1 = (Inr x2, w2)"
    and "withdraw cfg (Signed u3) p w2 = (Inr x3, w3)"
  shows "\<exists>s3 p4 wgt tot. pool_checkpoint (store w3) p = Some s3 \<and>
    user_pool_checkpoint (store w) (u4, p) = Some p4 \<and> user_pool_checkpoint (store w3) (u4, p) = Some p4 \<and>
    unat (effective_time s3) = unat e + (unat (block_number w) - unat e) div 4 + (unat (block_number w) - unat e) div 3 +
      (unat (block_number w) - unat e) div 2 \<and>
    unat wgt = (unat (block_number w) - unat e) * unat a \<and>
    unat tot = (unat (block_number w) - (unat e + (unat (block_number w) - unat e) div 4 + (unat (block_number w) - unat e) div 3)) *
      (2 * unat a) \<and>
    pool_reward (store w3) p = pool_reward (store w2) p - proportion_of cfg (from_rational cfg wgt tot) (pool_reward (store w2) p)"
proof -
  let ?n = "unat (block_number w)" and ?e = "unat e" and ?a = "unat a"
  from assms(5) obtain p1 p2 p3 p4 where
    q: "user_pool_checkpoint (store w) (u1, p) = Some p1" "user_pool_checkpoint (store w) (u2, p) = Some p2"
      "user_pool_checkpoint (store w) (u3, p) = Some p3" "user_pool_checkpoint (store w) (u4, p) = Some p4" and
    t: "effective_time p1 = e" "effective_time p2 = e" "effective_time p3 = e" "amount p1 = a" "amount p2 = a" "amount p3 = a"
    by auto
  have "unat (amount scp) = 4 * unat (amount p1)" using assms(4) t by simp
  from equal_withdrawal [OF assms(1,7,2) q(1) this] t assms(3) obtain s1 where
    1: "pool_checkpoint (store w1) p = Some s1" "unat (amount s1) = 3 * ?a" "unat (effective_time s1) = ?e + (?n - ?e) div 4"
      "user_pool_checkpoint (store w1) = (user_pool_checkpoint (store w))((u1, p) := None)" "block_number w1 = block_number w"
    by auto
  have u2: "user_pool_checkpoint (store w1) (u2, p) = Some p2" "unat (amount s1) = 3 * unat (amount p2)"
    using 1 q assms(6) t by auto
  from equal_withdrawal [OF assms(1,8) 1(1) u2] t 1 obtain s2 where
    2: "pool_checkpoint (store w2) p = Some s2" "unat (amount s2) = 2 * ?a"
      "unat (effective_time s2) = ?e + (?n - ?e) div 4 + (?n - ?e) div 3"
      "user_pool_checkpoint (store w2) = (user_pool_checkpoint (store w1))((u2, p) := None)" "block_number w2 = block_number w"
    by auto
  have u3: "user_pool_checkpoint (store w2) (u3, p) = Some p3" "unat (amount s2) = 2 * unat (amount p3)"
    using 1 2 q assms(6) t by auto
  from equal_withdrawal [OF assms(1,9) 2(1) u3] obtain s3 wgt tot where
    s3: "pool_checkpoint (store w3) p = Some s3" and
    wgts: "unat (effective_time s3) = unat (effective_time s2) + (unat (block_number w2) - unat (effective_time p3)) div 2"
      "unat wgt = (unat (block_number w2) - unat (effective_time p3)) * unat (amount p3)"
      "unat tot = (unat (block_number w2) - unat (effective_time s2)) * (2 * unat (amount p3))" and
    paid: "pool_reward (store w3) p = pool_reward (store w2) p - proportion_of cfg (from_rational cfg wgt tot) (pool_reward (store w2) p)"
      "user_pool_checkpoint (store w3) = (user_pool_checkpoint (store w2))((u3, p) := None)"
    by (elim exE conjE) (rule that)
  note 3 = wgts [unfolded t 2(3,5)]
  have "user_pool_checkpoint (store w3) (u4, p) = Some p4"
    using 1(4) 2(4) paid(2) q(4) assms(6) by auto
  with s3 q(4) 3 paid(1) show ?thesis
    by (intro exI [of _ s3] exI [of _ p4] exI [of _ wgt] exI [of _ tot]) simp
qed

text \<open>
  C9. Those who stay pay for those who leave. Four stakers hold equal positions in a pool from the same
  block \<open>e\<close>, at least 24 blocks ago, and three of them withdraw in one block \<open>n\<close> after the pool has
  ended. Then the third has taken all that was left of the reward, and the fourth cannot withdraw
  its stake: every attempt fails, for about a twelfth of the staking time longer.
\<close>

theorem withdrawals_lock_out:
  assumes "token_laws (staking_tokens cfg)" "full_share_law cfg"
    and "pool_checkpoint (store w) p = Some scp" "effective_time scp = e" "unat (amount scp) = 4 * unat a"
    and "\<forall>who \<in> {u1, u2, u3, u4}. \<exists>ucp. user_pool_checkpoint (store w) (who, p) = Some ucp \<and> effective_time ucp = e \<and> amount ucp = a"
    and "distinct [u1, u2, u3, u4]" "unat e + 24 \<le> unat (block_number w)"
    and "withdraw cfg (Signed u1) p w = (Inr x1, w1)" "withdraw cfg (Signed u2) p w1 = (Inr x2, w2)"
    and "withdraw cfg (Signed u3) p w2 = (Inr x3, w3)"
  shows "pool_reward (store w3) p = 0 \<and> user_pool_checkpoint (store w3) (u4, p) = user_pool_checkpoint (store w) (u4, p) \<and>
    (\<forall>m. 12 * unat m + unat e + 23 < 13 * unat (block_number w) \<longrightarrow>
      (\<exists>err. withdraw cfg (Signed u4) p (w3\<lparr>block_number := m\<rparr>) = (Inl err, w3\<lparr>block_number := m\<rparr>)))"
proof -
  let ?n = "unat (block_number w)" and ?e = "unat e" and ?a = "unat a"
  from three_leave [OF assms(1,3-7,9-11)] obtain s3 p4 wgt tot where
    s3: "pool_checkpoint (store w3) p = Some s3" "user_pool_checkpoint (store w) (u4, p) = Some p4"
      "user_pool_checkpoint (store w3) (u4, p) = Some p4" and
    w3: "unat (effective_time s3) = ?e + (?n - ?e) div 4 + (?n - ?e) div 3 + (?n - ?e) div 2"
      "unat wgt = (?n - ?e) * ?a" "unat tot = (?n - (?e + (?n - ?e) div 4 + (?n - ?e) div 3)) * (2 * ?a)" and
    paid: "pool_reward (store w3) p = pool_reward (store w2) p - proportion_of cfg (from_rational cfg wgt tot) (pool_reward (store w2) p)"
    by blast
  have "2 * (?n - (?e + (?n - ?e) div 4 + (?n - ?e) div 3)) \<le> ?n - ?e" using assms(8) by linarith
  then have "2 * (?n - (?e + (?n - ?e) div 4 + (?n - ?e) div 3)) * ?a \<le> (?n - ?e) * ?a" by (rule mult_le_mono1)
  then have "tot \<le> wgt" unfolding word_le_nat_alt w3(2,3) by (simp only: mult.assoc mult.left_commute)
  then have reward: "pool_reward (store w3) p = 0" using paid full_shareD [OF assms(2)] by simp
  have "\<exists>err. withdraw cfg (Signed u4) p (w3\<lparr>block_number := m\<rparr>) = (Inl err, w3\<lparr>block_number := m\<rparr>)"
    if "12 * unat m + ?e + 23 < 13 * ?n" for m
  proof (rule locked_withdraw [OF assms(1)])
    have "unat m < unat (effective_time s3)" unfolding w3(1) using that assms(8) by linarith
    then show "block_number (w3\<lparr>block_number := m\<rparr>) < effective_time s3" by (simp add: word_less_nat_alt)
  qed (simp_all add: s3)
  with reward s3(2,3) show ?thesis by simp
qed

text \<open>The run of \<open>Staking_Crowd\<close>: at block 526 account 8 still cannot have its stake back.\<close>

theorem withdrawals_lock_out_witness:
  "staking_steps sample_staking (staking_start empty_staking_storage) ended_world \<and>
   (\<exists>w1 w2 w3. withdraw sample_staking (Signed 5) 1 ended_world = (Inr (), w1) \<and>
     withdraw sample_staking (Signed 6) 1 w1 = (Inr (), w2) \<and> withdraw sample_staking (Signed 7) 1 w2 = (Inr (), w3) \<and>
     pool_reward (store w3) 1 = 0 \<and> user_pool_checkpoint (store w3) (8, 1) = Some (new_position 160 100) \<and>
     (\<exists>err. withdraw sample_staking (Signed 8) 1 (w3\<lparr>block_number := 526\<rparr>) = (Inl err, w3\<lparr>block_number := 526\<rparr>)))"
proof -
  from crowd_withdraws obtain w1 w2 w3 where run: "withdraw sample_staking (Signed 5) 1 ended_world = (Inr (), w1)"
    "withdraw sample_staking (Signed 6) 1 w1 = (Inr (), w2)" "withdraw sample_staking (Signed 7) 1 w2 = (Inr (), w3)" .
  have pool: "pool_checkpoint (store ended_world) 1 = Some (new_position 160 400)"
    and user: "\<And>u. u \<in> set stakers \<Longrightarrow> user_pool_checkpoint (store ended_world) (u, 1) = Some (new_position 160 100)"
    by (auto simp: ended_facts stakers_def)
  have 8: "user_pool_checkpoint (store ended_world) (8, 1) = Some (new_position 160 100)"
    by (rule user) (simp add: stakers_def)
  have each: "\<forall>u \<in> {5, 6, 7, 8}. \<exists>ucp. user_pool_checkpoint (store ended_world) (u, 1) = Some ucp \<and>
      effective_time ucp = 160 \<and> amount ucp = 100"
    using user by (simp add: stakers_def new_position_def)
  have "token_laws (staking_tokens sample_staking)" by (rule sample_staking_laws)
  from withdrawals_lock_out [OF this sample_full_share pool _ _ each _ _ run] 8 run crowd_reachable show ?thesis
    by (fastforce simp: new_position_def ended_facts)
qed

end
